(* ===== verification/Lc_Prelude.thy ===== *)
theory Lc_Prelude
  imports Main "HOL-Library.Word" "HOL-Library.Char_ord" "HOL-Library.List_Lexorder"
begin

text \<open>
  Shared ground of the development: the types that the Rust sources use everywhere
  (bytes, machine integers, strings, \<open>Result\<close>), the standard-library operations the
  sources call on them (checked arithmetic, \<open>to_be_bytes\<close>, \<open>str::parse\<close>,
  \<open>str::trim\<close>, \<open>BTreeMap\<close>), and the generic lemmas the components share.

  A Rust \<open>String\<close> is a \<open>string\<close> holding its UTF-8 bytes; a \<open>[u8]\<close> is a
  \<open>bytes\<close>; a \<open>BTreeMap\<close> is an association list with strictly increasing keys, so
  that iterating it visits the keys in the order Rust does.  The interface a client of a
  \<open>BTreeMap\<close> relies on is the locale \<open>ordered_map\<close>, interpreted on the
  operations below.
\<close>

section \<open>Types\<close>

type_synonym byte = "8 word"
type_synonym bytes = "byte list"
type_synonym u8 = "8 word"
type_synonym u32 = "32 word"
type_synonym u64 = "64 word"

named_theorems btree_simps \<open>rewrite rules for the ordered association lists\<close>
named_theorems result_simps \<open>rewrite rules for the Result combinators\<close>
named_theorems error_simps \<open>when a chain of Result combinators fails\<close>

section \<open>Results\<close>

text \<open>The question-mark operator: an error returns at once, a value continues.\<close>

definition and_then :: "'e + 'a \<Rightarrow> ('a \<Rightarrow> 'e + 'b) \<Rightarrow> 'e + 'b" where
  "and_then r f = (case r of Inl e \<Rightarrow> Inl e | Inr a \<Rightarrow> f a)"

text \<open>\<open>anyhow::ensure!\<close>: refuse with the error unless the condition holds.\<close>

definition ensure :: "bool \<Rightarrow> 'e \<Rightarrow> 'e + 'b \<Rightarrow> 'e + 'b" where
  "ensure b e k = (if b then k else Inl e)"

text \<open>\<open>Option::ok_or\<close>.\<close>

definition ok_or :: "'a option \<Rightarrow> 'e \<Rightarrow> 'e + 'a" where
  "ok_or x e = (case x of None \<Rightarrow> Inl e | Some a \<Rightarrow> Inr a)"

section \<open>Machine integers\<close>

definition checked_add :: "u64 \<Rightarrow> u64 \<Rightarrow> u64 option" where
  "checked_add a b = (if unat a + unat b < 2 ^ 64 then Some (a + b) else None)"

definition checked_sub :: "u64 \<Rightarrow> u64 \<Rightarrow> u64 option" where
  "checked_sub a b = (if b \<le> a then Some (a - b) else None)"

text \<open>\<open>i32\<close> addition in a release build: two's complement wrap-around on int.\<close>

definition wrap_i32 :: "int \<Rightarrow> int" where
  "wrap_i32 n = (n + 2 ^ 31) mod 2 ^ 32 - 2 ^ 31"

text \<open>\<open>to_be_bytes\<close> and \<open>to_le_bytes\<close>: \<open>be_bytes n k\<close> is the \<open>n\<close>-byte
  big-endian form of \<open>k\<close> modulo \<open>256 ^ n\<close>.\<close>

fun be_bytes :: "nat \<Rightarrow> nat \<Rightarrow> bytes" where
  "be_bytes 0 k = []"
| "be_bytes (Suc n) k = be_bytes n (k div 256) @ [of_nat k]"

definition u64_be :: "u64 \<Rightarrow> bytes" where
  "u64_be x = be_bytes 8 (unat x)"

definition u32_be :: "u32 \<Rightarrow> bytes" where
  "u32_be x = be_bytes 4 (unat x)"

fun from_le :: "bytes \<Rightarrow> nat" where
  "from_le [] = 0"
| "from_le (b # bs) = unat b + 256 * from_le bs"

definition u64_from_le :: "bytes \<Rightarrow> u64" where
  "u64_from_le bs = of_nat (from_le bs)"

definition u32_from_le :: "bytes \<Rightarrow> u32" where
  "u32_from_le bs = of_nat (from_le bs)"

section \<open>Strings\<close>

definition as_bytes :: "string \<Rightarrow> bytes" where
  "as_bytes s = map of_char s"

definition is_digit :: "char \<Rightarrow> bool" where
  "is_digit c \<longleftrightarrow> CHR ''0'' \<le> c \<and> c \<le> CHR ''9''"

definition is_ascii_alphabetic :: "char \<Rightarrow> bool" where
  "is_ascii_alphabetic c \<longleftrightarrow>
     CHR ''A'' \<le> c \<and> c \<le> CHR ''Z'' \<or> CHR ''a'' \<le> c \<and> c \<le> CHR ''z''"

definition is_ascii_alphanumeric :: "char \<Rightarrow> bool" where
  "is_ascii_alphanumeric c \<longleftrightarrow> is_digit c \<or> is_ascii_alphabetic c"

definition digit_val :: "char \<Rightarrow> nat" where
  "digit_val c = of_char c - 48"

definition digit_char :: "nat \<Rightarrow> char" where
  "digit_char d = char_of (48 + d)"

text \<open>\<open>u64::to_string\<close>, \<open>u32::to_string\<close>: decimal without leading zeros.\<close>

fun show_nat :: "nat \<Rightarrow> string" where
  "show_nat n = (if n < 10 then [digit_char n]
     else show_nat (n div 10) @ [digit_char (n mod 10)])"

declare show_nat.simps [simp del]

text \<open>\<open>str::parse\<close> for an unsigned type of the given bound: an optional plus sign,
  then one or more decimal digits whose value fits.\<close>

definition dec_val :: "string \<Rightarrow> nat" where
  "dec_val s = foldl (\<lambda>n c. 10 * n + digit_val c) 0 s"

definition strip_plus :: "string \<Rightarrow> string" where
  "strip_plus s = (case s of [] \<Rightarrow> [] | c # cs \<Rightarrow> if c = CHR ''+'' then cs else s)"

definition parse_unsigned :: "nat \<Rightarrow> string \<Rightarrow> nat option" where
  "parse_unsigned bound s =
     (let ds = strip_plus s
      in if ds \<noteq> [] \<and> list_all is_digit ds \<and> dec_val ds < bound
         then Some (dec_val ds) else None)"

definition parse_u64 :: "string \<Rightarrow> u64 option" where
  "parse_u64 s = map_option of_nat (parse_unsigned (2 ^ 64) s)"

definition parse_u8 :: "string \<Rightarrow> u8 option" where
  "parse_u8 s = map_option of_nat (parse_unsigned (2 ^ 8) s)"

text \<open>\<open>u32::try_from(u64)\<close>.\<close>

definition u32_try_from :: "u64 \<Rightarrow> u32 option" where
  "u32_try_from v = (if unat v < 2 ^ 32 then Some (of_nat (unat v)) else None)"

definition starts_with :: "string \<Rightarrow> string \<Rightarrow> bool" where
  "starts_with p s \<longleftrightarrow> take (length p) s = p"

text \<open>\<open>str::trim\<close>: the Unicode \<open>White_Space\<close> scalars, in UTF-8.\<close>

definition white_space :: "string list" where
  "white_space =
     map (\<lambda>n. [char_of (n :: nat)]) [9, 10, 11, 12, 13, 32]
     @ [[CHR 0xC2, CHR 0x85], [CHR 0xC2, CHR 0xA0], [CHR 0xE1, CHR 0x9A, CHR 0x80]]
     @ map (\<lambda>n. [CHR 0xE2, CHR 0x80, char_of (n :: nat)])
         [0x80, 0x81, 0x82, 0x83, 0x84, 0x85, 0x86, 0x87, 0x88, 0x89, 0x8A, 0xA8, 0xA9, 0xAF]
     @ [[CHR 0xE2, CHR 0x81, CHR 0x9F], [CHR 0xE3, CHR 0x80, CHR 0x80]]"

fun strip_front :: "string list \<Rightarrow> nat \<Rightarrow> string \<Rightarrow> string" where
  "strip_front ws 0 s = s"
| "strip_front ws (Suc n) s =
     (case find (\<lambda>w. starts_with w s) ws of
        None \<Rightarrow> s
      | Some w \<Rightarrow> strip_front ws n (drop (length w) s))"

text \<open>Every white-space scalar takes at least one byte, so \<open>length s\<close> rounds remove
  all of them.\<close>

definition trim :: "string \<Rightarrow> string" where
  "trim s =
     (let t = strip_front white_space (length s) s
      in rev (strip_front (map rev white_space) (length t) (rev t)))"

text \<open>\<open>str::split\<close> on one character: always at least one piece.\<close>

fun split_on :: "char \<Rightarrow> string \<Rightarrow> string list" where
  "split_on d [] = [[]]"
| "split_on d (c # cs) =
     (if c = d then [] # split_on d cs
      else (case split_on d cs of [] \<Rightarrow> [[c]] | w # ws \<Rightarrow> (c # w) # ws))"

definition to_ascii_lowercase :: "string \<Rightarrow> string" where
  "to_ascii_lowercase s =
     map (\<lambda>c. if CHR ''A'' \<le> c \<and> c \<le> CHR ''Z'' then char_of (of_char c + 32 :: nat) else c) s"

definition char_upper :: "char \<Rightarrow> char" where
  "char_upper c = (if CHR ''a'' \<le> c \<and> c \<le> CHR ''z'' then char_of (of_char c - 32 :: nat) else c)"

section \<open>BTreeMap and BTreeSet\<close>

type_synonym ('k, 'v) btree = "('k \<times> 'v) list"

definition bt_keys :: "('k, 'v) btree \<Rightarrow> 'k list" where
  "bt_keys m = map fst m"

definition bt_wf :: "('k::linorder, 'v) btree \<Rightarrow> bool" where
  "bt_wf m \<longleftrightarrow> sorted_wrt (<) (bt_keys m)"

definition bt_get :: "('k, 'v) btree \<Rightarrow> 'k \<Rightarrow> 'v option" where
  "bt_get m k = map_of m k"

definition contains_key :: "('k, 'v) btree \<Rightarrow> 'k \<Rightarrow> bool" where
  "contains_key m k \<longleftrightarrow> bt_get m k \<noteq> None"

fun bt_insert :: "'k::linorder \<Rightarrow> 'v \<Rightarrow> ('k, 'v) btree \<Rightarrow> ('k, 'v) btree" where
  "bt_insert k v [] = [(k, v)]"
| "bt_insert k v (e # m) =
     (if k < fst e then (k, v) # e # m
      else if k = fst e then (k, v) # m
      else e # bt_insert k v m)"

definition bt_remove :: "'k \<Rightarrow> ('k, 'v) btree \<Rightarrow> ('k, 'v) btree" where
  "bt_remove k m = filter (\<lambda>e. fst e \<noteq> k) m"

text \<open>Collecting an iterator of pairs into a map: a later pair overwrites.\<close>

definition bt_collect :: "('k::linorder \<times> 'v) list \<Rightarrow> ('k, 'v) btree" where
  "bt_collect ps = foldl (\<lambda>m p. bt_insert (fst p) (snd p) m) [] ps"

section \<open>Lemmas on results and integers\<close>

lemma and_then_Inr [simp]: "and_then (Inr a) f = f a"
  and and_then_Inl [simp]: "and_then (Inl e) f = Inl e"
  by (simp_all add: and_then_def)

lemma and_then_eq_Inr [result_simps]:
  "and_then r f = Inr b \<longleftrightarrow> (\<exists>a. r = Inr a \<and> f a = Inr b)"
  by (auto simp: and_then_def split: sum.splits)

lemma ensure_eq_Inr [result_simps]: "ensure b e k = Inr r \<longleftrightarrow> b \<and> k = Inr r"
  by (simp add: ensure_def)

lemma ensure_True [simp]: "ensure True e k = k"
  and ensure_False [simp]: "ensure False e k = Inl e"
  by (simp_all add: ensure_def)

lemma ok_or_eq_Inr [result_simps]: "ok_or x e = Inr a \<longleftrightarrow> x = Some a"
  by (auto simp: ok_or_def split: option.splits)

lemma and_then_eq_Inl [error_simps]:
  "and_then r f = Inl e \<longleftrightarrow> r = Inl e \<or> (\<exists>a. r = Inr a \<and> f a = Inl e)"
  by (auto simp: and_then_def split: sum.splits)

lemma ensure_eq_Inl [error_simps]:
  "ensure b e k = Inl e' \<longleftrightarrow> (if b then k = Inl e' else e' = e)"
  by (auto simp: ensure_def)

lemma ok_or_eq_Inl [error_simps]: "ok_or x e = Inl e' \<longleftrightarrow> x = None \<and> e' = e"
  by (auto simp: ok_or_def split: option.splits)

lemma ok_or_simps [simp]: "ok_or (Some a) e = Inr a" "ok_or None e = Inl e"
  by (simp_all add: ok_or_def)

lemma checked_add_Some:
  "checked_add a b = Some c \<longleftrightarrow> unat a + unat b < 2 ^ 64 \<and> unat c = unat a + unat b"
proof (cases "unat a + unat b < 2 ^ 64")
  case True
  have "unat (a + b) = unat a + unat b"
    using True by (subst unat_add_lem [symmetric]) simp
  with True show ?thesis
    by (auto simp: checked_add_def word_unat_eq_iff)
next
  case False
  then show ?thesis by (simp add: checked_add_def)
qed

lemma checked_add_None: "checked_add a b = None \<longleftrightarrow> 2 ^ 64 \<le> unat a + unat b"
  by (auto simp: checked_add_def)

lemma checked_sub_Some:
  "checked_sub a b = Some c \<longleftrightarrow> unat a = unat b + unat c"
proof
  assume "checked_sub a b = Some c"
  then have "b \<le> a" and c: "c = a - b" by (auto simp: checked_sub_def split: if_splits)
  then have "unat c = unat a - unat b" by (simp add: unat_sub)
  with \<open>b \<le> a\<close> show "unat a = unat b + unat c" by (simp add: word_le_nat_alt)
next
  assume *: "unat a = unat b + unat c"
  then have le: "b \<le> a" by (simp add: word_le_nat_alt)
  then have "unat (a - b) = unat c" using * by (simp add: unat_sub)
  then have "a - b = c" by (simp add: word_unat_eq_iff)
  with le show "checked_sub a b = Some c" by (simp add: checked_sub_def)
qed

lemma wrap_i32_id: "- (2 ^ 31) \<le> n \<Longrightarrow> n < 2 ^ 31 \<Longrightarrow> wrap_i32 n = n"
  by (simp add: wrap_i32_def)

lemma wrap_i32_moves: "wrap_i32 (n + 1) \<noteq> n"
proof
  assume "wrap_i32 (n + 1) = n"
  then have eq: "(n + 2 ^ 31 + 1) mod 2 ^ 32 = n + 2 ^ 31" by (simp add: wrap_i32_def algebra_simps)
  then have "(n + 2 ^ 31) mod 2 ^ 32 = n + 2 ^ 31" by (metis mod_mod_trivial)
  with eq have "(2 ^ 32 :: int) dvd n + 2 ^ 31 + 1 - (n + 2 ^ 31)" by (metis mod_eq_dvd_iff)
  then show False by simp
qed

lemma length_be_bytes [simp]: "length (be_bytes n k) = n"
  by (induction n arbitrary: k) auto

lemma length_u64_be [simp]: "length (u64_be x) = 8"
  by (simp add: u64_be_def)

lemma length_u32_be [simp]: "length (u32_be x) = 4"
  by (simp add: u32_be_def)

lemma of_nat_byte_eq_iff: "(of_nat a :: byte) = of_nat b \<longleftrightarrow> a mod 256 = b mod 256"
  by (simp add: word_of_nat_eq_iff take_bit_eq_mod)

lemma be_bytes_eq_iff: "be_bytes n a = be_bytes n b \<longleftrightarrow> a mod 256 ^ n = b mod 256 ^ n"
proof (induction n arbitrary: a b)
  case 0
  then show ?case by simp
next
  case (Suc n)
  have split: "x mod 256 ^ Suc n = 256 * (x div 256 mod 256 ^ n) + x mod 256" for x :: nat
    by (simp add: mod_mult2_eq)
  have "be_bytes (Suc n) a = be_bytes (Suc n) b \<longleftrightarrow>
      a div 256 mod 256 ^ n = b div 256 mod 256 ^ n \<and> a mod 256 = b mod 256"
    by (simp add: Suc.IH of_nat_byte_eq_iff)
  also have "\<dots> \<longleftrightarrow> a mod 256 ^ Suc n = b mod 256 ^ Suc n"
  proof
    assume "a mod 256 ^ Suc n = b mod 256 ^ Suc n"
    then have eq: "256 * (a div 256 mod 256 ^ n) + a mod 256
        = 256 * (b div 256 mod 256 ^ n) + b mod 256"
      by (simp only: split)
    from arg_cong [OF eq, of "\<lambda>x. x mod 256"] have "a mod 256 = b mod 256" by simp
    with eq show "a div 256 mod 256 ^ n = b div 256 mod 256 ^ n \<and> a mod 256 = b mod 256"
      by simp
  qed (simp only: split)
  finally show ?case .
qed

lemma u64_be_inject [simp]: "u64_be x = u64_be y \<longleftrightarrow> x = y"
proof -
  have "unat x < 256 ^ 8" "unat y < 256 ^ 8"
    using unsigned_less [of x] unsigned_less [of y] by simp_all
  then show ?thesis by (simp add: u64_be_def be_bytes_eq_iff word_unat_eq_iff)
qed

lemma u32_be_inject [simp]: "u32_be x = u32_be y \<longleftrightarrow> x = y"
proof -
  have "unat x < 256 ^ 4" "unat y < 256 ^ 4"
    using unsigned_less [of x] unsigned_less [of y] by simp_all
  then show ?thesis by (simp add: u32_be_def be_bytes_eq_iff word_unat_eq_iff)
qed

lemma from_le_rev_be_bytes: "from_le (rev (be_bytes n k)) = k mod 256 ^ n"
proof (induction n arbitrary: k)
  case (Suc n)
  then show ?case
    by (simp add: mod_mult2_eq unat_of_nat take_bit_eq_mod)
qed simp

lemma unat_of_char [simp]: "unat (of_char c :: byte) = of_char c"
proof -
  have "(of_char c :: byte) = of_nat (of_char c)" by (rule of_nat_of_char [symmetric])
  then have "unat (of_char c :: byte) = of_char c mod 256"
    by (simp only: unat_of_nat) simp
  then show ?thesis by simp
qed

lemma of_char_byte_inject: "(of_char c :: byte) = of_char d \<longleftrightarrow> c = d"
  by (metis unat_of_char of_char_eq_iff)

lemma as_bytes_inject [simp]: "as_bytes s = as_bytes t \<longleftrightarrow> s = t"
  unfolding as_bytes_def by (rule inj_map_eq_map) (auto simp: inj_def of_char_byte_inject)

lemma length_as_bytes [simp]: "length (as_bytes s) = length s"
  by (simp add: as_bytes_def)

lemma as_bytes_append: "as_bytes (s @ t) = as_bytes s @ as_bytes t"
  by (simp add: as_bytes_def)

lemma append_eq_same_length:
  "length xs = length ys \<Longrightarrow> xs @ us = ys @ vs \<longleftrightarrow> xs = ys \<and> us = vs"
  by simp

lemma starts_with_append [simp]: "starts_with p (p @ s)"
  by (simp add: starts_with_def)

lemma starts_with_iff: "starts_with p s \<longleftrightarrow> (\<exists>t. s = p @ t)"
  by (metis append_take_drop_id starts_with_append starts_with_def)

lemma split_on_not_Nil [simp]: "split_on d s \<noteq> []"
  by (induction s) (auto split: list.splits)

lemma split_on_absent: "d \<notin> set s \<Longrightarrow> split_on d s = [s]"
  by (induction s) auto

lemma split_on_once: "d \<notin> set s \<Longrightarrow> split_on d (s @ d # r) = s # split_on d r"
  by (induction s) auto

text \<open>A separator that does not occur before it splits a text in one way only.\<close>

lemma sep_split:
  fixes d :: char
  assumes "d \<notin> set a" "d \<notin> set b"
  shows "a @ d # r = b @ d # s \<longleftrightarrow> a = b \<and> r = s"
  using assms split_on_once [of d a r] split_on_once [of d b s] by (metis list.inject same_append_eq)

section \<open>Lemmas on ordered maps\<close>

lemma bt_wf_Nil [simp]: "bt_wf []"
  by (simp add: bt_wf_def bt_keys_def)

lemma bt_wf_Cons [btree_simps]:
  "bt_wf (e # m) \<longleftrightarrow> bt_wf m \<and> (\<forall>k \<in> set (bt_keys m). fst e < k)"
  by (auto simp: bt_wf_def bt_keys_def)

lemma bt_keys_Nil [simp]: "bt_keys [] = []"
  and bt_keys_Cons [simp]: "bt_keys (e # m) = fst e # bt_keys m"
  by (simp_all add: bt_keys_def)

lemma bt_get_Nil [simp]: "bt_get [] k = None"
  and bt_get_Cons: "bt_get (e # m) k = (if k = fst e then Some (snd e) else bt_get m k)"
  by (cases e, simp_all add: bt_get_def)

lemma bt_get_None_iff: "bt_get m k = None \<longleftrightarrow> k \<notin> set (bt_keys m)"
  by (simp add: bt_get_def bt_keys_def map_of_eq_None_iff)

lemma contains_key_iff [btree_simps]: "contains_key m k \<longleftrightarrow> k \<in> set (bt_keys m)"
  by (simp add: contains_key_def bt_get_None_iff)

lemma set_keys_insert [btree_simps]: "set (bt_keys (bt_insert k v m)) = insert k (set (bt_keys m))"
  by (induction m) auto

lemma bt_wf_insert [intro, simp]: "bt_wf m \<Longrightarrow> bt_wf (bt_insert k v m)"
proof (induction m)
  case (Cons e m)
  then show ?case
    by (auto simp: bt_wf_Cons set_keys_insert intro: less_trans)
qed (simp add: bt_wf_Cons)

lemma bt_get_insert [btree_simps]:
  "bt_get (bt_insert k v m) k' = (if k' = k then Some v else bt_get m k')"
  by (induction m) (auto simp: bt_get_Cons)

lemma keys_remove [btree_simps]: "bt_keys (bt_remove k m) = filter (\<lambda>x. x \<noteq> k) (bt_keys m)"
  by (induction m) (auto simp: bt_remove_def)

lemma bt_wf_remove [intro, simp]: "bt_wf m \<Longrightarrow> bt_wf (bt_remove k m)"
  by (simp add: bt_wf_def keys_remove sorted_wrt_filter)

lemma bt_get_remove [btree_simps]:
  "bt_get (bt_remove k m) k' = (if k' = k then None else bt_get m k')"
  by (induction m) (auto simp: bt_remove_def bt_get_Cons)

lemma bt_wf_distinct: "bt_wf m \<Longrightarrow> distinct (bt_keys m)"
  by (metis bt_wf_def strict_sorted_iff)

lemma bt_get_mem: "bt_get m k = Some v \<Longrightarrow> (k, v) \<in> set m"
  by (simp add: bt_get_def map_of_SomeD)

lemma bt_mem_get: "bt_wf m \<Longrightarrow> (k, v) \<in> set m \<Longrightarrow> bt_get m k = Some v"
  using bt_wf_distinct [of m] by (simp add: bt_get_def bt_keys_def)

lemma bt_remove_absent: "k \<notin> set (bt_keys m) \<Longrightarrow> bt_remove k m = m"
  by (induction m) (auto simp: bt_remove_def)

lemma set_bt_insert_new: "k \<notin> set (bt_keys m) \<Longrightarrow> set (bt_insert k v m) = insert (k, v) (set m)"
  by (induction m) auto

lemma bt_ext: "bt_wf m \<Longrightarrow> bt_wf m' \<Longrightarrow> (\<And>k. bt_get m k = bt_get m' k) \<Longrightarrow> m = m'"
proof -
  assume wf: "bt_wf m" "bt_wf m'" and eq: "\<And>k. bt_get m k = bt_get m' k"
  have "map_of m = map_of m'" using eq by (auto simp: bt_get_def)
  moreover have "sorted (map fst m)" "distinct (map fst m)" "sorted (map fst m')" "distinct (map fst m')"
    using wf by (simp_all add: bt_wf_def bt_keys_def strict_sorted_iff)
  moreover from calculation have "set m = set m'" by (simp add: map_of_inject_set)
  ultimately show "m = m'"
    by (metis distinct_map map_sorted_distinct_set_unique sup.idem)
qed

lemma bt_collect_snoc: "bt_collect (ps @ [p]) = bt_insert (fst p) (snd p) (bt_collect ps)"
  by (simp add: bt_collect_def)

lemma bt_wf_collect [simp]: "bt_wf (bt_collect ps)"
  by (induction ps rule: rev_induct) (auto simp: bt_collect_snoc bt_collect_def [of "[]"])

lemma bt_get_collect: "bt_get (bt_collect ps) k = map_of (rev ps) k"
  by (induction ps rule: rev_induct) (auto simp: bt_collect_snoc bt_get_insert bt_collect_def [of "[]"])

section \<open>The interface of an ordered map\<close>

text \<open>What the components rely on when they keep a \<open>BTreeMap\<close>: the lookups after an
  insertion or a removal, that both keep the map well formed, and that iteration visits
  exactly the present keys, in increasing order.\<close>

locale ordered_map =
  fixes get :: "'m \<Rightarrow> 'k::linorder \<Rightarrow> 'v option"
    and ins :: "'k \<Rightarrow> 'v \<Rightarrow> 'm \<Rightarrow> 'm"
    and del :: "'k \<Rightarrow> 'm \<Rightarrow> 'm"
    and keys :: "'m \<Rightarrow> 'k list"
    and invar :: "'m \<Rightarrow> bool"
  assumes get_ins: "get (ins k v m) k' = (if k' = k then Some v else get m k')"
    and get_del: "get (del k m) k' = (if k' = k then None else get m k')"
    and invar_ins: "invar m \<Longrightarrow> invar (ins k v m)"
    and invar_del: "invar m \<Longrightarrow> invar (del k m)"
    and keys_get: "set (keys m) = {k. get m k \<noteq> None}"
    and keys_order: "invar m \<Longrightarrow> sorted_wrt (<) (keys m)"
begin

text \<open>Removing a list of keys, one after the other.\<close>

lemma get_del_list: "get (foldl (\<lambda>m k. del k m) m ks) k = (if k \<in> set ks then None else get m k)"
  by (induction ks arbitrary: m) (auto simp: get_del)

lemma invar_del_list: "invar m \<Longrightarrow> invar (foldl (\<lambda>m k. del k m) m ks)"
  by (induction ks arbitrary: m) (auto intro: invar_del)

text \<open>Inserting only where the key is absent, as the login synchronisation does: the first
  value of a key wins, and a key already present keeps its value.\<close>

lemma get_ins_new:
  "get (foldl (\<lambda>m r. if get m (f r) = None then ins (f r) r m else m) m rs) k
     = (case get m k of Some v \<Rightarrow> Some v | None \<Rightarrow> find (\<lambda>r. f r = k) rs)"
  by (induction rs arbitrary: m) (auto simp: get_ins split: option.splits)

lemma invar_ins_new:
  "invar m \<Longrightarrow> invar (foldl (\<lambda>m r. if get m (f r) = None then ins (f r) r m else m) m rs)"
  by (induction rs arbitrary: m) (auto intro: invar_ins)

lemma keys_ins: "set (keys (ins k v m)) = insert k (set (keys m))"
  by (auto simp: keys_get get_ins)

lemma keys_del: "set (keys (del k m)) = set (keys m) - {k}"
  by (auto simp: keys_get get_del)

end

interpretation bt: ordered_map bt_get bt_insert bt_remove bt_keys bt_wf
proof unfold_locales
  show "set (bt_keys m) = {k. bt_get m k \<noteq> None}" for m :: "('a, 'b) btree"
    by (auto simp: bt_get_None_iff)
  show "sorted_wrt (<) (bt_keys m)" if "bt_wf m" for m :: "('a, 'b) btree"
    using that by (simp add: bt_wf_def)
qed (auto simp: btree_simps)

end
