(* ===== verification/Wire.thy ===== *)
theory Wire
  imports Lc_Prelude
begin

text \<open>
  The wallet-side wire protocol of \<open>lc-wallet-core/src/wire.rs\<close>: the requests a
  relying party puts to the wallet, the actions the wallet answers with, and the
  envelopes both directions use.  The one-field notification structs
  (\<open>SignRequestCreatedNotif\<close> and so on) are the argument of the notification's
  constructor.  The session takes the JSON text of a frame as a parameter; \<open>Wire_Json\<close> has
  the JSON form the derive attributes ask for.
\<close>

type_synonym req_id = int  \<comment> \<open>\<open>i32\<close>; the wrap-around is written out where it can happen\<close>
type_synonym duration_ms = u64
type_synonym install_id = bytes

record session =
  session_id :: string
  session_domain :: string
  is_local :: bool

record login_request =
  lr_request_id :: string
  lr_domain :: string
  lr_ttl :: duration_ms
  lr_service_challenge :: "string option"

record sign_request =
  sr_request_id :: string
  sr_domain :: string
  sr_pset :: string
  sr_ttl :: duration_ms

record sign_message_request =
  smr_request_id :: string
  smr_domain :: string
  smr_digest :: string
  smr_description :: "string option"
  smr_ttl :: duration_ms

record receive_address_request =
  rar_request_id :: string
  rar_domain :: string
  rar_description :: "string option"
  rar_ttl :: duration_ms

record asset_balance_request =
  abr_request_id :: string
  abr_domain :: string
  abr_description :: "string option"
  abr_asset_id :: string
  abr_ttl :: duration_ms

record holding =
  h_label :: string
  h_kind :: string
  h_asset_id :: "string option"
  h_unit :: string
  h_amount :: "64 word"  \<comment> \<open>\<open>i64\<close>, read with \<open>sint\<close>\<close>
  h_precision :: u8

record holdings_report =
  hr_domain :: string
  hr_holdings :: "holding list"
  hr_as_of :: "64 word"  \<comment> \<open>\<open>i64\<close>\<close>

record pay_request =
  pr_request_id :: string
  pr_domain :: string
  pr_recipient :: string
  pr_asset_id :: string
  pr_amount :: u64
  pr_memo :: "string option"
  pr_ttl :: duration_ms

record fund_request =
  fr_request_id :: string
  fr_domain :: string
  fr_template :: string
  fr_asset_id :: string
  fr_amount :: u64
  fr_memo :: "string option"
  fr_ttl :: duration_ms

datatype user_action =
    LinkLoginRequest string
  | AcceptLoginRequest string string "string option" "string option"
      \<comment> \<open>request id, descriptor, service key, service signature\<close>
  | CancelLoginRequest string
  | AcceptSignRequest string string
  | CancelSignRequest string
  | AcceptSignMessageRequest string string
  | AcceptReceiveAddressRequest string string
  | CancelReceiveAddressRequest string
  | AcceptAssetBalanceRequest string u64
  | CancelAssetBalanceRequest string
  | CancelSignMessageRequest string
  | AcceptPayRequest string string
  | CancelPayRequest string
  | AcceptFundRequest string string
  | CancelFundRequest string
  | StopSessionAction string

record login_req =
  lq_public_key :: bytes
  lq_signature :: bytes
  lq_install_id :: "install_id option"

record login_resp =
  sessions :: "session list"
  resp_sign_requests :: "sign_request list"
  resp_sign_message_requests :: "sign_message_request list"
  resp_pay_requests :: "pay_request list"
  resp_receive_address_requests :: "receive_address_request list"
  resp_asset_balance_requests :: "asset_balance_request list"
  resp_fund_requests :: "fund_request list"
  resp_holdings :: "holdings_report list"

datatype error_code = InvalidRequest | Server | UnknownCode

record wire_error =
  err_code :: error_code
  err_message :: string

datatype req =
    ReqChallenge
  | ReqLogin login_req
  | ReqUserAction user_action
  | ReqRegisterFcm string

datatype resp =
    RespChallenge string
  | RespLogin login_resp
  | RespUserAction
  | RespRegisterFcm

datatype notif =
    NSessionCreated session
  | NSessionRemoved string
  | NLoginRequestCreated login_request
  | NLoginRequestRemoved string
  | NSignRequestCreated sign_request
  | NSignRequestRemoved string
  | NSignMessageRequestCreated sign_message_request
  | NSignMessageRequestRemoved string
  | NReceiveAddressRequestCreated receive_address_request
  | NReceiveAddressRequestRemoved string
  | NAssetBalanceRequestCreated asset_balance_request
  | NAssetBalanceRequestRemoved string
  | NPayRequestCreated pay_request
  | NPayRequestRemoved string
  | NFundRequestCreated fund_request
  | NFundRequestRemoved string
  | NHoldingsUpdated holdings_report
  | NHoldingsRemoved string

datatype to_msg = ToReq req_id req

datatype from_msg =
    FromResp req_id resp
  | FromError req_id wire_error
  | FromNotif notif

text \<open>\<open>DurationMs::as_millis\<close>.\<close>

definition as_millis :: "duration_ms \<Rightarrow> u64" where
  "as_millis d = d"

end
