(* ===== verification/Wallet_Key.thy ===== *)
theory Wallet_Key
  imports Wire
begin

text \<open>
  The Connect identity key of \<open>lc-wallet-core/src/key.rs\<close>: its derivation from the
  master blinding key and the messages it signs.  SHA-256, the secp256k1 key operations
  and the hex codec are third-party code; they are the fields of the record \<open>crypto\<close>,
  an argument of every definition that uses them.  Randomised signing takes the 32
  auxiliary bytes its random source yields as an argument.
\<close>

record 'k crypto =
  sha256 :: "bytes \<Rightarrow> bytes"
  keypair_from_seckey :: "bytes \<Rightarrow> 'k option"
  x_only_public_key :: "'k \<Rightarrow> bytes"
  sign_schnorr :: "bytes \<Rightarrow> 'k \<Rightarrow> bytes \<Rightarrow> bytes"  \<comment> \<open>message, key, auxiliary bytes\<close>
  sign_schnorr_no_aux :: "bytes \<Rightarrow> 'k \<Rightarrow> bytes"
  verify_schnorr :: "bytes \<Rightarrow> bytes \<Rightarrow> bytes \<Rightarrow> bool"  \<comment> \<open>signature, message, key\<close>
  signature_to_string :: "bytes \<Rightarrow> string"
  signature_from_str :: "string \<Rightarrow> bytes option"
  hex_encode :: "bytes \<Rightarrow> string"
  hex_decode_to_slice :: "string \<Rightarrow> nat \<Rightarrow> bytes option"

datatype network = Liquid | LiquidTestnet | Regtest

text \<open>A \<open>sha256t_hash_newtype!\<close> hash: SHA-256 over the doubled hash of the tag and the
  message.\<close>

definition tagged_hash :: "'k crypto \<Rightarrow> string \<Rightarrow> bytes \<Rightarrow> bytes" where
  "tagged_hash cr tag m =
     sha256 cr (sha256 cr (as_bytes tag) @ sha256 cr (as_bytes tag) @ m)"

definition wallet_key_tag :: string where
  "wallet_key_tag = ''sideswap/wallet_key''"

definition wallet_sign_tag :: string where
  "wallet_sign_tag = ''sideswap/sign''"

definition identity_auth_tag :: string where
  "identity_auth_tag = ''liquidconnect/identity''"

definition identity_auth_text :: "string \<Rightarrow> string \<Rightarrow> string \<Rightarrow> string" where
  "identity_auth_text challenge action value =
     ''liquidconnect identity, nonce: '' @ challenge @ '', action: '' @ action
     @ '', value: '' @ value"

definition identity_auth_message :: "'k crypto \<Rightarrow> string \<Rightarrow> string \<Rightarrow> string \<Rightarrow> bytes" where
  "identity_auth_message cr challenge action value =
     tagged_hash cr identity_auth_tag (as_bytes (identity_auth_text challenge action value))"

definition get_sign_message_hash :: "'k crypto \<Rightarrow> string \<Rightarrow> bytes" where
  "get_sign_message_hash cr challenge =
     tagged_hash cr wallet_sign_tag (as_bytes (''sideswap login, nonce: '' @ challenge))"

definition salt_bytes :: "nat \<Rightarrow> bytes" where
  "salt_bytes n = be_bytes 32 n"

definition network_salt :: "network \<Rightarrow> bytes" where
  "network_salt n = (case n of
     Liquid \<Rightarrow> salt_bytes 0x3f101e5de26db05ca3b4dc4e964b7889ff4bcb7006a89b14f5c9f5b7970b66db
   | LiquidTestnet \<Rightarrow> salt_bytes 0x54151998bcf5347784eeda549407815d3390742d451221416a65a3ed7d739a34
   | Regtest \<Rightarrow> salt_bytes 0xc96036d788d756a16fdfb427bc70d0b681315224c3d1c12cc9efc6ace2358c13)"

text \<open>\<open>WalletKey::new\<close>: \<open>None\<close> is the panic of its \<open>expect\<close>.\<close>

definition wallet_secret :: "'k crypto \<Rightarrow> bytes \<Rightarrow> network \<Rightarrow> bytes" where
  "wallet_secret cr mbk n = tagged_hash cr wallet_key_tag (network_salt n @ mbk)"

definition wallet_key_new :: "'k crypto \<Rightarrow> bytes \<Rightarrow> network \<Rightarrow> 'k option" where
  "wallet_key_new cr mbk n = keypair_from_seckey cr (wallet_secret cr mbk n)"

text \<open>\<open>WalletKey::ephemeral\<close>, with the random seed as an argument.\<close>

definition ephemeral :: "'k crypto \<Rightarrow> bytes \<Rightarrow> 'k option" where
  "ephemeral cr seed = wallet_key_new cr seed LiquidTestnet"

definition public_key :: "'k crypto \<Rightarrow> 'k \<Rightarrow> bytes" where
  "public_key cr k = x_only_public_key cr k"

definition sign_challenge :: "'k crypto \<Rightarrow> 'k \<Rightarrow> string \<Rightarrow> bytes \<Rightarrow> bytes" where
  "sign_challenge cr k challenge aux = sign_schnorr cr (get_sign_message_hash cr challenge) k aux"

definition sign_digest :: "'k crypto \<Rightarrow> 'k \<Rightarrow> bytes \<Rightarrow> bytes \<Rightarrow> bytes" where
  "sign_digest cr k digest aux = sign_schnorr cr digest k aux"

definition sign_identity :: "'k crypto \<Rightarrow> 'k \<Rightarrow> string \<Rightarrow> string \<Rightarrow> string \<Rightarrow> bytes \<Rightarrow> bytes" where
  "sign_identity cr k challenge action value aux =
     sign_schnorr cr (identity_auth_message cr challenge action value) k aux"

end
