(* ===== verification/App_Link.thy ===== *)
theory App_Link
  imports Wallet_Key
begin

text \<open>
  App-link and venue-login-link parsing (\<open>lc-wallet-core/src/link.rs\<close>).  The URL parser
  is the third-party \<open>url\<close> crate: a parameter that yields the parts of the URL the code
  reads, or nothing when the text is not a URL.  \<open>query_pairs\<close> is the decoded query in
  order; collecting it into a \<open>BTreeMap\<close> lets the last pair of a key win.
\<close>

datatype host = Domain string | Ipv4 string | Ipv6 string

record url =
  u_scheme :: string
  u_host :: "host option"
  u_host_str :: "string option"
  u_port :: "nat option"
  u_path :: string
  u_query_pairs :: "(string \<times> string) list"

datatype link_type = LinkLogin | LinkSign | LinkOpen

record app_link =
  link_type :: link_type
  al_request_id :: string
  is_mobile :: bool
  al_network :: "network option"

datatype link_error =
    NotAUrl
  | NoHost
  | Ipv4Unsupported string
  | Ipv6Unsupported string
  | PortPresent
  | InvalidMobile
  | NoRequestId
  | UnknownNetwork string
  | UnsupportedUrl
  | NoVenue
  | VenueNotBareDomain
  | NoLinkCode
  | EmptyLinkCode

text \<open>\<open>bool::from_str\<close>.\<close>

definition bool_from_str :: "string \<Rightarrow> bool option" where
  "bool_from_str s =
     (if s = ''true'' then Some True else if s = ''false'' then Some False else None)"

definition parse_network_param :: "(string, string) btree \<Rightarrow> link_error + network option" where
  "parse_network_param params = (case bt_get params ''network'' of
     None \<Rightarrow> Inr None
   | Some v \<Rightarrow>
       if v = ''liquid'' \<or> v = ''mainnet'' then Inr (Some Liquid)
       else if v = ''liquid-testnet'' \<or> v = ''testnet'' then Inr (Some LiquidTestnet)
       else if v = ''liquid-regtest'' \<or> v = ''regtest'' then Inr (Some Regtest)
       else Inl (UnknownNetwork v))"

definition parse_mobile_param :: "(string, string) btree \<Rightarrow> link_error + bool" where
  "parse_mobile_param params = (case bt_get params ''mobile'' of
     None \<Rightarrow> Inr False
   | Some v \<Rightarrow> ok_or (bool_from_str v) InvalidMobile)"

definition classify_link :: "string \<Rightarrow> string \<Rightarrow> string \<Rightarrow> link_error + link_type" where
  "classify_link scheme domain path =
     (if (scheme, domain, path) = (''https'', ''app.sideswap.io'', ''/login/'')
       \<or> (scheme, domain, path) = (''liquidconnect'', ''login'', ''/'') then Inr LinkLogin
      else if (scheme, domain, path) = (''https'', ''app.sideswap.io'', ''/sign/'')
       \<or> (scheme, domain, path) = (''liquidconnect'', ''sign'', ''/'') then Inr LinkSign
      else if (scheme, domain, path) = (''liquidconnect'', ''request'', ''/'') then Inr LinkOpen
      else Inl UnsupportedUrl)"

definition host_domain :: "host option \<Rightarrow> link_error + string" where
  "host_domain h = (case h of
     None \<Rightarrow> Inl NoHost
   | Some (Domain d) \<Rightarrow> Inr d
   | Some (Ipv4 a) \<Rightarrow> Inl (Ipv4Unsupported a)
   | Some (Ipv6 a) \<Rightarrow> Inl (Ipv6Unsupported a))"

definition parse_app_link :: "(string \<Rightarrow> url option) \<Rightarrow> string \<Rightarrow> link_error + app_link" where
  "parse_app_link url_parse text =
     and_then (ok_or (url_parse text) NotAUrl) (\<lambda>u.
     and_then (host_domain (u_host u)) (\<lambda>domain.
     ensure (u_port u = None) PortPresent
     (let params = bt_collect (u_query_pairs u) in
     and_then (parse_mobile_param params) (\<lambda>mobile.
     and_then (ok_or (bt_get params ''request_id'') NoRequestId) (\<lambda>rid.
     and_then (parse_network_param params) (\<lambda>net.
     and_then (classify_link (u_scheme u) domain (u_path u)) (\<lambda>lt.
     Inr \<lparr>link_type = lt, al_request_id = rid, is_mobile = mobile, al_network = net\<rparr>)))))))"

record venue_login_link =
  vl_venue :: string
  vl_link_code :: string
  vl_network :: "network option"

text \<open>The bare-domain test on the \<open>venue\<close> parameter (already lower-cased).\<close>

definition bare_domain_char :: "char \<Rightarrow> bool" where
  "bare_domain_char c \<longleftrightarrow> is_ascii_alphanumeric c \<or> c = CHR ''.'' \<or> c = CHR ''-''"

definition venue_ok :: "string \<Rightarrow> bool" where
  "venue_ok v \<longleftrightarrow>
     v \<noteq> [] \<and> CHR ''.'' \<in> set v \<and> list_all bare_domain_char v
     \<and> \<not> list_ex (\<lambda>l. l = []) (split_on CHR ''.'' v)
     \<and> list_all (\<lambda>l. parse_u8 l = None) (split_on CHR ''.'' v)"

definition parse_venue_login_link ::
  "(string \<Rightarrow> url option) \<Rightarrow> string \<Rightarrow> link_error + venue_login_link" where
  "parse_venue_login_link url_parse text =
     and_then (ok_or (url_parse text) NotAUrl) (\<lambda>u.
     ensure (u_scheme u = ''liquidconnect'' \<and> u_host_str u = Some ''venue-login''
             \<and> (u_path u = '''' \<or> u_path u = ''/'')) UnsupportedUrl
     (let params = bt_collect (u_query_pairs u) in
     and_then (ok_or (bt_get params ''venue'') NoVenue) (\<lambda>v0.
     let venue = to_ascii_lowercase v0 in
     ensure (venue_ok venue) VenueNotBareDomain
     (and_then (ok_or (bt_get params ''link'') NoLinkCode) (\<lambda>code.
     ensure (code \<noteq> []) EmptyLinkCode
     (and_then (parse_network_param params) (\<lambda>net.
     Inr \<lparr>vl_venue = venue, vl_link_code = code, vl_network = net\<rparr>)))))))"

end
