(* ===== verification/Session_Core.thy ===== *)
theory Session_Core
  imports Wire Wallet_Key App_Link
begin

text \<open>
  The sans-io session state machine of \<open>lc-wallet-core/src/core.rs\<close>.  The state is the
  record \<open>core\<close>; every operation takes the state and returns the new state with the
  effects it pushed, in order; \<open>handle\<close> is the entry point.  Code outside the crate is
  the argument \<open>session_env\<close>: the JSON codec of the frames and the cryptographic
  library.  \<open>handle\<close> makes at most one randomised signature, so one run of auxiliary
  bytes is an argument of it.  Log output is not modelled.
\<close>

section \<open>State, inputs and effects\<close>

record 'k session_env =
  env_crypto :: "'k crypto"
  to_string_json :: "to_msg \<Rightarrow> string"  \<comment> \<open>\<open>serde_json::to_string\<close>\<close>
  from_str_json :: "string \<Rightarrow> from_msg option"  \<comment> \<open>\<open>serde_json::from_str\<close>\<close>

datatype transport_event = Connected | Recv string | Disconnected

record service_binding =
  sb_key :: string
  sb_signature :: string

datatype input =
    Transport transport_event
  | AppLinkInput app_link
  | LoginAccepted string "service_binding option"
  | LoginRejected string
  | SignAccepted string string
  | SignRejected string
  | SignMessageAccepted string
  | SignMessageSigned string string
  | SignMessageRejected string
  | ReceiveAddressProvided string string
  | ReceiveAddressRejected string
  | AssetBalanceProvided string u64
  | AssetBalanceRejected string
  | PayBuilt string string
  | PayRejected string
  | FundSigned string string
  | FundRejected string
  | RegisterFcmToken string
  | StopSession string

datatype effect =
    Send string
  | AddLoginRequest login_request
  | RemoveLoginRequest string
  | AddSignRequest sign_request
  | RemoveSignRequest string
  | AddSignMessageRequest sign_message_request
  | RemoveSignMessageRequest string
  | AddReceiveAddressRequest receive_address_request
  | RemoveReceiveAddressRequest string
  | AddAssetBalanceRequest asset_balance_request
  | RemoveAssetBalanceRequest string
  | SetHoldings holdings_report
  | ClearHoldings string
  | AddPayRequest pay_request
  | RemovePayRequest string
  | AddFundRequest fund_request
  | RemoveFundRequest string
  | SessionList "session list"
  | SessionCreated session
  | SessionRemoved string
  | MinimizeMobileApp
  | ActionFailed user_action string

record 'k core =
  install_id :: install_id
  connected :: bool
  login_succeed :: bool
  descriptor :: string
  wallet_key :: 'k
  login_requests :: "(string, login_request) btree"
  sign_requests :: "(string, sign_request) btree"
  sign_message_requests :: "(string, sign_message_request) btree"
  receive_address_requests :: "(string, receive_address_request) btree"
  asset_balance_requests :: "(string, asset_balance_request) btree"
  holdings :: "(string, holdings_report) btree"
  pay_requests :: "(string, pay_request) btree"
  fund_requests :: "(string, fund_request) btree"
  user_actions :: "(req_id, user_action) btree"
  next_action_id :: req_id
  mobile_requests :: "string set"
  fcm_token :: "string option"

definition send :: "'k session_env \<Rightarrow> req_id \<Rightarrow> req \<Rightarrow> effect" where
  "send env rq r = Send (to_string_json env (ToReq rq r))"

definition new_core :: "install_id \<Rightarrow> string \<Rightarrow> 'k \<Rightarrow> 'k core" where
  "new_core iid desc key =
     \<lparr>install_id = iid, connected = False, login_succeed = False, descriptor = desc,
      wallet_key = key, login_requests = [], sign_requests = [], sign_message_requests = [],
      receive_address_requests = [], asset_balance_requests = [], holdings = [],
      pay_requests = [], fund_requests = [], user_actions = [], next_action_id = 1,
      mobile_requests = {}, fcm_token = None\<rparr>"

definition is_logged_in :: "'k core \<Rightarrow> bool" where
  "is_logged_in c \<longleftrightarrow> connected c \<and> login_succeed c"

section \<open>Synchronising the request stores at login\<close>

text \<open>The six \<open>sync_*_requests\<close> methods are one loop over different stores: first the
  stored ids the server no longer lists are removed, in key order; then each listed
  request whose id is absent is stored and announced.\<close>

fun sync_add :: "('r \<Rightarrow> string) \<Rightarrow> (string, 'r) btree \<Rightarrow> 'r list \<Rightarrow> (string, 'r) btree \<times> 'r list" where
  "sync_add rid m [] = (m, [])"
| "sync_add rid m (r # rs) =
     (if \<not> contains_key m (rid r)
      then let (m', added) = sync_add rid (bt_insert (rid r) r m) rs in (m', r # added)
      else sync_add rid m rs)"

definition sync_store ::
  "('r \<Rightarrow> string) \<Rightarrow> ('r \<Rightarrow> effect) \<Rightarrow> (string \<Rightarrow> effect)
   \<Rightarrow> (string, 'r) btree \<Rightarrow> 'r list \<Rightarrow> (string, 'r) btree \<times> effect list" where
  "sync_store rid add rem store rs =
     (let gone = filter (\<lambda>k. k \<notin> set (map rid rs)) (bt_keys store);
          (store', added) = sync_add rid (foldl (\<lambda>m k. bt_remove k m) store gone) rs
      in (store', map rem gone @ map add added))"

definition sync_sign_requests :: "sign_request list \<Rightarrow> 'k core \<Rightarrow> 'k core \<times> effect list" where
  "sync_sign_requests rs c =
     (let (m, es) = sync_store sr_request_id AddSignRequest RemoveSignRequest (sign_requests c) rs
      in (c\<lparr>sign_requests := m\<rparr>, es))"

definition sync_sign_message_requests ::
  "sign_message_request list \<Rightarrow> 'k core \<Rightarrow> 'k core \<times> effect list" where
  "sync_sign_message_requests rs c =
     (let (m, es) = sync_store smr_request_id AddSignMessageRequest RemoveSignMessageRequest
                      (sign_message_requests c) rs
      in (c\<lparr>sign_message_requests := m\<rparr>, es))"

definition sync_pay_requests :: "pay_request list \<Rightarrow> 'k core \<Rightarrow> 'k core \<times> effect list" where
  "sync_pay_requests rs c =
     (let (m, es) = sync_store pr_request_id AddPayRequest RemovePayRequest (pay_requests c) rs
      in (c\<lparr>pay_requests := m\<rparr>, es))"

definition sync_fund_requests :: "fund_request list \<Rightarrow> 'k core \<Rightarrow> 'k core \<times> effect list" where
  "sync_fund_requests rs c =
     (let (m, es) = sync_store fr_request_id AddFundRequest RemoveFundRequest (fund_requests c) rs
      in (c\<lparr>fund_requests := m\<rparr>, es))"

definition sync_receive_address_requests ::
  "receive_address_request list \<Rightarrow> 'k core \<Rightarrow> 'k core \<times> effect list" where
  "sync_receive_address_requests rs c =
     (let (m, es) = sync_store rar_request_id AddReceiveAddressRequest RemoveReceiveAddressRequest
                      (receive_address_requests c) rs
      in (c\<lparr>receive_address_requests := m\<rparr>, es))"

definition sync_asset_balance_requests ::
  "asset_balance_request list \<Rightarrow> 'k core \<Rightarrow> 'k core \<times> effect list" where
  "sync_asset_balance_requests rs c =
     (let (m, es) = sync_store abr_request_id AddAssetBalanceRequest RemoveAssetBalanceRequest
                      (asset_balance_requests c) rs
      in (c\<lparr>asset_balance_requests := m\<rparr>, es))"

text \<open>\<open>sync_holdings\<close>: entries of domains the login does not mention are cleared; every
  mentioned report with a non-empty list replaces the entry; an empty one is skipped.\<close>

fun restate_holdings ::
  "(string, holdings_report) btree \<Rightarrow> holdings_report list
   \<Rightarrow> (string, holdings_report) btree \<times> effect list" where
  "restate_holdings m [] = (m, [])"
| "restate_holdings m (r # rs) =
     (if hr_holdings r = [] then restate_holdings m rs
      else let (m', es) = restate_holdings (bt_insert (hr_domain r) r m) rs
           in (m', SetHoldings r # es))"

definition sync_holdings :: "holdings_report list \<Rightarrow> 'k core \<Rightarrow> 'k core \<times> effect list" where
  "sync_holdings reports c =
     (let gone = filter (\<lambda>d. d \<notin> set (map hr_domain reports)) (bt_keys (holdings c));
          (m, es) = restate_holdings (foldl (\<lambda>m d. bt_remove d m) (holdings c) gone) reports
      in (c\<lparr>holdings := m\<rparr>, map ClearHoldings gone @ es))"

section \<open>Server messages\<close>

datatype sign_error = RequestRemoved | DigestNotHex

definition sign_message_digest ::
  "'k session_env \<Rightarrow> bytes \<Rightarrow> 'k core \<Rightarrow> string \<Rightarrow> sign_error + string" where
  "sign_message_digest env aux c rid =
     and_then (ok_or (bt_get (sign_message_requests c) rid) RequestRemoved) (\<lambda>r.
     and_then (ok_or (hex_decode_to_slice (env_crypto env) (smr_digest r) 32) DigestNotHex) (\<lambda>d.
     Inr (signature_to_string (env_crypto env) (sign_digest (env_crypto env) (wallet_key c) d aux))))"

definition send_fcm_token :: "'k session_env \<Rightarrow> 'k core \<Rightarrow> effect list" where
  "send_fcm_token env c = (case fcm_token c of
     None \<Rightarrow> []
   | Some token \<Rightarrow>
       if connected c \<and> login_succeed c then [send env 0 (ReqRegisterFcm token)] else [])"

definition replay_actions :: "'k session_env \<Rightarrow> 'k core \<Rightarrow> effect list" where
  "replay_actions env c = map (\<lambda>(rq, a). send env rq (ReqUserAction a)) (user_actions c)"

definition handle_login_resp ::
  "'k session_env \<Rightarrow> login_resp \<Rightarrow> 'k core \<Rightarrow> 'k core \<times> effect list" where
  "handle_login_resp env lr c =
     (let c0 = c\<lparr>login_succeed := True\<rparr>;
          e0 = replay_actions env c0;
          (c1, e1) = sync_sign_requests (resp_sign_requests lr) c0;
          (c2, e2) = sync_sign_message_requests (resp_sign_message_requests lr) c1;
          (c3, e3) = sync_pay_requests (resp_pay_requests lr) c2;
          (c4, e4) = sync_fund_requests (resp_fund_requests lr) c3;
          (c5, e5) = sync_receive_address_requests (resp_receive_address_requests lr) c4;
          (c6, e6) = sync_asset_balance_requests (resp_asset_balance_requests lr) c5;
          (c7, e7) = sync_holdings (resp_holdings lr) c6
      in (c7, e0 @ e1 @ e2 @ e3 @ e4 @ e5 @ e6 @ e7 @ [SessionList (sessions lr)]
              @ send_fcm_token env c7))"

definition handle_response ::
  "'k session_env \<Rightarrow> bytes \<Rightarrow> req_id \<Rightarrow> resp \<Rightarrow> 'k core \<Rightarrow> 'k core \<times> effect list" where
  "handle_response env aux rq r c = (case r of
     RespChallenge challenge \<Rightarrow>
       (c, [send env 0 (ReqLogin
              \<lparr>lq_public_key = public_key (env_crypto env) (wallet_key c),
               lq_signature = sign_challenge (env_crypto env) (wallet_key c) challenge aux,
               lq_install_id = Some (install_id c)\<rparr>)])
   | RespLogin lr \<Rightarrow> handle_login_resp env lr c
   | RespUserAction \<Rightarrow> (c\<lparr>user_actions := bt_remove rq (user_actions c)\<rparr>, [])
   | RespRegisterFcm \<Rightarrow> (c, []))"

definition handle_notification :: "notif \<Rightarrow> 'k core \<Rightarrow> 'k core \<times> effect list" where
  "handle_notification n c = (case n of
     NSessionCreated s \<Rightarrow> (c, [SessionCreated s])
   | NSessionRemoved i \<Rightarrow> (c, [SessionRemoved i])
   | NLoginRequestCreated r \<Rightarrow>
       (c\<lparr>login_requests := bt_insert (lr_request_id r) r (login_requests c)\<rparr>, [AddLoginRequest r])
   | NLoginRequestRemoved i \<Rightarrow>
       (c\<lparr>login_requests := bt_remove i (login_requests c)\<rparr>, [RemoveLoginRequest i])
   | NSignRequestCreated r \<Rightarrow>
       (c\<lparr>sign_requests := bt_insert (sr_request_id r) r (sign_requests c)\<rparr>, [AddSignRequest r])
   | NSignRequestRemoved i \<Rightarrow>
       (c\<lparr>sign_requests := bt_remove i (sign_requests c)\<rparr>, [RemoveSignRequest i])
   | NSignMessageRequestCreated r \<Rightarrow>
       (c\<lparr>sign_message_requests := bt_insert (smr_request_id r) r (sign_message_requests c)\<rparr>,
        [AddSignMessageRequest r])
   | NSignMessageRequestRemoved i \<Rightarrow>
       (c\<lparr>sign_message_requests := bt_remove i (sign_message_requests c)\<rparr>,
        [RemoveSignMessageRequest i])
   | NReceiveAddressRequestCreated r \<Rightarrow>
       (c\<lparr>receive_address_requests := bt_insert (rar_request_id r) r (receive_address_requests c)\<rparr>,
        [AddReceiveAddressRequest r])
   | NReceiveAddressRequestRemoved i \<Rightarrow>
       (c\<lparr>receive_address_requests := bt_remove i (receive_address_requests c)\<rparr>,
        [RemoveReceiveAddressRequest i])
   | NAssetBalanceRequestCreated r \<Rightarrow>
       (c\<lparr>asset_balance_requests := bt_insert (abr_request_id r) r (asset_balance_requests c)\<rparr>,
        [AddAssetBalanceRequest r])
   | NAssetBalanceRequestRemoved i \<Rightarrow>
       (c\<lparr>asset_balance_requests := bt_remove i (asset_balance_requests c)\<rparr>,
        [RemoveAssetBalanceRequest i])
   | NHoldingsUpdated r \<Rightarrow>
       if hr_holdings r = []
       then (c\<lparr>holdings := bt_remove (hr_domain r) (holdings c)\<rparr>, [ClearHoldings (hr_domain r)])
       else (c\<lparr>holdings := bt_insert (hr_domain r) r (holdings c)\<rparr>, [SetHoldings r])
   | NHoldingsRemoved d \<Rightarrow>
       (c\<lparr>holdings := bt_remove d (holdings c)\<rparr>,
        if bt_get (holdings c) d \<noteq> None then [ClearHoldings d] else [])
   | NPayRequestCreated r \<Rightarrow>
       (c\<lparr>pay_requests := bt_insert (pr_request_id r) r (pay_requests c)\<rparr>, [AddPayRequest r])
   | NPayRequestRemoved i \<Rightarrow>
       (c\<lparr>pay_requests := bt_remove i (pay_requests c)\<rparr>, [RemovePayRequest i])
   | NFundRequestCreated r \<Rightarrow>
       (c\<lparr>fund_requests := bt_insert (fr_request_id r) r (fund_requests c)\<rparr>, [AddFundRequest r])
   | NFundRequestRemoved i \<Rightarrow>
       (c\<lparr>fund_requests := bt_remove i (fund_requests c)\<rparr>, [RemoveFundRequest i]))"

definition handle_server_message ::
  "'k session_env \<Rightarrow> bytes \<Rightarrow> from_msg \<Rightarrow> 'k core \<Rightarrow> 'k core \<times> effect list" where
  "handle_server_message env aux m c = (case m of
     FromResp rq r \<Rightarrow> handle_response env aux rq r c
   | FromError rq err \<Rightarrow>
       (case bt_get (user_actions c) rq of
          Some a \<Rightarrow> (c\<lparr>user_actions := bt_remove rq (user_actions c)\<rparr>,
                     [ActionFailed a (err_message err)])
        | None \<Rightarrow> (c, []))
   | FromNotif n \<Rightarrow> handle_notification n c)"

section \<open>User actions\<close>

definition add_user_action ::
  "'k session_env \<Rightarrow> user_action \<Rightarrow> 'k core \<Rightarrow> 'k core \<times> effect list" where
  "add_user_action env a c =
     (let rq = next_action_id c
      in (c\<lparr>next_action_id := wrap_i32 (rq + 1), user_actions := bt_insert rq a (user_actions c)\<rparr>,
          if connected c then [send env rq (ReqUserAction a)] else []))"

definition finish_request :: "string \<Rightarrow> 'k core \<Rightarrow> 'k core \<times> effect list" where
  "finish_request rid c =
     (c\<lparr>mobile_requests := mobile_requests c - {rid}\<rparr>,
      if rid \<in> mobile_requests c then [MinimizeMobileApp] else [])"

text \<open>The shape every answer has: queue the action, when there is one, then finish the
  request.\<close>

definition answer ::
  "'k session_env \<Rightarrow> string \<Rightarrow> user_action option \<Rightarrow> 'k core \<Rightarrow> 'k core \<times> effect list" where
  "answer env rid a c =
     (let (c1, e1) = (case a of None \<Rightarrow> (c, []) | Some a \<Rightarrow> add_user_action env a c);
          (c2, e2) = finish_request rid c1
      in (c2, e1 @ e2))"

definition handle_transport ::
  "'k session_env \<Rightarrow> bytes \<Rightarrow> transport_event \<Rightarrow> 'k core \<Rightarrow> 'k core \<times> effect list" where
  "handle_transport env aux ev c = (case ev of
     Connected \<Rightarrow> (c\<lparr>connected := True\<rparr>, [send env 0 ReqChallenge])
   | Recv text \<Rightarrow>
       (case from_str_json env text of
          Some m \<Rightarrow> handle_server_message env aux m c
        | None \<Rightarrow> (c, []))
   | Disconnected \<Rightarrow> (c\<lparr>connected := False, login_succeed := False\<rparr>, []))"

definition service_wanted :: "'k core \<Rightarrow> string \<Rightarrow> bool" where
  "service_wanted c rid = (case bt_get (login_requests c) rid of
     None \<Rightarrow> False | Some r \<Rightarrow> lr_service_challenge r \<noteq> None)"

definition handle_login_accepted ::
  "'k session_env \<Rightarrow> string \<Rightarrow> service_binding option \<Rightarrow> 'k core \<Rightarrow> 'k core \<times> effect list" where
  "handle_login_accepted env rid binding c =
     (if service_wanted c rid \<and> binding = None
      then (c, [ActionFailed (CancelLoginRequest rid)
                  ''this login needs a service key and none was supplied''])
      else answer env rid
             (Some (AcceptLoginRequest rid (descriptor c)
                      (map_option sb_key binding) (map_option sb_signature binding))) c)"

definition handle_sign_message_accepted ::
  "'k session_env \<Rightarrow> bytes \<Rightarrow> string \<Rightarrow> 'k core \<Rightarrow> 'k core \<times> effect list" where
  "handle_sign_message_accepted env aux rid c =
     answer env rid
       (case sign_message_digest env aux c rid of
          Inr signature \<Rightarrow> Some (AcceptSignMessageRequest rid signature)
        | Inl _ \<Rightarrow> None) c"

definition handle_app_link ::
  "'k session_env \<Rightarrow> app_link \<Rightarrow> 'k core \<Rightarrow> 'k core \<times> effect list" where
  "handle_app_link env al c =
     (let c0 = (if is_mobile al
                then c\<lparr>mobile_requests := insert (al_request_id al) (mobile_requests c)\<rparr> else c)
      in case link_type al of
           LinkOpen \<Rightarrow> (c0, [])
         | LinkLogin \<Rightarrow> add_user_action env (LinkLoginRequest (al_request_id al)) c0
         | LinkSign \<Rightarrow> (c0, []))"

definition handle_register_fcm ::
  "'k session_env \<Rightarrow> string \<Rightarrow> 'k core \<Rightarrow> 'k core \<times> effect list" where
  "handle_register_fcm env token c =
     (let c' = c\<lparr>fcm_token := Some token\<rparr> in (c', send_fcm_token env c'))"

text \<open>Answers that are only sent while the request is live.\<close>

definition if_live :: "bool \<Rightarrow> user_action \<Rightarrow> user_action option" where
  "if_live live a = (if live then Some a else None)"

definition handle_sign_message_signed ::
  "'k session_env \<Rightarrow> string \<Rightarrow> string \<Rightarrow> 'k core \<Rightarrow> 'k core \<times> effect list" where
  "handle_sign_message_signed env rid sig c =
     answer env rid (if_live (contains_key (sign_message_requests c) rid)
       (AcceptSignMessageRequest rid sig)) c"

definition handle_pay_built ::
  "'k session_env \<Rightarrow> string \<Rightarrow> string \<Rightarrow> 'k core \<Rightarrow> 'k core \<times> effect list" where
  "handle_pay_built env rid txid c =
     answer env rid (if_live (contains_key (pay_requests c) rid) (AcceptPayRequest rid txid)) c"

definition handle_receive_address_provided ::
  "'k session_env \<Rightarrow> string \<Rightarrow> string \<Rightarrow> 'k core \<Rightarrow> 'k core \<times> effect list" where
  "handle_receive_address_provided env rid addr c =
     answer env rid (if_live (contains_key (receive_address_requests c) rid)
       (AcceptReceiveAddressRequest rid addr)) c"

definition handle_asset_balance_provided ::
  "'k session_env \<Rightarrow> string \<Rightarrow> u64 \<Rightarrow> 'k core \<Rightarrow> 'k core \<times> effect list" where
  "handle_asset_balance_provided env rid amount c =
     answer env rid (if_live (contains_key (asset_balance_requests c) rid)
       (AcceptAssetBalanceRequest rid amount)) c"

definition handle_fund_signed ::
  "'k session_env \<Rightarrow> string \<Rightarrow> string \<Rightarrow> 'k core \<Rightarrow> 'k core \<times> effect list" where
  "handle_fund_signed env rid pset c =
     answer env rid (if_live (contains_key (fund_requests c) rid) (AcceptFundRequest rid pset)) c"

text \<open>Refusals, and the end of a session: sent whether or not the request is live.\<close>

definition handle_receive_address_rejected :: "'k session_env \<Rightarrow> string \<Rightarrow> 'k core \<Rightarrow> 'k core \<times> effect list" where
  "handle_receive_address_rejected env rid c = answer env rid (Some (CancelReceiveAddressRequest rid)) c"

definition handle_asset_balance_rejected :: "'k session_env \<Rightarrow> string \<Rightarrow> 'k core \<Rightarrow> 'k core \<times> effect list" where
  "handle_asset_balance_rejected env rid c = answer env rid (Some (CancelAssetBalanceRequest rid)) c"

definition handle_pay_rejected :: "'k session_env \<Rightarrow> string \<Rightarrow> 'k core \<Rightarrow> 'k core \<times> effect list" where
  "handle_pay_rejected env rid c = answer env rid (Some (CancelPayRequest rid)) c"

definition handle_fund_rejected :: "'k session_env \<Rightarrow> string \<Rightarrow> 'k core \<Rightarrow> 'k core \<times> effect list" where
  "handle_fund_rejected env rid c = answer env rid (Some (CancelFundRequest rid)) c"

definition handle_stop_session :: "'k session_env \<Rightarrow> string \<Rightarrow> 'k core \<Rightarrow> 'k core \<times> effect list" where
  "handle_stop_session env sid c = add_user_action env (StopSessionAction sid) c"

definition handle ::
  "'k session_env \<Rightarrow> bytes \<Rightarrow> input \<Rightarrow> 'k core \<Rightarrow> 'k core \<times> effect list" where
  "handle env aux i c = (case i of
     Transport ev \<Rightarrow> handle_transport env aux ev c
   | LoginAccepted rid binding \<Rightarrow> handle_login_accepted env rid binding c
   | LoginRejected rid \<Rightarrow> answer env rid (Some (CancelLoginRequest rid)) c
   | SignAccepted rid pset \<Rightarrow> answer env rid (Some (AcceptSignRequest rid pset)) c
   | SignRejected rid \<Rightarrow> answer env rid (Some (CancelSignRequest rid)) c
   | SignMessageAccepted rid \<Rightarrow> handle_sign_message_accepted env aux rid c
   | SignMessageSigned rid sig \<Rightarrow> handle_sign_message_signed env rid sig c
   | SignMessageRejected rid \<Rightarrow> answer env rid (Some (CancelSignMessageRequest rid)) c
   | PayBuilt rid txid \<Rightarrow> handle_pay_built env rid txid c
   | ReceiveAddressProvided rid addr \<Rightarrow> handle_receive_address_provided env rid addr c
   | ReceiveAddressRejected rid \<Rightarrow> handle_receive_address_rejected env rid c
   | AssetBalanceProvided rid amount \<Rightarrow> handle_asset_balance_provided env rid amount c
   | AssetBalanceRejected rid \<Rightarrow> handle_asset_balance_rejected env rid c
   | PayRejected rid \<Rightarrow> handle_pay_rejected env rid c
   | FundSigned rid pset \<Rightarrow> handle_fund_signed env rid pset c
   | FundRejected rid \<Rightarrow> handle_fund_rejected env rid c
   | RegisterFcmToken token \<Rightarrow> handle_register_fcm env token c
   | StopSession sid \<Rightarrow> handle_stop_session env sid c
   | AppLinkInput al \<Rightarrow> handle_app_link env al c)"

lemmas handle_arms = handle_def handle_sign_message_signed_def handle_pay_built_def
  handle_receive_address_provided_def handle_asset_balance_provided_def handle_fund_signed_def
  handle_receive_address_rejected_def handle_asset_balance_rejected_def handle_pay_rejected_def
  handle_fund_rejected_def handle_stop_session_def

text \<open>Read access for the host.\<close>

definition get_login_request :: "'k core \<Rightarrow> string \<Rightarrow> login_request option" where
  "get_login_request c rid = bt_get (login_requests c) rid"

definition get_sign_request :: "'k core \<Rightarrow> string \<Rightarrow> sign_request option" where
  "get_sign_request c rid = bt_get (sign_requests c) rid"

definition get_sign_message_request :: "'k core \<Rightarrow> string \<Rightarrow> sign_message_request option" where
  "get_sign_message_request c rid = bt_get (sign_message_requests c) rid"

definition get_pay_request :: "'k core \<Rightarrow> string \<Rightarrow> pay_request option" where
  "get_pay_request c rid = bt_get (pay_requests c) rid"

definition get_fund_request :: "'k core \<Rightarrow> string \<Rightarrow> fund_request option" where
  "get_fund_request c rid = bt_get (fund_requests c) rid"

text \<open>A session: the inputs in order, each with the auxiliary bytes of its step.\<close>

fun run_core ::
  "'k session_env \<Rightarrow> (bytes \<times> input) list \<Rightarrow> 'k core \<Rightarrow> 'k core \<times> effect list" where
  "run_core env [] c = (c, [])"
| "run_core env ((aux, i) # is) c =
     (let (c1, e1) = handle env aux i c; (c2, e2) = run_core env is c1 in (c2, e1 @ e2))"

end
