(* ===== verification/Session_Store.thy ===== *)
theory Session_Store
  imports Session_Core
begin

text \<open>
  The request stores of the session core.  First the contract every store keeps (each
  entry sits under its own request id) and what the login synchronisation does to a
  store.  Then the host's side of the contract: a host that folds the Add/Remove effects
  into its own maps holds exactly what the core holds.  The locale \<open>mirrored_store\<close>
  states it for one store and is interpreted on each of the core's stores.
\<close>

section \<open>Keyed stores\<close>

definition keyed :: "('r \<Rightarrow> string) \<Rightarrow> (string, 'r) btree \<Rightarrow> bool" where
  "keyed rid m \<longleftrightarrow> bt_wf m \<and> (\<forall>k r. bt_get m k = Some r \<longrightarrow> rid r = k)"

lemma keyed_Nil [simp]: "keyed rid []"
  by (simp add: keyed_def)

lemma keyed_insert [simp]: "keyed rid m \<Longrightarrow> keyed rid (bt_insert (rid r) r m)"
  by (auto simp: keyed_def bt_get_insert)

lemma keyed_remove [simp]: "keyed rid m \<Longrightarrow> keyed rid (bt_remove k m)"
  by (auto simp: keyed_def bt_get_remove)

lemma keyed_remove_list: "keyed rid m \<Longrightarrow> keyed rid (foldl (\<lambda>m k. bt_remove k m) m ks)"
  by (induction ks arbitrary: m) auto

lemma keyed_sync_add: "keyed rid m \<Longrightarrow> keyed rid (fst (sync_add rid m rs))"
  by (induction rs arbitrary: m) (auto simp: Let_def case_prod_unfold)

lemma keyed_sync_store: "keyed rid m \<Longrightarrow> keyed rid (fst (sync_store rid add rem m rs))"
  by (simp add: sync_store_def Let_def case_prod_unfold keyed_sync_add keyed_remove_list)

section \<open>What the synchronisation leaves in a store\<close>

lemma sync_add_eq_foldl:
  "fst (sync_add rid m rs)
     = foldl (\<lambda>m r. if bt_get m (rid r) = None then bt_insert (rid r) r m else m) m rs"
  by (induction rs arbitrary: m) (auto simp: contains_key_def Let_def case_prod_unfold)

lemma sync_add_get:
  "bt_get (fst (sync_add rid m rs)) k
     = (case bt_get m k of Some r \<Rightarrow> Some r | None \<Rightarrow> find (\<lambda>r. rid r = k) rs)"
  unfolding sync_add_eq_foldl by (rule bt.get_ins_new)

lemma find_rid_None: "find (\<lambda>r. rid r = k) rs = None \<longleftrightarrow> k \<notin> rid ` set rs"
  by (auto simp: find_None_iff)

lemma sync_store_get:
  "bt_get (fst (sync_store rid add rem m rs)) k
     = (if k \<in> rid ` set rs
        then (case bt_get m k of Some r \<Rightarrow> Some r | None \<Rightarrow> find (\<lambda>r. rid r = k) rs)
        else None)"
proof -
  let ?gone = "filter (\<lambda>k. k \<notin> set (map rid rs)) (bt_keys m)"
  let ?m = "foldl (\<lambda>m k. bt_remove k m) m ?gone"
  have fst: "fst (sync_store rid add rem m rs) = fst (sync_add rid ?m rs)"
    by (simp only: sync_store_def Let_def case_prod_unfold fst_conv)
  have get: "bt_get ?m k = (if k \<in> rid ` set rs then bt_get m k else None)"
    using bt_get_None_iff [of m k] by (auto simp: bt.get_del_list)
  show ?thesis
    by (simp only: fst sync_add_get get) (simp add: find_rid_None)
qed

section \<open>The host's mirror\<close>

record host_view =
  hv_login :: "string \<rightharpoonup> login_request"
  hv_sign :: "string \<rightharpoonup> sign_request"
  hv_sign_message :: "string \<rightharpoonup> sign_message_request"
  hv_receive_address :: "string \<rightharpoonup> receive_address_request"
  hv_asset_balance :: "string \<rightharpoonup> asset_balance_request"
  hv_holdings :: "string \<rightharpoonup> holdings_report"
  hv_pay :: "string \<rightharpoonup> pay_request"
  hv_fund :: "string \<rightharpoonup> fund_request"

fun apply_effect :: "effect \<Rightarrow> host_view \<Rightarrow> host_view" where
  "apply_effect (AddLoginRequest r) h = h\<lparr>hv_login := (hv_login h)(lr_request_id r \<mapsto> r)\<rparr>"
| "apply_effect (RemoveLoginRequest i) h = h\<lparr>hv_login := (hv_login h)(i := None)\<rparr>"
| "apply_effect (AddSignRequest r) h = h\<lparr>hv_sign := (hv_sign h)(sr_request_id r \<mapsto> r)\<rparr>"
| "apply_effect (RemoveSignRequest i) h = h\<lparr>hv_sign := (hv_sign h)(i := None)\<rparr>"
| "apply_effect (AddSignMessageRequest r) h =
     h\<lparr>hv_sign_message := (hv_sign_message h)(smr_request_id r \<mapsto> r)\<rparr>"
| "apply_effect (RemoveSignMessageRequest i) h =
     h\<lparr>hv_sign_message := (hv_sign_message h)(i := None)\<rparr>"
| "apply_effect (AddReceiveAddressRequest r) h =
     h\<lparr>hv_receive_address := (hv_receive_address h)(rar_request_id r \<mapsto> r)\<rparr>"
| "apply_effect (RemoveReceiveAddressRequest i) h =
     h\<lparr>hv_receive_address := (hv_receive_address h)(i := None)\<rparr>"
| "apply_effect (AddAssetBalanceRequest r) h =
     h\<lparr>hv_asset_balance := (hv_asset_balance h)(abr_request_id r \<mapsto> r)\<rparr>"
| "apply_effect (RemoveAssetBalanceRequest i) h =
     h\<lparr>hv_asset_balance := (hv_asset_balance h)(i := None)\<rparr>"
| "apply_effect (SetHoldings r) h = h\<lparr>hv_holdings := (hv_holdings h)(hr_domain r \<mapsto> r)\<rparr>"
| "apply_effect (ClearHoldings d) h = h\<lparr>hv_holdings := (hv_holdings h)(d := None)\<rparr>"
| "apply_effect (AddPayRequest r) h = h\<lparr>hv_pay := (hv_pay h)(pr_request_id r \<mapsto> r)\<rparr>"
| "apply_effect (RemovePayRequest i) h = h\<lparr>hv_pay := (hv_pay h)(i := None)\<rparr>"
| "apply_effect (AddFundRequest r) h = h\<lparr>hv_fund := (hv_fund h)(fr_request_id r \<mapsto> r)\<rparr>"
| "apply_effect (RemoveFundRequest i) h = h\<lparr>hv_fund := (hv_fund h)(i := None)\<rparr>"
| "apply_effect (Send d) h = h"
| "apply_effect (SessionList ss) h = h"
| "apply_effect (SessionCreated s) h = h"
| "apply_effect (SessionRemoved i) h = h"
| "apply_effect MinimizeMobileApp h = h"
| "apply_effect (ActionFailed a m) h = h"

definition core_view :: "'k core \<Rightarrow> host_view" where
  "core_view c =
     \<lparr>hv_login = bt_get (login_requests c), hv_sign = bt_get (sign_requests c),
      hv_sign_message = bt_get (sign_message_requests c),
      hv_receive_address = bt_get (receive_address_requests c),
      hv_asset_balance = bt_get (asset_balance_requests c),
      hv_holdings = bt_get (holdings c), hv_pay = bt_get (pay_requests c),
      hv_fund = bt_get (fund_requests c)\<rparr>"

text \<open>The contract between one store of the core and the host's copy of it: the two
  effects act on the host's map for this store and on nothing else.\<close>

locale mirrored_store =
  fixes rid :: "'r \<Rightarrow> string"
    and add :: "'r \<Rightarrow> effect"
    and rem :: "string \<Rightarrow> effect"
    and look :: "host_view \<Rightarrow> string \<rightharpoonup> 'r"
    and put :: "(string \<rightharpoonup> 'r) \<Rightarrow> host_view \<Rightarrow> host_view"
  assumes apply_add: "apply_effect (add r) h = put ((look h)(rid r \<mapsto> r)) h"
    and apply_rem: "apply_effect (rem k) h = put ((look h)(k := None)) h"
    and look_put: "look (put m h) = m"
    and put_put: "put m (put m' h) = put m h"
    and put_look: "put (look h) h = h"
begin

lemma fold_rem:
  "fold apply_effect (map rem ks) h = put (\<lambda>k. if k \<in> set ks then None else look h k) h"
proof (induction ks arbitrary: h)
  case Nil
  then show ?case by (simp add: put_look)
next
  case (Cons k ks)
  have "(\<lambda>k'. if k' \<in> set ks then None else ((look h)(k := None)) k')
      = (\<lambda>k'. if k' \<in> set (k # ks) then None else look h k')"
    by auto
  then show ?case by (simp only: list.map fold_simps Cons.IH apply_rem look_put put_put)
qed

lemma fold_sync_add:
  "look h = bt_get m \<Longrightarrow>
   fold apply_effect (map add (snd (sync_add rid m rs))) h = put (bt_get (fst (sync_add rid m rs))) h"
proof (induction rs arbitrary: m h)
  case Nil
  then show ?case by (metis fold_simps(1) fst_conv list.map(1) put_look snd_conv sync_add.simps(1))
next
  case (Cons r rs)
  have upd: "(bt_get m)(rid r \<mapsto> r) = bt_get (bt_insert (rid r) r m)"
    by (auto simp: bt_get_insert)
  show ?case
    using Cons.IH [of "put (bt_get (bt_insert (rid r) r m)) h" "bt_insert (rid r) r m"] Cons
    by (simp add: Let_def case_prod_unfold apply_add look_put put_put upd)
qed

lemma mirror_sync_store:
  assumes "look h = bt_get m" and "sync_store rid add rem m rs = (m', es)"
  shows "fold apply_effect es h = put (bt_get m') h"
proof -
  let ?gone = "filter (\<lambda>k. k \<notin> set (map rid rs)) (bt_keys m)"
  let ?m = "foldl (\<lambda>m k. bt_remove k m) m ?gone"
  let ?h = "fold apply_effect (map rem ?gone) h"
  have m': "m' = fst (sync_add rid ?m rs)"
    and es: "es = map rem ?gone @ map add (snd (sync_add rid ?m rs))"
    using assms(2) by (simp_all only: sync_store_def Let_def case_prod_unfold prod.inject)
  have h: "?h = put (bt_get ?m) h"
    unfolding fold_rem assms(1) bt.get_del_list ..
  then have "look ?h = bt_get ?m" by (simp add: look_put)
  from fold_sync_add [OF this, of rs] show ?thesis
    by (simp only: es m' fold_append comp_apply h put_put)
qed

lemma mirror_insert:
  "look h = bt_get m \<Longrightarrow> apply_effect (add r) h = put (bt_get (bt_insert (rid r) r m)) h"
  unfolding apply_add by (rule arg_cong2 [where f = put]) (auto simp: bt_get_insert)

lemma mirror_remove:
  "look h = bt_get m \<Longrightarrow> apply_effect (rem k) h = put (bt_get (bt_remove k m)) h"
  unfolding apply_rem by (rule arg_cong2 [where f = put]) (auto simp: bt_get_remove)

end

interpretation login_store: mirrored_store lr_request_id AddLoginRequest RemoveLoginRequest
  hv_login "\<lambda>m h. h\<lparr>hv_login := m\<rparr>"
  by unfold_locales simp_all

interpretation sign_store: mirrored_store sr_request_id AddSignRequest RemoveSignRequest
  hv_sign "\<lambda>m h. h\<lparr>hv_sign := m\<rparr>"
  by unfold_locales simp_all

interpretation sign_message_store: mirrored_store smr_request_id AddSignMessageRequest
  RemoveSignMessageRequest hv_sign_message "\<lambda>m h. h\<lparr>hv_sign_message := m\<rparr>"
  by unfold_locales simp_all

interpretation receive_address_store: mirrored_store rar_request_id AddReceiveAddressRequest
  RemoveReceiveAddressRequest hv_receive_address "\<lambda>m h. h\<lparr>hv_receive_address := m\<rparr>"
  by unfold_locales simp_all

interpretation asset_balance_store: mirrored_store abr_request_id AddAssetBalanceRequest
  RemoveAssetBalanceRequest hv_asset_balance "\<lambda>m h. h\<lparr>hv_asset_balance := m\<rparr>"
  by unfold_locales simp_all

interpretation holdings_store: mirrored_store hr_domain SetHoldings ClearHoldings
  hv_holdings "\<lambda>m h. h\<lparr>hv_holdings := m\<rparr>"
  by unfold_locales simp_all

interpretation pay_store: mirrored_store pr_request_id AddPayRequest RemovePayRequest
  hv_pay "\<lambda>m h. h\<lparr>hv_pay := m\<rparr>"
  by unfold_locales simp_all

interpretation fund_store: mirrored_store fr_request_id AddFundRequest RemoveFundRequest
  hv_fund "\<lambda>m h. h\<lparr>hv_fund := m\<rparr>"
  by unfold_locales simp_all

end
