(* ===== verification/Session_Props.thy ===== *)
theory Session_Props
  imports Session_Store
begin

text \<open>
  Properties of the session core: the state invariant, the action queue as a step
  relation, where every queued action comes from, that approvals survive a
  disconnection, and that the host's mirror follows the core through every input.
\<close>

section \<open>Invariants and the queue relation\<close>

definition actions_wf :: "nat \<Rightarrow> (req_id, user_action) btree \<Rightarrow> req_id \<Rightarrow> bool" where
  "actions_wf n q next \<longleftrightarrow>
     bt_wf q \<and> 1 \<le> next \<and> next \<le> int n + 1 \<and> (\<forall>k \<in> set (bt_keys q). 1 \<le> k \<and> k < next)"

definition stores_wf :: "'k core \<Rightarrow> bool" where
  "stores_wf c \<longleftrightarrow>
     keyed lr_request_id (login_requests c) \<and> keyed sr_request_id (sign_requests c)
     \<and> keyed smr_request_id (sign_message_requests c)
     \<and> keyed rar_request_id (receive_address_requests c)
     \<and> keyed abr_request_id (asset_balance_requests c)
     \<and> keyed hr_domain (holdings c)
     \<and> keyed pr_request_id (pay_requests c) \<and> keyed fr_request_id (fund_requests c)
     \<and> (\<forall>d r. bt_get (holdings c) d = Some r \<longrightarrow> hr_holdings r \<noteq> [])"

text \<open>\<open>core_wf n c\<close>: the state after at most \<open>n\<close> inputs.\<close>

definition core_wf :: "nat \<Rightarrow> 'k core \<Rightarrow> bool" where
  "core_wf n c \<longleftrightarrow> stores_wf c \<and> actions_wf n (user_actions c) (next_action_id c)"

text \<open>What one input can do to the queue of user actions.\<close>

inductive queue_step ::
  "(req_id, user_action) btree \<times> req_id \<Rightarrow> (req_id, user_action) btree \<times> req_id \<Rightarrow> bool" where
  queue_keep: "queue_step (q, n) (q, n)"
| queue_settle: "queue_step (q, n) (bt_remove k q, n)"
| queue_add: "queue_step (q, n) (bt_insert n a q, wrap_i32 (n + 1))"

inductive_cases queue_stepE: "queue_step (q, n) (q', n')"

abbreviation queue_of :: "'k core \<Rightarrow> (req_id, user_action) btree \<times> req_id" where
  "queue_of c \<equiv> (user_actions c, next_action_id c)"

text \<open>An input that settles action \<open>k\<close>: the server's answer or refusal for it.\<close>

definition settles :: "'k session_env \<Rightarrow> req_id \<Rightarrow> input \<Rightarrow> bool" where
  "settles env k i = (case i of
     Transport (Recv t) \<Rightarrow>
       (case from_str_json env t of
          Some (FromResp rq RespUserAction) \<Rightarrow> rq = k
        | Some (FromError rq _) \<Rightarrow> rq = k
        | _ \<Rightarrow> False)
   | _ \<Rightarrow> False)"

text \<open>Whether an answer names a request the core still holds, by the store of its kind; \<open>None\<close> for
  inputs that are not answers.\<close>

fun answers_live :: "input \<Rightarrow> host_view \<Rightarrow> bool option" where
  "answers_live (LoginAccepted rid b) h = Some (hv_login h rid \<noteq> None)"
| "answers_live (LoginRejected rid) h = Some (hv_login h rid \<noteq> None)"
| "answers_live (SignAccepted rid p) h = Some (hv_sign h rid \<noteq> None)"
| "answers_live (SignRejected rid) h = Some (hv_sign h rid \<noteq> None)"
| "answers_live (SignMessageAccepted rid) h = Some (hv_sign_message h rid \<noteq> None)"
| "answers_live (SignMessageSigned rid s) h = Some (hv_sign_message h rid \<noteq> None)"
| "answers_live (SignMessageRejected rid) h = Some (hv_sign_message h rid \<noteq> None)"
| "answers_live (ReceiveAddressProvided rid a) h = Some (hv_receive_address h rid \<noteq> None)"
| "answers_live (ReceiveAddressRejected rid) h = Some (hv_receive_address h rid \<noteq> None)"
| "answers_live (AssetBalanceProvided rid v) h = Some (hv_asset_balance h rid \<noteq> None)"
| "answers_live (AssetBalanceRejected rid) h = Some (hv_asset_balance h rid \<noteq> None)"
| "answers_live (PayBuilt rid t) h = Some (hv_pay h rid \<noteq> None)"
| "answers_live (PayRejected rid) h = Some (hv_pay h rid \<noteq> None)"
| "answers_live (FundSigned rid p) h = Some (hv_fund h rid \<noteq> None)"
| "answers_live (FundRejected rid) h = Some (hv_fund h rid \<noteq> None)"
| "answers_live _ h = None"

text \<open>What an answer still sends when its request is gone: the acceptance of a login or of a transaction
  and every refusal go out all the same; the other acceptances are looked up first and do not.\<close>

fun late_action :: "string \<Rightarrow> input \<Rightarrow> user_action option" where
  "late_action desc (LoginAccepted rid b)
     = Some (AcceptLoginRequest rid desc (map_option sb_key b) (map_option sb_signature b))"
| "late_action desc (LoginRejected rid) = Some (CancelLoginRequest rid)"
| "late_action desc (SignAccepted rid p) = Some (AcceptSignRequest rid p)"
| "late_action desc (SignRejected rid) = Some (CancelSignRequest rid)"
| "late_action desc (SignMessageRejected rid) = Some (CancelSignMessageRequest rid)"
| "late_action desc (ReceiveAddressRejected rid) = Some (CancelReceiveAddressRequest rid)"
| "late_action desc (AssetBalanceRejected rid) = Some (CancelAssetBalanceRequest rid)"
| "late_action desc (PayRejected rid) = Some (CancelPayRequest rid)"
| "late_action desc (FundRejected rid) = Some (CancelFundRequest rid)"
| "late_action desc _ = None"

fun answered_request :: "input \<Rightarrow> string option" where
  "answered_request (LoginAccepted rid b) = Some rid"
| "answered_request (LoginRejected rid) = Some rid"
| "answered_request (SignAccepted rid p) = Some rid"
| "answered_request (SignRejected rid) = Some rid"
| "answered_request (SignMessageAccepted rid) = Some rid"
| "answered_request (SignMessageSigned rid s) = Some rid"
| "answered_request (SignMessageRejected rid) = Some rid"
| "answered_request (ReceiveAddressProvided rid a) = Some rid"
| "answered_request (ReceiveAddressRejected rid) = Some rid"
| "answered_request (AssetBalanceProvided rid v) = Some rid"
| "answered_request (AssetBalanceRejected rid) = Some rid"
| "answered_request (PayBuilt rid t) = Some rid"
| "answered_request (PayRejected rid) = Some rid"
| "answered_request (FundSigned rid p) = Some rid"
| "answered_request (FundRejected rid) = Some rid"
| "answered_request _ = None"

section \<open>Unfolding lemmas for the operations\<close>

lemmas sync_defs = sync_sign_requests_def sync_sign_message_requests_def sync_pay_requests_def
  sync_fund_requests_def sync_receive_address_requests_def sync_asset_balance_requests_def
  sync_holdings_def

lemmas handle_defs = handle_arms handle_login_accepted_def handle_sign_message_accepted_def
  handle_app_link_def handle_register_fcm_def

lemma answer_queue:
  "queue_of (fst (answer env rid a c)) =
     (case a of None \<Rightarrow> queue_of c
      | Some x \<Rightarrow> (bt_insert (next_action_id c) x (user_actions c), wrap_i32 (next_action_id c + 1)))"
  by (simp add: answer_def add_user_action_def finish_request_def Let_def split: option.split)

lemma answer_user_actions:
  "user_actions (fst (answer env rid a c)) =
     (case a of None \<Rightarrow> user_actions c | Some x \<Rightarrow> bt_insert (next_action_id c) x (user_actions c))"
  by (simp add: answer_def add_user_action_def finish_request_def Let_def split: option.split)

lemma answer_next:
  "next_action_id (fst (answer env rid a c)) =
     (case a of None \<Rightarrow> next_action_id c | Some x \<Rightarrow> wrap_i32 (next_action_id c + 1))"
  using answer_queue [of env rid a c] by (simp split: option.splits)

lemma answer_effects:
  "snd (answer env rid a c) =
     (case a of None \<Rightarrow> []
      | Some x \<Rightarrow> if connected c then [send env (next_action_id c) (ReqUserAction x)] else [])
     @ (if rid \<in> mobile_requests c then [MinimizeMobileApp] else [])"
  by (simp add: answer_def add_user_action_def finish_request_def Let_def split: option.split)

lemma answer_view [simp]: "core_view (fst (answer env rid a c)) = core_view c"
  by (simp add: answer_def add_user_action_def finish_request_def core_view_def Let_def
      split: option.split)

lemma answer_mobile: "mobile_requests (fst (answer env rid a c)) = mobile_requests c - {rid}"
  by (simp add: answer_def add_user_action_def finish_request_def Let_def split: option.split)

lemma add_user_action_queue:
  "queue_of (fst (add_user_action env a c)) =
     (bt_insert (next_action_id c) a (user_actions c), wrap_i32 (next_action_id c + 1))"
  by (simp add: add_user_action_def Let_def)

lemma add_user_action_effects:
  "snd (add_user_action env a c)
     = (if connected c then [send env (next_action_id c) (ReqUserAction a)] else [])"
  by (simp add: add_user_action_def Let_def)

lemma add_user_action_view [simp]: "core_view (fst (add_user_action env a c)) = core_view c"
  by (simp add: add_user_action_def core_view_def Let_def)

lemma sync_queue:
  "queue_of (fst (sync_sign_requests r1 c)) = queue_of c"
  "queue_of (fst (sync_sign_message_requests r2 c)) = queue_of c"
  "queue_of (fst (sync_pay_requests r3 c)) = queue_of c"
  "queue_of (fst (sync_fund_requests r4 c)) = queue_of c"
  "queue_of (fst (sync_receive_address_requests r5 c)) = queue_of c"
  "queue_of (fst (sync_asset_balance_requests r6 c)) = queue_of c"
  "queue_of (fst (sync_holdings r7 c)) = queue_of c"
  by (simp_all add: sync_defs Let_def case_prod_unfold)

lemma handle_login_resp_fst:
  "fst (handle_login_resp env lr c) =
     fst (sync_holdings (resp_holdings lr) (fst (sync_asset_balance_requests
       (resp_asset_balance_requests lr) (fst (sync_receive_address_requests
       (resp_receive_address_requests lr) (fst (sync_fund_requests (resp_fund_requests lr)
       (fst (sync_pay_requests (resp_pay_requests lr) (fst (sync_sign_message_requests
       (resp_sign_message_requests lr) (fst (sync_sign_requests (resp_sign_requests lr)
       (c\<lparr>login_succeed := True\<rparr>))))))))))))))"
  by (simp add: handle_login_resp_def Let_def case_prod_unfold)

lemma handle_login_resp_queue: "queue_of (fst (handle_login_resp env lr c)) = queue_of c"
  unfolding handle_login_resp_fst by (simp only: sync_queue) simp

lemma handle_notification_queue: "queue_of (fst (handle_notification n c)) = queue_of c"
  by (cases n) (simp_all add: handle_notification_def)

lemma handle_transport_queue:
  "queue_of (fst (handle_transport env aux ev c)) = queue_of c
   \<or> (\<exists>k. settles env k (Transport ev)
        \<and> queue_of (fst (handle_transport env aux ev c)) = (bt_remove k (user_actions c), next_action_id c))"
  by (auto simp: handle_transport_def handle_server_message_def handle_response_def settles_def
      handle_login_resp_queue [unfolded prod.inject] handle_notification_queue [unfolded prod.inject]
      split: transport_event.split option.split from_msg.split resp.split)


lemma handle_queue_step: "queue_step (queue_of c) (queue_of (fst (handle env aux i c)))"
proof (cases i)
  case (Transport ev)
  then show ?thesis
    using handle_transport_queue [of env aux ev c]
    by (auto simp: handle_defs intro: queue_step.intros)
qed (auto simp: handle_defs answer_queue [unfolded prod.inject] add_user_action_queue [unfolded prod.inject]
      Let_def if_live_def split: option.split sum.split link_type.split intro: queue_step.intros)

section \<open>The invariant\<close>

lemma actions_wf_step:
  assumes "queue_step (q, n) (q', n')" and "actions_wf m q n" and "Suc m < 2 ^ 31 - 1"
  shows "actions_wf (Suc m) q' n'"
proof -
  have "wrap_i32 (n + 1) = n + 1"
    using assms(2,3) by (intro wrap_i32_id) (auto simp: actions_wf_def)
  with assms(1,2) show ?thesis
    by (elim queue_stepE) (auto simp: actions_wf_def keys_remove set_keys_insert)
qed

lemma stores_wf_new [simp]: "stores_wf (new_core i d k)"
  by (simp add: stores_wf_def new_core_def)

lemma stores_wf_frame:
  assumes "stores_wf c" and "login_requests c' = login_requests c" "sign_requests c' = sign_requests c"
    "sign_message_requests c' = sign_message_requests c"
    "receive_address_requests c' = receive_address_requests c"
    "asset_balance_requests c' = asset_balance_requests c" "holdings c' = holdings c"
    "pay_requests c' = pay_requests c" "fund_requests c' = fund_requests c"
  shows "stores_wf c'"
  using assms by (simp add: stores_wf_def)

lemma stores_wf_upd [simp]:
  "stores_wf (c\<lparr>mobile_requests := ms\<rparr>) = stores_wf c"
  "stores_wf (c\<lparr>connected := b\<rparr>) = stores_wf c"
  "stores_wf (c\<lparr>login_succeed := b\<rparr>) = stores_wf c"
  "stores_wf (c\<lparr>fcm_token := t\<rparr>) = stores_wf c"
  "stores_wf (c\<lparr>user_actions := q\<rparr>) = stores_wf c"
  by (simp_all add: stores_wf_def)

lemma answer_stores_wf: "stores_wf c \<Longrightarrow> stores_wf (fst (answer env rid a c))"
  by (erule stores_wf_frame)
     (simp_all add: answer_def add_user_action_def finish_request_def Let_def split: option.split)

lemma add_user_action_stores_wf: "stores_wf c \<Longrightarrow> stores_wf (fst (add_user_action env a c))"
  by (erule stores_wf_frame) (simp_all add: add_user_action_def Let_def)

lemma restate_holdings_wf:
  "keyed hr_domain m \<Longrightarrow> \<forall>d r. bt_get m d = Some r \<longrightarrow> hr_holdings r \<noteq> [] \<Longrightarrow>
   keyed hr_domain (fst (restate_holdings m rs))
   \<and> (\<forall>d r. bt_get (fst (restate_holdings m rs)) d = Some r \<longrightarrow> hr_holdings r \<noteq> [])"
proof (induction rs arbitrary: m)
  case (Cons r rs)
  show ?case
  proof (cases "hr_holdings r = []")
    case False
    have "\<forall>d r'. bt_get (bt_insert (hr_domain r) r m) d = Some r' \<longrightarrow> hr_holdings r' \<noteq> []"
      using False Cons.prems(2) by (simp add: bt_get_insert)
    with Cons.IH [OF keyed_insert [OF Cons.prems(1)] this] False show ?thesis
      by (simp add: Let_def case_prod_unfold)
  qed (use Cons in simp)
qed simp

lemma sync_stores_wf:
  assumes "stores_wf c"
  shows "stores_wf (fst (sync_sign_requests r1 c))"
    and "stores_wf (fst (sync_sign_message_requests r2 c))"
    and "stores_wf (fst (sync_pay_requests r3 c))"
    and "stores_wf (fst (sync_fund_requests r4 c))"
    and "stores_wf (fst (sync_receive_address_requests r5 c))"
    and "stores_wf (fst (sync_asset_balance_requests r6 c))"
  using assms by (simp_all add: sync_defs stores_wf_def Let_def case_prod_unfold keyed_sync_store)

lemma sync_holdings_stores_wf: "stores_wf c \<Longrightarrow> stores_wf (fst (sync_holdings rs c))"
proof -
  assume wf: "stores_wf c"
  let ?m = "foldl (\<lambda>m d. bt_remove d m) (holdings c)
      (filter (\<lambda>d. d \<notin> set (map hr_domain rs)) (bt_keys (holdings c)))"
  have "keyed hr_domain ?m" and "\<forall>d r. bt_get ?m d = Some r \<longrightarrow> hr_holdings r \<noteq> []"
    using wf by (auto simp: stores_wf_def bt.get_del_list intro: keyed_remove_list)
  from restate_holdings_wf [OF this, of rs] wf show ?thesis
    by (simp add: sync_holdings_def stores_wf_def Let_def case_prod_unfold)
qed

lemma handle_login_resp_stores_wf: "stores_wf c \<Longrightarrow> stores_wf (fst (handle_login_resp env lr c))"
  unfolding handle_login_resp_fst
  by (intro sync_stores_wf sync_holdings_stores_wf) simp

lemma handle_notification_stores_wf: "stores_wf c \<Longrightarrow> stores_wf (fst (handle_notification n c))"
  by (cases n) (auto simp: handle_notification_def stores_wf_def bt_get_insert bt_get_remove)

lemma handle_stores_wf: "stores_wf c \<Longrightarrow> stores_wf (fst (handle env aux i c))"
proof (cases i)
  case (Transport ev)
  assume "stores_wf c"
  with Transport show ?thesis
    by (auto simp: handle_defs handle_transport_def handle_server_message_def handle_response_def
        handle_login_resp_stores_wf handle_notification_stores_wf
        split: transport_event.split option.split from_msg.split resp.split)
qed (auto simp: handle_defs answer_stores_wf add_user_action_stores_wf Let_def split: link_type.split)

lemma core_wf_step: "core_wf n c \<Longrightarrow> Suc n < 2 ^ 31 - 1 \<Longrightarrow> core_wf (Suc n) (fst (handle env aux i c))"
  using actions_wf_step [OF handle_queue_step] by (auto simp: core_wf_def handle_stores_wf)

lemma core_wf_run:
  "core_wf n c \<Longrightarrow> n + length is < 2 ^ 31 - 1 \<Longrightarrow> core_wf (n + length is) (fst (run_core env is c))"
proof (induction "is" arbitrary: n c)
  case (Cons ai "is")
  obtain aux i where ai: "ai = (aux, i)" by (cases ai)
  from Cons.prems have "core_wf (Suc n) (fst (handle env aux i c))"
    by (intro core_wf_step) auto
  from Cons.IH [OF this] Cons.prems(2) show ?case
    by (simp add: ai Let_def case_prod_unfold)
qed simp

lemma core_wf_new: "core_wf 0 (new_core iid d k)"
  by (simp add: core_wf_def) (simp add: new_core_def actions_wf_def)

section \<open>The host's mirror follows every input\<close>

lemma core_view_upd [simp]:
  "core_view (c\<lparr>login_requests := m1\<rparr>) = (core_view c)\<lparr>hv_login := bt_get m1\<rparr>"
  "core_view (c\<lparr>sign_requests := m2\<rparr>) = (core_view c)\<lparr>hv_sign := bt_get m2\<rparr>"
  "core_view (c\<lparr>sign_message_requests := m3\<rparr>) = (core_view c)\<lparr>hv_sign_message := bt_get m3\<rparr>"
  "core_view (c\<lparr>receive_address_requests := m4\<rparr>) = (core_view c)\<lparr>hv_receive_address := bt_get m4\<rparr>"
  "core_view (c\<lparr>asset_balance_requests := m5\<rparr>) = (core_view c)\<lparr>hv_asset_balance := bt_get m5\<rparr>"
  "core_view (c\<lparr>holdings := m6\<rparr>) = (core_view c)\<lparr>hv_holdings := bt_get m6\<rparr>"
  "core_view (c\<lparr>pay_requests := m7\<rparr>) = (core_view c)\<lparr>hv_pay := bt_get m7\<rparr>"
  "core_view (c\<lparr>fund_requests := m8\<rparr>) = (core_view c)\<lparr>hv_fund := bt_get m8\<rparr>"
  "core_view (c\<lparr>user_actions := q\<rparr>) = core_view c"
  "core_view (c\<lparr>mobile_requests := ms\<rparr>) = core_view c"
  "core_view (c\<lparr>connected := b\<rparr>) = core_view c"
  "core_view (c\<lparr>login_succeed := b\<rparr>) = core_view c"
  "core_view (c\<lparr>fcm_token := t\<rparr>) = core_view c"
  by (simp_all add: core_view_def)

lemma core_view_sel [simp]:
  "hv_login (core_view c) = bt_get (login_requests c)"
  "hv_sign (core_view c) = bt_get (sign_requests c)"
  "hv_sign_message (core_view c) = bt_get (sign_message_requests c)"
  "hv_receive_address (core_view c) = bt_get (receive_address_requests c)"
  "hv_asset_balance (core_view c) = bt_get (asset_balance_requests c)"
  "hv_holdings (core_view c) = bt_get (holdings c)"
  "hv_pay (core_view c) = bt_get (pay_requests c)"
  "hv_fund (core_view c) = bt_get (fund_requests c)"
  by (simp_all add: core_view_def)

definition silent :: "effect \<Rightarrow> bool" where
  "silent e \<longleftrightarrow> (\<forall>h. apply_effect e h = h)"

lemma fold_silent: "list_all silent es \<Longrightarrow> fold apply_effect es h = h"
  by (induction es) (auto simp: silent_def)

lemma apply_send [simp]: "apply_effect (send env k r) h = h"
  by (simp add: send_def)

lemma silent_simps [simp]:
  "silent (Send d)" "silent (SessionList ss)" "silent (SessionCreated se)" "silent (SessionRemoved i)"
  "silent MinimizeMobileApp" "silent (ActionFailed a t)" "silent (send env k r)"
  by (simp_all add: silent_def send_def)

lemma mirror_restate:
  "hv_holdings h = bt_get m \<Longrightarrow>
   fold apply_effect (snd (restate_holdings m rs)) h
     = h\<lparr>hv_holdings := bt_get (fst (restate_holdings m rs))\<rparr>"
proof (induction rs arbitrary: m h)
  case (Cons r rs)
  let ?m = "bt_insert (hr_domain r) r m"
  have "apply_effect (SetHoldings r) h = h\<lparr>hv_holdings := bt_get ?m\<rparr>"
    by (rule holdings_store.mirror_insert [OF Cons.prems])
  with Cons.IH [of "h\<lparr>hv_holdings := bt_get ?m\<rparr>" ?m] Cons show ?case
    by (simp add: Let_def case_prod_unfold)
qed (metis fold_simps(1) fst_conv holdings_store.put_look restate_holdings.simps(1) snd_conv)

lemma mirror_sync_holdings:
  "fold apply_effect (snd (sync_holdings rs c)) (core_view c) = core_view (fst (sync_holdings rs c))"
proof -
  let ?gone = "filter (\<lambda>d. d \<notin> set (map hr_domain rs)) (bt_keys (holdings c))"
  let ?m = "foldl (\<lambda>m d. bt_remove d m) (holdings c) ?gone"
  have "fold apply_effect (map ClearHoldings ?gone) (core_view c)
      = (core_view c)\<lparr>hv_holdings := bt_get ?m\<rparr>"
    unfolding holdings_store.fold_rem core_view_sel bt.get_del_list ..
  then show ?thesis
    by (simp add: sync_holdings_def Let_def case_prod_unfold mirror_restate)
qed

lemma mirror_syncs:
  "fold apply_effect (snd (sync_sign_requests r1 c)) (core_view c) = core_view (fst (sync_sign_requests r1 c))"
  "fold apply_effect (snd (sync_sign_message_requests r2 c)) (core_view c)
     = core_view (fst (sync_sign_message_requests r2 c))"
  "fold apply_effect (snd (sync_pay_requests r3 c)) (core_view c) = core_view (fst (sync_pay_requests r3 c))"
  "fold apply_effect (snd (sync_fund_requests r4 c)) (core_view c) = core_view (fst (sync_fund_requests r4 c))"
  "fold apply_effect (snd (sync_receive_address_requests r5 c)) (core_view c)
     = core_view (fst (sync_receive_address_requests r5 c))"
  "fold apply_effect (snd (sync_asset_balance_requests r6 c)) (core_view c)
     = core_view (fst (sync_asset_balance_requests r6 c))"
  by (simp_all add: sync_defs Let_def case_prod_unfold
      sign_store.mirror_sync_store [OF _ prod.collapse [symmetric]]
      sign_message_store.mirror_sync_store [OF _ prod.collapse [symmetric]]
      pay_store.mirror_sync_store [OF _ prod.collapse [symmetric]]
      fund_store.mirror_sync_store [OF _ prod.collapse [symmetric]]
      receive_address_store.mirror_sync_store [OF _ prod.collapse [symmetric]]
      asset_balance_store.mirror_sync_store [OF _ prod.collapse [symmetric]])

lemma replay_silent: "list_all silent (replay_actions env c)"
  by (simp add: replay_actions_def list_all_length case_prod_unfold)

lemma send_fcm_silent: "list_all silent (send_fcm_token env c)"
  by (simp add: send_fcm_token_def split: option.split)

lemma mirror_login_resp:
  "fold apply_effect (snd (handle_login_resp env lr c)) (core_view c)
     = core_view (fst (handle_login_resp env lr c))"
proof -
  let ?c0 = "c\<lparr>login_succeed := True\<rparr>"
  have start: "core_view c = core_view ?c0" by simp
  show ?thesis
    unfolding start
    by (simp del: core_view_upd add: handle_login_resp_def Let_def case_prod_unfold
        fold_silent [OF replay_silent] fold_silent [OF send_fcm_silent] mirror_syncs mirror_sync_holdings)
qed

lemma mirror_notification:
  "fold apply_effect (snd (handle_notification n c)) (core_view c) = core_view (fst (handle_notification n c))"
proof (cases n)
  case (NHoldingsRemoved d)
  have "bt_get (holdings c) d = None \<Longrightarrow> bt_get (bt_remove d (holdings c)) = bt_get (holdings c)"
    by (auto simp: bt_get_remove)
  then show ?thesis
    using NHoldingsRemoved
    by (auto simp: handle_notification_def bt_get_remove fun_eq_iff core_view_def)
qed (auto simp: handle_notification_def bt_get_insert bt_get_remove fun_eq_iff core_view_def)

lemma handle_mirror:
  "fold apply_effect (snd (handle env aux i c)) (core_view c) = core_view (fst (handle env aux i c))"
proof (cases i)
  case (Transport ev)
  then show ?thesis
    by (simp add: handle_defs handle_transport_def handle_server_message_def handle_response_def
        mirror_login_resp mirror_notification fold_silent
        split: transport_event.split option.split from_msg.split resp.split)
qed (simp_all add: handle_defs answer_effects add_user_action_effects Let_def fold_silent
      send_fcm_silent split: option.split link_type.split)

section \<open>Where queued actions come from\<close>

text \<open>The action an input asks the server for, if any: one case per user decision.\<close>

definition queued_by :: "'k session_env \<Rightarrow> bytes \<Rightarrow> input \<Rightarrow> 'k core \<Rightarrow> user_action \<Rightarrow> bool" where
  "queued_by env aux i c a \<longleftrightarrow>
     queue_of (fst (handle env aux i c))
       = (bt_insert (next_action_id c) a (user_actions c), wrap_i32 (next_action_id c + 1))"

lemma new_action_queued_by:
  assumes "bt_get (user_actions (fst (handle env aux i c))) k = Some a"
    and "bt_get (user_actions c) k \<noteq> Some a"
  shows "queued_by env aux i c a \<and> k = next_action_id c"
  using handle_queue_step [of c env aux i] assms
  by (auto simp: queued_by_def bt_get_insert bt_get_remove elim!: queue_stepE split: if_splits)

lemma bt_insert_eq_iff: "bt_insert k a m = bt_insert k b m \<longleftrightarrow> a = b"
  by (metis bt_get_insert option.inject)

text \<open>The counter moves whenever an action is queued, so the source of an action is told apart without a
  bound on the number of inputs.\<close>

lemma queued_by_user_input:
  assumes "queued_by env aux i c a"
  shows "case i of
      LoginAccepted rid b \<Rightarrow> (service_wanted c rid \<longrightarrow> b \<noteq> None)
        \<and> a = AcceptLoginRequest rid (descriptor c) (map_option sb_key b) (map_option sb_signature b)
    | SignMessageAccepted rid \<Rightarrow>
        \<exists>s. sign_message_digest env aux c rid = Inr s \<and> a = AcceptSignMessageRequest rid s
    | SignMessageSigned rid s \<Rightarrow> contains_key (sign_message_requests c) rid
        \<and> a = AcceptSignMessageRequest rid s
    | LoginRejected rid \<Rightarrow> a = CancelLoginRequest rid
    | SignAccepted rid p \<Rightarrow> a = AcceptSignRequest rid p
    | SignRejected rid \<Rightarrow> a = CancelSignRequest rid
    | SignMessageRejected rid \<Rightarrow> a = CancelSignMessageRequest rid
    | PayBuilt rid t \<Rightarrow> contains_key (pay_requests c) rid \<and> a = AcceptPayRequest rid t
    | PayRejected rid \<Rightarrow> a = CancelPayRequest rid
    | ReceiveAddressProvided rid d \<Rightarrow>
        contains_key (receive_address_requests c) rid \<and> a = AcceptReceiveAddressRequest rid d
    | ReceiveAddressRejected rid \<Rightarrow> a = CancelReceiveAddressRequest rid
    | AssetBalanceProvided rid v \<Rightarrow>
        contains_key (asset_balance_requests c) rid \<and> a = AcceptAssetBalanceRequest rid v
    | AssetBalanceRejected rid \<Rightarrow> a = CancelAssetBalanceRequest rid
    | FundSigned rid p \<Rightarrow> contains_key (fund_requests c) rid \<and> a = AcceptFundRequest rid p
    | FundRejected rid \<Rightarrow> a = CancelFundRequest rid
    | StopSession sid \<Rightarrow> a = StopSessionAction sid
    | AppLinkInput al \<Rightarrow> link_type al = LinkLogin \<and> a = LinkLoginRequest (al_request_id al)
    | RegisterFcmToken t \<Rightarrow> False
    | Transport ev \<Rightarrow> False"
proof -
  note moves = wrap_i32_moves [of "next_action_id c"] wrap_i32_moves [of "next_action_id c", symmetric]
  show ?thesis
  proof (cases i)
    case (Transport ev)
    then show ?thesis
      using handle_transport_queue [of env aux ev c] assms moves
      by (auto simp: queued_by_def handle_defs)
  qed (use assms moves in \<open>auto simp: queued_by_def handle_defs answer_user_actions answer_next
      add_user_action_queue [unfolded prod.inject] bt_insert_eq_iff if_live_def Let_def
      split: option.splits sum.splits if_splits link_type.splits\<close>)
qed

section \<open>Approvals survive until they are settled\<close>

lemma handle_keeps_action:
  assumes "bt_get (user_actions c) k = Some a" and "\<not> settles env k i"
    and "actions_wf n (user_actions c) (next_action_id c)"
  shows "bt_get (user_actions (fst (handle env aux i c))) k = Some a"
proof -
  have "k \<noteq> next_action_id c"
    using assms(1,3) bt_get_None_iff [of "user_actions c" k] by (auto simp: actions_wf_def)
  then show ?thesis
  proof (cases i)
    case (Transport ev)
    then show ?thesis
      using handle_transport_queue [of env aux ev c] assms(1,2)
      by (auto simp: handle_defs bt_get_remove)
  qed (use \<open>k \<noteq> next_action_id c\<close> assms(1) in \<open>auto simp: handle_defs answer_user_actions
      add_user_action_queue [unfolded prod.inject] bt_get_insert Let_def
      split: option.split link_type.split\<close>)
qed

lemma run_keeps_action:
  assumes "bt_get (user_actions c) k = Some a" and "list_all (\<lambda>ai. \<not> settles env k (snd ai)) is"
    and "core_wf n c" and "n + length is < 2 ^ 31 - 1"
  shows "bt_get (user_actions (fst (run_core env is c))) k = Some a"
  using assms
proof (induction "is" arbitrary: n c)
  case (Cons ai "is")
  obtain aux i where ai: "ai = (aux, i)" by (cases ai)
  let ?c = "fst (handle env aux i c)"
  have "bt_get (user_actions ?c) k = Some a"
    using Cons.prems by (intro handle_keeps_action [where n = n]) (auto simp: ai core_wf_def)
  moreover have "core_wf (Suc n) ?c" using Cons.prems by (intro core_wf_step) auto
  ultimately show ?case
    using Cons.IH [of ?c "Suc n"] Cons.prems by (simp add: ai Let_def case_prod_unfold)
qed simp

lemma login_replays_action:
  assumes "bt_get (user_actions c) k = Some a"
    and "from_str_json env t = Some (FromResp q (RespLogin lr))"
  shows "send env k (ReqUserAction a) \<in> set (snd (handle env aux (Transport (Recv t)) c))"
proof -
  have "(k, a) \<in> set (user_actions c)" using assms(1) by (rule bt_get_mem)
  then have "send env k (ReqUserAction a) \<in> set (replay_actions env (c\<lparr>login_succeed := True\<rparr>))"
    by (force simp: replay_actions_def)
  then show ?thesis
    by (simp add: assms(2) handle_defs handle_transport_def handle_server_message_def
        handle_response_def handle_login_resp_def Let_def case_prod_unfold)
qed

section \<open>Holdings\<close>

lemma restate_holdings_get:
  "bt_get (fst (restate_holdings m rs)) d =
     (case find (\<lambda>r. hr_domain r = d \<and> hr_holdings r \<noteq> []) (rev rs) of
        Some r \<Rightarrow> Some r | None \<Rightarrow> bt_get m d)"
proof (induction rs arbitrary: m)
  case (Cons r rs)
  have app: "find P (xs @ ys) = (case find P xs of Some x \<Rightarrow> Some x | None \<Rightarrow> find P ys)"
    for P and xs ys :: "holdings_report list"
    by (induction xs) auto
  show ?case
    by (simp add: Let_def case_prod_unfold Cons.IH app bt_get_insert split: option.split)
qed simp

end
