(* ===== verification/Session_Claims.thy ===== *)
theory Session_Claims
  imports Session_Props
begin

text \<open>
  What the session core promises its host, each promise with a concrete instance.  The
  instances use a small environment, \<open>demo_env\<close>, whose JSON codec knows a handful of
  frames.
\<close>

section \<open>A concrete environment\<close>

definition demo_crypto :: "unit crypto" where
  "demo_crypto =
     \<lparr>sha256 = (\<lambda>m. m), keypair_from_seckey = (\<lambda>_. Some ()), x_only_public_key = (\<lambda>_. [2]),
      sign_schnorr = (\<lambda>m k aux. m @ aux), sign_schnorr_no_aux = (\<lambda>m k. m),
      verify_schnorr = (\<lambda>s m k. s = m), signature_to_string = map (\<lambda>b. char_of (unat b)),
      signature_from_str = (\<lambda>s. Some (as_bytes s)), hex_encode = map (\<lambda>b. char_of (unat b)),
      hex_decode_to_slice = (\<lambda>s n. if length s = 4 then Some (as_bytes s) else None)\<rparr>"

definition demo_sign_message :: sign_message_request where
  "demo_sign_message =
     \<lparr>smr_request_id = ''m1'', smr_domain = ''a.io'', smr_digest = ''beef'',
      smr_description = None, smr_ttl = 1000\<rparr>"

definition demo_login_request :: login_request where
  "demo_login_request =
     \<lparr>lr_request_id = ''l1'', lr_domain = ''a.io'', lr_ttl = 1000,
      lr_service_challenge = Some ''c''\<rparr>"

definition demo_login_resp :: login_resp where
  "demo_login_resp =
     \<lparr>sessions = [], resp_sign_requests = [], resp_sign_message_requests = [demo_sign_message],
      resp_pay_requests = [], resp_receive_address_requests = [],
      resp_asset_balance_requests = [], resp_fund_requests = [], resp_holdings = []\<rparr>"

definition demo_env :: "unit session_env" where
  "demo_env =
     \<lparr>env_crypto = demo_crypto, to_string_json = (\<lambda>m. case m of ToReq k r \<Rightarrow> show_nat (nat k)),
      from_str_json = (\<lambda>t.
        if t = ''login'' then Some (FromResp 0 (RespLogin demo_login_resp))
        else if t = ''msg'' then Some (FromNotif (NSignMessageRequestCreated demo_sign_message))
        else if t = ''ask'' then Some (FromNotif (NLoginRequestCreated demo_login_request))
        else if t = ''ok'' then Some (FromResp 1 RespUserAction) else None)\<rparr>"

definition demo_core :: "unit core" where
  "demo_core = new_core [1] ''ct'' ()"

lemmas demo_defs = demo_crypto_def demo_sign_message_def demo_login_request_def
  demo_login_resp_def demo_env_def demo_core_def new_core_def

lemmas run_defs = handle_defs handle_transport_def handle_server_message_def handle_response_def
  handle_notification_def answer_def add_user_action_def finish_request_def if_live_def
  service_wanted_def sign_message_digest_def handle_login_resp_def replay_actions_def
  sync_defs sync_store_def send_fcm_token_def send_def wrap_i32_def contains_key_def
  bt_get_def bt_remove_def

section \<open>The invariant\<close>

text \<open>C1. After any run of fewer than \<open>2^31 - 1\<close> inputs from a fresh core, the state is
  well formed: every request is stored under its own id, no stored holdings report is
  empty, the queued action ids are distinct, lie between 1 and the next id (so that id 0
  of the fire-and-forget requests never names a queued action), and the counter has not
  wrapped.\<close>

theorem session_invariant:
  assumes "length is < 2 ^ 31 - 1"
  shows "core_wf (length is) (fst (run_core env is (new_core iid desc key)))"
  using core_wf_run [OF core_wf_new, of "is"] assms by simp

theorem session_invariant_witness:
  "core_wf (Suc (Suc 0)) (fst (run_core demo_env
     [([], LoginRejected ''r''), ([], Transport Connected)] demo_core))"
  using session_invariant [of "[([], LoginRejected ''r''), ([], Transport Connected)]" demo_env
      "[1]" "''ct''" "()"]
  by (simp add: demo_core_def)

section \<open>The host's mirror\<close>

text \<open>C2. Refinement: a host that starts with empty maps and applies the Add, Remove, Set
  and Clear effects in the order the core emits them holds, after every run, exactly the
  requests and holdings the core holds.\<close>

theorem host_mirror_refines:
  "fold apply_effect (snd (run_core env is (new_core iid desc key)))
     (core_view (new_core iid desc key))
   = core_view (fst (run_core env is (new_core iid desc key)))"
proof -
  have "fold apply_effect (snd (run_core env is c)) (core_view c) = core_view (fst (run_core env is c))"
    for c :: "'a core"
  proof (induction "is" arbitrary: c)
    case (Cons ai "is")
    obtain aux i where "ai = (aux, i)" by (cases ai)
    then show ?case
      using handle_mirror [of env aux i c] Cons.IH [of "fst (handle env aux i c)"]
      by (simp add: Let_def case_prod_unfold)
  qed simp
  then show ?thesis .
qed

section \<open>Who may act\<close>

text \<open>C3. The identity key signs a message digest only through the approval path: an
  acceptance of a message-signing request that an input newly queues either carries the
  signature the host supplied for a request the core holds, or the core's own signature
  over the digest stored in the held request, which must decode to 32 bytes.\<close>

theorem identity_key_signs_stored_digest:
  assumes "core_wf n c"
    and "bt_get (user_actions (fst (handle env aux i c))) k = Some (AcceptSignMessageRequest rid s)"
    and "bt_get (user_actions c) k \<noteq> Some (AcceptSignMessageRequest rid s)"
  shows "\<exists>r. bt_get (sign_message_requests c) rid = Some r \<and> smr_request_id r = rid \<and>
     (i = SignMessageSigned rid s \<or>
      i = SignMessageAccepted rid \<and>
      (\<exists>d. hex_decode_to_slice (env_crypto env) (smr_digest r) 32 = Some d \<and>
           s = signature_to_string (env_crypto env)
                 (sign_schnorr (env_crypto env) d (wallet_key c) aux)))"
proof -
  let ?a = "AcceptSignMessageRequest rid s"
  have q: "queued_by env aux i c ?a" using new_action_queued_by assms(2,3) by blast
  have keyed: "bt_get (sign_message_requests c) rid = Some r \<Longrightarrow> smr_request_id r = rid" for r
    using assms(1) by (simp add: core_wf_def stores_wf_def keyed_def)
  from queued_by_user_input [OF q] keyed show ?thesis
    by (cases i) (auto simp: sign_message_digest_def result_simps sign_digest_def contains_key_def)
qed

theorem identity_key_signs_stored_digest_witness:
  "\<exists>r. bt_get (sign_message_requests (fst (run_core demo_env [([], Transport (Recv ''msg''))] demo_core)))
         ''m1'' = Some r \<and> smr_request_id r = ''m1''"
proof -
  let ?c = "fst (run_core demo_env [([], Transport (Recv ''msg''))] demo_core)"
  have wf: "core_wf 1 ?c"
    using core_wf_run [OF core_wf_new, of "[([], Transport (Recv ''msg''))]" demo_env "[1]" "''ct''" "()"]
    by (simp add: demo_core_def)
  have new: "bt_get (user_actions (fst (handle demo_env [7] (SignMessageAccepted ''m1'') ?c))) 1
      = Some (AcceptSignMessageRequest ''m1'' (map (\<lambda>b. char_of (unat b)) (as_bytes ''beef'' @ [7])))"
    by (simp add: run_defs demo_defs sign_digest_def)
  have old: "bt_get (user_actions ?c) 1
      \<noteq> Some (AcceptSignMessageRequest ''m1'' (map (\<lambda>b. char_of (unat b)) (as_bytes ''beef'' @ [7])))"
    by (simp add: run_defs demo_defs)
  show ?thesis
    using identity_key_signs_stored_digest [OF wf new old] by blast
qed

text \<open>The frames a transport event may cause.\<close>

definition transport_frames :: "'k session_env \<Rightarrow> bytes \<Rightarrow> 'k core \<Rightarrow> to_msg set" where
  "transport_frames env aux c =
     {ToReq 0 ReqChallenge}
     \<union> {ToReq 0 (ReqLogin \<lparr>lq_public_key = public_key (env_crypto env) (wallet_key c),
           lq_signature = sign_challenge (env_crypto env) (wallet_key c) ch aux,
           lq_install_id = Some (install_id c)\<rparr>) | ch. True}
     \<union> {ToReq 0 (ReqRegisterFcm t) | t. fcm_token c = Some t}
     \<union> {ToReq k (ReqUserAction a) | k a. (k, a) \<in> set (user_actions c)}"

definition sends_within :: "'k session_env \<Rightarrow> to_msg set \<Rightarrow> effect \<Rightarrow> bool" where
  "sends_within env ms e \<longleftrightarrow> (case e of Send d \<Rightarrow> d \<in> to_string_json env ` ms | _ \<Rightarrow> True)"

lemma sends_within_sync:
  "(\<And>r. sends_within env ms (add r)) \<Longrightarrow> (\<And>k. sends_within env ms (rem k)) \<Longrightarrow>
   list_all (sends_within env ms) (snd (sync_store rid add rem m rs))"
  by (auto simp: sync_store_def Let_def case_prod_unfold list_all_iff)

lemma sends_within_simps [simp]:
  "sends_within env ms (AddSignRequest r1)" "sends_within env ms (RemoveSignRequest i)"
  "sends_within env ms (AddSignMessageRequest r2)" "sends_within env ms (RemoveSignMessageRequest i)"
  "sends_within env ms (AddPayRequest r3)" "sends_within env ms (RemovePayRequest i)"
  "sends_within env ms (AddFundRequest r4)" "sends_within env ms (RemoveFundRequest i)"
  "sends_within env ms (AddReceiveAddressRequest r5)" "sends_within env ms (RemoveReceiveAddressRequest i)"
  "sends_within env ms (AddAssetBalanceRequest r6)" "sends_within env ms (RemoveAssetBalanceRequest i)"
  "sends_within env ms (SetHoldings r7)" "sends_within env ms (ClearHoldings i)"
  "sends_within env ms (AddLoginRequest r8)" "sends_within env ms (RemoveLoginRequest i)"
  "sends_within env ms (SessionList ss)" "sends_within env ms (SessionCreated se)"
  "sends_within env ms (SessionRemoved i)" "sends_within env ms MinimizeMobileApp"
  "sends_within env ms (ActionFailed a t)"
  by (simp_all add: sends_within_def)

lemma sends_within_restate: "list_all (sends_within env ms) (snd (restate_holdings m rs))"
  by (induction rs arbitrary: m) (auto simp: Let_def case_prod_unfold)

lemma sends_within_fcm:
  "fcm_token c' = fcm_token c \<Longrightarrow>
   list_all (sends_within env (transport_frames env aux c)) (send_fcm_token env c')"
  by (auto simp: send_fcm_token_def sends_within_def transport_frames_def send_def split: option.split)

lemma sends_within_login:
  "list_all (sends_within env (transport_frames env aux c)) (snd (handle_login_resp env lr c))"
proof -
  have "list_all (sends_within env (transport_frames env aux c)) (replay_actions env c')"
    if "user_actions c' = user_actions c" for c'
    using that by (force simp: replay_actions_def list_all_iff sends_within_def transport_frames_def send_def)
  moreover have "list_all (sends_within env ms) (map ClearHoldings ds)" for ms ds
    by (simp add: list_all_iff)
  ultimately show ?thesis
    by (simp add: handle_login_resp_def Let_def case_prod_unfold sync_defs sends_within_sync
        sends_within_restate sends_within_fcm)
qed

text \<open>C4. The server cannot make the wallet act: a transport event never queues a user
  action and never moves the action counter, and every frame it sends is the challenge
  request, the login answer, the stored push token, or the replay of an action that was
  already queued.\<close>

theorem transport_never_acts:
  "set (user_actions (fst (handle env aux (Transport ev) c))) \<subseteq> set (user_actions c)
   \<and> next_action_id (fst (handle env aux (Transport ev) c)) = next_action_id c
   \<and> list_all (sends_within env (transport_frames env aux c)) (snd (handle env aux (Transport ev) c))"
proof (intro conjI)
  show "set (user_actions (fst (handle env aux (Transport ev) c))) \<subseteq> set (user_actions c)"
    "next_action_id (fst (handle env aux (Transport ev) c)) = next_action_id c"
    using handle_transport_queue [of env aux ev c]
    by (auto simp: handle_defs bt_remove_def)
  show "list_all (sends_within env (transport_frames env aux c)) (snd (handle env aux (Transport ev) c))"
    by (auto simp: handle_defs handle_transport_def handle_server_message_def handle_response_def
        sends_within_login handle_notification_def
        split: transport_event.split option.split from_msg.split resp.split notif.split)
       (auto simp: sends_within_def transport_frames_def send_def)
qed

text \<open>C5. What becomes of an answer whose request the core no longer holds, for every kind of answer.
  A message signature, a receive address, a balance, a transaction id and a signed funding are dropped:
  nothing is queued and no frame is sent.  The acceptance of a login (with the descriptor, and with or
  without a binding) or of a transaction, and every refusal, are queued under the next id and sent at
  once when connected.  Either way no store changes, and a request that came by a mobile link minimises
  the app as usual.\<close>

theorem late_answer_fate:
  assumes "answers_live i (core_view c) = Some False" and "answered_request i = Some rid"
  shows "queue_of (fst (handle env aux i c)) = (case late_action (descriptor c) i of
        None \<Rightarrow> queue_of c
      | Some a \<Rightarrow> (bt_insert (next_action_id c) a (user_actions c), wrap_i32 (next_action_id c + 1)))
    \<and> snd (handle env aux i c) = (case late_action (descriptor c) i of
        None \<Rightarrow> []
      | Some a \<Rightarrow> if connected c then [send env (next_action_id c) (ReqUserAction a)] else [])
        @ (if rid \<in> mobile_requests c then [MinimizeMobileApp] else [])
    \<and> core_view (fst (handle env aux i c)) = core_view c"
proof -
  have "handle env aux i c = answer env rid (late_action (descriptor c) i) c"
    using assms
    by (cases i) (auto simp: handle_defs if_live_def contains_key_def sign_message_digest_def
        result_simps service_wanted_def core_view_def)
  then show ?thesis by (simp add: answer_queue answer_effects)
qed

theorem late_answer_fate_witness:
  "answers_live (PayBuilt ''p'' ''tx'') (core_view demo_core) = Some False
   \<and> user_actions (fst (handle demo_env [] (PayBuilt ''p'' ''tx'') demo_core)) = []
   \<and> answers_live (SignAccepted ''s'' ''pset'') (core_view demo_core) = Some False
   \<and> user_actions (fst (handle demo_env [] (SignAccepted ''s'' ''pset'') demo_core))
       = [(1, AcceptSignRequest ''s'' ''pset'')]"
proof -
  have pay: "answers_live (PayBuilt ''p'' ''tx'') (core_view demo_core) = Some False"
    and sign: "answers_live (SignAccepted ''s'' ''pset'') (core_view demo_core) = Some False"
    by (simp_all add: demo_defs)
  have new: "user_actions demo_core = []" "next_action_id demo_core = 1" by (simp_all add: demo_defs)
  from late_answer_fate [OF pay, of "''p''" demo_env "[]"] late_answer_fate [OF sign, of "''s''" demo_env "[]"] pay sign
  show ?thesis by (simp add: new)
qed

text \<open>C6. A login that asked for a service key is never accepted unbound: an acceptance
  newly queued carries this wallet's descriptor, and when the request asked for a binding
  it carries the key and the signature the host supplied with that very input.\<close>

theorem login_acceptance_is_bound:
  assumes "bt_get (user_actions (fst (handle env aux i c))) k = Some (AcceptLoginRequest rid desc sk ss)"
    and "bt_get (user_actions c) k \<noteq> Some (AcceptLoginRequest rid desc sk ss)"
  shows "desc = descriptor c \<and> (\<exists>b. i = LoginAccepted rid b \<and> sk = map_option sb_key b
      \<and> ss = map_option sb_signature b \<and> (service_wanted c rid \<longrightarrow> b \<noteq> None))"
proof -
  let ?a = "AcceptLoginRequest rid desc sk ss"
  have q: "queued_by env aux i c ?a" using new_action_queued_by assms by blast
  from queued_by_user_input [OF q] show ?thesis by (cases i) auto
qed

theorem login_acceptance_is_bound_witness:
  "service_wanted (fst (run_core demo_env [([], Transport (Recv ''ask''))] demo_core)) ''l1''
   \<and> ''ct'' = descriptor (fst (run_core demo_env [([], Transport (Recv ''ask''))] demo_core))"
proof -
  let ?c = "fst (run_core demo_env [([], Transport (Recv ''ask''))] demo_core)"
  let ?i = "LoginAccepted ''l1'' (Some \<lparr>sb_key = ''k'', sb_signature = ''s''\<rparr>)"
  have new: "bt_get (user_actions (fst (handle demo_env [] ?i ?c))) 1
      = Some (AcceptLoginRequest ''l1'' ''ct'' (Some ''k'') (Some ''s''))"
    by (simp add: run_defs demo_defs)
  have old: "bt_get (user_actions ?c) 1
      \<noteq> Some (AcceptLoginRequest ''l1'' ''ct'' (Some ''k'') (Some ''s''))"
    by (simp add: run_defs demo_defs)
  have "service_wanted ?c ''l1''" by (simp add: run_defs demo_defs)
  with login_acceptance_is_bound [OF new old] show ?thesis by simp
qed

section \<open>Approvals are not lost\<close>

text \<open>C7. An approval survives every disconnection: once an action is queued, any run of
  inputs in which the server neither answers nor refuses it leaves it queued, and the
  next login response sends it again under its own id.\<close>

theorem approval_survives_until_login:
  assumes "length pre + length mid < 2 ^ 31 - 1"
    and "bt_get (user_actions (fst (run_core env pre (new_core iid desc key)))) k = Some a"
    and "list_all (\<lambda>ai. \<not> settles env k (snd ai)) mid"
    and "from_str_json env t = Some (FromResp q (RespLogin lr))"
  shows "Send (to_string_json env (ToReq k (ReqUserAction a)))
    \<in> set (snd (handle env aux (Transport (Recv t))
        (fst (run_core env mid (fst (run_core env pre (new_core iid desc key)))))))"
proof -
  have wf: "core_wf (0 + length pre) (fst (run_core env pre (new_core iid desc key)))"
    using assms(1) by (intro core_wf_run core_wf_new) simp
  have "bt_get (user_actions (fst (run_core env mid (fst (run_core env pre (new_core iid desc key)))))) k
      = Some a"
    using assms(1) by (intro run_keeps_action [OF assms(2,3) wf]) simp
  from login_replays_action [OF this assms(4)] show ?thesis by (simp add: send_def)
qed

theorem approval_survives_until_login_witness:
  "Send (to_string_json demo_env (ToReq 1 (ReqUserAction (CancelLoginRequest ''r''))))
    \<in> set (snd (handle demo_env [] (Transport (Recv ''login''))
        (fst (run_core demo_env [([], Transport Disconnected), ([], Transport Connected)]
          (fst (run_core demo_env [([], LoginRejected ''r'')] (new_core [1] ''ct'' ())))))))"
proof (rule approval_survives_until_login)
  show "length [([], LoginRejected ''r'')]
      + length [([], Transport Disconnected), ([], Transport Connected)] < 2 ^ 31 - (1 :: nat)"
    by simp
  show "bt_get (user_actions (fst (run_core demo_env [([], LoginRejected ''r'')] (new_core [1] ''ct'' ())))) 1
      = Some (CancelLoginRequest ''r'')"
    by (simp add: run_defs new_core_def)
  show "list_all (\<lambda>ai. \<not> settles demo_env 1 (snd ai))
      [([], Transport Disconnected), ([], Transport Connected)]"
    by (simp add: settles_def)
  show "from_str_json demo_env ''login'' = Some (FromResp 0 (RespLogin demo_login_resp))"
    by (simp add: demo_env_def)
qed

section \<open>The login snapshot\<close>

lemma login_resp_stores:
  "sign_requests (fst (handle_login_resp env lr c))
     = fst (sync_store sr_request_id AddSignRequest RemoveSignRequest (sign_requests c) (resp_sign_requests lr))"
  "sign_message_requests (fst (handle_login_resp env lr c))
     = fst (sync_store smr_request_id AddSignMessageRequest RemoveSignMessageRequest
         (sign_message_requests c) (resp_sign_message_requests lr))"
  "pay_requests (fst (handle_login_resp env lr c))
     = fst (sync_store pr_request_id AddPayRequest RemovePayRequest (pay_requests c) (resp_pay_requests lr))"
  "fund_requests (fst (handle_login_resp env lr c))
     = fst (sync_store fr_request_id AddFundRequest RemoveFundRequest (fund_requests c) (resp_fund_requests lr))"
  "receive_address_requests (fst (handle_login_resp env lr c))
     = fst (sync_store rar_request_id AddReceiveAddressRequest RemoveReceiveAddressRequest
         (receive_address_requests c) (resp_receive_address_requests lr))"
  "asset_balance_requests (fst (handle_login_resp env lr c))
     = fst (sync_store abr_request_id AddAssetBalanceRequest RemoveAssetBalanceRequest
         (asset_balance_requests c) (resp_asset_balance_requests lr))"
  "holdings (fst (handle_login_resp env lr c)) = holdings (fst (sync_holdings (resp_holdings lr) c))"
  by (simp_all add: handle_login_resp_fst sync_defs Let_def case_prod_unfold)

text \<open>What a store holds after a login response that lists \<open>rs\<close>, by request id.\<close>

definition snapshot :: "('r \<Rightarrow> string) \<Rightarrow> (string \<rightharpoonup> 'r) \<Rightarrow> 'r list \<Rightarrow> string \<rightharpoonup> 'r" where
  "snapshot rid old rs k =
     (if k \<notin> rid ` set rs then None
      else case old k of Some r \<Rightarrow> Some r | None \<Rightarrow> find (\<lambda>r. rid r = k) rs)"

lemma sync_store_snapshot:
  "bt_get (fst (sync_store rid add rem m rs)) = snapshot rid (bt_get m) rs"
  by (rule ext) (simp add: sync_store_get snapshot_def)

text \<open>C8. What a login response leaves in each of the six synchronised stores, record by record: an id the
  server does not list is gone; a listed id the core held keeps the record it had, even when the listed
  one differs; a listed id that is new gets the first record listed under it.  Login requests and the
  queue of user actions are untouched.\<close>

theorem login_snapshot_is_exact:
  "hv_sign (core_view (fst (handle_login_resp env lr c)))
     = snapshot sr_request_id (hv_sign (core_view c)) (resp_sign_requests lr)
   \<and> hv_sign_message (core_view (fst (handle_login_resp env lr c)))
     = snapshot smr_request_id (hv_sign_message (core_view c)) (resp_sign_message_requests lr)
   \<and> hv_pay (core_view (fst (handle_login_resp env lr c)))
     = snapshot pr_request_id (hv_pay (core_view c)) (resp_pay_requests lr)
   \<and> hv_fund (core_view (fst (handle_login_resp env lr c)))
     = snapshot fr_request_id (hv_fund (core_view c)) (resp_fund_requests lr)
   \<and> hv_receive_address (core_view (fst (handle_login_resp env lr c)))
     = snapshot rar_request_id (hv_receive_address (core_view c)) (resp_receive_address_requests lr)
   \<and> hv_asset_balance (core_view (fst (handle_login_resp env lr c)))
     = snapshot abr_request_id (hv_asset_balance (core_view c)) (resp_asset_balance_requests lr)
   \<and> hv_login (core_view (fst (handle_login_resp env lr c))) = hv_login (core_view c)
   \<and> queue_of (fst (handle_login_resp env lr c)) = queue_of c"
proof -
  have "login_requests (fst (handle_login_resp env lr c)) = login_requests c"
    "queue_of (fst (handle_login_resp env lr c)) = queue_of c"
    by (simp_all add: handle_login_resp_fst sync_defs Let_def case_prod_unfold)
  then show ?thesis
    by (simp only: core_view_sel login_resp_stores sync_store_snapshot simp_thms)
qed

text \<open>C9. Holdings at login: a domain the login does not mention is cleared; a domain with a
  non-empty report ends up with the last such report; a domain mentioned only with empty
  reports keeps whatever the core held for it, so the empty report does not clear the
  entry, unlike the same report delivered as a notification.\<close>

theorem login_holdings:
  "bt_get (holdings (fst (handle_login_resp env lr c))) d =
     (case find (\<lambda>r. hr_domain r = d \<and> hr_holdings r \<noteq> []) (rev (resp_holdings lr)) of
        Some r \<Rightarrow> Some r
      | None \<Rightarrow> if d \<in> hr_domain ` set (resp_holdings lr) then bt_get (holdings c) d else None)"
proof -
  let ?gone = "filter (\<lambda>d. d \<notin> set (map hr_domain (resp_holdings lr))) (bt_keys (holdings c))"
  let ?m = "foldl (\<lambda>m d. bt_remove d m) (holdings c) ?gone"
  have hold: "holdings (fst (handle_login_resp env lr c)) = fst (restate_holdings ?m (resp_holdings lr))"
    unfolding login_resp_stores by (simp add: sync_holdings_def Let_def case_prod_unfold)
  have "bt_get ?m d = (if d \<in> hr_domain ` set (resp_holdings lr) then bt_get (holdings c) d else None)"
    using bt_get_None_iff [of "holdings c" d] by (auto simp: bt.get_del_list)
  then show ?thesis by (simp only: hold restate_holdings_get)
qed

text \<open>The stale entry, on the two ways an empty report can arrive: as a notification it
  clears the domain; in a login response it leaves the old figures in place.\<close>

theorem empty_report_clears_only_by_notification:
  assumes "hr_holdings r = []" and "bt_get (holdings c) (hr_domain r) = Some old"
    and "resp_holdings lr = [r]"
  shows "bt_get (holdings (fst (handle_notification (NHoldingsUpdated r) c))) (hr_domain r) = None
    \<and> bt_get (holdings (fst (handle_login_resp env lr c))) (hr_domain r) = Some old"
  using assms unfolding login_resp_stores
  by (simp add: handle_notification_def bt_get_remove sync_holdings_def Let_def case_prod_unfold
      bt.get_del_list)

theorem empty_report_clears_only_by_notification_witness:
  "\<exists>c :: unit core. bt_get (holdings (fst (handle_login_resp demo_env
      (demo_login_resp\<lparr>resp_holdings := [\<lparr>hr_domain = ''v.io'', hr_holdings = [], hr_as_of = 2\<rparr>]\<rparr>) c)))
    ''v.io'' \<noteq> None"
proof -
  let ?h = "\<lparr>h_label = ''Margin'', h_kind = ''balance'', h_asset_id = None, h_unit = ''USDt'',
              h_amount = 5, h_precision = 8\<rparr>"
  let ?old = "\<lparr>hr_domain = ''v.io'', hr_holdings = [?h], hr_as_of = 1\<rparr>"
  let ?r = "\<lparr>hr_domain = ''v.io'', hr_holdings = [], hr_as_of = 2\<rparr>"
  let ?c = "demo_core\<lparr>holdings := [(''v.io'', ?old)]\<rparr>"
  have "hr_holdings ?r = []" and "bt_get (holdings ?c) (hr_domain ?r) = Some ?old"
    and "resp_holdings (demo_login_resp\<lparr>resp_holdings := [?r]\<rparr>) = [?r]"
    by (simp_all add: bt_get_def)
  from empty_report_clears_only_by_notification [OF this, of demo_env] show ?thesis by force
qed

lemma sync_no_minimize:
  "(\<And>r. add r \<noteq> MinimizeMobileApp) \<Longrightarrow> (\<And>k. rem k \<noteq> MinimizeMobileApp) \<Longrightarrow>
   MinimizeMobileApp \<notin> set (snd (sync_store rid add rem m rs))"
  by (simp add: sync_store_def Let_def case_prod_unfold image_iff) metis

lemma restate_no_minimize: "MinimizeMobileApp \<notin> set (snd (restate_holdings m rs))"
  by (induction rs arbitrary: m) (auto simp: Let_def case_prod_unfold)

lemma login_no_minimize: "MinimizeMobileApp \<notin> set (snd (handle_login_resp env lr c))"
proof -
  have "MinimizeMobileApp \<notin> set (replay_actions env c')" for c'
    by (auto simp: replay_actions_def send_def)
  moreover have "MinimizeMobileApp \<notin> set (send_fcm_token env c')" for c'
    by (simp add: send_fcm_token_def send_def split: option.split)
  moreover have "MinimizeMobileApp \<notin> ClearHoldings ` ds" for ds
    by auto
  ultimately show ?thesis
    by (simp add: handle_login_resp_def Let_def case_prod_unfold sync_defs sync_no_minimize
        restate_no_minimize)
qed

lemma notification_no_minimize: "MinimizeMobileApp \<notin> set (snd (handle_notification n c))"
  by (cases n) (simp_all add: handle_notification_def)

lemma transport_no_minimize: "MinimizeMobileApp \<notin> set (snd (handle_transport env aux ev c))"
  by (simp add: handle_transport_def handle_server_message_def handle_response_def
      login_no_minimize notification_no_minimize send_def
      split: transport_event.split option.split from_msg.split resp.split)

text \<open>The app is minimised exactly when a mobile-originated request is answered: the
  effect appears only for an input that answers a request in the mobile set, at most
  once, and answering removes the request from the set, unless the input was refused for
  want of a service key.\<close>

theorem minimize_once_per_mobile_request:
  "count_list (snd (handle env aux i c)) MinimizeMobileApp
     = (case answered_request i of
          Some rid \<Rightarrow> if rid \<in> mobile_requests c \<and>
              \<not> (service_wanted c rid \<and> (\<exists>r. i = LoginAccepted r None)) then 1 else 0
        | None \<Rightarrow> 0)
   \<and> (case answered_request i of
        Some rid \<Rightarrow> mobile_requests (fst (handle env aux i c))
          = (if service_wanted c rid \<and> (\<exists>r. i = LoginAccepted r None)
             then mobile_requests c else mobile_requests c - {rid})
      | None \<Rightarrow> True)"
proof (cases i)
  case (Transport ev)
  have "MinimizeMobileApp \<notin> set (snd (handle env aux i c))"
    by (simp add: Transport handle_defs transport_no_minimize)
  with Transport show ?thesis by (simp add: count_notin)
qed (simp_all add: handle_defs answer_effects answer_mobile add_user_action_effects Let_def
      send_def send_fcm_token_def split: option.split link_type.split)

end
