(* ===== verification/Approval.thy ===== *)
theory Approval
  imports Wallet_Key
begin

text \<open>
  The approval surface of \<open>lc-wallet-core/src/approval.rs\<close>: the summary of a PSET that a
  sign request asks for, and the arithmetic verification of a fund-request template.  The
  \<open>elements\<close> library (decoding, addresses, blind proofs, asset ids of issuances) is
  third-party code, the record \<open>elements\<close> below; a PSET is the record of the public
  fields the code reads.
\<close>

section \<open>Third-party data and operations\<close>

type_synonym asset_id = bytes
type_synonym script = bytes

datatype conf_asset = AssetNull | AssetExplicit asset_id | AssetConfidential bytes
datatype conf_value = ValueNull | ValueExplicit u64 | ValueConfidential bytes

record tx_out =
  txo_asset :: conf_asset
  txo_value :: conf_value
  txo_script_pubkey :: script

record pset_input =
  witness_utxo :: "tx_out option"
  final_script_witness :: "bytes list option"
  in_asset :: "asset_id option"
  in_amount :: "u64 option"
  in_blind_asset_proof :: "bytes option"
  in_blind_value_proof :: "bytes option"
  issuance_value_amount :: "u64 option"
  blinded_issuance :: "u8 option"
  issuance_inflation_keys :: "u64 option"
  issuance_blinding_nonce :: "bytes option"
  issuance_asset_entropy :: "bytes option"
  previous_txid :: bytes
  previous_output_index :: u32

record pset_output =
  out_script_pubkey :: script
  out_asset :: "asset_id option"
  out_amount :: "u64 option"
  out_asset_comm :: "bytes option"
  out_amount_comm :: "bytes option"
  out_blind_asset_proof :: "bytes option"
  out_blind_value_proof :: "bytes option"

record pset =
  pset_inputs :: "pset_input list"
  pset_outputs :: "pset_output list"

record elements =
  base64_decode :: "string \<Rightarrow> bytes option"
  deserialize_pset :: "bytes \<Rightarrow> pset option"
  asset_from_str :: "string \<Rightarrow> asset_id option"
  asset_to_string :: "asset_id \<Rightarrow> string"
  blind_asset_proof_verify :: "bytes \<Rightarrow> asset_id \<Rightarrow> bytes \<Rightarrow> bool"
    \<comment> \<open>proof, asset, asset generator\<close>
  blind_value_proof_verify :: "bytes \<Rightarrow> u64 \<Rightarrow> bytes \<Rightarrow> bytes \<Rightarrow> bool"
    \<comment> \<open>proof, value, asset generator, value commitment\<close>
  generate_asset_entropy :: "bytes \<times> u32 \<Rightarrow> bytes \<Rightarrow> bytes"
  asset_from_entropy :: "bytes \<Rightarrow> asset_id"
  address_from_script :: "script \<Rightarrow> network \<Rightarrow> string option"
  address_script_pubkey :: "string \<Rightarrow> script option"
  script_to_hex :: "script \<Rightarrow> string"

definition zero_tweak :: bytes where
  "zero_tweak = replicate 32 0"

section \<open>Summarising a PSET\<close>

record output_summary =
  os_address :: "string option"
  os_script_hex :: string
  os_asset :: "string option"
  os_amount :: "u64 option"
  os_is_fee :: bool
  os_is_payjoin_service_fee :: bool
  os_confidential :: bool

record transaction_summary =
  ts_input_count :: nat
  ts_outputs :: "output_summary list"
  ts_fee :: "u64 option"
  ts_fully_explicit :: bool

datatype fund_error =
    BadBase64 | BadPset | BadFeeAddress
  | ZeroAmount | BadAssetId | NoOutputs
  | OwnedOutside nat | OwnedTwice nat | NoWitnessUtxo nat | OwnedDisagrees nat
  | OwnedHalfBlinded nat | InputConfidential nat | InputAssetProof nat | InputValueProof nat
  | InputSumOverflow | BlindedIssuance nat | IssuanceWithTokens nat | Reissuance nat
  | IssuanceNoEntropy nat
  | OutputConfidential nat | FeeMustBeExplicit nat | OutputAssetProof nat | OutputValueProof nat
  | OutputSumOverflow
  | FeeOutputCount nat | FeeExpectPanic | FeeZero | SurplusOfRequested | AmountMismatch u64 u64
  | UndeclaredFunding asset_id u64 u64

definition decode_pset :: "elements \<Rightarrow> string \<Rightarrow> fund_error + pset" where
  "decode_pset el b64 =
     and_then (ok_or (base64_decode el b64) BadBase64) (\<lambda>bs.
     ok_or (deserialize_pset el bs) BadPset)"

definition summarize_output :: "elements \<Rightarrow> network \<Rightarrow> pset_output \<Rightarrow> output_summary" where
  "summarize_output el n o1 =
     (let is_fee = out_script_pubkey o1 = [] in
      \<lparr>os_address = (if is_fee then None else address_from_script el (out_script_pubkey o1) n),
       os_script_hex = script_to_hex el (out_script_pubkey o1),
       os_asset = map_option (asset_to_string el) (out_asset o1),
       os_amount = out_amount o1,
       os_is_fee = is_fee,
       os_is_payjoin_service_fee = False,
       os_confidential = (out_amount o1 = None \<or> out_asset o1 = None)\<rparr>)"

text \<open>The loop over the outputs, with its four running variables: the summaries, the last
  fee amount seen, the number of fee outputs, and whether everything was explicit.\<close>

fun summarize_loop ::
  "elements \<Rightarrow> network \<Rightarrow> pset_output list
   \<Rightarrow> output_summary list \<times> u64 option \<times> nat \<times> bool
   \<Rightarrow> output_summary list \<times> u64 option \<times> nat \<times> bool" where
  "summarize_loop el n [] st = st"
| "summarize_loop el n (o1 # rest) (outs, fee, fee_outputs, explicit) =
     (let s = summarize_output el n o1;
          explicit' = (if os_confidential s then False else explicit);
          fee_outputs' = (if os_is_fee s then fee_outputs + 1 else fee_outputs);
          fee' = (if os_is_fee s then out_amount o1 else fee)
      in summarize_loop el n rest (outs @ [s], fee', fee_outputs', explicit'))"

definition summarize_pset ::
  "elements \<Rightarrow> string \<Rightarrow> network \<Rightarrow> fund_error + transaction_summary" where
  "summarize_pset el b64 n =
     and_then (decode_pset el b64) (\<lambda>p.
     let (outs, fee, fee_outputs, explicit) =
           summarize_loop el n (pset_outputs p) ([], None, 0, True)
     in Inr \<lparr>ts_input_count = length (pset_inputs p), ts_outputs = outs,
             ts_fee = (if fee_outputs \<noteq> 1 then None else fee), ts_fully_explicit = explicit\<rparr>)"

fun annotate_loop :: "string \<Rightarrow> output_summary list \<Rightarrow> output_summary list \<times> nat" where
  "annotate_loop fee_script [] = ([], 0)"
| "annotate_loop fee_script (s # rest) =
     (let (rest', marked) = annotate_loop fee_script rest
      in if os_script_hex s = fee_script
         then (s\<lparr>os_is_payjoin_service_fee := True\<rparr> # rest', marked + 1)
         else (s # rest', marked))"

definition annotate_payjoin ::
  "elements \<Rightarrow> string \<Rightarrow> transaction_summary \<Rightarrow> fund_error + transaction_summary \<times> nat" where
  "annotate_payjoin el fee_address ts =
     and_then (ok_or (address_script_pubkey el fee_address) BadFeeAddress) (\<lambda>spk.
     let (outs, marked) = annotate_loop (script_to_hex el spk) (ts_outputs ts)
     in Inr (ts\<lparr>ts_outputs := outs\<rparr>, marked))"

section \<open>Verifying a fund template\<close>

record owned_input =
  oi_index :: nat
  oi_asset :: asset_id
  oi_amount :: u64

record fund_template_summary =
  fts_input_count :: nat
  fts_output_count :: nat
  fts_fee :: u64
  fts_deficit :: u64
  fts_proven_rows :: nat
  fts_owned_inputs :: nat

type_synonym sums = "(asset_id, u64 \<times> u64) btree"

fun check_owned :: "nat \<Rightarrow> owned_input list \<Rightarrow> owned_input list \<Rightarrow> fund_error + unit" where
  "check_owned n before [] = Inr ()"
| "check_owned n before (o1 # rest) =
     ensure (oi_index o1 < n) (OwnedOutside (oi_index o1))
     (ensure (\<not> list_ex (\<lambda>p. oi_index p = oi_index o1) before) (OwnedTwice (oi_index o1))
     (check_owned n (before @ [o1]) rest))"

text \<open>The asset and value of one template input and whether a proof had to bind them.\<close>

definition input_row ::
  "elements \<Rightarrow> owned_input list \<Rightarrow> nat \<Rightarrow> pset_input \<Rightarrow> fund_error + asset_id \<times> u64 \<times> bool" where
  "input_row el owned i inp =
     and_then (ok_or (witness_utxo inp) (NoWitnessUtxo i)) (\<lambda>utxo.
     case (txo_asset utxo, txo_value utxo, find (\<lambda>o1. oi_index o1 = i) owned) of
       (AssetExplicit asset, ValueExplicit v, Some o1) \<Rightarrow>
         ensure (asset = oi_asset o1 \<and> v = oi_amount o1) (OwnedDisagrees i) (Inr (asset, v, False))
     | (AssetConfidential _, ValueConfidential _, Some o1) \<Rightarrow> Inr (oi_asset o1, oi_amount o1, False)
     | (_, _, Some _) \<Rightarrow> Inl (OwnedHalfBlinded i)
     | (AssetExplicit asset, ValueExplicit v, None) \<Rightarrow> Inr (asset, v, False)
     | (AssetConfidential gen, ValueConfidential comm, None) \<Rightarrow>
         (case (in_asset inp, in_amount inp, in_blind_asset_proof inp, in_blind_value_proof inp) of
            (Some asset, Some v, Some ap, Some vp) \<Rightarrow>
              ensure (blind_asset_proof_verify el ap asset gen) (InputAssetProof i)
              (ensure (blind_value_proof_verify el vp v gen comm) (InputValueProof i)
              (Inr (asset, v, True)))
          | _ \<Rightarrow> Inl (InputConfidential i))
     | _ \<Rightarrow> Inl (InputConfidential i))"

text \<open>The explicit new issuance on an input, when it has one.\<close>

definition input_issuance ::
  "elements \<Rightarrow> nat \<Rightarrow> pset_input \<Rightarrow> fund_error + (asset_id \<times> u64) option" where
  "input_issuance el i inp = (case issuance_value_amount inp of
     None \<Rightarrow> Inr None
   | Some issued \<Rightarrow>
       ensure (case blinded_issuance inp of None \<Rightarrow> True | Some b \<Rightarrow> b = 0) (BlindedIssuance i)
       (ensure (case issuance_inflation_keys inp of None \<Rightarrow> True | Some k \<Rightarrow> k = 0)
          (IssuanceWithTokens i)
       (ensure (case issuance_blinding_nonce inp of None \<Rightarrow> True | Some t \<Rightarrow> t = zero_tweak)
          (Reissuance i)
       (and_then (ok_or (issuance_asset_entropy inp) (IssuanceNoEntropy i)) (\<lambda>contract_hash.
        let entropy = generate_asset_entropy el (previous_txid inp, previous_output_index inp) contract_hash
        in Inr (Some (asset_from_entropy el entropy, issued)))))))"

definition sums_entry :: "sums \<Rightarrow> asset_id \<Rightarrow> u64 \<times> u64" where
  "sums_entry s a = (case bt_get s a of None \<Rightarrow> (0, 0) | Some p \<Rightarrow> p)"

definition add_in :: "asset_id \<Rightarrow> u64 \<Rightarrow> sums \<Rightarrow> fund_error + sums" where
  "add_in a v s =
     (let (i, out) = sums_entry s a
      in and_then (ok_or (checked_add i v) InputSumOverflow) (\<lambda>i'. Inr (bt_insert a (i', out) s)))"

definition add_out :: "asset_id \<Rightarrow> u64 \<Rightarrow> sums \<Rightarrow> fund_error + sums" where
  "add_out a v s =
     (let (i, out) = sums_entry s a
      in and_then (ok_or (checked_add out v) OutputSumOverflow) (\<lambda>o'. Inr (bt_insert a (i, o') s)))"

fun fold_inputs ::
  "elements \<Rightarrow> owned_input list \<Rightarrow> nat \<Rightarrow> pset_input list \<Rightarrow> sums \<times> nat \<Rightarrow> fund_error + sums \<times> nat" where
  "fold_inputs el owned i [] st = Inr st"
| "fold_inputs el owned i (inp # rest) (s, proven) =
     and_then (input_row el owned i inp) (\<lambda>(asset, v, by_proof).
     and_then (add_in asset v s) (\<lambda>s1.
     and_then (input_issuance el i inp) (\<lambda>iss.
     and_then (case iss of None \<Rightarrow> Inr s1 | Some (issued_asset, issued) \<Rightarrow> add_in issued_asset issued s1) (\<lambda>s2.
     fold_inputs el owned (Suc i) rest (s2, if by_proof then proven + 1 else proven)))))"

definition output_row ::
  "elements \<Rightarrow> nat \<Rightarrow> pset_output \<Rightarrow> fund_error + asset_id \<times> u64 \<times> bool" where
  "output_row el i out = (case (out_asset_comm out, out_amount_comm out) of
     (None, None) \<Rightarrow>
       (case (out_asset out, out_amount out) of
          (Some asset, Some v) \<Rightarrow> Inr (asset, v, False)
        | _ \<Rightarrow> Inl (OutputConfidential i))
   | (Some gen, Some comm) \<Rightarrow>
       (case (out_asset out, out_amount out, out_blind_asset_proof out, out_blind_value_proof out) of
          (Some asset, Some v, Some ap, Some vp) \<Rightarrow>
            ensure (out_script_pubkey out \<noteq> []) (FeeMustBeExplicit i)
            (ensure (blind_asset_proof_verify el ap asset gen) (OutputAssetProof i)
            (ensure (blind_value_proof_verify el vp v gen comm) (OutputValueProof i)
            (Inr (asset, v, True))))
        | _ \<Rightarrow> Inl (OutputConfidential i))
   | _ \<Rightarrow> Inl (OutputConfidential i))"

fun fold_outputs ::
  "elements \<Rightarrow> nat \<Rightarrow> pset_output list \<Rightarrow> sums \<times> nat \<times> u64 option \<times> nat
   \<Rightarrow> fund_error + sums \<times> nat \<times> u64 option \<times> nat" where
  "fold_outputs el i [] st = Inr st"
| "fold_outputs el i (out # rest) (s, proven, fee, fee_outputs) =
     and_then (output_row el i out) (\<lambda>(asset, v, by_proof).
     let is_fee = out_script_pubkey out = []; fee' = (if is_fee then Some v else fee) in
     and_then (add_out asset v s) (\<lambda>s1.
     fold_outputs el (Suc i) rest
       (s1, if by_proof then proven + 1 else proven, fee',
        if is_fee then fee_outputs + 1 else fee_outputs)))"

text \<open>The other assets, in key order: the first one that asks for funding is reported.\<close>

fun check_covered :: "sums \<Rightarrow> fund_error + unit" where
  "check_covered [] = Inr ()"
| "check_covered ((a, (i, out)) # rest) =
     ensure (out \<le> i) (UndeclaredFunding a out i) (check_covered rest)"

text \<open>What the sums must say once every row is read: one fee output, not zero, a deficit of the requested
  asset that is the stated amount, and no other asset short.\<close>

definition template_verdict ::
  "pset \<Rightarrow> nat \<Rightarrow> asset_id \<Rightarrow> u64 \<Rightarrow> sums \<Rightarrow> nat \<Rightarrow> u64 option \<Rightarrow> nat \<Rightarrow> fund_error + fund_template_summary" where
  "template_verdict p owned_inputs want amount s proven fee fee_outputs =
     ensure (fee_outputs = 1) (FeeOutputCount fee_outputs)
     (and_then (ok_or fee FeeExpectPanic) (\<lambda>fee.
     ensure (fee > 0) FeeZero
     (let (asset_in, asset_out) = sums_entry s want; s' = bt_remove want s in
     and_then (ok_or (checked_sub asset_out asset_in) SurplusOfRequested) (\<lambda>deficit.
     ensure (deficit = amount) (AmountMismatch amount deficit)
     (and_then (check_covered s') (\<lambda>_.
     Inr \<lparr>fts_input_count = length (pset_inputs p), fts_output_count = length (pset_outputs p),
          fts_fee = fee, fts_deficit = deficit, fts_proven_rows = proven,
          fts_owned_inputs = owned_inputs\<rparr>))))))"

definition verify_fund_template_owned ::
  "elements \<Rightarrow> string \<Rightarrow> string \<Rightarrow> u64 \<Rightarrow> owned_input list \<Rightarrow> fund_error + fund_template_summary" where
  "verify_fund_template_owned el template aid amount owned =
     ensure (amount > 0) ZeroAmount
     (and_then (ok_or (asset_from_str el aid) BadAssetId) (\<lambda>want.
     and_then (decode_pset el template) (\<lambda>p.
     ensure (pset_outputs p \<noteq> []) NoOutputs
     (and_then (check_owned (length (pset_inputs p)) [] owned) (\<lambda>_.
     and_then (fold_inputs el owned 0 (pset_inputs p) ([], 0)) (\<lambda>(s, proven).
     and_then (fold_outputs el 0 (pset_outputs p) (s, proven, None, 0)) (\<lambda>(s, proven, fee, fee_outputs).
     template_verdict p (length owned) want amount s proven fee fee_outputs)))))))"

definition verify_fund_template ::
  "elements \<Rightarrow> string \<Rightarrow> string \<Rightarrow> u64 \<Rightarrow> fund_error + fund_template_summary" where
  "verify_fund_template el template aid amount = verify_fund_template_owned el template aid amount []"

end
