(* ===== verification/Approval_Props.thy ===== *)
theory Approval_Props
  imports Approval
begin

text \<open>
  The fund-template verification against its specification.  The specification reads the
  template as two ledgers of (asset, value) rows, one for the inputs (with their explicit
  issuances) and one for the outputs, adds them up in unbounded arithmetic, and states the
  safety rules of \<open>docs/fund-template-spec.md\<close> about the totals.  The loops with their
  checked 64-bit sums are shown to accept exactly the templates the rules accept.
\<close>

section \<open>Ledgers\<close>

type_synonym ledger = "(asset_id \<times> u64) list"

definition tot :: "ledger \<Rightarrow> asset_id \<Rightarrow> nat" where
  "tot rows a = (\<Sum>r \<leftarrow> rows. if fst r = a then unat (snd r) else 0)"

fun input_rows ::
  "elements \<Rightarrow> owned_input list \<Rightarrow> nat \<Rightarrow> pset_input list \<Rightarrow> (ledger \<times> nat) option" where
  "input_rows el owned i [] = Some ([], 0)"
| "input_rows el owned i (inp # rest) =
     (case (input_row el owned i inp, input_issuance el i inp, input_rows el owned (Suc i) rest) of
        (Inr (a, v, by_proof), Inr iss, Some (rows, n)) \<Rightarrow>
          Some ((a, v) # (case iss of None \<Rightarrow> [] | Some r \<Rightarrow> [r]) @ rows,
                if by_proof then Suc n else n)
      | _ \<Rightarrow> None)"

fun output_rows :: "elements \<Rightarrow> nat \<Rightarrow> pset_output list \<Rightarrow> (ledger \<times> nat) option" where
  "output_rows el i [] = Some ([], 0)"
| "output_rows el i (out # rest) =
     (case (output_row el i out, output_rows el (Suc i) rest) of
        (Inr (a, v, by_proof), Some (rows, n)) \<Rightarrow> Some ((a, v) # rows, if by_proof then Suc n else n)
      | _ \<Rightarrow> None)"

text \<open>The values of the fee outputs (the rows with an empty script).\<close>

definition fee_values :: "pset_output list \<Rightarrow> ledger \<Rightarrow> u64 list" where
  "fee_values outs rows =
     map (\<lambda>p. snd (snd p)) (filter (\<lambda>p. out_script_pubkey (fst p) = []) (zip outs rows))"

definition owned_ok :: "nat \<Rightarrow> owned_input list \<Rightarrow> bool" where
  "owned_ok n owned \<longleftrightarrow>
     distinct (map oi_index owned) \<and> (\<forall>o1 \<in> set owned. oi_index o1 < n)"

definition ledger_ok :: "asset_id \<Rightarrow> u64 \<Rightarrow> ledger \<Rightarrow> ledger \<Rightarrow> bool" where
  "ledger_ok want amount ins outs \<longleftrightarrow>
     (\<forall>a. tot ins a < 2 ^ 64 \<and> tot outs a < 2 ^ 64)
     \<and> tot outs want = tot ins want + unat amount
     \<and> (\<forall>a. a \<noteq> want \<longrightarrow> tot outs a \<le> tot ins a)"

definition sums_rep :: "sums \<Rightarrow> (asset_id \<Rightarrow> nat) \<Rightarrow> (asset_id \<Rightarrow> nat) \<Rightarrow> bool" where
  "sums_rep s I O1 \<longleftrightarrow>
     bt_wf s \<and> (\<forall>a. unat (fst (sums_entry s a)) = I a \<and> unat (snd (sums_entry s a)) = O1 a)"

section \<open>The checked sums follow the totals\<close>

lemma tot_simps [simp]:
  "tot [] a = 0"
  "tot (r # rows) a = (if fst r = a then unat (snd r) else 0) + tot rows a"
  "tot (rows @ rows') a = tot rows a + tot rows' a"
  by (simp_all add: tot_def)

lemma tot_mem: "r \<in> set rows \<Longrightarrow> unat (snd r) \<le> tot rows (fst r)"
  by (induction rows) auto

lemma tot_absent: "a \<notin> fst ` set rows \<Longrightarrow> tot rows a = 0"
  by (induction rows) auto

lemma tot_distinct: "distinct (map fst rows) \<Longrightarrow> r \<in> set rows \<Longrightarrow> tot rows (fst r) = unat (snd r)"
  by (induction rows) (auto simp: tot_absent)

lemma tot_repeated: "tot (concat (replicate n rows)) a = n * tot rows a"
  by (induction n) simp_all

lemma sums_rep_Nil: "sums_rep [] (\<lambda>_. 0) (\<lambda>_. 0)"
  by (simp add: sums_rep_def sums_entry_def)

lemma sums_entry_insert:
  "sums_entry (bt_insert a p s) b = (if b = a then p else sums_entry s b)"
  by (simp add: sums_entry_def bt_get_insert)

lemma add_in_sound:
  assumes "add_in a v s = Inr s'" and "sums_rep s I O1"
  shows "sums_rep s' (\<lambda>b. I b + tot [(a, v)] b) O1"
  using assms
  by (auto simp: add_in_def result_simps checked_add_Some sums_rep_def sums_entry_insert
      case_prod_unfold Let_def)

lemma add_in_complete:
  assumes "sums_rep s I O1" and "I a + unat v < 2 ^ 64"
  shows "\<exists>s'. add_in a v s = Inr s'"
proof -
  have "unat (fst (sums_entry s a)) + unat v < 2 ^ 64"
    using assms by (simp add: sums_rep_def)
  then show ?thesis
    by (simp add: add_in_def checked_add_def Let_def case_prod_unfold)
qed

lemma add_out_sound:
  assumes "add_out a v s = Inr s'" and "sums_rep s I O1"
  shows "sums_rep s' I (\<lambda>b. O1 b + tot [(a, v)] b)"
  using assms
  by (auto simp: add_out_def result_simps checked_add_Some sums_rep_def sums_entry_insert
      case_prod_unfold Let_def)

lemma add_out_complete:
  assumes "sums_rep s I O1" and "O1 a + unat v < 2 ^ 64"
  shows "\<exists>s'. add_out a v s = Inr s'"
proof -
  have "unat (snd (sums_entry s a)) + unat v < 2 ^ 64"
    using assms by (simp add: sums_rep_def)
  then show ?thesis
    by (simp add: add_out_def checked_add_def Let_def case_prod_unfold)
qed

lemma sums_rep_bound: "sums_rep s I O1 \<Longrightarrow> I a < 2 ^ 64 \<and> O1 a < 2 ^ 64"
proof -
  assume "sums_rep s I O1"
  then have "I a = unat (fst (sums_entry s a))" "O1 a = unat (snd (sums_entry s a))"
    by (simp_all add: sums_rep_def)
  then show ?thesis
    using unsigned_less [of "fst (sums_entry s a)"] unsigned_less [of "snd (sums_entry s a)"] by simp
qed

lemma fold_inputs_sound:
  "fold_inputs el owned i ins (s, k) = Inr (s', k') \<Longrightarrow> sums_rep s I O1 \<Longrightarrow>
   \<exists>rows n. input_rows el owned i ins = Some (rows, n) \<and> k' = k + n
      \<and> sums_rep s' (\<lambda>a. I a + tot rows a) O1"
proof (induction ins arbitrary: i s k I)
  case (Cons inp rest)
  from Cons.prems(1) obtain a v pr s1 iss s2 where
    row: "input_row el owned i inp = Inr (a, v, pr)" and s1: "add_in a v s = Inr s1"
    and iss: "input_issuance el i inp = Inr iss"
    and s2: "(case iss of None \<Rightarrow> Inr s1 | Some (b, w) \<Rightarrow> add_in b w s1) = Inr s2"
    and rest: "fold_inputs el owned (Suc i) rest (s2, if pr then k + 1 else k) = Inr (s', k')"
    by (auto simp: result_simps)
  let ?new = "(a, v) # (case iss of None \<Rightarrow> [] | Some r \<Rightarrow> [r])"
  have r1: "sums_rep s1 (\<lambda>b. I b + tot [(a, v)] b) O1" by (rule add_in_sound [OF s1 Cons.prems(2)])
  have "sums_rep s2 (\<lambda>b. I b + tot ?new b) O1"
  proof (cases iss)
    case None
    with s2 r1 show ?thesis by simp
  next
    case (Some r)
    with s2 have "add_in (fst r) (snd r) s1 = Inr s2" by (simp add: case_prod_unfold)
    from add_in_sound [OF this r1] Some show ?thesis by (simp add: add.assoc)
  qed
  from Cons.IH [OF rest this] row iss show ?case
    by (auto simp: add.assoc)
qed simp

lemma fold_inputs_complete:
  "input_rows el owned i ins = Some (rows, n) \<Longrightarrow> sums_rep s I O1 \<Longrightarrow>
   (\<And>a. I a + tot rows a < 2 ^ 64) \<Longrightarrow>
   \<exists>s'. fold_inputs el owned i ins (s, k) = Inr (s', k + n)"
proof (induction ins arbitrary: i s k I rows n)
  case (Cons inp rest)
  from Cons.prems(1) obtain a v pr iss rows' n' where
    row: "input_row el owned i inp = Inr (a, v, pr)" and iss: "input_issuance el i inp = Inr iss"
    and rest: "input_rows el owned (Suc i) rest = Some (rows', n')"
    and rows: "rows = (a, v) # (case iss of None \<Rightarrow> [] | Some r \<Rightarrow> [r]) @ rows'"
    and n: "n = (if pr then Suc n' else n')"
    by (auto split: sum.splits prod.splits option.splits)
  let ?new = "(a, v) # (case iss of None \<Rightarrow> [] | Some r \<Rightarrow> [r])"
  have bound: "I b + tot ?new b + tot rows' b < 2 ^ 64" for b
    using Cons.prems(3) [of b] by (simp add: rows add.assoc)
  have "I a + unat v < 2 ^ 64" using bound [of a] by simp
  from add_in_complete [OF Cons.prems(2) this] obtain s1 where s1: "add_in a v s = Inr s1" ..
  have r1: "sums_rep s1 (\<lambda>b. I b + tot [(a, v)] b) O1" by (rule add_in_sound [OF s1 Cons.prems(2)])
  obtain s2 where s2: "(case iss of None \<Rightarrow> Inr s1 | Some (b, w) \<Rightarrow> add_in b w s1) = Inr s2"
    and r2: "sums_rep s2 (\<lambda>b. I b + tot ?new b) O1"
  proof (cases iss)
    case None
    with that r1 show ?thesis by simp
  next
    case (Some r)
    have "I (fst r) + tot [(a, v)] (fst r) + unat (snd r) < 2 ^ 64"
      using bound [of "fst r"] Some by simp
    from add_in_complete [OF r1 this] obtain s2 where "add_in (fst r) (snd r) s1 = Inr s2" ..
    with add_in_sound [OF this r1] Some that show ?thesis by (simp add: case_prod_unfold add.assoc)
  qed
  from Cons.IH [OF rest r2 bound] obtain s' where
    "fold_inputs el owned (Suc i) rest (s2, if pr then k + 1 else k) = Inr (s', (if pr then k + 1 else k) + n')"
    by blast
  with row s1 iss s2 n show ?case by auto
qed simp

lemma length_output_rows: "output_rows el i outs = Some (rows, n) \<Longrightarrow> length rows = length outs"
  by (induction outs arbitrary: i rows n) (auto split: sum.splits prod.splits option.splits)

lemma fee_values_Cons:
  "fee_values (out # outs) (r # rows)
     = (if out_script_pubkey out = [] then [snd r] else []) @ fee_values outs rows"
  by (simp add: fee_values_def)

lemma fold_outputs_sound:
  "fold_outputs el i outs (s, k, f, c) = Inr (s', k', f', c') \<Longrightarrow> sums_rep s I O1 \<Longrightarrow>
   \<exists>rows n. output_rows el i outs = Some (rows, n) \<and> k' = k + n
      \<and> c' = c + length (fee_values outs rows)
      \<and> f' = (if fee_values outs rows = [] then f else Some (last (fee_values outs rows)))
      \<and> sums_rep s' I (\<lambda>a. O1 a + tot rows a)"
proof (induction outs arbitrary: i s k f c O1)
  case Nil
  then show ?case by (simp add: fee_values_def)
next
  case (Cons out rest)
  from Cons.prems(1) obtain a v pr s1 where
    row: "output_row el i out = Inr (a, v, pr)" and s1: "add_out a v s = Inr s1"
    and rest: "fold_outputs el (Suc i) rest (s1, if pr then k + 1 else k,
        if out_script_pubkey out = [] then Some v else f,
        if out_script_pubkey out = [] then c + 1 else c) = Inr (s', k', f', c')"
    by (auto simp: result_simps Let_def)
  have "sums_rep s1 I (\<lambda>b. O1 b + tot [(a, v)] b)" by (rule add_out_sound [OF s1 Cons.prems(2)])
  from Cons.IH [OF rest this] obtain rows n where
    rows: "output_rows el (Suc i) rest = Some (rows, n)" and k': "k' = (if pr then k + 1 else k) + n"
    and c': "c' = (if out_script_pubkey out = [] then c + 1 else c) + length (fee_values rest rows)"
    and f': "f' = (if fee_values rest rows = [] then (if out_script_pubkey out = [] then Some v else f)
        else Some (last (fee_values rest rows)))"
    and rep: "sums_rep s' I (\<lambda>b. O1 b + tot [(a, v)] b + tot rows b)" by blast
  have "output_rows el i (out # rest) = Some ((a, v) # rows, if pr then Suc n else n)"
    using row rows by simp
  moreover have "fee_values (out # rest) ((a, v) # rows)
      = (if out_script_pubkey out = [] then [v] else []) @ fee_values rest rows"
    by (simp add: fee_values_Cons)
  moreover have "sums_rep s' I (\<lambda>b. O1 b + tot ((a, v) # rows) b)"
    using rep by (simp add: add.assoc)
  ultimately show ?case
    using k' c' f' by (intro exI [of _ "(a, v) # rows"] exI [of _ "if pr then Suc n else n"]) auto
qed

lemma fold_outputs_complete:
  "output_rows el i outs = Some (rows, n) \<Longrightarrow> sums_rep s I O1 \<Longrightarrow>
   (\<And>a. O1 a + tot rows a < 2 ^ 64) \<Longrightarrow>
   \<exists>st. fold_outputs el i outs (s, k, f, c) = Inr st"
proof (induction outs arbitrary: i s k f c O1 rows n)
  case (Cons out rest)
  from Cons.prems(1) obtain a v pr rows' n' where
    row: "output_row el i out = Inr (a, v, pr)"
    and rest: "output_rows el (Suc i) rest = Some (rows', n')" and rows: "rows = (a, v) # rows'"
    by (auto split: sum.splits prod.splits option.splits)
  have bound: "O1 b + tot [(a, v)] b + tot rows' b < 2 ^ 64" for b
    using Cons.prems(3) [of b] by (simp add: rows add.assoc)
  have "O1 a + unat v < 2 ^ 64" using bound [of a] by simp
  from add_out_complete [OF Cons.prems(2) this] obtain s1 where s1: "add_out a v s = Inr s1" ..
  from Cons.IH [OF rest add_out_sound [OF s1 Cons.prems(2)] bound] row s1 show ?case
    by (simp add: Let_def)
qed simp

lemma check_owned_iff:
  "check_owned n before owned = Inr () \<longleftrightarrow>
   owned_ok n owned \<and> oi_index ` set before \<inter> oi_index ` set owned = {}"
proof (induction owned arbitrary: before)
  case (Cons o1 rest)
  show ?case
    by (auto simp: result_simps Cons.IH owned_ok_def list_ex_iff) (metis imageI)
qed (simp add: owned_ok_def)

lemma check_covered_iff:
  assumes "bt_wf s"
  shows "check_covered s = Inr () \<longleftrightarrow> (\<forall>a. snd (sums_entry s a) \<le> fst (sums_entry s a))"
proof -
  have "check_covered s = Inr () \<longleftrightarrow> (\<forall>e \<in> set s. snd (snd e) \<le> fst (snd e))"
    by (induction s rule: check_covered.induct) (auto simp: result_simps)
  also have "\<dots> \<longleftrightarrow> (\<forall>a p. bt_get s a = Some p \<longrightarrow> snd p \<le> fst p)"
  proof (intro iffI allI ballI impI)
    fix a p
    assume "\<forall>e \<in> set s. snd (snd e) \<le> fst (snd e)" and "bt_get s a = Some p"
    from bspec [OF this(1) bt_get_mem [OF this(2)]] show "snd p \<le> fst p" by simp
  next
    fix e
    assume all: "\<forall>a p. bt_get s a = Some p \<longrightarrow> snd p \<le> fst p" and e: "e \<in> set s"
    have "bt_get s (fst e) = Some (snd e)" using bt_mem_get [OF assms, of "fst e" "snd e"] e by simp
    with all show "snd (snd e) \<le> fst (snd e)" by blast
  qed
  also have "\<dots> \<longleftrightarrow> (\<forall>a. snd (sums_entry s a) \<le> fst (sums_entry s a))"
    by (auto simp: sums_entry_def split: option.splits)
  finally show ?thesis .
qed

lemma sums_entry_remove: "sums_entry (bt_remove a s) b = (if b = a then (0, 0) else sums_entry s b)"
  by (simp add: sums_entry_def bt_get_remove)

section \<open>The verification accepts exactly the templates the rules accept\<close>

definition template_accepted ::
  "elements \<Rightarrow> string \<Rightarrow> string \<Rightarrow> u64 \<Rightarrow> owned_input list \<Rightarrow> fund_template_summary \<Rightarrow> bool" where
  "template_accepted el template aid amount owned summary \<longleftrightarrow>
     (\<exists>want p ins n outs m fee.
        0 < amount \<and> asset_from_str el aid = Some want \<and> decode_pset el template = Inr p
        \<and> owned_ok (length (pset_inputs p)) owned
        \<and> input_rows el owned 0 (pset_inputs p) = Some (ins, n)
        \<and> output_rows el 0 (pset_outputs p) = Some (outs, m)
        \<and> fee_values (pset_outputs p) outs = [fee] \<and> 0 < fee
        \<and> ledger_ok want amount ins outs
        \<and> summary = \<lparr>fts_input_count = length (pset_inputs p),
                     fts_output_count = length (pset_outputs p), fts_fee = fee,
                     fts_deficit = amount, fts_proven_rows = n + m,
                     fts_owned_inputs = length owned\<rparr>)"

lemma verify_accepts_sound:
  assumes "verify_fund_template_owned el template aid amount owned = Inr summary"
  shows "template_accepted el template aid amount owned summary"
proof -
  from assms obtain want p s1 k1 s k fee c deficit where
    a0: "0 < amount" and want: "asset_from_str el aid = Some want"
    and p: "decode_pset el template = Inr p"
    and own: "check_owned (length (pset_inputs p)) [] owned = Inr ()"
    and ins: "fold_inputs el owned 0 (pset_inputs p) ([], 0) = Inr (s1, k1)"
    and outs: "fold_outputs el 0 (pset_outputs p) (s1, k1, None, 0) = Inr (s, k, Some fee, c)"
    and c: "c = 1" and fee: "0 < fee"
    and def: "checked_sub (snd (sums_entry s want)) (fst (sums_entry s want)) = Some deficit"
    and amt: "deficit = amount" and cov: "check_covered (bt_remove want s) = Inr ()"
    and sm: "summary = \<lparr>fts_input_count = length (pset_inputs p),
        fts_output_count = length (pset_outputs p), fts_fee = fee, fts_deficit = deficit,
        fts_proven_rows = k, fts_owned_inputs = length owned\<rparr>"
    by (auto simp: verify_fund_template_owned_def template_verdict_def result_simps Let_def case_prod_unfold)
  from fold_inputs_sound [OF ins sums_rep_Nil] obtain irows n where
    ir: "input_rows el owned 0 (pset_inputs p) = Some (irows, n)" and k1: "k1 = n"
    and r1: "sums_rep s1 (tot irows) (\<lambda>_. 0)" by auto
  from fold_outputs_sound [OF outs r1] obtain orows m where
    or: "output_rows el 0 (pset_outputs p) = Some (orows, m)" and k: "k = k1 + m"
    and cf: "c = 0 + length (fee_values (pset_outputs p) orows)"
    and ff: "Some fee = (if fee_values (pset_outputs p) orows = [] then None
        else Some (last (fee_values (pset_outputs p) orows)))"
    and r2: "sums_rep s (tot irows) (tot orows)" by auto
  have fees: "fee_values (pset_outputs p) orows = [fee]"
    using cf ff c by (cases "fee_values (pset_outputs p) orows") auto
  have wf: "bt_wf s" using r2 by (simp add: sums_rep_def)
  have e: "unat (fst (sums_entry s a)) = tot irows a" "unat (snd (sums_entry s a)) = tot orows a" for a
    using r2 by (simp_all add: sums_rep_def)
  have "\<forall>a. a \<noteq> want \<longrightarrow> tot orows a \<le> tot irows a"
    using cov unfolding check_covered_iff [OF bt_wf_remove [OF wf]]
    by (metis e sums_entry_remove word_le_nat_alt)
  then have "ledger_ok want amount irows orows"
    using sums_rep_bound [OF r2] def amt by (auto simp: ledger_ok_def checked_sub_Some e)
  then show ?thesis
    using a0 want p own ir or fees fee sm amt k k1
    by (auto simp: template_accepted_def check_owned_iff)
qed

lemma verify_accepts_complete:
  assumes "template_accepted el template aid amount owned summary"
  shows "verify_fund_template_owned el template aid amount owned = Inr summary"
proof -
  from assms obtain want p irows n orows m fee where
    a0: "0 < amount" and want: "asset_from_str el aid = Some want"
    and p: "decode_pset el template = Inr p" and own: "owned_ok (length (pset_inputs p)) owned"
    and ir: "input_rows el owned 0 (pset_inputs p) = Some (irows, n)"
    and or: "output_rows el 0 (pset_outputs p) = Some (orows, m)"
    and fees: "fee_values (pset_outputs p) orows = [fee]" and fee: "0 < fee"
    and led: "ledger_ok want amount irows orows"
    and sm: "summary = \<lparr>fts_input_count = length (pset_inputs p),
        fts_output_count = length (pset_outputs p), fts_fee = fee, fts_deficit = amount,
        fts_proven_rows = n + m, fts_owned_inputs = length owned\<rparr>"
    by (auto simp: template_accepted_def)
  have "check_owned (length (pset_inputs p)) [] owned = Inr ()"
    using own by (simp add: check_owned_iff)
  moreover have ne: "pset_outputs p \<noteq> []"
    using fees by (auto simp: fee_values_def)
  moreover obtain s1 where ins: "fold_inputs el owned 0 (pset_inputs p) ([], 0) = Inr (s1, n)"
    using fold_inputs_complete [OF ir sums_rep_Nil, of 0] led by (auto simp: ledger_ok_def)
  moreover have r1: "sums_rep s1 (tot irows) (\<lambda>_. 0)"
    using fold_inputs_sound [OF ins sums_rep_Nil] ir by simp
  moreover obtain st where st: "fold_outputs el 0 (pset_outputs p) (s1, n, None, 0) = Inr st"
    using fold_outputs_complete [OF or r1, of n None 0] led by (auto simp: ledger_ok_def)
  moreover obtain s k f c where stq: "st = (s, k, f, c)" by (cases st)
  moreover have r2: "sums_rep s (tot irows) (tot orows)" and k: "k = n + m" and c: "c = 1"
    and f: "f = Some fee"
    using fold_outputs_sound [OF st [unfolded stq] r1] or fees by auto
  moreover have wf: "bt_wf s" using r2 by (simp add: sums_rep_def)
  moreover have e: "unat (fst (sums_entry s a)) = tot irows a" "unat (snd (sums_entry s a)) = tot orows a" for a
    using r2 by (simp_all add: sums_rep_def)
  moreover have "checked_sub (snd (sums_entry s want)) (fst (sums_entry s want)) = Some amount"
    using led by (simp add: checked_sub_Some e ledger_ok_def)
  moreover have "check_covered (bt_remove want s) = Inr ()"
    using led by (simp add: check_covered_iff [OF bt_wf_remove [OF wf]] sums_entry_remove
        word_le_nat_alt e ledger_ok_def)
  ultimately show ?thesis
    using a0 want p fee sm
    by (simp add: verify_fund_template_owned_def template_verdict_def Let_def case_prod_unfold)
qed

end
