(* ===== verification/Approval_Claims.thy ===== *)
theory Approval_Claims
  imports Approval_Props "HOL-Library.Multiset"
begin

text \<open>
  What the approval surface guarantees: the template verification accepts exactly the
  templates of the specification, an accepted template bounds what the wallet can put in, every
  confidential row it counted was bound by a verified proof, its \<open>expect\<close> cannot panic, and
  the PSET summary and the payjoin annotation say what the transaction says.
\<close>

section \<open>Supporting facts\<close>

lemma output_rows_bound:
  "output_rows el i outs = Some (rows, n) \<Longrightarrow> k < length outs \<Longrightarrow>
   \<exists>a v pr. output_row el (i + k) (outs ! k) = Inr (a, v, pr) \<and> rows ! k = (a, v)"
proof (induction outs arbitrary: i k rows n)
  case (Cons out rest)
  from Cons.prems(1) obtain a v pr rows' n' where
    row: "output_row el i out = Inr (a, v, pr)"
    and rest: "output_rows el (Suc i) rest = Some (rows', n')" and rows: "rows = (a, v) # rows'"
    by (auto split: sum.splits prod.splits option.splits)
  show ?case
  proof (cases k)
    case 0
    with row rows show ?thesis by auto
  next
    case (Suc j)
    with Cons.prems(2) have "j < length rest" by simp
    from Cons.IH [OF rest this] Suc rows show ?thesis by auto
  qed
qed simp

lemma output_row_proofs:
  "output_row el i out = Inr (a, v, pr) \<Longrightarrow> out_asset out = Some a \<and> out_amount out = Some v \<and>
   (case (out_asset_comm out, out_amount_comm out) of
      (None, None) \<Rightarrow> True
    | (Some gen, Some comm) \<Rightarrow> out_script_pubkey out \<noteq> [] \<and>
        (\<exists>ap vp. out_blind_asset_proof out = Some ap \<and> blind_asset_proof_verify el ap a gen
          \<and> out_blind_value_proof out = Some vp \<and> blind_value_proof_verify el vp v gen comm)
    | _ \<Rightarrow> False)"
  by (auto simp: output_row_def result_simps split: option.splits)

text \<open>The template inputs that are the wallet's own coins, at the wallet's own figures.\<close>

definition owned_rows :: "owned_input list \<Rightarrow> ledger" where
  "owned_rows owned = map (\<lambda>o1. (oi_asset o1, oi_amount o1)) owned"

definition owned_at :: "owned_input list \<Rightarrow> nat \<Rightarrow> (asset_id \<times> u64) option" where
  "owned_at owned i = map_option (\<lambda>o1. (oi_asset o1, oi_amount o1)) (find (\<lambda>o1. oi_index o1 = i) owned)"

lemma owned_at_Nil [simp]: "owned_at [] i = None"
  by (simp add: owned_at_def)

lemma owned_at_Cons:
  "owned_at (o1 # os) i = (if oi_index o1 = i then Some (oi_asset o1, oi_amount o1) else owned_at os i)"
  by (simp add: owned_at_def)

lemma owned_at_None: "k \<notin> oi_index ` set os \<Longrightarrow> owned_at os k = None"
  by (auto simp: owned_at_def find_None_iff)

lemma input_row_owned: "input_row el owned i inp = Inr (a, v, pr) \<Longrightarrow> owned_at owned i = Some r \<Longrightarrow> r = (a, v)"
proof -
  assume row: "input_row el owned i inp = Inr (a, v, pr)" and "owned_at owned i = Some r"
  then obtain o1 where o1: "find (\<lambda>o1. oi_index o1 = i) owned = Some o1" "r = (oi_asset o1, oi_amount o1)"
    by (auto simp: owned_at_def)
  from row obtain utxo where "witness_utxo inp = Some utxo"
    by (auto simp: input_row_def and_then_eq_Inr ok_or_eq_Inr)
  with row o1 show ?thesis
    by (cases "txo_asset utxo"; cases "txo_value utxo") (auto simp: input_row_def result_simps)
qed

lemma input_rows_owned:
  "input_rows el owned i ins = Some (rows, n) \<Longrightarrow>
   mset (List.map_filter (owned_at owned) [i..<i + length ins]) \<subseteq># mset rows"
proof (induction ins arbitrary: i rows n)
  case (Cons inp rest)
  from Cons.prems obtain a v pr issued rows' n' where
    row: "input_row el owned i inp = Inr (a, v, pr)"
    and rest: "input_rows el owned (Suc i) rest = Some (rows', n')" and rows: "rows = (a, v) # issued @ rows'"
    by (fastforce split: sum.splits prod.splits option.splits)
  have "mset (List.map_filter (owned_at owned) [Suc i..<Suc i + length rest]) \<subseteq># mset (issued @ rows')"
    (is "?A \<subseteq># ?B")
    using subset_mset.order_trans [OF Cons.IH [OF rest]] by simp
  then have "?A \<subseteq># add_mset (a, v) ?B" "add_mset (a, v) ?A \<subseteq># add_mset (a, v) ?B"
    by (auto intro: subset_mset.order_trans)
  moreover have "[i..<i + length (inp # rest)] = i # [Suc i..<Suc i + length rest]"
    by (subst upt_conv_Cons) simp_all
  ultimately show ?case
    using input_row_owned [OF row] rows by (auto simp: List.map_filter_simps split: option.splits)
qed simp

lemma map_filter_insert:
  assumes "distinct xs" and "k \<in> set xs" and "f k = None"
  shows "mset (List.map_filter (\<lambda>i. if k = i then Some v else f i) xs) = add_mset v (mset (List.map_filter f xs))"
proof -
  from assms(2) obtain ys zs where xs: "xs = ys @ k # zs" by (auto simp: in_set_conv_decomp)
  with assms(1) have "List.map_filter (\<lambda>i. if k = i then Some v else f i) us = List.map_filter f us"
    if "us \<in> {ys, zs}" for us
    using that by (auto simp: List.map_filter_def intro!: map_cong filter_cong)
  then show ?thesis using assms(3) by (simp add: xs List.map_filter_def)
qed

lemma owned_rows_mset:
  "owned_ok n owned \<Longrightarrow> mset (List.map_filter (owned_at owned) [0..<n]) = mset (owned_rows owned)"
proof (induction owned)
  case Nil
  show ?case by (simp add: owned_rows_def List.map_filter_def)
next
  case (Cons o1 os)
  then have "owned_at os (oi_index o1) = None" "oi_index o1 < n" "owned_ok n os"
    by (auto simp: owned_ok_def intro: owned_at_None)
  with Cons.IH show ?case
    by (simp add: owned_at_Cons [abs_def] map_filter_insert owned_rows_def)
qed

lemma accepted_ledger:
  assumes "verify_fund_template_owned el template aid amount owned = Inr summary"
    and "decode_pset el template = Inr p" and "asset_from_str el aid = Some want"
    and "input_rows el owned 0 (pset_inputs p) = Some (ins, n)"
    and "output_rows el 0 (pset_outputs p) = Some (outs, m)"
  shows "ledger_ok want amount ins outs" and "mset (owned_rows owned) \<subseteq># mset ins"
proof -
  from verify_accepts_sound [OF assms(1)] assms(2-5)
  have ok: "ledger_ok want amount ins outs \<and> owned_ok (length (pset_inputs p)) owned"
    by (auto simp: template_accepted_def)
  then show "ledger_ok want amount ins outs" by simp
  from input_rows_owned [OF assms(4)] owned_rows_mset [OF conjunct2 [OF ok]]
  show "mset (owned_rows owned) \<subseteq># mset ins" by simp
qed

text \<open>The wallet's whole outlay: its own coins in the template and the coins \<open>W\<close> it adds, against the
  change \<open>C\<close> it takes.\<close>

lemma accepted_outlay:
  assumes "verify_fund_template_owned el template aid amount owned = Inr summary"
    and "decode_pset el template = Inr p" and "asset_from_str el aid = Some want"
    and "input_rows el owned 0 (pset_inputs p) = Some (ins, n)"
    and "output_rows el 0 (pset_outputs p) = Some (outs, m)"
    and "tot (ins @ W) a = tot (outs @ C) a"
  shows "a = want \<Longrightarrow> tot (owned_rows owned @ W) a = tot (owned_rows owned) a + tot C a + unat amount"
    and "a \<noteq> want \<Longrightarrow> tot (owned_rows owned @ W) a \<le> tot (owned_rows owned) a + tot C a"
  using accepted_ledger(1) [OF assms(1-5)] assms(6) by (auto simp: ledger_ok_def)

lemma fold_outputs_fee:
  "fold_outputs el i outs (s, k, f, c) = Inr (s', k', f', c') \<Longrightarrow>
   (f = None \<longleftrightarrow> c = 0) \<Longrightarrow> f' = None \<longleftrightarrow> c' = 0"
proof (induction outs arbitrary: i s k f c)
  case (Cons out rest)
  then show ?case
    by (auto simp: result_simps Let_def split: if_splits)
qed simp

lemma summarize_loop_spec:
  "summarize_loop el n outs (acc, f, c, e) =
     (acc @ map (summarize_output el n) outs,
      (case filter (\<lambda>o1. out_script_pubkey o1 = []) outs of [] \<Rightarrow> f | fs \<Rightarrow> out_amount (last fs)),
      c + length (filter (\<lambda>o1. out_script_pubkey o1 = []) outs),
      e \<and> (\<forall>o1 \<in> set outs. out_asset o1 \<noteq> None \<and> out_amount o1 \<noteq> None))"
proof (induction outs arbitrary: acc f c e)
  case (Cons out rest)
  show ?case
    by (auto simp: Let_def Cons.IH summarize_output_def split: list.splits)
qed simp

lemma annotate_loop_spec:
  "annotate_loop h outs =
     (map (\<lambda>s. if os_script_hex s = h then s\<lparr>os_is_payjoin_service_fee := True\<rparr> else s) outs,
      length (filter (\<lambda>s. os_script_hex s = h) outs))"
  by (induction outs) (simp_all add: case_prod_unfold)

lemmas panic_simps = result_simps error_simps

lemma check_covered_no_panic: "check_covered s \<noteq> Inl FeeExpectPanic"
  by (induction s rule: check_covered.induct) (auto simp: error_simps)

lemma decode_pset_no_panic: "decode_pset el t \<noteq> Inl FeeExpectPanic"
  by (auto simp: decode_pset_def error_simps)

lemma check_owned_no_panic: "check_owned n before owned \<noteq> Inl FeeExpectPanic"
  by (induction owned arbitrary: before) (auto simp: error_simps)

lemma input_row_no_panic: "input_row el owned i inp \<noteq> Inl FeeExpectPanic"
  by (auto simp: input_row_def error_simps split: option.splits conf_asset.splits conf_value.splits)

lemma input_issuance_no_panic: "input_issuance el i inp \<noteq> Inl FeeExpectPanic"
  by (auto simp: input_issuance_def error_simps Let_def split: option.splits)

lemma output_row_no_panic: "output_row el i out \<noteq> Inl FeeExpectPanic"
  by (auto simp: output_row_def error_simps split: option.splits)

lemma add_no_panic: "add_in a v s \<noteq> Inl FeeExpectPanic" "add_out a v s \<noteq> Inl FeeExpectPanic"
  by (auto simp: add_in_def add_out_def error_simps case_prod_unfold Let_def)

lemma fold_inputs_no_panic: "fold_inputs el owned i ins st \<noteq> Inl FeeExpectPanic"
  by (induction el owned i ins st rule: fold_inputs.induct)
    (auto simp: panic_simps input_row_no_panic input_issuance_no_panic add_no_panic
      split: option.splits)

lemma fold_outputs_no_panic: "fold_outputs el i outs st \<noteq> Inl FeeExpectPanic"
  by (induction el i outs st rule: fold_outputs.induct)
    (auto simp: panic_simps output_row_no_panic add_no_panic Let_def)

section \<open>A concrete template\<close>

text \<open>One explicit input of 1000 units of asset 1; the outputs pay 5000 units of asset 2, keep
  960 units of asset 1 as change and pay 40 of it as fee.\<close>

definition demo_elements :: "pset \<Rightarrow> elements" where
  "demo_elements p =
     \<lparr>base64_decode = \<lambda>s. Some (as_bytes s), deserialize_pset = \<lambda>_. Some p,
      asset_from_str = \<lambda>s. Some (if s = ''L-BTC'' then [1] else [2]), asset_to_string = \<lambda>_. ''asset'',
      blind_asset_proof_verify = \<lambda>ap a gen. ap = a \<and> gen = a,
      blind_value_proof_verify = \<lambda>vp v gen comm. vp = u64_be v \<and> comm = u64_be v,
      generate_asset_entropy = \<lambda>op ch. ch, asset_from_entropy = \<lambda>e. e,
      address_from_script = \<lambda>s n. None, address_script_pubkey = \<lambda>s. Some (as_bytes s),
      script_to_hex = \<lambda>s. map (\<lambda>b. char_of (unat b)) s\<rparr>"

definition demo_input :: pset_input where
  "demo_input =
     \<lparr>witness_utxo = Some \<lparr>txo_asset = AssetExplicit [1], txo_value = ValueExplicit 1000,
        txo_script_pubkey = [0x51]\<rparr>,
      final_script_witness = None, in_asset = None, in_amount = None, in_blind_asset_proof = None,
      in_blind_value_proof = None, issuance_value_amount = None, blinded_issuance = None,
      issuance_inflation_keys = None, issuance_blinding_nonce = None, issuance_asset_entropy = None,
      previous_txid = [], previous_output_index = 0\<rparr>"

definition demo_output :: "script \<Rightarrow> asset_id \<Rightarrow> u64 \<Rightarrow> pset_output" where
  "demo_output spk a v =
     \<lparr>out_script_pubkey = spk, out_asset = Some a, out_amount = Some v, out_asset_comm = None,
      out_amount_comm = None, out_blind_asset_proof = None, out_blind_value_proof = None\<rparr>"

definition demo_pset :: pset where
  "demo_pset =
     \<lparr>pset_inputs = [demo_input],
      pset_outputs = [demo_output [0x51] [2] 5000, demo_output [0x52] [1] 960,
                      demo_output [] [1] 40]\<rparr>"

definition demo_summary :: fund_template_summary where
  "demo_summary = \<lparr>fts_input_count = 1, fts_output_count = 3, fts_fee = 40, fts_deficit = 5000,
     fts_proven_rows = 0, fts_owned_inputs = 0\<rparr>"

lemma demo_verifies:
  "verify_fund_template_owned (demo_elements demo_pset) ''tpl'' ''USDt'' 5000 [] = Inr demo_summary"
  by (simp add: demo_elements_def demo_pset_def demo_input_def demo_output_def demo_summary_def
      verify_fund_template_owned_def template_verdict_def decode_pset_def input_row_def input_issuance_def output_row_def
      add_in_def add_out_def sums_entry_def bt_get_def bt_remove_def checked_add_def
      checked_sub_def)

section \<open>The guarantees\<close>

text \<open>C12.  \<open>verify_fund_template_owned\<close> accepts a template exactly when the specification does:
  the owned inputs are in range and distinct, every input and output row can be valued, there is
  exactly one fee output and it is positive, no per-asset total exceeds 64 bits, the outputs
  exceed the inputs of the requested asset by exactly the requested amount, and no other asset
  has more out than in.  The returned summary is determined by the template.\<close>

theorem verify_fund_template_exact:
  "verify_fund_template_owned el template aid amount owned = Inr summary \<longleftrightarrow>
   template_accepted el template aid amount owned summary"
  using verify_accepts_sound verify_accepts_complete by blast

text \<open>C13.  Bounded exposure of an accepted template.  The coins the host names as the wallet's own are
  among the template's input rows, each counted once and at the wallet's own figures.  Whatever further
  inputs the wallet adds (the ledger \<open>W\<close>) and whatever change it takes (\<open>C\<close>) so that the finished
  transaction balances in every asset, all the wallet puts in, its own coins in the template included, is
  its change and those own coins, plus exactly the requested amount of the requested asset; of any other
  asset it is at most its change and those own coins.  What the template's outputs pay back to the wallet
  is not counted here.\<close>

theorem accepted_template_bounds_exposure:
  assumes "verify_fund_template_owned el template aid amount owned = Inr summary"
    and "decode_pset el template = Inr p" and "asset_from_str el aid = Some want"
    and "input_rows el owned 0 (pset_inputs p) = Some (ins, n)"
    and "output_rows el 0 (pset_outputs p) = Some (outs, m)"
    and "\<And>a. tot (ins @ W) a = tot (outs @ C) a"
  shows "mset (owned_rows owned) \<subseteq># mset ins
    \<and> tot (owned_rows owned @ W) want = tot (owned_rows owned) want + tot C want + unat amount
    \<and> (\<forall>a. a \<noteq> want \<longrightarrow> tot (owned_rows owned @ W) a \<le> tot (owned_rows owned) a + tot C a)"
  using accepted_ledger(2) [OF assms(1-5)] accepted_outlay [OF assms(1-5) assms(6)] by blast

text \<open>The demo template with a blinded one-unit token of the wallet's that goes round.\<close>

definition token_input :: pset_input where
  "token_input = demo_input\<lparr>witness_utxo := Some \<lparr>txo_asset = AssetConfidential [9],
     txo_value = ValueConfidential [9], txo_script_pubkey = [0x53]\<rparr>\<rparr>"

definition token_pset :: pset where
  "token_pset = \<lparr>pset_inputs = [token_input, demo_input],
     pset_outputs = demo_output [0x53] [3] 1 # pset_outputs demo_pset\<rparr>"

definition token_owned :: "owned_input list" where
  "token_owned = [\<lparr>oi_index = 0, oi_asset = [3], oi_amount = 1\<rparr>]"

lemmas template_eval = demo_elements_def token_pset_def token_input_def token_owned_def demo_pset_def demo_input_def
  demo_output_def decode_pset_def input_row_def input_issuance_def output_row_def

lemma token_verifies:
  "verify_fund_template_owned (demo_elements token_pset) ''tpl'' ''USDt'' 5000 token_owned =
     Inr \<lparr>fts_input_count = 2, fts_output_count = 4, fts_fee = 40, fts_deficit = 5000, fts_proven_rows = 0,
          fts_owned_inputs = 1\<rparr>"
  by (simp add: template_eval verify_fund_template_owned_def template_verdict_def add_in_def add_out_def
      sums_entry_def bt_get_def bt_remove_def checked_add_def checked_sub_def)

theorem accepted_template_bounds_exposure_witness:
  "mset [([3], 1)] \<subseteq># mset [([3], 1), ([1], 1000 :: u64)]
   \<and> tot ([([3], 1)] @ [([2], 5000 :: u64)]) [2 :: byte] = tot [([3], 1)] [2] + tot [] [2] + unat (5000 :: u64)
   \<and> tot ([([3], 1)] @ [([2], 5000 :: u64)]) [3 :: byte] \<le> tot [([3], 1)] [3] + tot [] [3]"
proof -
  let ?el = "demo_elements token_pset"
  have own: "owned_rows token_owned = [([3], 1)]" by (simp add: owned_rows_def token_owned_def)
  have p: "decode_pset ?el ''tpl'' = Inr token_pset" and want: "asset_from_str ?el ''USDt'' = Some [2]"
    by (simp_all add: demo_elements_def decode_pset_def)
  have ins: "input_rows ?el token_owned 0 (pset_inputs token_pset) = Some ([([3], 1), ([1], 1000)], 0)"
    and outs: "output_rows ?el 0 (pset_outputs token_pset) = Some ([([3], 1), ([2], 5000), ([1], 960), ([1], 40)], 0)"
    by (simp_all add: template_eval)
  have bal: "tot ([([3], 1), ([1], 1000)] @ [([2], 5000 :: u64)]) a
      = tot ([([3], 1), ([2], 5000 :: u64), ([1], 960), ([1], 40)] @ []) a" for a
    by simp
  note bounds = accepted_template_bounds_exposure [OF token_verifies p want ins outs bal, unfolded own]
  from bounds show ?thesis by (intro conjI) (elim conjE, assumption | simp)+
qed

text \<open>C14.  Nothing confidential is taken on trust.  Every output of an accepted template states
  its asset and amount, and when it also carries commitments, both are present, the output is not
  the fee, and its asset and value proofs verified against exactly those commitments.\<close>

theorem accepted_outputs_are_bound:
  assumes "verify_fund_template_owned el template aid amount owned = Inr summary"
    and "decode_pset el template = Inr p" and "out \<in> set (pset_outputs p)"
  shows "\<exists>a v. out_asset out = Some a \<and> out_amount out = Some v \<and>
    (case (out_asset_comm out, out_amount_comm out) of
       (None, None) \<Rightarrow> True
     | (Some gen, Some comm) \<Rightarrow> out_script_pubkey out \<noteq> [] \<and>
         (\<exists>ap vp. out_blind_asset_proof out = Some ap \<and> blind_asset_proof_verify el ap a gen
           \<and> out_blind_value_proof out = Some vp \<and> blind_value_proof_verify el vp v gen comm)
     | _ \<Rightarrow> False)"
proof -
  from verify_accepts_sound [OF assms(1)] assms(2) obtain rows m where
    rows: "output_rows el 0 (pset_outputs p) = Some (rows, m)"
    by (auto simp: template_accepted_def)
  from assms(3) obtain k where k: "k < length (pset_outputs p)" "pset_outputs p ! k = out"
    by (auto simp: in_set_conv_nth)
  from output_rows_bound [OF rows k(1)] k(2) obtain a v pr where
    "output_row el k out = Inr (a, v, pr)" by auto
  from output_row_proofs [OF this] show ?thesis by blast
qed

theorem accepted_outputs_are_bound_witness:
  "\<exists>a v. out_asset (demo_output [] [1] 40) = Some a \<and> out_amount (demo_output [] [1] 40) = Some v"
proof -
  have p: "decode_pset (demo_elements demo_pset) ''tpl'' = Inr demo_pset"
    by (simp add: demo_elements_def decode_pset_def)
  have "demo_output [] [1] 40 \<in> set (pset_outputs demo_pset)"
    by (simp add: demo_pset_def)
  from accepted_outputs_are_bound [OF demo_verifies p this] show ?thesis by blast
qed

text \<open>The \<open>expect\<close> after the fee loop cannot panic: when the loop counted exactly one fee
  output it also recorded its amount.\<close>

theorem fee_expect_never_panics:
  "verify_fund_template_owned el template aid amount owned \<noteq> Inl FeeExpectPanic"
proof
  have one_fee: False
    if "fold_outputs el 0 outs (s, k, None, 0) = Inr (s', k', None, Suc 0)" for outs s k s' k'
    using fold_outputs_fee [OF that] by simp
  assume "verify_fund_template_owned el template aid amount owned = Inl FeeExpectPanic"
  then show False
    by (auto simp: verify_fund_template_owned_def template_verdict_def panic_simps decode_pset_no_panic
        check_owned_no_panic fold_inputs_no_panic fold_outputs_no_panic check_covered_no_panic
        case_prod_unfold Let_def dest: one_fee split: if_splits)
qed

text \<open>The summary of a PSET is what its outputs say, in order: one row per output; the
  transaction is fully explicit exactly when every output states its asset and amount; a fee is
  reported only when exactly one output has the empty script, and it is that output's amount.\<close>

theorem summarize_pset_exact:
  "summarize_pset el b64 n = Inr ts \<longleftrightarrow>
   (\<exists>p. decode_pset el b64 = Inr p \<and>
      ts = \<lparr>ts_input_count = length (pset_inputs p),
            ts_outputs = map (summarize_output el n) (pset_outputs p),
            ts_fee = (case filter (\<lambda>o1. out_script_pubkey o1 = []) (pset_outputs p) of
                        [o1] \<Rightarrow> out_amount o1 | _ \<Rightarrow> None),
            ts_fully_explicit =
              list_all (\<lambda>o1. out_asset o1 \<noteq> None \<and> out_amount o1 \<noteq> None) (pset_outputs p)\<rparr>)"
  (is "_ \<longleftrightarrow> (\<exists>p. _ \<and> ts = ?spec p)")
proof -
  have "(let (outs, fee, fee_outputs, explicit) =
           summarize_loop el n (pset_outputs p) ([], None, 0, True)
         in Inr \<lparr>ts_input_count = length (pset_inputs p), ts_outputs = outs,
             ts_fee = (if fee_outputs \<noteq> 1 then None else fee), ts_fully_explicit = explicit\<rparr>)
        = (Inr (?spec p) :: fund_error + transaction_summary)" for p
    by (auto simp: summarize_loop_spec list_all_iff split: list.splits)
  then show ?thesis
    by (auto simp: summarize_pset_def result_simps)
qed

text \<open>The payjoin annotation flags exactly the outputs that pay the service's fee address,
  reports how many there are, and changes nothing else in the summary.\<close>

theorem annotate_payjoin_exact:
  "annotate_payjoin el fee_address ts = Inr (ts', marked) \<longleftrightarrow>
   (\<exists>spk. address_script_pubkey el fee_address = Some spk \<and>
      marked = length (filter (\<lambda>s. os_script_hex s = script_to_hex el spk) (ts_outputs ts)) \<and>
      ts' = ts\<lparr>ts_outputs := map (\<lambda>s. s\<lparr>os_is_payjoin_service_fee :=
                (os_script_hex s = script_to_hex el spk \<or> os_is_payjoin_service_fee s)\<rparr>)
              (ts_outputs ts)\<rparr>)"
proof -
  have "(if os_script_hex s = h then s\<lparr>os_is_payjoin_service_fee := True\<rparr> else s)
      = s\<lparr>os_is_payjoin_service_fee := (os_script_hex s = h \<or> os_is_payjoin_service_fee s)\<rparr>" for s h
    by (cases s) simp
  then show ?thesis
    by (auto simp: annotate_payjoin_def result_simps annotate_loop_spec)
qed

end
