(* ===== verification/Covenant.thy ===== *)
theory Covenant
  imports Approval
begin

text \<open>
  The covenant scripts and terms digests of \<open>lc-wallet-core/src/lending.rs\<close> (lines 1000 to
  1231): the wallet has no Simplicity compiler, but rebuilds the scriptPubKey of a position, of a
  claim and of an offer from pinned program leaves, a terms digest and the remaining amount.
  SHA-256 is the one of \<open>crypto\<close>; the output key of the NUMS point tweaked by a tree is
  secp256k1's and is the parameter \<open>nums_key\<close> of \<open>taproot\<close>.
\<close>

record 'k taproot = "'k crypto" +
  nums_key :: "bytes \<Rightarrow> bytes"  \<comment> \<open>the serialized output key for a tree's node hash\<close>

definition leaf :: "nat \<Rightarrow> bytes" where
  "leaf n = be_bytes 32 n"

definition SWAPTION_LENDING_V2_LEAF :: bytes where
  "SWAPTION_LENDING_V2_LEAF = leaf 0x41d218d4f2b492a9afb9e179ab76cd5d96a4977d2d266d558f7dd87c7df4522c"

definition SWAPTION_LENDING_V3_LEAF :: bytes where
  "SWAPTION_LENDING_V3_LEAF = leaf 0x880d441e2d854331fd1d5c48afac9fd8b705c5c001f48587325820dc10ee73a8"

definition SWAPTION_LENDING_V4_LEAF :: bytes where
  "SWAPTION_LENDING_V4_LEAF = leaf 0x939c233fc8ebbd59cce2ec10ef7bbf681dd933fa6431e4d58dc013b728d9ef1a"

definition SWAPTION_LENDING_V5_LEAF :: bytes where
  "SWAPTION_LENDING_V5_LEAF = leaf 0xda43157b075c4c18c1f7354ada37455fdfbd7eb481d6762a9f1843896d659725"

definition SWAPTION_CLAIM_LEAF :: bytes where
  "SWAPTION_CLAIM_LEAF = leaf 0x51f916310d382610bf7efd7b345d9641b3dc93917d2afb77289add911f3403e1"

definition SWAPTION_OFFER_LEAF :: bytes where
  "SWAPTION_OFFER_LEAF = leaf 0x881b1416b04e9fb47b6ecde9701880470713c37b5b99388da973d4e0d508f41f"

section \<open>Terms digests\<close>

record offer_row_claim =
  row_collateral :: asset_id
  row_expiry :: u32
  row_price_out :: u64
  row_buyback :: u64
  row_fee_per_unit :: u64
  row_min_size :: u64

definition offer_row_bytes :: "offer_row_claim option \<Rightarrow> bytes" where
  "offer_row_bytes r = (case r of
     Some r \<Rightarrow> row_collateral r @ u32_be (row_expiry r) @ u64_be (row_price_out r)
               @ u64_be (row_buyback r) @ u64_be (row_fee_per_unit r) @ u64_be (row_min_size r)
   | None \<Rightarrow> replicate 68 0)"

definition row_at :: "offer_row_claim list \<Rightarrow> nat \<Rightarrow> offer_row_claim option" where
  "row_at rows i = (if i < length rows then Some (rows ! i) else None)"

definition offer_terms_preimage ::
  "asset_id \<Rightarrow> asset_id \<Rightarrow> bytes \<Rightarrow> bytes \<Rightarrow> bytes \<Rightarrow> u64 \<Rightarrow> u32 \<Rightarrow> offer_row_claim list \<Rightarrow> bytes" where
  "offer_terms_preimage cash lender_token claim_script_hash fee_script_hash position_leaf fee_min
     cutoff_height rows =
     cash @ lender_token @ claim_script_hash @ fee_script_hash @ position_leaf @ u64_be fee_min
     @ u32_be cutoff_height @ concat (map (\<lambda>i. offer_row_bytes (row_at rows i)) [0, 1, 2, 3])"

definition offer_terms_digest ::
  "('k, 'x) taproot_scheme \<Rightarrow> asset_id \<Rightarrow> asset_id \<Rightarrow> bytes \<Rightarrow> bytes \<Rightarrow> bytes \<Rightarrow> u64 \<Rightarrow> u32
   \<Rightarrow> offer_row_claim list \<Rightarrow> bytes" where
  "offer_terms_digest tr cash lender_token claim fee_script position_leaf fee_min cutoff rows =
     sha256 tr (offer_terms_preimage cash lender_token claim fee_script position_leaf fee_min cutoff rows)"

text \<open>The terms of a position: the eight fields of the v2 and v3 programs.\<close>

record position_terms =
  pt_collateral :: asset_id
  pt_cash :: asset_id
  pt_collateral_amount :: u64
  pt_buyback_amount :: u64
  pt_expiry_height :: u32
  pt_borrower_nft :: asset_id
  pt_lender_nft :: asset_id
  pt_payout_script_hash :: bytes

text \<open>What v4 and v5 add.\<close>

record last_look_terms =
  ll_borrower_payout_script_hash :: bytes
  ll_script_hash :: bytes
  ll_height :: u32

definition v2_terms_preimage :: "position_terms \<Rightarrow> bytes" where
  "v2_terms_preimage t =
     pt_collateral t @ pt_cash t @ u64_be (pt_collateral_amount t) @ u64_be (pt_buyback_amount t)
     @ u32_be (pt_expiry_height t) @ pt_borrower_nft t @ pt_lender_nft t @ pt_payout_script_hash t"

definition v2_terms_digest :: "('k, 'x) taproot_scheme \<Rightarrow> position_terms \<Rightarrow> bytes" where
  "v2_terms_digest tr t = sha256 tr (v2_terms_preimage t)"

definition v4_terms_preimage :: "position_terms \<Rightarrow> last_look_terms \<Rightarrow> bytes" where
  "v4_terms_preimage t l =
     pt_collateral t @ pt_cash t @ u64_be (pt_collateral_amount t) @ u64_be (pt_buyback_amount t)
     @ u32_be (pt_expiry_height t) @ pt_borrower_nft t @ pt_lender_nft t @ pt_payout_script_hash t
     @ ll_borrower_payout_script_hash l @ ll_script_hash l @ u32_be (ll_height l)"

definition v4_terms_digest ::
  "('k, 'x) taproot_scheme \<Rightarrow> position_terms \<Rightarrow> last_look_terms \<Rightarrow> bytes" where
  "v4_terms_digest tr t l = sha256 tr (v4_terms_preimage t l)"

definition v5_terms_digest ::
  "('k, 'x) taproot_scheme \<Rightarrow> position_terms \<Rightarrow> last_look_terms \<Rightarrow> bytes" where
  "v5_terms_digest tr t l = v4_terms_digest tr t l"

section \<open>Taproot scripts from hashes alone\<close>

definition tap_tagged :: "('k, 'x) taproot_scheme \<Rightarrow> string \<Rightarrow> bytes list \<Rightarrow> bytes" where
  "tap_tagged tr tag parts =
     sha256 tr (sha256 tr (as_bytes tag) @ sha256 tr (as_bytes tag) @ concat parts)"

text \<open>The arrays compare lexicographically, as the lists of \<open>List_Lexorder\<close> do.\<close>

definition tap_branch :: "('k, 'x) taproot_scheme \<Rightarrow> bytes \<Rightarrow> bytes \<Rightarrow> bytes" where
  "tap_branch tr a b =
     (let (l, r) = (if a \<le> b then (a, b) else (b, a)) in tap_tagged tr ''TapBranch/elements'' [l, r])"

definition nums_script :: "('k, 'x) taproot_scheme \<Rightarrow> bytes \<Rightarrow> script" where
  "nums_script tr node = [0x51, 0x20] @ nums_key tr node"

definition debt_slot :: "u64 \<Rightarrow> bytes" where
  "debt_slot d = replicate 24 0 @ u64_be d"

definition position_script :: "('k, 'x) taproot_scheme \<Rightarrow> bytes \<Rightarrow> bytes \<Rightarrow> u64 \<Rightarrow> script" where
  "position_script tr program_leaf digest remaining_debt =
     nums_script tr
       (tap_branch tr (tap_branch tr program_leaf (tap_tagged tr ''TapData'' [digest]))
          (tap_tagged tr ''TapData'' [debt_slot remaining_debt]))"

definition claim_script :: "('k, 'x) taproot_scheme \<Rightarrow> asset_id \<Rightarrow> script" where
  "claim_script tr lender_nft =
     nums_script tr (tap_branch tr SWAPTION_CLAIM_LEAF (tap_tagged tr ''TapData'' [lender_nft]))"

definition offer_script :: "('k, 'x) taproot_scheme \<Rightarrow> bytes \<Rightarrow> u64 \<Rightarrow> script" where
  "offer_script tr digest remaining = position_script tr SWAPTION_OFFER_LEAF digest remaining"

definition v2_position_script :: "('k, 'x) taproot_scheme \<Rightarrow> bytes \<Rightarrow> u64 \<Rightarrow> script" where
  "v2_position_script tr digest remaining_debt =
     position_script tr SWAPTION_LENDING_V2_LEAF digest remaining_debt"

definition v3_position_script :: "('k, 'x) taproot_scheme \<Rightarrow> bytes \<Rightarrow> u64 \<Rightarrow> script" where
  "v3_position_script tr digest remaining_debt =
     position_script tr SWAPTION_LENDING_V3_LEAF digest remaining_debt"

definition v4_position_script :: "('k, 'x) taproot_scheme \<Rightarrow> bytes \<Rightarrow> u64 \<Rightarrow> script" where
  "v4_position_script tr digest remaining_debt =
     position_script tr SWAPTION_LENDING_V4_LEAF digest remaining_debt"

definition v5_position_script :: "('k, 'x) taproot_scheme \<Rightarrow> bytes \<Rightarrow> u64 \<Rightarrow> script" where
  "v5_position_script tr digest remaining_debt =
     position_script tr SWAPTION_LENDING_V5_LEAF digest remaining_debt"

text \<open>The payload of an \<open>OP_RETURN <push>\<close> script; each missing byte is a \<open>None\<close>.\<close>

definition op_return_payload :: "script \<Rightarrow> bytes option" where
  "op_return_payload b = (case b of
     opcode # n # rest \<Rightarrow>
       if opcode \<noteq> 0x6a then None
       else if 1 \<le> n \<and> n \<le> 75 then (if length b = 2 + unat n then Some (drop 2 b) else None)
       else if n = 0x4c then
         (case rest of
            m # _ \<Rightarrow> (if length b = 3 + unat m then Some (drop 3 b) else None)
          | [] \<Rightarrow> None)
       else None
   | _ \<Rightarrow> None)"

section \<open>Shape of the preimages\<close>

lemma length_leaf [simp]: "length (leaf n) = 32"
  by (simp add: leaf_def)

lemma length_debt_slot [simp]: "length (debt_slot d) = 32"
  by (simp add: debt_slot_def)

lemma debt_slot_inject [simp]: "debt_slot d = debt_slot d' \<longleftrightarrow> d = d'"
  by (simp add: debt_slot_def u64_be_inject)

text \<open>Every identifier in a terms preimage is a 32-byte array.\<close>

definition terms_sized :: "position_terms \<Rightarrow> bool" where
  "terms_sized t \<longleftrightarrow>
     length (pt_collateral t) = 32 \<and> length (pt_cash t) = 32 \<and> length (pt_borrower_nft t) = 32
     \<and> length (pt_lender_nft t) = 32 \<and> length (pt_payout_script_hash t) = 32"

definition last_look_sized :: "last_look_terms \<Rightarrow> bool" where
  "last_look_sized l \<longleftrightarrow>
     length (ll_borrower_payout_script_hash l) = 32 \<and> length (ll_script_hash l) = 32"

lemma v2_preimage_inject:
  assumes "v2_terms_preimage t = v2_terms_preimage t'" "terms_sized t" "terms_sized t'"
  shows "t = t'"
  using assms
  by (cases t; cases t') (simp add: v2_terms_preimage_def terms_sized_def u64_be_inject u32_be_inject)

lemma v4_preimage_inject:
  assumes "v4_terms_preimage t l = v4_terms_preimage t' l'" "terms_sized t" "terms_sized t'"
    "last_look_sized l" "last_look_sized l'"
  shows "t = t' \<and> l = l'"
  using assms
  by (cases t; cases t'; cases l; cases l')
    (simp add: v4_terms_preimage_def terms_sized_def last_look_sized_def u64_be_inject u32_be_inject)

section \<open>Equal scripts mean equal contents\<close>

text \<open>A script binds its contents as far as SHA-256 and the tweaked key do not collide on the
  texts that were hashed.  No hash is injective, so the lemmas ask for no collision among these
  few texts only: \<open>position_texts\<close> lists what is hashed to build one position script.\<close>

definition sha_sized :: "('k, 'x) taproot_scheme \<Rightarrow> bool" where
  "sha_sized tr \<longleftrightarrow> (\<forall>x. length (sha256 tr x) = 32)"

definition tagged_text :: "('k, 'x) taproot_scheme \<Rightarrow> string \<Rightarrow> bytes list \<Rightarrow> bytes" where
  "tagged_text tr tag parts = sha256 tr (as_bytes tag) @ sha256 tr (as_bytes tag) @ concat parts"

definition branch_text :: "('k, 'x) taproot_scheme \<Rightarrow> bytes \<Rightarrow> bytes \<Rightarrow> bytes" where
  "branch_text tr a b = tagged_text tr ''TapBranch/elements'' (if a \<le> b then [a, b] else [b, a])"

definition tag_texts :: "bytes list" where
  "tag_texts = [as_bytes ''TapData'', as_bytes ''TapBranch/elements'']"

definition data_slot :: "('k, 'x) taproot_scheme \<Rightarrow> bytes \<Rightarrow> bytes" where
  "data_slot tr d = tap_tagged tr ''TapData'' [d]"

definition program_slot :: "('k, 'x) taproot_scheme \<Rightarrow> bytes \<Rightarrow> bytes \<Rightarrow> bytes" where
  "program_slot tr P d = tap_branch tr P (data_slot tr d)"

definition position_node :: "('k, 'x) taproot_scheme \<Rightarrow> bytes \<Rightarrow> bytes \<Rightarrow> u64 \<Rightarrow> bytes" where
  "position_node tr P d n = tap_branch tr (program_slot tr P d) (data_slot tr (debt_slot n))"

definition program_texts :: "('k, 'x) taproot_scheme \<Rightarrow> bytes \<Rightarrow> bytes \<Rightarrow> bytes list" where
  "program_texts tr P d = [tagged_text tr ''TapData'' [d], branch_text tr P (data_slot tr d)]"

definition position_texts :: "('k, 'x) taproot_scheme \<Rightarrow> bytes \<Rightarrow> bytes \<Rightarrow> u64 \<Rightarrow> bytes list" where
  "position_texts tr P d n = tag_texts @ program_texts tr P d
     @ [tagged_text tr ''TapData'' [debt_slot n],
        branch_text tr (program_slot tr P d) (data_slot tr (debt_slot n))]"

lemma tap_tagged_text: "tap_tagged tr tag ps = sha256 tr (tagged_text tr tag ps)"
  by (simp add: tap_tagged_def tagged_text_def)

lemma tap_branch_text: "tap_branch tr a b = sha256 tr (branch_text tr a b)"
  by (simp add: tap_branch_def branch_text_def tap_tagged_text)

lemma position_script_node: "position_script tr P d n = nums_script tr (position_node tr P d n)"
  by (simp add: position_script_def position_node_def program_slot_def data_slot_def)

lemma sha_sizes [simp]:
  assumes "sha_sized tr"
  shows "length (data_slot tr d) = 32" "length (tap_branch tr a b) = 32"
    "length (program_slot tr P d) = 32"
  using assms by (simp_all add: sha_sized_def data_slot_def tap_tagged_text tap_branch_text program_slot_def)

lemma tagged_text_inject:
  "sha_sized tr \<Longrightarrow> tagged_text tr tag ps = tagged_text tr tag' qs \<longleftrightarrow>
   sha256 tr (as_bytes tag) = sha256 tr (as_bytes tag') \<and> concat ps = concat qs"
  by (auto simp: tagged_text_def sha_sized_def)

lemma branch_text_inject:
  assumes "sha_sized tr" "branch_text tr a b = branch_text tr c d"
    and "length a = 32" "length b = 32" "length c = 32" "length d = 32"
  shows "a = c \<and> b = d \<or> a = d \<and> b = c"
  using assms by (auto simp: branch_text_def tagged_text_inject split: if_splits)

lemma data_slot_eq:
  assumes "data_slot tr d = data_slot tr d'" "sha_sized tr" "inj_on (sha256 tr) S"
    and "tagged_text tr ''TapData'' [d] \<in> S" "tagged_text tr ''TapData'' [d'] \<in> S"
  shows "d = d'"
  using inj_onD [OF assms(3) _ assms(4,5)] assms(1,2)
  by (simp add: data_slot_def tap_tagged_text tagged_text_inject)

lemma program_slot_eq:
  assumes "program_slot tr P d = program_slot tr P d'" "sha_sized tr" "inj_on (sha256 tr) S"
    and "set (program_texts tr P d) \<subseteq> S" "set (program_texts tr P d') \<subseteq> S" "length P = 32"
  shows "d = d'"
proof -
  have "branch_text tr P (data_slot tr d) = branch_text tr P (data_slot tr d')"
    using inj_onD [OF assms(3), of "branch_text tr P (data_slot tr d)" "branch_text tr P (data_slot tr d')"]
      assms(1,4,5) by (simp add: program_slot_def tap_branch_text program_texts_def)
  from branch_text_inject [OF assms(2) this] assms(2,6) have "data_slot tr d = data_slot tr d'" by auto
  from data_slot_eq [OF this assms(2,3)] assms(4,5) show ?thesis by (simp add: program_texts_def)
qed

text \<open>A program slot is a branch hash and the debt slot a data hash; their tags keep them apart.\<close>

lemma slots_differ:
  assumes "sha_sized tr" "inj_on (sha256 tr) S" "set tag_texts \<subseteq> S"
    and "branch_text tr a b \<in> S" "tagged_text tr ''TapData'' [d] \<in> S"
  shows "tap_branch tr a b \<noteq> data_slot tr d"
proof
  assume "tap_branch tr a b = data_slot tr d"
  then have "branch_text tr a b = tagged_text tr ''TapData'' [d]"
    using inj_onD [OF assms(2) _ assms(4,5)] by (simp add: tap_branch_text data_slot_def tap_tagged_text)
  then have "sha256 tr (as_bytes ''TapBranch/elements'') = sha256 tr (as_bytes ''TapData'')"
    using assms(1) by (auto simp: branch_text_def tagged_text_inject split: if_splits)
  moreover have "as_bytes ''TapBranch/elements'' \<in> S" "as_bytes ''TapData'' \<in> S"
    using assms(3) unfolding tag_texts_def by simp_all
  ultimately have "as_bytes ''TapBranch/elements'' = as_bytes ''TapData''"
    using assms(2) unfolding inj_on_def by blast
  then show False by simp
qed

lemma position_script_eq:
  assumes eq: "position_script tr P d n = position_script tr P d' n'"
    and sz: "sha_sized tr" and P: "length P = 32"
    and inj: "inj_on (sha256 tr) S"
    and S: "set (position_texts tr P d n) \<subseteq> S" "set (position_texts tr P d' n') \<subseteq> S"
    and key: "inj_on (nums_key tr) {position_node tr P d n, position_node tr P d' n'}"
  shows "d = d' \<and> n = n'"
proof -
  have "nums_key tr (position_node tr P d n) = nums_key tr (position_node tr P d' n')"
    using eq by (simp add: position_script_node nums_script_def)
  from inj_onD [OF key this] have "position_node tr P d n = position_node tr P d' n'" by simp
  then have "sha256 tr (branch_text tr (program_slot tr P d) (data_slot tr (debt_slot n)))
      = sha256 tr (branch_text tr (program_slot tr P d') (data_slot tr (debt_slot n')))"
    by (simp add: position_node_def tap_branch_text)
  from inj_onD [OF inj this] S
  have "branch_text tr (program_slot tr P d) (data_slot tr (debt_slot n))
      = branch_text tr (program_slot tr P d') (data_slot tr (debt_slot n'))"
    by (auto simp: position_texts_def)
  from branch_text_inject [OF sz this sha_sizes(3,1,3,1) [OF sz]]
  have "program_slot tr P d = program_slot tr P d' \<and> data_slot tr (debt_slot n) = data_slot tr (debt_slot n')
      \<or> program_slot tr P d = data_slot tr (debt_slot n') \<and> data_slot tr (debt_slot n) = program_slot tr P d'" .
  moreover have "program_slot tr P d \<noteq> data_slot tr (debt_slot n')"
    unfolding program_slot_def using S
    by (intro slots_differ [OF sz inj]) (auto simp: position_texts_def program_texts_def)
  ultimately have slots: "program_slot tr P d = program_slot tr P d'"
    "data_slot tr (debt_slot n) = data_slot tr (debt_slot n')" by auto
  have "d = d'"
    using S by (intro program_slot_eq [OF slots(1) sz inj _ _ P]) (auto simp: position_texts_def)
  moreover have "debt_slot n = debt_slot n'"
    using S by (intro data_slot_eq [OF slots(2) sz inj]) (auto simp: position_texts_def)
  ultimately show ?thesis by simp
qed

section \<open>OP_RETURN payloads\<close>

text \<open>A script builder's push of up to 255 bytes after \<open>OP_RETURN\<close>.\<close>

definition op_return_script :: "bytes \<Rightarrow> script" where
  "op_return_script p =
     (if length p \<le> 75 then [0x6a, of_nat (length p)] @ p
      else [0x6a, 0x4c, of_nat (length p)] @ p)"

end
