(* ===== verification/Typed_Json.thy ===== *)
theory Typed_Json
  imports Wallet_Key
begin

text \<open>
  The field readers that the typed claims of \<open>lending.rs\<close> and \<open>venue.rs\<close> share.
  JSON itself is the third-party crate \<open>serde_json\<close>: its parser and the accessors of a
  \<open>Value\<close> are the fields of the record \<open>serde\<close>, over an abstract type of values.  The outcome of an
  HTTP request, which the three clients share, is here too.
\<close>

record 'v serde =
  json_from_str :: "string \<Rightarrow> 'v option"
  json_get :: "'v \<Rightarrow> string \<Rightarrow> 'v option"
  json_as_str :: "'v \<Rightarrow> string option"
  json_as_u64 :: "'v \<Rightarrow> u64 option"
  json_as_array :: "'v \<Rightarrow> 'v list option"
  json_is_null :: "'v \<Rightarrow> bool"

text \<open>What the HTTP client \<open>ureq\<close> hands back for one request.\<close>

datatype 'v http_result =
    Replied "'v option"  \<comment> \<open>a success status; the body as JSON when it is JSON\<close>
  | HttpStatus nat string
  | Unreachable

datatype parse_error =
    MissingOrNonString string
  | NotU64String string
  | NotAssetId string
  | MissingOrInvalid string
  | NotHex32 string
  | AmountsNotU64
  | RowMissingOrNonString string
  | RowNotU64String string
  | RowCollateralNotAsset
  | RowMissingOrInvalid string
  | TokenOutputNotIndex
  | ReceivesAsset
  | ReceivesAmount
  | UnknownSide string
  | NoFeeCapsInV1
  | UnknownKind string

text \<open>The \<open>Option\<close> chains \<open>value.get(name).and_then(as_str)\<close> and the like.\<close>

definition get_str :: "'v serde \<Rightarrow> 'v \<Rightarrow> string \<Rightarrow> string option" where
  "get_str js v name = Option.bind (json_get js v name) (json_as_str js)"

definition get_u32 :: "'v serde \<Rightarrow> 'v \<Rightarrow> string \<Rightarrow> u32 option" where
  "get_u32 js v name =
     Option.bind (Option.bind (json_get js v name) (json_as_u64 js)) u32_try_from"

definition get_array :: "'v serde \<Rightarrow> 'v \<Rightarrow> string \<Rightarrow> 'v list option" where
  "get_array js v name = Option.bind (json_get js v name) (json_as_array js)"

definition str_field :: "'v serde \<Rightarrow> 'v \<Rightarrow> string \<Rightarrow> parse_error + string" where
  "str_field js v name = ok_or (get_str js v name) (MissingOrNonString name)"

definition u64_field :: "'v serde \<Rightarrow> 'v \<Rightarrow> string \<Rightarrow> parse_error + u64" where
  "u64_field js v name =
     and_then (str_field js v name) (\<lambda>s. ok_or (parse_u64 s) (NotU64String name))"

definition u32_field :: "'v serde \<Rightarrow> 'v \<Rightarrow> string \<Rightarrow> parse_error + u32" where
  "u32_field js v name = ok_or (get_u32 js v name) (MissingOrInvalid name)"

definition hex32_field :: "('k, 'x) crypto_scheme \<Rightarrow> 'v serde \<Rightarrow> 'v \<Rightarrow> string \<Rightarrow> parse_error + bytes" where
  "hex32_field cr js v name =
     and_then (str_field js v name) (\<lambda>s. ok_or (hex_decode_to_slice cr s 32) (NotHex32 name))"

text \<open>\<open>collect\<close> into a \<open>Result\<close>: the first error wins.\<close>

fun collect_results :: "('a \<Rightarrow> 'e + 'b) \<Rightarrow> 'a list \<Rightarrow> 'e + 'b list" where
  "collect_results f [] = Inr []"
| "collect_results f (x # xs) =
     and_then (f x) (\<lambda>y. and_then (collect_results f xs) (\<lambda>ys. Inr (y # ys)))"

text \<open>Recognising a typed text: JSON with a string \<open>kind\<close> under the prefix.  \<open>None\<close> is
  untyped text; \<open>Some\<close> hands the kind and the value to the field parser.\<close>

definition typed_kind :: "'v serde \<Rightarrow> string \<Rightarrow> string \<Rightarrow> (string \<times> 'v) option" where
  "typed_kind js prefix text =
     Option.bind (json_from_str js (trim text)) (\<lambda>v.
     Option.bind (get_str js v ''kind'') (\<lambda>kind.
     if starts_with prefix kind then Some (kind, v) else None))"

lemma collect_results_Inr:
  "collect_results f xs = Inr ys \<longleftrightarrow> list_all2 (\<lambda>x y. f x = Inr y) xs ys"
proof (induction xs arbitrary: ys)
  case (Cons x xs)
  show ?case by (cases ys) (auto simp: result_simps Cons.IH)
qed auto

end
