(* ===== verification/Lending.thy ===== *)
theory Lending
  imports Covenant Typed_Json
begin

text \<open>
  The typed lending claims of \<open>lc-wallet-core/src/lending.rs\<close>: the claim a fund-request
  memo carries, its parser, its verification against the template it describes, and the text
  shown for approval.  Each arm of the two big matches is a definition of its own.
\<close>

section \<open>Claims\<close>

text \<open>The seven fields every fill variant starts with.\<close>

record fill_terms =
  ft_size :: u64
  ft_sale :: u64
  ft_buyback :: u64
  ft_expiry :: u32
  ft_cash :: asset_id
  ft_collateral :: "asset_id option"
  ft_fee :: u64

record last_look =
  lastlook :: bytes
  lastlook_height :: u32

record offer_claim =
  of_cash :: asset_id
  of_amounts :: "u64 list"
  of_lender_token :: asset_id
  of_claim :: bytes
  of_fee_script :: bytes
  of_position_leaf :: bytes
  of_fee_min :: u64
  of_cutoff :: u32
  of_rows :: "offer_row_claim list"
  of_token_output :: "u32 option"

record exercise_claim =
  ex_amount :: u64
  ex_released :: u64
  ex_remaining :: u64
  ex_cash :: asset_id
  ex_collateral :: "asset_id option"

datatype typed_fund =
    Fill fill_terms
  | FillV2 fill_terms bytes  \<comment> \<open>payout\<close>
  | FillV3 fill_terms bytes
  | FillV4 fill_terms bytes last_look
  | FillV5 fill_terms bytes last_look
  | FillV6 fill_terms bytes last_look asset_id  \<comment> \<open>the lender token\<close>
  | Offer offer_claim
  | OfferCancel asset_id u64 u64 asset_id  \<comment> \<open>cash, amount, fee, lender token\<close>
  | Claim asset_id u64 "(asset_id \<times> u64) list"  \<comment> \<open>lender token, fee, receives\<close>
  | SellRight u64 asset_id u64  \<comment> \<open>price, cash, fee\<close>
  | Exercise exercise_claim

section \<open>Parsing\<close>

definition asset_field :: "elements \<Rightarrow> 'v serde \<Rightarrow> 'v \<Rightarrow> string \<Rightarrow> parse_error + asset_id" where
  "asset_field el js v name =
     and_then (str_field js v name) (\<lambda>s. ok_or (asset_from_str el s) (NotAssetId name))"

definition opt_asset_field ::
  "elements \<Rightarrow> 'v serde \<Rightarrow> 'v \<Rightarrow> string \<Rightarrow> parse_error + asset_id option" where
  "opt_asset_field el js v name = (case json_get js v name of
     None \<Rightarrow> Inr None
   | Some x \<Rightarrow> if json_is_null js x then Inr None
               else and_then (asset_field el js v name) (\<lambda>a. Inr (Some a)))"

text \<open>The fields of \<open>Fill\<close> in the order they are read.\<close>

definition parse_fill :: "elements \<Rightarrow> 'v serde \<Rightarrow> 'v \<Rightarrow> parse_error + fill_terms" where
  "parse_fill el js v =
     and_then (u64_field js v ''size'') (\<lambda>sz.
     and_then (u64_field js v ''sale'') (\<lambda>sl.
     and_then (u64_field js v ''buyback'') (\<lambda>bb.
     and_then (u32_field js v ''expiry'') (\<lambda>ex.
     and_then (asset_field el js v ''cash'') (\<lambda>ca.
     and_then (opt_asset_field el js v ''collateral'') (\<lambda>co.
     and_then (u64_field js v ''fee'') (\<lambda>fe.
     Inr \<lparr>ft_size = sz, ft_sale = sl, ft_buyback = bb, ft_expiry = ex, ft_cash = ca,
          ft_collateral = co, ft_fee = fe\<rparr>)))))))"

definition parse_fill_v2 ::
  "('k, 'x) crypto_scheme \<Rightarrow> elements \<Rightarrow> 'v serde \<Rightarrow> 'v \<Rightarrow> parse_error + fill_terms \<times> bytes" where
  "parse_fill_v2 cr el js v =
     and_then (hex32_field cr js v ''payout'') (\<lambda>payout.
     and_then (parse_fill el js v) (\<lambda>t. Inr (t, payout)))"

definition parse_fill_v4 ::
  "('k, 'x) crypto_scheme \<Rightarrow> elements \<Rightarrow> 'v serde \<Rightarrow> 'v
   \<Rightarrow> parse_error + fill_terms \<times> bytes \<times> last_look" where
  "parse_fill_v4 cr el js v =
     and_then (hex32_field cr js v ''payout'') (\<lambda>payout.
     and_then (hex32_field cr js v ''lastlook'') (\<lambda>ll.
     and_then (parse_fill el js v) (\<lambda>t.
     and_then (u32_field js v ''lastlook_height'') (\<lambda>h.
     Inr (t, payout, \<lparr>lastlook = ll, lastlook_height = h\<rparr>)))))"

definition parse_fill_v6 ::
  "('k, 'x) crypto_scheme \<Rightarrow> elements \<Rightarrow> 'v serde \<Rightarrow> 'v \<Rightarrow> parse_error + typed_fund" where
  "parse_fill_v6 cr el js v =
     and_then (parse_fill_v4 cr el js v) (\<lambda>(t, payout, ll).
     and_then (asset_field el js v ''lender_nft'') (\<lambda>n. Inr (FillV6 t payout ll n)))"

definition parse_offer_row :: "elements \<Rightarrow> 'v serde \<Rightarrow> 'v \<Rightarrow> parse_error + offer_row_claim" where
  "parse_offer_row el js row =
     (let s = \<lambda>name. ok_or (get_str js row name) (RowMissingOrNonString name);
          n = \<lambda>name. and_then (s name) (\<lambda>x. ok_or (parse_u64 x) (RowNotU64String name)) in
     and_then (and_then (s ''collateral'') (\<lambda>x. ok_or (asset_from_str el x) RowCollateralNotAsset)) (\<lambda>co.
     and_then (ok_or (get_u32 js row ''expiry'') (RowMissingOrInvalid ''expiry'')) (\<lambda>ex.
     and_then (n ''price_out'') (\<lambda>po.
     and_then (n ''buyback'') (\<lambda>bb.
     and_then (n ''fee_per_unit'') (\<lambda>fp.
     and_then (n ''min_size'') (\<lambda>ms.
     Inr \<lparr>row_collateral = co, row_expiry = ex, row_price_out = po, row_buyback = bb,
          row_fee_per_unit = fp, row_min_size = ms\<rparr>)))))))"

definition parse_token_output :: "'v serde \<Rightarrow> 'v \<Rightarrow> parse_error + u32 option" where
  "parse_token_output js v = (case json_get js v ''token_output'' of
     None \<Rightarrow> Inr None
   | Some x \<Rightarrow> if json_is_null js x then Inr None
               else and_then (ok_or (Option.bind (json_as_u64 js x) u32_try_from) TokenOutputNotIndex)
                      (\<lambda>i. Inr (Some i)))"

definition parse_offer ::
  "('k, 'x) crypto_scheme \<Rightarrow> elements \<Rightarrow> 'v serde \<Rightarrow> 'v \<Rightarrow> parse_error + typed_fund" where
  "parse_offer cr el js v =
     and_then (ok_or (get_array js v ''amounts'') (MissingOrInvalid ''amounts'')) (\<lambda>as_json.
     and_then (collect_results
                (\<lambda>a. ok_or (Option.bind (json_as_str js a) parse_u64) AmountsNotU64) as_json) (\<lambda>amounts.
     and_then (ok_or (get_array js v ''rows'') (MissingOrInvalid ''rows'')) (\<lambda>rows_json.
     and_then (collect_results (parse_offer_row el js) rows_json) (\<lambda>rows.
     and_then (asset_field el js v ''cash'') (\<lambda>ca.
     and_then (asset_field el js v ''lender_token'') (\<lambda>lt.
     and_then (hex32_field cr js v ''claim'') (\<lambda>cl.
     and_then (hex32_field cr js v ''fee_script'') (\<lambda>fs.
     and_then (hex32_field cr js v ''position_leaf'') (\<lambda>pl.
     and_then (u64_field js v ''fee_min'') (\<lambda>fm.
     and_then (u32_field js v ''cutoff'') (\<lambda>co.
     and_then (parse_token_output js v) (\<lambda>tok.
     Inr (Offer \<lparr>of_cash = ca, of_amounts = amounts, of_lender_token = lt, of_claim = cl,
                 of_fee_script = fs, of_position_leaf = pl, of_fee_min = fm, of_cutoff = co,
                 of_rows = rows, of_token_output = tok\<rparr>)))))))))))))"

definition parse_offer_cancel :: "elements \<Rightarrow> 'v serde \<Rightarrow> 'v \<Rightarrow> parse_error + typed_fund" where
  "parse_offer_cancel el js v =
     and_then (asset_field el js v ''cash'') (\<lambda>ca.
     and_then (u64_field js v ''amount'') (\<lambda>am.
     and_then (u64_field js v ''fee'') (\<lambda>fe.
     and_then (asset_field el js v ''lender_token'') (\<lambda>lt. Inr (OfferCancel ca am fe lt)))))"

definition parse_receive :: "elements \<Rightarrow> 'v serde \<Rightarrow> 'v \<Rightarrow> parse_error + asset_id \<times> u64" where
  "parse_receive el js r =
     and_then (ok_or (Option.bind (get_str js r ''asset'') (asset_from_str el)) ReceivesAsset) (\<lambda>a.
     and_then (ok_or (Option.bind (get_str js r ''amount'') parse_u64) ReceivesAmount) (\<lambda>v. Inr (a, v)))"

definition parse_claim :: "elements \<Rightarrow> 'v serde \<Rightarrow> 'v \<Rightarrow> parse_error + typed_fund" where
  "parse_claim el js v =
     and_then (ok_or (get_array js v ''receives'') (MissingOrInvalid ''receives'')) (\<lambda>rs.
     and_then (collect_results (parse_receive el js) rs) (\<lambda>receives.
     and_then (asset_field el js v ''lender_token'') (\<lambda>lt.
     and_then (u64_field js v ''fee'') (\<lambda>fe. Inr (Claim lt fe receives)))))"

definition parse_sell_right :: "elements \<Rightarrow> 'v serde \<Rightarrow> 'v \<Rightarrow> parse_error + typed_fund" where
  "parse_sell_right el js v =
     and_then (u64_field js v ''price'') (\<lambda>pr.
     and_then (asset_field el js v ''cash'') (\<lambda>ca.
     and_then (u64_field js v ''fee'') (\<lambda>fe. Inr (SellRight pr ca fe))))"

definition parse_exercise :: "elements \<Rightarrow> 'v serde \<Rightarrow> 'v \<Rightarrow> parse_error + typed_fund" where
  "parse_exercise el js v =
     and_then (u64_field js v ''amount'') (\<lambda>am.
     and_then (u64_field js v ''released'') (\<lambda>re.
     and_then (u64_field js v ''remaining'') (\<lambda>rm.
     and_then (asset_field el js v ''cash'') (\<lambda>ca.
     and_then (opt_asset_field el js v ''collateral'') (\<lambda>co.
     Inr (Exercise \<lparr>ex_amount = am, ex_released = re, ex_remaining = rm, ex_cash = ca,
                    ex_collateral = co\<rparr>))))))"

definition parse_fields ::
  "('k, 'x) crypto_scheme \<Rightarrow> elements \<Rightarrow> 'v serde \<Rightarrow> string \<Rightarrow> 'v \<Rightarrow> parse_error + typed_fund" where
  "parse_fields cr el js kind v =
     (if kind = ''sw/lend/fill/v1'' then and_then (parse_fill el js v) (\<lambda>t. Inr (Fill t))
      else if kind = ''sw/lend/fill/v2'' then
        and_then (parse_fill_v2 cr el js v) (\<lambda>(t, p). Inr (FillV2 t p))
      else if kind = ''sw/lend/fill/v3'' then
        and_then (parse_fill_v2 cr el js v) (\<lambda>(t, p). Inr (FillV3 t p))
      else if kind = ''sw/lend/fill/v4'' then
        and_then (parse_fill_v4 cr el js v) (\<lambda>(t, p, l). Inr (FillV4 t p l))
      else if kind = ''sw/lend/fill/v5'' then
        and_then (parse_fill_v4 cr el js v) (\<lambda>(t, p, l). Inr (FillV5 t p l))
      else if kind = ''sw/lend/fill/v6'' then parse_fill_v6 cr el js v
      else if kind = ''sw/lend/offer/v1'' then parse_offer cr el js v
      else if kind = ''sw/lend/offer-cancel/v1'' then parse_offer_cancel el js v
      else if kind = ''sw/lend/claim/v1'' then parse_claim el js v
      else if kind = ''sw/lend/sellright/v1'' then parse_sell_right el js v
      else if kind = ''sw/lend/exercise/v1'' then parse_exercise el js v
      else Inl (UnknownKind kind))"

definition parse_typed_fund ::
  "('k, 'x) crypto_scheme \<Rightarrow> elements \<Rightarrow> 'v serde \<Rightarrow> string \<Rightarrow> (parse_error + typed_fund) option" where
  "parse_typed_fund cr el js memo =
     map_option (\<lambda>(kind, v). parse_fields cr el js kind v) (typed_kind js ''sw/'' memo)"

section \<open>Verification against the template\<close>

definition FILL_POSITION_OUTPUT :: nat where "FILL_POSITION_OUTPUT = 0"
definition FILL_BORROWER_NFT_OUTPUT :: nat where "FILL_BORROWER_NFT_OUTPUT = 1"
definition FILL_LENDER_NFT_OUTPUT :: nat where "FILL_LENDER_NFT_OUTPUT = 2"
definition FILL_METADATA_OUTPUT :: nat where "FILL_METADATA_OUTPUT = 3"
definition METADATA_LEN :: nat where "METADATA_LEN = 80"

lemmas fill_outputs = FILL_POSITION_OUTPUT_def FILL_BORROWER_NFT_OUTPUT_def
  FILL_LENDER_NFT_OUTPUT_def FILL_METADATA_OUTPUT_def METADATA_LEN_def

record typed_fund_check =
  chk_claim :: typed_fund
  chk_receives :: u64

datatype lend_error =
    AssetIdBad | Template fund_error
  | NoOutput nat | OutputNotExplicit nat
  | FundedNotCollateral | SizeNotFunded | BuybackNotAboveSale | NotThePosition | NotMyToken
  | NoMetadata | MetadataLength nat | MetadataCash | MetadataBuyback u64 | MetadataExpiry u32
  | FeeAboveSale | NoProceeds u64 | NotLenderToken | PayoutNotClaim | NotTheCovenant | LastLookHeight
  | OfferFundedNotCash | OfferCoins | OfferOverflow | OfferTotal u64 | OfferRows | OfferZeroTerm
  | OfferProgram | OfferClaim | OfferNotCash nat | OfferNotCovenant nat | OfferToken nat
  | NoOwnedInput | NotTheToken | OnlyNetworkFee | FeeUnreasonable | TokenNotReturned
  | NoOutputPays | NothingReceived | PriceZero
  | ExerciseFundedNotCash | ExerciseAmount | NotContinuing | TokenNotBurned

text \<open>What the arms of \<open>verify_typed_fund\<close> read: the request's asset and amount, the policy
  asset, the host's own output indexes, its owned inputs, and the template's outputs.\<close>

record fund_ctx =
  cx_requested :: asset_id
  cx_amount :: u64
  cx_policy :: asset_id
  cx_mine :: "nat list"
  cx_owned :: "owned_input list"
  cx_outputs :: "pset_output list"

definition output_at :: "fund_ctx \<Rightarrow> nat \<Rightarrow> pset_output option" where
  "output_at cx i = (if i < length (cx_outputs cx) then Some (cx_outputs cx ! i) else None)"

definition explicit :: "fund_ctx \<Rightarrow> nat \<Rightarrow> lend_error + asset_id \<times> u64" where
  "explicit cx i =
     and_then (ok_or (output_at cx i) (NoOutput i)) (\<lambda>out.
     case (out_asset out, out_amount out) of
       (Some a, Some v) \<Rightarrow> Inr (a, v)
     | _ \<Rightarrow> Inl (OutputNotExplicit i))"

definition is_mine :: "fund_ctx \<Rightarrow> nat \<Rightarrow> bool" where
  "is_mine cx i \<longleftrightarrow> i \<in> set (cx_mine cx)"

definition result_ok :: "'e + 'a \<Rightarrow> 'a option" where
  "result_ok r = (case r of Inl _ \<Rightarrow> None | Inr a \<Rightarrow> Some a)"

definition mine_paying :: "fund_ctx \<Rightarrow> asset_id \<Rightarrow> u64 list" where
  "mine_paying cx asset =
     map snd (filter (\<lambda>r. fst r = asset) (List.map_filter (\<lambda>i. result_ok (explicit cx i)) (cx_mine cx)))"

text \<open>\<open>filter(v >= bound).max()\<close>.\<close>

definition best_at_least :: "u64 \<Rightarrow> u64 list \<Rightarrow> u64 option" where
  "best_at_least bound vs =
     (case filter (\<lambda>v. bound \<le> v) vs of [] \<Rightarrow> None | w # ws \<Rightarrow> Some (fold max ws w))"

definition owned_input_0 :: "fund_ctx \<Rightarrow> lend_error + owned_input" where
  "owned_input_0 cx = ok_or (find (\<lambda>o1. oi_index o1 = 0) (cx_owned cx)) NoOwnedInput"

text \<open>The steps the fill arms share: the guards on the stated terms with the position output and
  the borrower's token (yielding the collateral and that token), the lender's token output, the
  claim-script check, the borrower's own script, the covenant check, and the proceeds.\<close>

definition fill_collateral :: "fund_ctx \<Rightarrow> fill_terms \<Rightarrow> asset_id" where
  "fill_collateral cx t = (case ft_collateral t of None \<Rightarrow> cx_policy cx | Some a \<Rightarrow> a)"

definition fill_guards :: "fund_ctx \<Rightarrow> fill_terms \<Rightarrow> lend_error + asset_id" where
  "fill_guards cx t =
     ensure (cx_requested cx = fill_collateral cx t) FundedNotCollateral
     (ensure (cx_amount cx = ft_size t) SizeNotFunded
     (ensure (ft_buyback t > ft_sale t) BuybackNotAboveSale
     (and_then (explicit cx FILL_POSITION_OUTPUT) (\<lambda>(asset, v).
     ensure (asset = fill_collateral cx t \<and> v = ft_size t) NotThePosition
     (and_then (explicit cx FILL_BORROWER_NFT_OUTPUT) (\<lambda>(borrower_nft, nft).
     ensure (nft = 1 \<and> is_mine cx FILL_BORROWER_NFT_OUTPUT) NotMyToken
     (Inr borrower_nft)))))))"

definition lender_token_output :: "fund_ctx \<Rightarrow> lend_error + asset_id" where
  "lender_token_output cx =
     and_then (explicit cx FILL_LENDER_NFT_OUTPUT) (\<lambda>(lender_nft, nft2).
     ensure (nft2 = 1) NotLenderToken (Inr lender_nft))"

definition payout_is_claim ::
  "('k, 'x) taproot_scheme \<Rightarrow> asset_id \<Rightarrow> bytes \<Rightarrow> lend_error + unit" where
  "payout_is_claim tr lender_nft payout =
     ensure (sha256 tr (claim_script tr lender_nft) = payout) PayoutNotClaim (Inr ())"

definition borrower_hash :: "('k, 'x) taproot_scheme \<Rightarrow> fund_ctx \<Rightarrow> lend_error + bytes" where
  "borrower_hash tr cx =
     and_then (ok_or (output_at cx FILL_BORROWER_NFT_OUTPUT) (NoOutput 1)) (\<lambda>out.
     Inr (sha256 tr (out_script_pubkey out)))"

definition covenant_output :: "fund_ctx \<Rightarrow> script \<Rightarrow> lend_error + unit" where
  "covenant_output cx expected =
     and_then (ok_or (output_at cx FILL_POSITION_OUTPUT) (NoOutput 0)) (\<lambda>out0.
     ensure (out_script_pubkey out0 = expected) NotTheCovenant (Inr ()))"

definition fill_proceeds :: "fund_ctx \<Rightarrow> typed_fund \<Rightarrow> fill_terms \<Rightarrow> lend_error + typed_fund_check" where
  "fill_proceeds cx claim t =
     and_then (ok_or (checked_sub (ft_sale t) (ft_fee t)) FeeAboveSale) (\<lambda>proceeds.
     ensure (proceeds \<in> set (mine_paying cx (ft_cash t))) (NoProceeds proceeds)
     (Inr \<lparr>chk_claim = claim, chk_receives = proceeds\<rparr>))"

definition fill_position_terms ::
  "fund_ctx \<Rightarrow> fill_terms \<Rightarrow> asset_id \<Rightarrow> asset_id \<Rightarrow> bytes \<Rightarrow> position_terms" where
  "fill_position_terms cx t borrower_nft lender_nft payout =
     \<lparr>pt_collateral = fill_collateral cx t, pt_cash = ft_cash t, pt_collateral_amount = ft_size t,
      pt_buyback_amount = ft_buyback t, pt_expiry_height = ft_expiry t,
      pt_borrower_nft = borrower_nft, pt_lender_nft = lender_nft, pt_payout_script_hash = payout\<rparr>"

definition fill_last_look :: "bytes \<Rightarrow> last_look \<Rightarrow> last_look_terms" where
  "fill_last_look bh l =
     \<lparr>ll_borrower_payout_script_hash = bh, ll_script_hash = lastlook l, ll_height = lastlook_height l\<rparr>"

definition verify_fill :: "fund_ctx \<Rightarrow> fill_terms \<Rightarrow> lend_error + typed_fund_check" where
  "verify_fill cx t =
     and_then (fill_guards cx t) (\<lambda>_.
     and_then (ok_or (Option.bind (output_at cx FILL_METADATA_OUTPUT)
                        (\<lambda>o1. op_return_payload (out_script_pubkey o1))) NoMetadata) (\<lambda>meta.
     ensure (length meta = METADATA_LEN) (MetadataLength (length meta))
     (let meta_cash = take 32 (drop 4 meta);
          meta_buyback = u64_from_le (take 8 (drop 36 meta));
          meta_expiry = u32_from_le (take 4 (drop 44 meta)) in
     ensure (meta_cash = ft_cash t) MetadataCash
     (ensure (meta_buyback = ft_buyback t) (MetadataBuyback meta_buyback)
     (ensure (meta_expiry = ft_expiry t) (MetadataExpiry meta_expiry)
     (fill_proceeds cx (Fill t) t))))))"

definition verify_fill_v2 ::
  "('k, 'x) taproot_scheme \<Rightarrow> fund_ctx \<Rightarrow> fill_terms \<Rightarrow> bytes \<Rightarrow> lend_error + typed_fund_check" where
  "verify_fill_v2 tr cx t payout =
     and_then (fill_guards cx t) (\<lambda>borrower_nft.
     and_then (lender_token_output cx) (\<lambda>lender_nft.
     let digest = v2_terms_digest tr (fill_position_terms cx t borrower_nft lender_nft payout) in
     and_then (covenant_output cx (v2_position_script tr digest (ft_buyback t))) (\<lambda>_.
     fill_proceeds cx (FillV2 t payout) t)))"

definition verify_fill_v3 ::
  "('k, 'x) taproot_scheme \<Rightarrow> fund_ctx \<Rightarrow> fill_terms \<Rightarrow> bytes \<Rightarrow> lend_error + typed_fund_check" where
  "verify_fill_v3 tr cx t payout =
     and_then (fill_guards cx t) (\<lambda>borrower_nft.
     and_then (lender_token_output cx) (\<lambda>lender_nft.
     and_then (payout_is_claim tr lender_nft payout) (\<lambda>_.
     let digest = v2_terms_digest tr (fill_position_terms cx t borrower_nft lender_nft payout) in
     and_then (covenant_output cx (v3_position_script tr digest (ft_buyback t))) (\<lambda>_.
     fill_proceeds cx (FillV3 t payout) t))))"

definition last_look_before_expiry :: "fill_terms \<Rightarrow> last_look \<Rightarrow> lend_error + unit" where
  "last_look_before_expiry t l =
     ensure (lastlook_height l = 0 \<or> lastlook_height l < ft_expiry t) LastLookHeight (Inr ())"

definition verify_fill_v4 ::
  "('k, 'x) taproot_scheme \<Rightarrow> fund_ctx \<Rightarrow> fill_terms \<Rightarrow> bytes \<Rightarrow> last_look
   \<Rightarrow> lend_error + typed_fund_check" where
  "verify_fill_v4 tr cx t payout l =
     and_then (fill_guards cx t) (\<lambda>borrower_nft.
     and_then (lender_token_output cx) (\<lambda>lender_nft.
     and_then (payout_is_claim tr lender_nft payout) (\<lambda>_.
     and_then (borrower_hash tr cx) (\<lambda>bh.
     and_then (last_look_before_expiry t l) (\<lambda>_.
     let digest = v4_terms_digest tr (fill_position_terms cx t borrower_nft lender_nft payout)
                    (fill_last_look bh l) in
     and_then (covenant_output cx (v4_position_script tr digest (ft_buyback t))) (\<lambda>_.
     fill_proceeds cx (FillV4 t payout l) t))))))"

definition verify_fill_v5 ::
  "('k, 'x) taproot_scheme \<Rightarrow> fund_ctx \<Rightarrow> fill_terms \<Rightarrow> bytes \<Rightarrow> last_look
   \<Rightarrow> lend_error + typed_fund_check" where
  "verify_fill_v5 tr cx t payout l =
     and_then (fill_guards cx t) (\<lambda>borrower_nft.
     and_then (lender_token_output cx) (\<lambda>lender_nft.
     and_then (payout_is_claim tr lender_nft payout) (\<lambda>_.
     and_then (borrower_hash tr cx) (\<lambda>bh.
     and_then (last_look_before_expiry t l) (\<lambda>_.
     let digest = v5_terms_digest tr (fill_position_terms cx t borrower_nft lender_nft payout)
                    (fill_last_look bh l) in
     and_then (covenant_output cx (v5_position_script tr digest (ft_buyback t))) (\<lambda>_.
     fill_proceeds cx (FillV5 t payout l) t))))))"

definition verify_fill_v6 ::
  "('k, 'x) taproot_scheme \<Rightarrow> fund_ctx \<Rightarrow> fill_terms \<Rightarrow> bytes \<Rightarrow> last_look \<Rightarrow> asset_id
   \<Rightarrow> lend_error + typed_fund_check" where
  "verify_fill_v6 tr cx t payout l lender_nft =
     and_then (fill_guards cx t) (\<lambda>borrower_nft.
     and_then (payout_is_claim tr lender_nft payout) (\<lambda>_.
     and_then (borrower_hash tr cx) (\<lambda>bh.
     and_then (last_look_before_expiry t l) (\<lambda>_.
     let digest = v5_terms_digest tr (fill_position_terms cx t borrower_nft lender_nft payout)
                    (fill_last_look bh l) in
     and_then (covenant_output cx (v5_position_script tr digest (ft_buyback t))) (\<lambda>_.
     fill_proceeds cx (FillV6 t payout l lender_nft) t)))))"

text \<open>\<open>amounts.iter().try_fold(0u64, checked_add)\<close>.\<close>

fun checked_total :: "u64 \<Rightarrow> u64 list \<Rightarrow> u64 option" where
  "checked_total acc [] = Some acc"
| "checked_total acc (a # as) = Option.bind (checked_add acc a) (\<lambda>acc'. checked_total acc' as)"

fun verify_offer_coins ::
  "('k, 'x) taproot_scheme \<Rightarrow> fund_ctx \<Rightarrow> asset_id \<Rightarrow> bytes \<Rightarrow> nat \<Rightarrow> u64 list \<Rightarrow> lend_error + unit" where
  "verify_offer_coins tr cx ca digest i [] = Inr ()"
| "verify_offer_coins tr cx ca digest i (a # as) =
     and_then (explicit cx i) (\<lambda>(asset, v).
     ensure (asset = ca \<and> v = a) (OfferNotCash i)
     (and_then (ok_or (output_at cx i) (NoOutput i)) (\<lambda>out.
     ensure (out_script_pubkey out = offer_script tr digest a) (OfferNotCovenant i)
     (verify_offer_coins tr cx ca digest (Suc i) as))))"

definition offer_row_ok :: "offer_row_claim \<Rightarrow> bool" where
  "offer_row_ok r \<longleftrightarrow> row_expiry r > 0 \<and> row_price_out r > 0 \<and> row_buyback r > 0 \<and> row_min_size r > 0"

definition verify_offer ::
  "('k, 'x) taproot_scheme \<Rightarrow> fund_ctx \<Rightarrow> offer_claim \<Rightarrow> lend_error + typed_fund_check" where
  "verify_offer tr cx c =
     ensure (cx_requested cx = of_cash c) OfferFundedNotCash
     (ensure (of_amounts c \<noteq> [] \<and> length (of_amounts c) \<le> 4) OfferCoins
     (and_then (ok_or (checked_total 0 (of_amounts c)) OfferOverflow) (\<lambda>total.
     ensure (cx_amount cx = total) (OfferTotal total)
     (ensure (of_rows c \<noteq> [] \<and> length (of_rows c) \<le> 4) OfferRows
     (ensure (list_all offer_row_ok (of_rows c)) OfferZeroTerm
     (ensure (of_position_leaf c = SWAPTION_LENDING_V5_LEAF) OfferProgram
     (ensure (of_claim c = sha256 tr (claim_script tr (of_lender_token c))) OfferClaim
     (let digest = offer_terms_digest tr (of_cash c) (of_lender_token c) (of_claim c) (of_fee_script c)
                     (of_position_leaf c) (of_fee_min c) (of_cutoff c) (of_rows c) in
     and_then (verify_offer_coins tr cx (of_cash c) digest 0 (of_amounts c)) (\<lambda>_.
     and_then (case of_token_output c of
         None \<Rightarrow> Inr ()
       | Some t \<Rightarrow>
           and_then (explicit cx (unat t)) (\<lambda>(asset, v).
           ensure (asset = of_lender_token c \<and> v = 1 \<and> is_mine cx (unat t)) (OfferToken (unat t)) (Inr ()))) (\<lambda>_.
     Inr \<lparr>chk_claim = Offer c, chk_receives = 0\<rparr>))))))))))"

definition verify_offer_cancel ::
  "fund_ctx \<Rightarrow> asset_id \<Rightarrow> u64 \<Rightarrow> u64 \<Rightarrow> asset_id \<Rightarrow> lend_error + typed_fund_check" where
  "verify_offer_cancel cx ca back fe lender_token =
     and_then (owned_input_0 cx) (\<lambda>token.
     ensure (oi_amount token = 1 \<and> oi_asset token = lender_token) NotTheToken
     (ensure (cx_requested cx = cx_policy cx \<and> cx_amount cx = fe) OnlyNetworkFee
     (ensure (fe \<le> 5000) FeeUnreasonable
     (and_then (explicit cx 0) (\<lambda>(a0, v0).
     ensure (a0 = lender_token \<and> v0 = 1 \<and> is_mine cx 0) TokenNotReturned
     (and_then (ok_or (best_at_least back (mine_paying cx ca)) NoOutputPays) (\<lambda>got.
     Inr \<lparr>chk_claim = OfferCancel ca back fe lender_token, chk_receives = got\<rparr>)))))))"

fun verify_receives :: "fund_ctx \<Rightarrow> (asset_id \<times> u64) list \<Rightarrow> lend_error + unit" where
  "verify_receives cx [] = Inr ()"
| "verify_receives cx ((asset, amt) # rest) =
     ensure (list_ex (\<lambda>v. amt \<le> v) (mine_paying cx asset)) NoOutputPays (verify_receives cx rest)"

definition verify_claim ::
  "fund_ctx \<Rightarrow> asset_id \<Rightarrow> u64 \<Rightarrow> (asset_id \<times> u64) list \<Rightarrow> lend_error + typed_fund_check" where
  "verify_claim cx lender_token fe receives =
     and_then (owned_input_0 cx) (\<lambda>token.
     ensure (oi_amount token = 1 \<and> oi_asset token = lender_token) NotTheToken
     (ensure (cx_requested cx = cx_policy cx \<and> cx_amount cx = fe) OnlyNetworkFee
     (ensure (fe \<le> 20000) FeeUnreasonable
     (ensure (receives \<noteq> []) NothingReceived
     (and_then (explicit cx 0) (\<lambda>(a0, v0).
     ensure (a0 = lender_token \<and> v0 = 1 \<and> is_mine cx 0) TokenNotReturned
     (and_then (verify_receives cx receives) (\<lambda>_.
     Inr \<lparr>chk_claim = Claim lender_token fe receives,
          chk_receives = (case receives of [] \<Rightarrow> 0 | r # _ \<Rightarrow> snd r)\<rparr>))))))))"

definition verify_sell_right ::
  "fund_ctx \<Rightarrow> u64 \<Rightarrow> asset_id \<Rightarrow> u64 \<Rightarrow> lend_error + typed_fund_check" where
  "verify_sell_right cx price ca fe =
     and_then (owned_input_0 cx) (\<lambda>token.
     ensure (oi_amount token = 1) NotTheToken
     (ensure (cx_requested cx = cx_policy cx \<and> cx_amount cx = fe) OnlyNetworkFee
     (ensure (fe \<le> 5000) FeeUnreasonable
     (ensure (price > 0) PriceZero
     (and_then (ok_or (best_at_least price (mine_paying cx ca)) NoOutputPays) (\<lambda>got.
     Inr \<lparr>chk_claim = SellRight price ca fe, chk_receives = got\<rparr>))))))"

text \<open>The position token on exercise: returned while a debt remains, burned on a full buyback.\<close>

definition exercise_token :: "fund_ctx \<Rightarrow> asset_id \<Rightarrow> u64 \<Rightarrow> asset_id \<Rightarrow> lend_error + unit" where
  "exercise_token cx token remaining coll =
     (if remaining > 0 then
        and_then (explicit cx 0) (\<lambda>(asset, v).
        let burned = (case output_at cx 0 of None \<Rightarrow> True
                      | Some o1 \<Rightarrow> op_return_payload (out_script_pubkey o1) \<noteq> None) in
        ensure (asset = token \<and> v = 1 \<and> is_mine cx 0 \<and> \<not> burned) TokenNotReturned
        (and_then (explicit cx 1) (\<lambda>(asset1, _).
        ensure (asset1 = coll) NotContinuing (Inr ()))))
      else
        and_then (ok_or (output_at cx 0) (NoOutput 0)) (\<lambda>out.
        ensure (op_return_payload (out_script_pubkey out) \<noteq> None \<and> out_asset out = Some token)
          TokenNotBurned (Inr ())))"

definition verify_exercise :: "fund_ctx \<Rightarrow> exercise_claim \<Rightarrow> lend_error + typed_fund_check" where
  "verify_exercise cx c =
     (let coll = (case ex_collateral c of None \<Rightarrow> cx_policy cx | Some a \<Rightarrow> a) in
     ensure (cx_requested cx = ex_cash c) ExerciseFundedNotCash
     (ensure (cx_amount cx = ex_amount c) ExerciseAmount
     (and_then (owned_input_0 cx) (\<lambda>token.
     ensure (oi_amount token = 1) NotTheToken
     (and_then (exercise_token cx (oi_asset token) (ex_remaining c) coll) (\<lambda>_.
     and_then (ok_or (best_at_least (ex_released c) (mine_paying cx coll)) NoOutputPays) (\<lambda>got.
     Inr \<lparr>chk_claim = Exercise c, chk_receives = got\<rparr>)))))))"

fun verify_claim_arm ::
  "('k, 'x) taproot_scheme \<Rightarrow> fund_ctx \<Rightarrow> typed_fund \<Rightarrow> lend_error + typed_fund_check" where
  "verify_claim_arm tr cx (Fill t) = verify_fill cx t"
| "verify_claim_arm tr cx (FillV2 t p) = verify_fill_v2 tr cx t p"
| "verify_claim_arm tr cx (FillV3 t p) = verify_fill_v3 tr cx t p"
| "verify_claim_arm tr cx (FillV4 t p l) = verify_fill_v4 tr cx t p l"
| "verify_claim_arm tr cx (FillV5 t p l) = verify_fill_v5 tr cx t p l"
| "verify_claim_arm tr cx (FillV6 t p l n) = verify_fill_v6 tr cx t p l n"
| "verify_claim_arm tr cx (Offer c) = verify_offer tr cx c"
| "verify_claim_arm tr cx (OfferCancel ca b fe lt) = verify_offer_cancel cx ca b fe lt"
| "verify_claim_arm tr cx (Claim lt fe rs) = verify_claim cx lt fe rs"
| "verify_claim_arm tr cx (SellRight p ca fe) = verify_sell_right cx p ca fe"
| "verify_claim_arm tr cx (Exercise c) = verify_exercise cx c"

definition verify_typed_fund ::
  "('k, 'x) taproot_scheme \<Rightarrow> elements \<Rightarrow> typed_fund \<Rightarrow> string \<Rightarrow> string \<Rightarrow> u64 \<Rightarrow> asset_id
   \<Rightarrow> nat list \<Rightarrow> owned_input list \<Rightarrow> lend_error + typed_fund_check" where
  "verify_typed_fund tr el claim template aid amount policy mine owned =
     and_then (ok_or (asset_from_str el aid) AssetIdBad) (\<lambda>requested.
     and_then (case decode_pset el template of Inl e \<Rightarrow> Inl (Template e) | Inr p \<Rightarrow> Inr p) (\<lambda>p.
     verify_claim_arm tr \<lparr>cx_requested = requested, cx_amount = amount, cx_policy = policy,
        cx_mine = mine, cx_owned = owned, cx_outputs = pset_outputs p\<rparr> claim))"

section \<open>Rendering\<close>

text \<open>The separator is a space, the middle dot U+00B7 in UTF-8, and a space.\<close>

definition sep :: string where
  "sep = [CHR '' '', CHR 0xC2, CHR 0xB7, CHR '' '']"

definition pad8 :: "nat \<Rightarrow> string" where
  "pad8 n = (let s = show_nat n in replicate (8 - length s) (CHR ''0'') @ s)"

definition trim_end_zeros :: "string \<Rightarrow> string" where
  "trim_end_zeros s = rev (dropWhile (\<lambda>c. c = CHR ''0'') (rev s))"

definition fmt8 :: "u64 \<Rightarrow> string" where
  "fmt8 sats =
     (let whole = unat sats div 100000000; frac = unat sats mod 100000000 in
      if frac = 0 then show_nat whole
      else trim_end_zeros (show_nat whole @ ''.'' @ pad8 frac))"

definition show_u32 :: "u32 \<Rightarrow> string" where
  "show_u32 n = show_nat (unat n)"

definition render_fill :: "string \<Rightarrow> string \<Rightarrow> fill_terms \<Rightarrow> string" where
  "render_fill coll_sym cash_sym t =
     ''Sell '' @ fmt8 (ft_size t) @ '' '' @ coll_sym @ '' for '' @ fmt8 (ft_sale t) @ '' '' @ cash_sym
     @ sep @ ''buy back for '' @ fmt8 (ft_buyback t) @ '' '' @ cash_sym @ '' until block ''
     @ show_u32 (ft_expiry t) @ sep @ ''fee '' @ fmt8 (ft_fee t) @ '' '' @ cash_sym"

definition render_last_look :: "last_look \<Rightarrow> string" where
  "render_last_look l =
     sep @ ''from block '' @ show_u32 (lastlook_height l)
     @ '' Swaption may exercise an unused in-the-money right for you and pay you the surplus less its fee''"

definition render_row :: "string \<Rightarrow> string \<Rightarrow> offer_row_claim \<Rightarrow> string" where
  "render_row coll_sym cash_sym r =
     ''pay up to '' @ fmt8 (row_price_out r) @ '' '' @ cash_sym @ '' per '' @ coll_sym
     @ '' (Swaption's fee included) with buyback at '' @ fmt8 (row_buyback r) @ '' '' @ cash_sym
     @ '' until block '' @ show_u32 (row_expiry r)"

fun join :: "string \<Rightarrow> string list \<Rightarrow> string" where
  "join d [] = []"
| "join d [x] = x"
| "join d (x # y # xs) = x @ d @ join d (y # xs)"

text \<open>\<open>amounts.iter().sum()\<close> wraps in a release build.\<close>

definition render_offer :: "string \<Rightarrow> string \<Rightarrow> offer_claim \<Rightarrow> string" where
  "render_offer coll_sym cash_sym c =
     (let total = sum_list (of_amounts c);
          coins = (if length (of_amounts c) > 1
                   then '' in '' @ show_nat (length (of_amounts c)) @ '' coins'' else []);
          token = (if of_token_output c \<noteq> None then sep @
            ''you receive your lender token: it withdraws your offers and collects what your lending pays, keep it''
            else []) in
      ''Lend '' @ fmt8 total @ '' '' @ cash_sym @ '' on chain'' @ coins @ '': ''
      @ join ''; '' (map (render_row coll_sym cash_sym) (of_rows c))
      @ sep @ ''anyone may fill it with no further approval from you''
      @ sep @ ''withdraw any time; after block '' @ show_u32 (of_cutoff c)
      @ '' it returns to your claim'' @ token)"

definition render_exercise :: "string \<Rightarrow> string \<Rightarrow> exercise_claim \<Rightarrow> string" where
  "render_exercise coll_sym cash_sym c =
     ''Buy back '' @ fmt8 (ex_released c) @ '' '' @ coll_sym @ '' for '' @ fmt8 (ex_amount c) @ '' ''
     @ cash_sym @ sep
     @ (if ex_remaining c > 0 then fmt8 (ex_remaining c) @ '' '' @ cash_sym @ '' still owed after''
        else ''position closed'')"

fun render_with :: "typed_fund \<Rightarrow> string \<Rightarrow> string \<Rightarrow> string" where
  "render_with (Fill t) coll_sym cash_sym = render_fill coll_sym cash_sym t"
| "render_with (FillV2 t p) coll_sym cash_sym = render_fill coll_sym cash_sym t"
| "render_with (FillV3 t p) coll_sym cash_sym = render_fill coll_sym cash_sym t"
| "render_with (FillV4 t p l) coll_sym cash_sym = render_fill coll_sym cash_sym t @ render_last_look l"
| "render_with (FillV5 t p l) coll_sym cash_sym = render_fill coll_sym cash_sym t @ render_last_look l"
| "render_with (FillV6 t p l n) coll_sym cash_sym =
     render_fill coll_sym cash_sym t @ render_last_look l @ sep
     @ ''the cash comes from a lender's offer on chain''"
| "render_with (Offer c) coll_sym cash_sym = render_offer coll_sym cash_sym c"
| "render_with (OfferCancel ca amount fe lt) coll_sym cash_sym =
     ''Withdraw your lend offer: '' @ fmt8 amount @ '' '' @ cash_sym @ '' back to this wallet'' @ sep
     @ ''you pay the '' @ show_nat (unat fe) @ '' sat network fee''"
| "render_with (Claim lt fe receives) coll_sym cash_sym =
     ''Collect what your lending paid into this wallet ('' @ show_nat (length receives) @ '' coin''
     @ (if length receives = 1 then [] else ''s'') @ '')'' @ sep @ ''you pay the '' @ show_nat (unat fe)
     @ '' sat network fee''"
| "render_with (SellRight price ca fe) coll_sym cash_sym =
     ''Sell your buyback right for '' @ fmt8 price @ '' '' @ cash_sym @ sep @ ''you pay the ''
     @ show_nat (unat fe) @ '' sat network fee'' @ sep @ ''the position closes for you''"
| "render_with (Exercise c) coll_sym cash_sym = render_exercise coll_sym cash_sym c"

definition render :: "typed_fund \<Rightarrow> string \<Rightarrow> string" where
  "render c cash_sym = render_with c ''BTC'' cash_sym"

fun claim_collateral :: "typed_fund \<Rightarrow> asset_id option" where
  "claim_collateral (Fill t) = ft_collateral t"
| "claim_collateral (FillV2 t p) = ft_collateral t"
| "claim_collateral (FillV3 t p) = ft_collateral t"
| "claim_collateral (FillV4 t p l) = ft_collateral t"
| "claim_collateral (FillV5 t p l) = ft_collateral t"
| "claim_collateral (FillV6 t p l n) = ft_collateral t"
| "claim_collateral (Exercise c) = ex_collateral c"
| "claim_collateral (Offer c) = (case of_rows c of [] \<Rightarrow> None | r # _ \<Rightarrow> Some (row_collateral r))"
| "claim_collateral (SellRight p ca fe) = None"
| "claim_collateral (OfferCancel ca b fe lt) = None"
| "claim_collateral (Claim lt fe rs) = None"

fun claim_cash :: "typed_fund \<Rightarrow> asset_id" where
  "claim_cash (Fill t) = ft_cash t"
| "claim_cash (FillV2 t p) = ft_cash t"
| "claim_cash (FillV3 t p) = ft_cash t"
| "claim_cash (FillV4 t p l) = ft_cash t"
| "claim_cash (FillV5 t p l) = ft_cash t"
| "claim_cash (FillV6 t p l n) = ft_cash t"
| "claim_cash (Offer c) = of_cash c"
| "claim_cash (OfferCancel ca b fe lt) = ca"
| "claim_cash (SellRight p ca fe) = ca"
| "claim_cash (Exercise c) = ex_cash c"
| "claim_cash (Claim lt fe rs) = (case rs of [] \<Rightarrow> lt | r # _ \<Rightarrow> fst r)"

end
