(* ===== verification/Lending_Props.thy ===== *)
theory Lending_Props
  imports Lending
begin

text \<open>
  Lemmas on the lending claims: what the readers of the template return, what a passed fill,
  offer, withdrawal, collection, sale or exercise has established, which kind parses to which
  claim, and the amount formatting.
\<close>

section \<open>Reading the template\<close>

definition states_row :: "pset_output list \<Rightarrow> nat \<Rightarrow> asset_id \<Rightarrow> u64 \<Rightarrow> bool" where
  "states_row outs i a v \<longleftrightarrow>
     i < length outs \<and> out_asset (outs ! i) = Some a \<and> out_amount (outs ! i) = Some v"

lemma explicit_Inr [result_simps]: "explicit cx i = Inr r \<longleftrightarrow> states_row (cx_outputs cx) i (fst r) (snd r)"
  by (cases r) (auto simp: explicit_def output_at_def states_row_def result_simps split: option.splits)

lemma output_at_Some [result_simps]:
  "output_at cx i = Some out \<longleftrightarrow> i < length (cx_outputs cx) \<and> out = cx_outputs cx ! i"
  by (auto simp: output_at_def)

lemma set_map_filter: "y \<in> set (List.map_filter f xs) \<longleftrightarrow> (\<exists>x \<in> set xs. f x = Some y)"
  by (induction xs) (auto simp: List.map_filter_simps split: option.splits)

lemma mine_paying_mem:
  "v \<in> set (mine_paying cx a) \<longleftrightarrow> (\<exists>i \<in> set (cx_mine cx). states_row (cx_outputs cx) i a v)"
proof -
  have row: "result_ok (explicit cx i) = Some r \<longleftrightarrow> states_row (cx_outputs cx) i (fst r) (snd r)" for i r
    unfolding explicit_Inr [symmetric] by (auto simp: result_ok_def split: sum.splits)
  have "v \<in> set (mine_paying cx a)
      \<longleftrightarrow> (a, v) \<in> set (List.map_filter (\<lambda>i. result_ok (explicit cx i)) (cx_mine cx))"
    by (force simp: mine_paying_def)
  then show ?thesis
    by (simp add: set_map_filter row)
qed

lemma best_at_least_Some:
  assumes "best_at_least b vs = Some g"
  shows "g \<in> set vs" "b \<le> g" "\<And>v. v \<in> set vs \<Longrightarrow> v \<le> g"
proof -
  from assms obtain w ws where f: "filter (\<lambda>v. b \<le> v) vs = w # ws" and g: "g = fold max ws w"
    by (auto simp: best_at_least_def split: list.splits)
  have m: "g = Max (set (filter (\<lambda>v. b \<le> v) vs))"
    unfolding f g by (rule Max.set_eq_fold [symmetric])
  have "g \<in> set (filter (\<lambda>v. b \<le> v) vs)"
    unfolding m using f by (intro Max_in) auto
  then show "g \<in> set vs" "b \<le> g" by auto
  fix v assume "v \<in> set vs"
  show "v \<le> g"
  proof (cases "b \<le> v")
    case True
    with \<open>v \<in> set vs\<close> show ?thesis unfolding m by (intro Max_ge) auto
  next
    case False
    with \<open>b \<le> g\<close> show ?thesis by auto
  qed
qed

section \<open>Fills\<close>

fun fill_of :: "typed_fund \<Rightarrow> fill_terms option" where
  "fill_of (Fill t) = Some t"
| "fill_of (FillV2 t p) = Some t"
| "fill_of (FillV3 t p) = Some t"
| "fill_of (FillV4 t p l) = Some t"
| "fill_of (FillV5 t p l) = Some t"
| "fill_of (FillV6 t p l n) = Some t"
| "fill_of _ = None"

text \<open>What every verified fill has established.\<close>

definition fill_safe :: "fund_ctx \<Rightarrow> fill_terms \<Rightarrow> bool" where
  "fill_safe cx t \<longleftrightarrow>
     cx_requested cx = fill_collateral cx t \<and> cx_amount cx = ft_size t \<and> ft_sale t < ft_buyback t
     \<and> states_row (cx_outputs cx) 0 (fill_collateral cx t) (ft_size t)
     \<and> 1 \<in> set (cx_mine cx) \<and> (\<exists>tok. states_row (cx_outputs cx) 1 tok 1)
     \<and> ft_fee t \<le> ft_sale t
     \<and> (\<exists>i \<in> set (cx_mine cx). states_row (cx_outputs cx) i (ft_cash t) (ft_sale t - ft_fee t))"

lemma fill_guards_Inr [result_simps]:
  "fill_guards cx t = Inr tok \<longleftrightarrow>
     cx_requested cx = fill_collateral cx t \<and> cx_amount cx = ft_size t \<and> ft_sale t < ft_buyback t
     \<and> states_row (cx_outputs cx) 0 (fill_collateral cx t) (ft_size t)
     \<and> states_row (cx_outputs cx) 1 tok 1 \<and> 1 \<in> set (cx_mine cx)"
  by (auto simp: fill_guards_def result_simps fill_outputs is_mine_def)

lemma lender_token_output_Inr [result_simps]:
  "lender_token_output cx = Inr n \<longleftrightarrow> states_row (cx_outputs cx) 2 n 1"
  by (auto simp: lender_token_output_def result_simps fill_outputs)

lemma payout_is_claim_Inr [result_simps]:
  "payout_is_claim tr n p = Inr u \<longleftrightarrow> p = sha256 tr (claim_script tr n)"
  by (auto simp: payout_is_claim_def result_simps)

lemma last_look_Inr [result_simps]:
  "last_look_before_expiry t l = Inr u \<longleftrightarrow> lastlook_height l = 0 \<or> lastlook_height l < ft_expiry t"
  by (auto simp: last_look_before_expiry_def result_simps)

lemma borrower_hash_Inr [result_simps]:
  "borrower_hash tr cx = Inr h \<longleftrightarrow>
   1 < length (cx_outputs cx) \<and> h = sha256 tr (out_script_pubkey (cx_outputs cx ! 1))"
  by (auto simp: borrower_hash_def result_simps fill_outputs)

lemma covenant_output_Inr [result_simps]:
  "covenant_output cx s = Inr u \<longleftrightarrow>
   cx_outputs cx \<noteq> [] \<and> out_script_pubkey (cx_outputs cx ! 0) = s"
  by (auto simp: covenant_output_def result_simps fill_outputs)

lemma fill_proceeds_Inr [result_simps]:
  "fill_proceeds cx c t = Inr chk \<longleftrightarrow>
     ft_fee t \<le> ft_sale t
     \<and> (\<exists>i \<in> set (cx_mine cx). states_row (cx_outputs cx) i (ft_cash t) (ft_sale t - ft_fee t))
     \<and> chk = \<lparr>chk_claim = c, chk_receives = ft_sale t - ft_fee t\<rparr>"
  by (auto simp: fill_proceeds_def result_simps checked_sub_def mine_paying_mem)

lemmas verify_fill_defs = verify_fill_def verify_fill_v2_def verify_fill_v3_def verify_fill_v4_def
  verify_fill_v5_def verify_fill_v6_def

lemma verified_fill:
  assumes "verify_claim_arm tr cx claim = Inr chk" and "fill_of claim = Some t"
  shows "fill_safe cx t \<and> chk = \<lparr>chk_claim = claim, chk_receives = ft_sale t - ft_fee t\<rparr>"
  using assms
  by (cases claim) (auto simp: verify_fill_defs result_simps Let_def fill_safe_def)

text \<open>The version-5 check in full: the tokens it reads, the terms preimage it hashes, and the
  texts hashed on the way to the script.\<close>

definition row_asset :: "fund_ctx \<Rightarrow> nat \<Rightarrow> asset_id" where
  "row_asset cx i = (case out_asset (cx_outputs cx ! i) of Some a \<Rightarrow> a | None \<Rightarrow> [])"

definition fill_v5_terms :: "fund_ctx \<Rightarrow> fill_terms \<Rightarrow> bytes \<Rightarrow> position_terms" where
  "fill_v5_terms cx t payout = fill_position_terms cx t (row_asset cx 1) (row_asset cx 2) payout"

definition fill_v5_look :: "('k, 'x) taproot_scheme \<Rightarrow> fund_ctx \<Rightarrow> last_look \<Rightarrow> last_look_terms" where
  "fill_v5_look tr cx l = fill_last_look (sha256 tr (out_script_pubkey (cx_outputs cx ! 1))) l"

definition fill_v5_preimage ::
  "('k, 'x) taproot_scheme \<Rightarrow> fund_ctx \<Rightarrow> fill_terms \<Rightarrow> bytes \<Rightarrow> last_look \<Rightarrow> bytes" where
  "fill_v5_preimage tr cx t payout l = v4_terms_preimage (fill_v5_terms cx t payout) (fill_v5_look tr cx l)"

definition fill_v5_texts ::
  "('k, 'x) taproot_scheme \<Rightarrow> fund_ctx \<Rightarrow> fill_terms \<Rightarrow> bytes \<Rightarrow> last_look \<Rightarrow> bytes list" where
  "fill_v5_texts tr cx t payout l =
     (let pre = fill_v5_preimage tr cx t payout l
      in pre # position_texts tr SWAPTION_LENDING_V5_LEAF (sha256 tr pre) (ft_buyback t))"

definition fill_v5_node ::
  "('k, 'x) taproot_scheme \<Rightarrow> fund_ctx \<Rightarrow> fill_terms \<Rightarrow> bytes \<Rightarrow> last_look \<Rightarrow> bytes" where
  "fill_v5_node tr cx t payout l =
     position_node tr SWAPTION_LENDING_V5_LEAF (sha256 tr (fill_v5_preimage tr cx t payout l)) (ft_buyback t)"

definition fill_v5_sized :: "fund_ctx \<Rightarrow> fill_terms \<Rightarrow> bytes \<Rightarrow> last_look \<Rightarrow> bool" where
  "fill_v5_sized cx t payout l \<longleftrightarrow>
     terms_sized (fill_v5_terms cx t payout) \<and> length (lastlook l) = 32"

lemma length_v5_leaf: "length SWAPTION_LENDING_V5_LEAF = 32"
  by (simp add: SWAPTION_LENDING_V5_LEAF_def)

lemma fill_v5_texts_mem:
  "fill_v5_preimage tr cx t payout l \<in> set (fill_v5_texts tr cx t payout l)"
  "set (position_texts tr SWAPTION_LENDING_V5_LEAF (sha256 tr (fill_v5_preimage tr cx t payout l))
     (ft_buyback t)) \<subseteq> set (fill_v5_texts tr cx t payout l)"
  unfolding fill_v5_texts_def Let_def by auto

lemma verify_fill_v5_facts:
  assumes "verify_fill_v5 tr cx t payout l = Inr chk"
  shows "\<exists>tok ln. states_row (cx_outputs cx) 1 tok 1 \<and> 1 \<in> set (cx_mine cx)
    \<and> states_row (cx_outputs cx) 2 ln 1 \<and> payout = sha256 tr (claim_script tr ln)
    \<and> (lastlook_height l = 0 \<or> lastlook_height l < ft_expiry t)
    \<and> out_script_pubkey (cx_outputs cx ! 0) = position_script tr SWAPTION_LENDING_V5_LEAF
        (sha256 tr (v4_terms_preimage (fill_position_terms cx t tok ln payout)
           (fill_last_look (sha256 tr (out_script_pubkey (cx_outputs cx ! 1))) l))) (ft_buyback t)"
  using assms
  by (auto simp: verify_fill_v5_def result_simps Let_def v5_position_script_def v5_terms_digest_def
      v4_terms_digest_def)

lemma verify_fill_v5_proceeds:
  assumes "verify_fill_v5 tr cx t payout l = Inr chk"
  shows "ft_fee t \<le> ft_sale t \<and> chk_receives chk = ft_sale t - ft_fee t
    \<and> chk_receives chk \<in> set (mine_paying cx (ft_cash t))"
  using verified_fill [of tr cx "FillV5 t payout l" chk t] assms by (auto simp: fill_safe_def mine_paying_mem)

lemma verify_fill_v5_script:
  assumes "verify_fill_v5 tr cx t payout l = Inr chk"
  shows "out_script_pubkey (cx_outputs cx ! 0) = position_script tr SWAPTION_LENDING_V5_LEAF
           (sha256 tr (fill_v5_preimage tr cx t payout l)) (ft_buyback t)"
  using verify_fill_v5_facts [OF assms]
  by (auto simp: fill_v5_preimage_def fill_v5_terms_def fill_v5_look_def row_asset_def states_row_def)

abbreviation ctx_of :: "asset_id \<Rightarrow> u64 \<Rightarrow> asset_id \<Rightarrow> nat list \<Rightarrow> owned_input list \<Rightarrow> pset \<Rightarrow> fund_ctx" where
  "ctx_of requested amount policy mine owned p \<equiv> \<lparr>cx_requested = requested, cx_amount = amount,
     cx_policy = policy, cx_mine = mine, cx_owned = owned, cx_outputs = pset_outputs p\<rparr>"

lemma verify_typed_fund_Inr:
  "verify_typed_fund tr el claim template aid amount policy mine owned = Inr chk \<longleftrightarrow>
   (\<exists>requested p. asset_from_str el aid = Some requested \<and> decode_pset el template = Inr p
      \<and> verify_claim_arm tr (ctx_of requested amount policy mine owned p) claim = Inr chk)"
  by (auto simp: verify_typed_fund_def result_simps split: sum.splits)

lemma fill_collateral_ctx:
  "fill_collateral (ctx_of requested amount policy mine owned p) t =
     (case ft_collateral t of None \<Rightarrow> policy | Some a \<Rightarrow> a)"
  by (simp add: fill_collateral_def split: option.split)

section \<open>Offers and the claims that only fund a network fee\<close>

lemma checked_total_Some:
  "checked_total acc as = Some tsum \<Longrightarrow>
   unat tsum = unat acc + sum_list (map unat as) \<and> tsum = acc + sum_list as"
proof (induction as arbitrary: acc)
  case (Cons a as)
  from Cons.prems obtain acc' where add: "checked_add acc a = Some acc'"
    and rest: "checked_total acc' as = Some tsum" by (auto simp: bind_eq_Some_conv)
  have "unat acc' = unat acc + unat a"
    using add by (simp add: checked_add_Some)
  with Cons.IH [OF rest] have "unat tsum = unat acc + (unat a + sum_list (map unat as))" by linarith
  moreover have "acc' = acc + a"
    using add by (simp add: checked_add_def split: if_splits)
  with Cons.IH [OF rest] have "tsum = acc + (a + sum_list as)" by (metis add.assoc)
  ultimately show ?case by (metis list.map(2) sum_list.Cons)
qed simp

lemma verify_offer_coins_Inr:
  "verify_offer_coins tr cx ca d i as = Inr () \<longleftrightarrow>
   (\<forall>j < length as. states_row (cx_outputs cx) (i + j) ca (as ! j)
      \<and> out_script_pubkey (cx_outputs cx ! (i + j)) = offer_script tr d (as ! j))"
proof (induction as arbitrary: i)
  case (Cons a as)
  have "verify_offer_coins tr cx ca d i (a # as) = Inr () \<longleftrightarrow>
      states_row (cx_outputs cx) i ca a \<and> out_script_pubkey (cx_outputs cx ! i) = offer_script tr d a
      \<and> verify_offer_coins tr cx ca d (Suc i) as = Inr ()"
    by (auto simp: result_simps states_row_def)
  also have "\<dots> \<longleftrightarrow> (\<forall>j < length (a # as). states_row (cx_outputs cx) (i + j) ca ((a # as) ! j)
      \<and> out_script_pubkey (cx_outputs cx ! (i + j)) = offer_script tr d ((a # as) ! j))"
    by (auto simp: Cons.IH less_Suc_eq_0_disj)
  finally show ?case .
qed simp

lemma verify_receives_Inr:
  "verify_receives cx rs = Inr () \<longleftrightarrow>
   (\<forall>r \<in> set rs. \<exists>v \<in> set (mine_paying cx (fst r)). snd r \<le> v)"
  by (induction rs) (auto simp: result_simps list_ex_iff)

lemma owned_input_0_Inr [result_simps]:
  "owned_input_0 cx = Inr o1 \<longleftrightarrow> find (\<lambda>o1. oi_index o1 = 0) (cx_owned cx) = Some o1"
  by (simp add: owned_input_0_def result_simps)

text \<open>The claims under which the wallet funds nothing but a bounded network fee.\<close>

fun fee_only :: "typed_fund \<Rightarrow> (u64 \<times> nat) option" where
  "fee_only (OfferCancel ca b fe lt) = Some (fe, 5000)"
| "fee_only (Claim lt fe rs) = Some (fe, 20000)"
| "fee_only (SellRight p ca fe) = Some (fe, 5000)"
| "fee_only _ = None"

lemma verified_fee_only:
  assumes "verify_claim_arm tr cx claim = Inr chk" and "fee_only claim = Some (fe, bound)"
  shows "cx_requested cx = cx_policy cx \<and> cx_amount cx = fe \<and> unat fe \<le> bound
    \<and> (\<exists>o1. find (\<lambda>o1. oi_index o1 = 0) (cx_owned cx) = Some o1 \<and> oi_amount o1 = 1)"
  using assms
  by (cases claim)
    (auto simp: verify_offer_cancel_def verify_claim_def verify_sell_right_def result_simps word_le_nat_alt)

lemma owned_unread:
  "explicit (cx\<lparr>cx_owned := ow\<rparr>) = explicit cx" "mine_paying (cx\<lparr>cx_owned := ow\<rparr>) = mine_paying cx"
  "is_mine (cx\<lparr>cx_owned := ow\<rparr>) = is_mine cx"
proof -
  show ex: "explicit (cx\<lparr>cx_owned := ow\<rparr>) = explicit cx"
    by (rule ext) (simp add: explicit_def output_at_def)
  show "mine_paying (cx\<lparr>cx_owned := ow\<rparr>) = mine_paying cx"
    by (rule ext) (simp add: mine_paying_def ex)
  show "is_mine (cx\<lparr>cx_owned := ow\<rparr>) = is_mine cx"
    by (rule ext) (simp add: is_mine_def)
qed

lemma verify_receives_owned_unread: "verify_receives (cx\<lparr>cx_owned := ow\<rparr>) rs = verify_receives cx rs"
  by (induction rs) (auto simp: owned_unread)

text \<open>Of the wallet's own coins these claims read the one at input 0.\<close>

lemma fee_only_owned:
  assumes "fee_only claim \<noteq> None"
    and "find (\<lambda>o1. oi_index o1 = 0) (cx_owned cx) = find (\<lambda>o1. oi_index o1 = 0) ow"
  shows "verify_claim_arm tr (cx\<lparr>cx_owned := ow\<rparr>) claim = verify_claim_arm tr cx claim"
  using assms
  by (cases claim) (simp_all add: verify_offer_cancel_def verify_claim_def verify_sell_right_def owned_input_0_def
      owned_unread verify_receives_owned_unread)

lemma verify_offer_facts:
  assumes "verify_offer tr cx c = Inr chk"
  shows "cx_requested cx = of_cash c \<and> length (of_amounts c) \<in> {1..4} \<and> length (of_rows c) \<in> {1..4}
    \<and> unat (cx_amount cx) = sum_list (map unat (of_amounts c)) \<and> cx_amount cx = sum_list (of_amounts c)
    \<and> (\<forall>r \<in> set (of_rows c). offer_row_ok r)
    \<and> of_position_leaf c = SWAPTION_LENDING_V5_LEAF
    \<and> of_claim c = sha256 tr (claim_script tr (of_lender_token c))
    \<and> verify_offer_coins tr cx (of_cash c) (offer_terms_digest tr (of_cash c) (of_lender_token c)
        (of_claim c) (of_fee_script c) (of_position_leaf c) (of_fee_min c) (of_cutoff c) (of_rows c))
        0 (of_amounts c) = Inr ()
    \<and> (\<forall>i. of_token_output c = Some i \<longrightarrow>
        states_row (cx_outputs cx) (unat i) (of_lender_token c) 1 \<and> unat i \<in> set (cx_mine cx))"
proof -
  have len: "xs \<noteq> [] \<and> length xs \<le> 4 \<longleftrightarrow> length xs \<in> {1..4}" for xs :: "'z list"
    by (cases xs) auto
  from assms obtain tsum where tsum: "checked_total 0 (of_amounts c) = Some tsum" "cx_amount cx = tsum"
    by (auto simp: verify_offer_def and_then_eq_Inr ensure_eq_Inr ok_or_eq_Inr)
  from checked_total_Some [OF tsum(1)] tsum(2)
  have "unat (cx_amount cx) = sum_list (map unat (of_amounts c))" "cx_amount cx = sum_list (of_amounts c)"
    by (metis add_0 unat_0)+
  moreover have "cx_requested cx = of_cash c \<and> length (of_amounts c) \<in> {1..4} \<and> length (of_rows c) \<in> {1..4}"
    using assms by (simp add: verify_offer_def and_then_eq_Inr ensure_eq_Inr ok_or_eq_Inr len)
  ultimately show ?thesis
    using assms
    by (auto simp: verify_offer_def result_simps Let_def list_all_iff is_mine_def split: option.splits)
qed

lemma verify_exercise_facts:
  assumes "verify_exercise cx c = Inr chk"
  shows "cx_requested cx = ex_cash c \<and> cx_amount cx = ex_amount c
    \<and> (\<exists>token. find (\<lambda>o1. oi_index o1 = 0) (cx_owned cx) = Some token \<and> oi_amount token = 1
         \<and> exercise_token cx (oi_asset token) (ex_remaining c)
             (case ex_collateral c of None \<Rightarrow> cx_policy cx | Some a \<Rightarrow> a) = Inr ())
    \<and> chk_claim chk = Exercise c
    \<and> best_at_least (ex_released c)
        (mine_paying cx (case ex_collateral c of None \<Rightarrow> cx_policy cx | Some a \<Rightarrow> a)) = Some (chk_receives chk)"
  using assms by (auto simp: verify_exercise_def result_simps Let_def)

lemma exercise_token_Inr:
  "exercise_token cx tok remaining coll = Inr () \<longleftrightarrow>
     (if 0 < remaining
      then states_row (cx_outputs cx) 0 tok 1 \<and> 0 \<in> set (cx_mine cx)
        \<and> op_return_payload (out_script_pubkey (cx_outputs cx ! 0)) = None
        \<and> (\<exists>v. states_row (cx_outputs cx) 1 coll v)
      else cx_outputs cx \<noteq> [] \<and> out_asset (cx_outputs cx ! 0) = Some tok
        \<and> op_return_payload (out_script_pubkey (cx_outputs cx ! 0)) \<noteq> None)"
  by (auto simp: exercise_token_def result_simps Let_def is_mine_def output_at_def states_row_def)

section \<open>Kinds\<close>

fun kind_of :: "typed_fund \<Rightarrow> string" where
  "kind_of (Fill t) = ''sw/lend/fill/v1''"
| "kind_of (FillV2 t p) = ''sw/lend/fill/v2''"
| "kind_of (FillV3 t p) = ''sw/lend/fill/v3''"
| "kind_of (FillV4 t p l) = ''sw/lend/fill/v4''"
| "kind_of (FillV5 t p l) = ''sw/lend/fill/v5''"
| "kind_of (FillV6 t p l n) = ''sw/lend/fill/v6''"
| "kind_of (Offer c) = ''sw/lend/offer/v1''"
| "kind_of (OfferCancel ca b fe lt) = ''sw/lend/offer-cancel/v1''"
| "kind_of (Claim lt fe rs) = ''sw/lend/claim/v1''"
| "kind_of (SellRight p ca fe) = ''sw/lend/sellright/v1''"
| "kind_of (Exercise c) = ''sw/lend/exercise/v1''"

lemma parse_kinds:
  "parse_fill_v6 cr el js v = Inr c \<Longrightarrow> kind_of c = ''sw/lend/fill/v6''"
  "parse_offer cr el js v = Inr c \<Longrightarrow> kind_of c = ''sw/lend/offer/v1''"
  "parse_offer_cancel el js v = Inr c \<Longrightarrow> kind_of c = ''sw/lend/offer-cancel/v1''"
  "parse_claim el js v = Inr c \<Longrightarrow> kind_of c = ''sw/lend/claim/v1''"
  "parse_sell_right el js v = Inr c \<Longrightarrow> kind_of c = ''sw/lend/sellright/v1''"
  "parse_exercise el js v = Inr c \<Longrightarrow> kind_of c = ''sw/lend/exercise/v1''"
  by (auto simp: parse_fill_v6_def parse_offer_def parse_offer_cancel_def parse_claim_def
      parse_sell_right_def parse_exercise_def and_then_eq_Inr)

lemma parse_fields_kind: "parse_fields cr el js kind v = Inr c \<Longrightarrow> kind_of c = kind"
  unfolding parse_fields_def
  by (auto simp: and_then_eq_Inr parse_kinds split: if_splits)

section \<open>Amounts\<close>

text \<open>Reading a decimal with at most eight places back to satoshis.\<close>

definition read8 :: "string \<Rightarrow> nat option" where
  "read8 s = (case split_on (CHR ''.'') s of
     [w] \<Rightarrow> Some (dec_val w * 10 ^ 8)
   | [w, f] \<Rightarrow> Some (dec_val w * 10 ^ 8 + dec_val (f @ replicate (8 - length f) (CHR ''0'')))
   | _ \<Rightarrow> None)"

lemma dec_val_snoc: "dec_val (s @ [c]) = 10 * dec_val s + digit_val c"
  by (simp add: dec_val_def)

lemma digit_char_props:
  "d < 10 \<Longrightarrow> digit_val (digit_char d) = d" "d < 10 \<Longrightarrow> digit_char d \<noteq> CHR ''.''"
  "d < 10 \<Longrightarrow> digit_char d = CHR ''0'' \<longleftrightarrow> d = 0"
  by (auto simp: digit_val_def digit_char_def char_of_eq_iff of_char_of take_bit_eq_mod)

lemma dec_val_show: "dec_val (show_nat n) = n"
proof (induction n rule: show_nat.induct)
  case (1 n)
  show ?case
  proof (cases "n < 10")
    case True
    then show ?thesis by (simp add: show_nat.simps dec_val_def digit_char_props)
  next
    case False
    with 1 show ?thesis by (subst show_nat.simps) (simp add: dec_val_snoc digit_char_props)
  qed
qed

lemma dot_not_in_show: "CHR ''.'' \<notin> set (show_nat n)"
proof (induction n rule: show_nat.induct)
  case (1 n)
  then show ?case
    by (subst show_nat.simps) (auto dest: sym simp: digit_char_props(2) [THEN not_sym])
qed

lemma length_show: "n < 10 ^ Suc k \<Longrightarrow> length (show_nat n) \<le> Suc k"
proof (induction k arbitrary: n)
  case 0
  then show ?case by (simp add: show_nat.simps)
next
  case (Suc k)
  then show ?case by (subst show_nat.simps) (auto intro: Suc.IH)
qed

lemma length_pad8: "n < 10 ^ 8 \<Longrightarrow> length (pad8 n) = 8"
  using length_show [of n 7] by (simp add: pad8_def Let_def)

lemma dec_val_zeros: "dec_val (replicate k (CHR ''0'') @ s) = dec_val s"
  by (induction k) (simp_all add: dec_val_def digit_val_def)

lemma dec_val_pad8: "dec_val (pad8 n) = n"
  by (simp add: pad8_def Let_def dec_val_zeros dec_val_show)

lemma dot_not_in_pad8: "CHR ''.'' \<notin> set (pad8 n)"
  by (simp add: pad8_def Let_def dot_not_in_show)

lemma trim_end_zeros_spec:
  "\<exists>k. s = trim_end_zeros s @ replicate k (CHR ''0'')"
proof -
  let ?P = "\<lambda>c. c = CHR ''0''"
  have "\<forall>c \<in> set (takeWhile ?P (rev s)). c = CHR ''0''" by (auto dest: set_takeWhileD)
  then obtain k where "takeWhile ?P (rev s) = replicate k (CHR ''0'')"
    by (metis replicate_length_same)
  then have "rev s = replicate k (CHR ''0'') @ dropWhile ?P (rev s)"
    by (metis takeWhile_dropWhile_id)
  then have "rev (rev s) = rev (dropWhile ?P (rev s)) @ rev (replicate k (CHR ''0''))"
    by (metis rev_append)
  then show ?thesis by (auto simp: trim_end_zeros_def)
qed

lemma trim_end_zeros_append:
  "\<exists>c \<in> set s. c \<noteq> CHR ''0'' \<Longrightarrow> trim_end_zeros (w @ s) = w @ trim_end_zeros s"
  by (auto simp: trim_end_zeros_def dropWhile_append)

lemma fmt8_read8: "read8 (fmt8 x) = Some (unat x)"
proof -
  let ?w = "unat x div 100000000" and ?f = "unat x mod 100000000"
  show ?thesis
  proof (cases "?f = 0")
    case True
    then show ?thesis
      by (simp add: fmt8_def Let_def read8_def split_on_absent dot_not_in_show dec_val_show)
        (metis True div_mult_mod_eq add.right_neutral)
  next
    case False
    let ?t = "trim_end_zeros (pad8 ?f)"
    have nz: "\<exists>c \<in> set (pad8 ?f). c \<noteq> CHR ''0''"
    proof (rule ccontr)
      assume "\<not> ?thesis"
      then have "pad8 ?f = replicate (length (pad8 ?f)) (CHR ''0'')"
        by (metis replicate_length_same)
      then have "dec_val (pad8 ?f) = 0" using dec_val_zeros [of "length (pad8 ?f)" "[]"]
        by (simp add: dec_val_def)
      with False show False by (simp add: dec_val_pad8)
    qed
    have fmt: "fmt8 x = show_nat ?w @ CHR ''.'' # ?t"
      using False trim_end_zeros_append [OF nz, of "show_nat ?w @ ''.''"]
      by (simp add: fmt8_def Let_def)
    obtain k where k: "pad8 ?f = ?t @ replicate k (CHR ''0'')"
      using trim_end_zeros_spec by blast
    have "length (pad8 ?f) = 8" by (rule length_pad8) simp
    with k have "k = 8 - length ?t" by (metis add_diff_cancel_left' length_append length_replicate)
    then have "dec_val (?t @ replicate (8 - length ?t) (CHR ''0'')) = ?f"
      using k dec_val_pad8 by metis
    moreover have "CHR ''.'' \<notin> set ?t" using dot_not_in_pad8 [of ?f] k by (metis Un_iff set_append)
    ultimately show ?thesis
      by (simp add: fmt read8_def split_on_once split_on_absent dot_not_in_show dec_val_show)
  qed
qed

section \<open>OP_RETURN payloads\<close>

lemma op_return_roundtrip:
  assumes "p \<noteq> []" "length p < 256"
  shows "op_return_payload (op_return_script p) = Some p"
proof -
  have u: "unat (of_nat (length p) :: byte) = length p"
    using assms(2) by (simp add: unat_of_nat)
  show ?thesis
  proof (cases "length p \<le> 75")
    case True
    moreover have "1 \<le> (of_nat (length p) :: byte)" "(of_nat (length p) :: byte) \<le> 75"
      using True assms(1) u by (simp_all add: word_le_nat_alt Suc_le_eq)
    ultimately show ?thesis using u by (simp add: op_return_script_def op_return_payload_def)
  next
    case False
    then show ?thesis using u by (simp add: op_return_script_def op_return_payload_def)
  qed
qed

end
