(* ===== verification/Lending_Claims.thy ===== *)
theory Lending_Claims
  imports Lending_Props Approval_Claims
begin

text \<open>
  What a wallet that runs the lending checks can rely on: a verified fill pays it and builds the
  pinned covenant over exactly the stated terms, the terms the covenant holds cannot be restated over
  the same template, an offer's coins are the offer covenant and add up to the funded amount,
  withdrawals, collections and sales cost a bounded network fee beyond the wallet's own coins in the
  template, a collection pays its receipts row by row, and malformed typed memos are refused.
\<close>

section \<open>A concrete fill\<close>

text \<open>A stand-in library: the hash keeps the length and the last byte of the text in one of its
  32 bytes.  It is no cryptographic hash; it shows that the hypotheses below can hold.\<close>

definition demo_hash :: "bytes \<Rightarrow> bytes" where
  "demo_hash x = replicate 31 0 @ [of_nat (length x) + (if x = [] then 0 else last x)]"

definition demo_tap :: "unit taproot" where
  "demo_tap =
     \<lparr>sha256 = demo_hash, keypair_from_seckey = \<lambda>_. Some (), x_only_public_key = \<lambda>_. replicate 32 9,
      sign_schnorr = \<lambda>m k aux. m, sign_schnorr_no_aux = \<lambda>m k. m, verify_schnorr = \<lambda>s m k. s = m,
      signature_to_string = \<lambda>_. [], signature_from_str = \<lambda>_. Some [], hex_encode = \<lambda>_. [],
      hex_decode_to_slice = \<lambda>s n. Some (replicate n 0), nums_key = \<lambda>n. n\<rparr>"

definition lend_coll :: asset_id where "lend_coll = replicate 32 1"
definition lend_cash :: asset_id where "lend_cash = replicate 32 2"
definition lend_tok :: asset_id where "lend_tok = replicate 32 3"
definition lend_ln :: asset_id where "lend_ln = replicate 32 4"

lemmas lend_assets = lend_coll_def lend_cash_def lend_tok_def lend_ln_def

definition lend_terms :: fill_terms where
  "lend_terms = \<lparr>ft_size = 1000, ft_sale = 150, ft_buyback = 200, ft_expiry = 5000,
     ft_cash = lend_cash, ft_collateral = None, ft_fee = 10\<rparr>"

definition lend_look :: last_look where
  "lend_look = \<lparr>lastlook = replicate 32 7, lastlook_height = 0\<rparr>"

definition lend_payout :: bytes where
  "lend_payout = sha256 demo_tap (claim_script demo_tap lend_ln)"

definition lend_position :: position_terms where
  "lend_position = \<lparr>pt_collateral = lend_coll, pt_cash = lend_cash, pt_collateral_amount = 1000,
     pt_buyback_amount = 200, pt_expiry_height = 5000, pt_borrower_nft = lend_tok,
     pt_lender_nft = lend_ln, pt_payout_script_hash = lend_payout\<rparr>"

definition lend_last_look :: last_look_terms where
  "lend_last_look = \<lparr>ll_borrower_payout_script_hash = sha256 demo_tap [0x51],
     ll_script_hash = replicate 32 7, ll_height = 0\<rparr>"

definition lend_script :: script where
  "lend_script = v5_position_script demo_tap (v5_terms_digest demo_tap lend_position lend_last_look) 200"

definition lend_pset :: pset where
  "lend_pset =
     \<lparr>pset_inputs = [],
      pset_outputs = [demo_output lend_script lend_coll 1000, demo_output [0x51] lend_tok 1,
                      demo_output [0x52] lend_ln 1, demo_output [0x51] lend_cash 140]\<rparr>"

definition lend_elements :: elements where
  "lend_elements = (demo_elements lend_pset)\<lparr>asset_from_str := \<lambda>_. Some lend_coll\<rparr>"

definition lend_claim :: typed_fund where
  "lend_claim = FillV5 lend_terms lend_payout lend_look"

definition lend_check :: typed_fund_check where
  "lend_check = \<lparr>chk_claim = lend_claim, chk_receives = 140\<rparr>"

lemmas lend_defs = lend_pset_def lend_elements_def lend_claim_def lend_check_def lend_terms_def
  lend_look_def lend_position_def lend_last_look_def lend_script_def demo_output_def

lemmas fill_eval = verify_fill_v5_def fill_guards_def fill_collateral_def explicit_def
  output_at_def fill_outputs is_mine_def lender_token_output_def payout_is_claim_def
  borrower_hash_def last_look_before_expiry_def Let_def fill_position_terms_def fill_last_look_def
  covenant_output_def fill_proceeds_def checked_sub_def mine_paying_def List.map_filter_simps
  result_ok_def

lemma lend_decodes: "decode_pset lend_elements ''tpl'' = Inr lend_pset"
  by (simp add: decode_pset_def lend_elements_def demo_elements_def)

lemma lend_verifies:
  "verify_typed_fund demo_tap lend_elements lend_claim ''tpl'' ''L-BTC'' 1000 lend_coll [1, 3] []
     = Inr lend_check"
proof -
  have "asset_from_str lend_elements ''L-BTC'' = Some lend_coll"
    by (simp add: lend_elements_def)
  moreover have "lend_cash \<noteq> lend_tok" by (simp add: lend_assets)
  ultimately show ?thesis
    by (simp add: verify_typed_fund_def lend_decodes)
      (simp add: lend_defs fill_eval lend_payout_def [symmetric])
qed

section \<open>The guarantees\<close>

text \<open>C18.  A verified fill of any version pays the wallet and takes only what was stated: the
  funded asset is the collateral and the funded amount the stated size, the buyback price is above
  the sale price, output 0 holds the collateral, output 1 pays one unit of a token to the wallet,
  and one of the wallet's own outputs pays the sale price less the fee (no underflow) in cash,
  which is the amount reported.\<close>

theorem verified_fill_pays_wallet:
  assumes "verify_typed_fund tr el claim template aid amount policy mine owned = Inr chk"
    and "fill_of claim = Some t"
  shows "\<exists>p coll tok i. decode_pset el template = Inr p
     \<and> coll = (case ft_collateral t of None \<Rightarrow> policy | Some a \<Rightarrow> a)
     \<and> asset_from_str el aid = Some coll \<and> amount = ft_size t \<and> ft_sale t < ft_buyback t
     \<and> states_row (pset_outputs p) 0 coll (ft_size t)
     \<and> 1 \<in> set mine \<and> states_row (pset_outputs p) 1 tok 1
     \<and> ft_fee t \<le> ft_sale t
     \<and> i \<in> set mine \<and> states_row (pset_outputs p) i (ft_cash t) (ft_sale t - ft_fee t)
     \<and> chk = \<lparr>chk_claim = claim, chk_receives = ft_sale t - ft_fee t\<rparr>"
proof -
  from assms(1) obtain requested p where
    req: "asset_from_str el aid = Some requested" and p: "decode_pset el template = Inr p"
    and arm: "verify_claim_arm tr (ctx_of requested amount policy mine owned p) claim = Inr chk"
    unfolding verify_typed_fund_Inr by blast
  from verified_fill [OF arm assms(2)] req p show ?thesis
    by (auto simp: fill_safe_def fill_collateral_ctx)
qed

theorem verified_fill_pays_wallet_witness:
  "\<exists>i \<in> set [1, 3]. states_row (pset_outputs lend_pset) i lend_cash 140"
proof -
  have "fill_of lend_claim = Some lend_terms" by (simp add: lend_claim_def)
  from verified_fill_pays_wallet [OF lend_verifies this] show ?thesis
    by (auto simp: lend_decodes lend_terms_def)
qed

text \<open>C19.  A verified version-5 fill really is the pinned covenant over the stated terms: the
  script of output 0 is the v5 position program with the digest of exactly the claim's terms and
  the full buyback as debt, where the borrower token is the one output 1 pays to the wallet, the
  lender token is the one at output 2, the lender payout is that token's claim script, the
  borrower payout is the wallet's own script at output 1, and a last look starts before expiry.\<close>

theorem verified_fill_is_covenant:
  assumes "verify_typed_fund tr el (FillV5 t payout l) template aid amount policy mine owned = Inr chk"
  shows "\<exists>p tok ln. decode_pset el template = Inr p
     \<and> states_row (pset_outputs p) 1 tok 1 \<and> 1 \<in> set mine \<and> states_row (pset_outputs p) 2 ln 1
     \<and> payout = sha256 tr (claim_script tr ln)
     \<and> (lastlook_height l = 0 \<or> lastlook_height l < ft_expiry t)
     \<and> out_script_pubkey (pset_outputs p ! 0) =
         position_script tr SWAPTION_LENDING_V5_LEAF
           (sha256 tr (v4_terms_preimage
              \<lparr>pt_collateral = (case ft_collateral t of None \<Rightarrow> policy | Some a \<Rightarrow> a), pt_cash = ft_cash t,
               pt_collateral_amount = ft_size t, pt_buyback_amount = ft_buyback t,
               pt_expiry_height = ft_expiry t, pt_borrower_nft = tok, pt_lender_nft = ln,
               pt_payout_script_hash = payout\<rparr>
              \<lparr>ll_borrower_payout_script_hash = sha256 tr (out_script_pubkey (pset_outputs p ! 1)),
               ll_script_hash = lastlook l, ll_height = lastlook_height l\<rparr>))
           (ft_buyback t)"
proof -
  from assms obtain requested p where
    p: "decode_pset el template = Inr p"
    and arm: "verify_fill_v5 tr (ctx_of requested amount policy mine owned p) t payout l = Inr chk"
    by (auto simp: verify_typed_fund_Inr)
  from verify_fill_v5_facts [OF arm] p show ?thesis
    by (auto simp: fill_position_terms_def fill_last_look_def fill_collateral_ctx)
qed

theorem verified_fill_is_covenant_witness:
  "\<exists>ln. states_row (pset_outputs lend_pset) 2 ln 1 \<and> lend_payout = sha256 demo_tap (claim_script demo_tap ln)"
  using verified_fill_is_covenant [OF lend_verifies [unfolded lend_claim_def]] lend_decodes by auto

text \<open>C20.  Two version-5 claims that both verify against one template, under a hash that does not
  collide on the texts that were hashed to check them, agree on everything the covenant enforces: the
  collateral, cash asset, size, buyback, expiry, payout and last look.  Only the sale price and the fee
  may differ, which the covenant does not hold; each claim's price less its fee, without underflow, is an
  amount of cash that one of the wallet's outputs pays, and so the same for both when these outputs pay
  a single amount.\<close>

theorem covenant_terms_cannot_be_restated:
  assumes v: "verify_fill_v5 tr cx t payout l = Inr chk" "verify_fill_v5 tr cx t' payout' l' = Inr chk'"
    and sz: "sha_sized tr" "fill_v5_sized cx t payout l" "fill_v5_sized cx t' payout' l'"
    and inj: "inj_on (sha256 tr) (set (fill_v5_texts tr cx t payout l) \<union> set (fill_v5_texts tr cx t' payout' l'))"
    and key: "inj_on (nums_key tr) {fill_v5_node tr cx t payout l, fill_v5_node tr cx t' payout' l'}"
  shows "fill_collateral cx t = fill_collateral cx t' \<and> ft_cash t = ft_cash t' \<and> ft_size t = ft_size t'
     \<and> ft_buyback t = ft_buyback t' \<and> ft_expiry t = ft_expiry t' \<and> payout = payout' \<and> l = l'
     \<and> ft_fee t \<le> ft_sale t \<and> chk_receives chk = ft_sale t - ft_fee t
     \<and> ft_fee t' \<le> ft_sale t' \<and> chk_receives chk' = ft_sale t' - ft_fee t'
     \<and> {chk_receives chk, chk_receives chk'} \<subseteq> set (mine_paying cx (ft_cash t))
     \<and> (list_all (\<lambda>x. x = chk_receives chk) (mine_paying cx (ft_cash t)) \<longrightarrow> chk_receives chk' = chk_receives chk)"
proof -
  let ?d = "\<lambda>t payout l. sha256 tr (fill_v5_preimage tr cx t payout l)"
  have "position_script tr SWAPTION_LENDING_V5_LEAF (?d t payout l) (ft_buyback t)
      = position_script tr SWAPTION_LENDING_V5_LEAF (?d t' payout' l') (ft_buyback t')"
    using verify_fill_v5_script [OF v(1)] verify_fill_v5_script [OF v(2)] by simp
  from position_script_eq [OF this sz(1) length_v5_leaf inj le_supI1 [OF fill_v5_texts_mem(2)]
      le_supI2 [OF fill_v5_texts_mem(2)] key [unfolded fill_v5_node_def]]
  have "?d t payout l = ?d t' payout' l'" by blast
  from inj_onD [OF inj this UnI1 [OF fill_v5_texts_mem(1)] UnI2 [OF fill_v5_texts_mem(1)]]
  have "fill_v5_preimage tr cx t payout l = fill_v5_preimage tr cx t' payout' l'" .
  from v4_preimage_inject [OF this [unfolded fill_v5_preimage_def]] sz
  have "fill_v5_terms cx t payout = fill_v5_terms cx t' payout' \<and> fill_v5_look tr cx l = fill_v5_look tr cx l'"
    by (simp add: fill_v5_sized_def fill_v5_look_def fill_last_look_def last_look_sized_def sha_sized_def)
  then have same: "fill_collateral cx t = fill_collateral cx t' \<and> ft_cash t = ft_cash t' \<and> ft_size t = ft_size t'
     \<and> ft_buyback t = ft_buyback t' \<and> ft_expiry t = ft_expiry t' \<and> payout = payout' \<and> l = l'"
    by (cases l; cases l') (simp add: fill_v5_terms_def fill_v5_look_def fill_position_terms_def fill_last_look_def)
  from verify_fill_v5_proceeds [OF v(1)] verify_fill_v5_proceeds [OF v(2)] same show ?thesis
    by (auto simp: list_all_iff)
qed

text \<open>Two claims that differ only in how sale price and fee split the same proceeds.\<close>

definition lend_ctx :: fund_ctx where
  "lend_ctx = ctx_of lend_coll 1000 lend_coll [1, 3] [] lend_pset"

definition lend_terms' :: fill_terms where
  "lend_terms' = lend_terms\<lparr>ft_sale := 160, ft_fee := 20\<rparr>"

lemma lend_fill_v5:
  "verify_fill_v5 demo_tap lend_ctx lend_terms lend_payout lend_look = Inr lend_check"
  using lend_verifies
  by (auto simp: verify_typed_fund_Inr lend_decodes lend_claim_def lend_ctx_def) (simp add: lend_elements_def)

lemma lend_fill_v5':
  "verify_fill_v5 demo_tap lend_ctx lend_terms' lend_payout lend_look
     = Inr \<lparr>chk_claim = FillV5 lend_terms' lend_payout lend_look, chk_receives = 140\<rparr>"
proof -
  have "lend_cash \<noteq> lend_tok" by (simp add: lend_assets)
  then show ?thesis
    by (simp add: lend_ctx_def lend_terms'_def lend_defs fill_eval lend_payout_def [symmetric])
qed

definition padded :: "byte \<Rightarrow> bytes" where
  "padded b = replicate 31 0 @ [b]"

lemma demo_sha: "x \<noteq> [] \<Longrightarrow> sha256 demo_tap x = padded (of_nat (length x) + last x)"
  by (simp add: demo_tap_def demo_hash_def padded_def)

lemma demo_sha_sized: "sha_sized demo_tap"
  by (simp add: sha_sized_def demo_tap_def demo_hash_def)

lemma padded_simps [simp]: "length (padded b) = 32" "last (padded b) = b" "padded b \<noteq> []"
  "padded b = padded c \<longleftrightarrow> b = c"
  by (simp_all add: padded_def)

lemma demo_data_slot: "d \<noteq> [] \<Longrightarrow> data_slot demo_tap d = padded (64 + of_nat (length d) + last d)"
  using demo_sha_sized
  by (simp add: data_slot_def tap_tagged_text demo_sha tagged_text_def sha_sized_def add.assoc)

lemma be_bytes_Cons: "be_bytes (Suc n) k = of_nat (k div 256 ^ n) # be_bytes n k"
proof (induction n arbitrary: k)
  case (Suc n)
  have "be_bytes (Suc (Suc n)) k = be_bytes (Suc n) (k div 256) @ [of_nat k]" by simp
  also have "\<dots> = of_nat (k div 256 ^ Suc n) # be_bytes (Suc n) k"
    unfolding Suc.IH [of "k div 256"] by (simp add: div_mult2_eq)
  finally show ?case .
qed simp

lemma v5_leaf_shape:
  "\<not> SWAPTION_LENDING_V5_LEAF \<le> padded b" "last SWAPTION_LENDING_V5_LEAF = 0x25"
proof -
  have n32: "(32 :: nat) = Suc 31" by simp
  have leaf: "SWAPTION_LENDING_V5_LEAF = 0xda # be_bytes 31 0xda43157b075c4c18c1f7354ada37455fdfbd7eb481d6762a9f1843896d659725"
    unfolding SWAPTION_LENDING_V5_LEAF_def leaf_def n32 be_bytes_Cons by simp
  have pad: "padded b = 0 # replicate 30 0 @ [b]" by (simp add: padded_def numeral_eq_Suc)
  show "\<not> SWAPTION_LENDING_V5_LEAF \<le> padded b"
    unfolding leaf pad by simp
  show "last SWAPTION_LENDING_V5_LEAF = 0x25"
    unfolding SWAPTION_LENDING_V5_LEAF_def leaf_def n32 be_bytes.simps by simp
qed

lemma padded_le: "padded a \<le> padded b \<longleftrightarrow> a \<le> b"
proof -
  have "xs @ [a] \<le> xs @ [b] \<longleftrightarrow> a \<le> b" for xs :: bytes
    by (induction xs) auto
  then show ?thesis by (simp add: padded_def)
qed

lemma lend_preimage:
  "length (fill_v5_preimage demo_tap lend_ctx lend_terms lend_payout lend_look) = 248"
  "last (fill_v5_preimage demo_tap lend_ctx lend_terms lend_payout lend_look) = 0"
  "fill_v5_sized lend_ctx lend_terms lend_payout lend_look"
proof -
  have rows: "row_asset lend_ctx (Suc 0) = lend_tok" "row_asset lend_ctx 2 = lend_ln"
    "cx_policy lend_ctx = lend_coll"
    by (simp_all add: row_asset_def lend_ctx_def lend_pset_def demo_output_def)
  have pay: "length lend_payout = 32" "length (sha256 demo_tap x) = 32" for x
    using demo_sha_sized by (simp_all add: lend_payout_def sha_sized_def)
  have four: "(4 :: nat) = Suc (Suc (Suc (Suc 0)))" by simp
  have "u32_be 0 = [0, 0, 0, 0]" unfolding u32_be_def four by simp
  then show "length (fill_v5_preimage demo_tap lend_ctx lend_terms lend_payout lend_look) = 248"
    "last (fill_v5_preimage demo_tap lend_ctx lend_terms lend_payout lend_look) = 0"
    by (simp_all add: fill_v5_preimage_def v4_terms_preimage_def fill_v5_terms_def fill_v5_look_def
        fill_position_terms_def fill_last_look_def fill_collateral_def rows lend_terms_def lend_look_def
        lend_assets pay)
  show "fill_v5_sized lend_ctx lend_terms lend_payout lend_look"
    by (simp add: fill_v5_sized_def terms_sized_def fill_v5_terms_def fill_position_terms_def
        fill_collateral_def rows lend_terms_def lend_look_def lend_assets pay)
qed

lemma lend_texts_distinct:
  "distinct (map (sha256 demo_tap) (fill_v5_texts demo_tap lend_ctx lend_terms lend_payout lend_look))"
proof -
  let ?P = SWAPTION_LENDING_V5_LEAF
  let ?pre = "fill_v5_preimage demo_tap lend_ctx lend_terms lend_payout lend_look"
  have size: "length (sha256 demo_tap x) = 32" for x
    using demo_sha_sized by (simp add: sha_sized_def)
  have pre: "sha256 demo_tap ?pre = padded 248"
    using lend_preimage by (subst demo_sha) auto
  have slot: "last (debt_slot 200) = 200" "debt_slot 200 \<noteq> []"
    using be_bytes.simps(2) [of 7 200] by (simp_all add: debt_slot_def u64_be_def)
  have d1: "data_slot demo_tap (padded 248) = padded 88"
    by (subst demo_data_slot) simp_all
  have d2: "data_slot demo_tap (debt_slot 200) = padded 40"
    using slot by (subst demo_data_slot) simp_all
  have branch: "sha256 demo_tap (branch_text demo_tap a b) = padded (128 + last (max a b))"
    if "length a = 32" "length b = 32" for a b
  proof -
    from that have "a \<noteq> []" "b \<noteq> []" by auto
    then show ?thesis
      using that by (subst demo_sha) (auto simp: branch_text_def tagged_text_def size max_def)
  qed
  have p1: "program_slot demo_tap ?P (padded 248) = padded 165"
    using v5_leaf_shape length_v5_leaf by (simp add: program_slot_def tap_branch_text d1 branch max_def)
  have tags: "sha256 demo_tap (as_bytes ''TapData'') = padded 104"
    "sha256 demo_tap (as_bytes ''TapBranch/elements'') = padded 133"
    by (subst demo_sha; simp add: as_bytes_def)+
  have bb: "ft_buyback lend_terms = 200" by (simp add: lend_terms_def)
  have texts: "map (sha256 demo_tap) (fill_v5_texts demo_tap lend_ctx lend_terms lend_payout lend_look)
      = map padded [248, 104, 133, 88, 165, 40, 37]"
    using d1 d2 p1 tap_branch_text [of demo_tap "padded 165" "padded 40"] branch [of "padded 165" "padded 40"]
    by (simp add: fill_v5_texts_def Let_def pre position_texts_def tag_texts_def program_texts_def tags
        bb program_slot_def tap_branch_text data_slot_def tap_tagged_text max_def padded_le)
  show ?thesis unfolding texts by simp
qed

theorem covenant_terms_cannot_be_restated_witness:
  "ft_buyback lend_terms = ft_buyback lend_terms' \<and> ft_sale lend_terms \<noteq> ft_sale lend_terms'
   \<and> ft_sale lend_terms - ft_fee lend_terms = ft_sale lend_terms' - ft_fee lend_terms'
   \<and> ft_sale lend_terms - ft_fee lend_terms \<in> set (mine_paying lend_ctx lend_cash)"
proof -
  have same: "fill_v5_preimage demo_tap lend_ctx lend_terms' lend_payout lend_look
      = fill_v5_preimage demo_tap lend_ctx lend_terms lend_payout lend_look"
    "ft_buyback lend_terms' = ft_buyback lend_terms"
    "fill_v5_sized lend_ctx lend_terms' lend_payout lend_look"
    using lend_preimage(3)
    by (simp_all add: fill_v5_preimage_def fill_v5_terms_def fill_v5_look_def fill_position_terms_def
        fill_collateral_def lend_terms'_def fill_v5_sized_def)
  have texts: "fill_v5_texts demo_tap lend_ctx lend_terms' lend_payout lend_look
      = fill_v5_texts demo_tap lend_ctx lend_terms lend_payout lend_look"
    by (simp add: fill_v5_texts_def same)
  have inj: "inj_on (sha256 demo_tap)
      (set (fill_v5_texts demo_tap lend_ctx lend_terms lend_payout lend_look)
       \<union> set (fill_v5_texts demo_tap lend_ctx lend_terms' lend_payout lend_look))"
    using lend_texts_distinct by (simp add: texts distinct_map)
  have key: "inj_on (nums_key demo_tap) A" for A by (simp add: demo_tap_def inj_on_def)
  from covenant_terms_cannot_be_restated [OF lend_fill_v5 lend_fill_v5' demo_sha_sized lend_preimage(3) same(3) inj key]
  show ?thesis by (simp add: lend_check_def lend_terms_def lend_terms'_def)
qed

text \<open>C21.  A verified offer escrows exactly what is funded, in offer coins only: the requested
  asset is the cash, there are one to four coins and one to four rows with no zero term, the coin
  amounts add up to the funded amount in unbounded arithmetic (so the total the dialog shows, a
  wrapping sum, is the funded amount), output \<open>i\<close> is the \<open>i\<close>-th coin under the offer program with
  the digest of the stated terms, the positions it can create are the pinned v5 program, the claim
  script is the lender token's, and a token output pays the wallet one unit of that token.\<close>

theorem verified_offer_escrows_funded_amount:
  assumes "verify_typed_fund tr el (Offer c) template aid amount policy mine owned = Inr chk"
  shows "\<exists>p. decode_pset el template = Inr p \<and> asset_from_str el aid = Some (of_cash c)
    \<and> length (of_amounts c) \<in> {1..4} \<and> length (of_rows c) \<in> {1..4}
    \<and> list_all (\<lambda>r. 0 < row_expiry r \<and> 0 < row_price_out r \<and> 0 < row_buyback r \<and> 0 < row_min_size r) (of_rows c)
    \<and> unat amount = sum_list (map unat (of_amounts c)) \<and> amount = sum_list (of_amounts c)
    \<and> of_position_leaf c = SWAPTION_LENDING_V5_LEAF
    \<and> of_claim c = sha256 tr (claim_script tr (of_lender_token c))
    \<and> list_all (\<lambda>i. states_row (pset_outputs p) i (of_cash c) (of_amounts c ! i)
         \<and> out_script_pubkey (pset_outputs p ! i) = position_script tr SWAPTION_OFFER_LEAF
             (sha256 tr (offer_terms_preimage (of_cash c) (of_lender_token c) (of_claim c)
                (of_fee_script c) (of_position_leaf c) (of_fee_min c) (of_cutoff c) (of_rows c)))
             (of_amounts c ! i)) [0..<length (of_amounts c)]
    \<and> (case of_token_output c of None \<Rightarrow> True
       | Some i \<Rightarrow> states_row (pset_outputs p) (unat i) (of_lender_token c) 1 \<and> unat i \<in> set mine)"
proof -
  from assms obtain requested p where
    req: "asset_from_str el aid = Some requested" and p: "decode_pset el template = Inr p"
    and arm: "verify_offer tr (ctx_of requested amount policy mine owned p) c = Inr chk"
    by (auto simp: verify_typed_fund_Inr)
  from verify_offer_facts [OF arm] req p show ?thesis
    by (auto simp: verify_offer_coins_Inr offer_script_def offer_terms_digest_def list_all_iff
        offer_row_ok_def split: option.splits)
qed

text \<open>An offer of one coin of 7 units, with one row.\<close>

definition lend_offer :: offer_claim where
  "lend_offer = \<lparr>of_cash = lend_cash, of_amounts = [7], of_lender_token = lend_ln, of_claim = lend_payout,
     of_fee_script = replicate 32 6, of_position_leaf = SWAPTION_LENDING_V5_LEAF, of_fee_min = 0,
     of_cutoff = 9000, of_rows = [\<lparr>row_collateral = lend_coll, row_expiry = 1, row_price_out = 1,
       row_buyback = 1, row_fee_per_unit = 0, row_min_size = 1\<rparr>], of_token_output = None\<rparr>"

definition offer_pset :: pset where
  "offer_pset = \<lparr>pset_inputs = [], pset_outputs = [demo_output (offer_script demo_tap
     (offer_terms_digest demo_tap (of_cash lend_offer) (of_lender_token lend_offer) (of_claim lend_offer)
        (of_fee_script lend_offer) (of_position_leaf lend_offer) (of_fee_min lend_offer)
        (of_cutoff lend_offer) (of_rows lend_offer)) 7) lend_cash 7]\<rparr>"

definition offer_elements :: elements where
  "offer_elements = (demo_elements offer_pset)\<lparr>asset_from_str := \<lambda>_. Some lend_cash\<rparr>"

lemma offer_verifies:
  "verify_typed_fund demo_tap offer_elements (Offer lend_offer) ''tpl'' ''USDt'' 7 lend_coll [] []
     = Inr \<lparr>chk_claim = Offer lend_offer, chk_receives = 0\<rparr>"
proof -
  have "decode_pset offer_elements ''tpl'' = Inr offer_pset"
    by (simp add: decode_pset_def offer_elements_def demo_elements_def)
  then show ?thesis
    by (simp add: verify_typed_fund_def)
      (simp add: offer_elements_def verify_offer_def offer_pset_def demo_output_def lend_offer_def
        explicit_def output_at_def checked_add_def offer_row_ok_def lend_payout_def)
qed

theorem verified_offer_escrows_funded_amount_witness:
  "unat (7 :: u64) = sum_list (map unat (of_amounts lend_offer))"
  using verified_offer_escrows_funded_amount [OF offer_verifies] by auto

text \<open>C22.  Withdrawing an offer, collecting what lending paid and selling a buyback right, on a template
  that passed the template check for the same request: beyond its own coins that the template spends, the
  wallet puts in exactly the stated network fee in the policy asset, at most 5000 satoshis (20000 for a
  collection), and nothing of any other asset.  Of these own coins the claim check knows the one at input
  0, a one-unit token; it reads no other, so it gives the same verdict whatever else of the wallet's the
  template spends, and for the rest of them the bound is the list the host supplied.\<close>

theorem verified_fee_claim_outlay:
  assumes "verify_typed_fund tr el claim template aid amount policy mine owned = Inr chk"
    and "fee_only claim = Some (fe, bound)"
    and "verify_fund_template_owned el template aid amount owned = Inr summary"
    and "decode_pset el template = Inr p"
    and "input_rows el owned 0 (pset_inputs p) = Some (ins, n)"
    and "output_rows el 0 (pset_outputs p) = Some (outs, m)"
    and "\<And>a. tot (ins @ W) a = tot (outs @ C) a"
  shows "unat fe \<le> bound
    \<and> tot (owned_rows owned @ W) policy = tot (owned_rows owned) policy + tot C policy + unat fe
    \<and> (\<forall>a. a \<noteq> policy \<longrightarrow> tot (owned_rows owned @ W) a \<le> tot (owned_rows owned) a + tot C a)
    \<and> (\<exists>token. find (\<lambda>o1. oi_index o1 = 0) owned = Some token \<and> oi_amount token = 1
        \<and> (oi_asset token, 1) \<in> set ins
        \<and> (\<forall>owned'. find (\<lambda>o1. oi_index o1 = 0) owned' = Some token \<longrightarrow>
              verify_typed_fund tr el claim template aid amount policy mine owned' = Inr chk))"
proof -
  from assms(1,4) obtain requested where
    req: "asset_from_str el aid = Some requested"
    and arm: "verify_claim_arm tr (ctx_of requested amount policy mine owned p) claim = Inr chk"
    by (auto simp: verify_typed_fund_Inr)
  from verified_fee_only [OF arm assms(2)] obtain token where
    fee: "requested = policy" "amount = fe" "unat fe \<le> bound"
    and token: "find (\<lambda>o1. oi_index o1 = 0) owned = Some token" "oi_amount token = 1"
    by auto
  have "(oi_asset token, 1) \<in> set (owned_rows owned)"
    using token by (force simp: owned_rows_def find_Some_iff in_set_conv_nth)
  then have row: "(oi_asset token, 1) \<in> set ins"
    using mset_subset_eqD [OF accepted_ledger(2) [OF assms(3,4) req assms(5,6)]] by simp
  have others: "verify_typed_fund tr el claim template aid amount policy mine owned' = Inr chk"
    if "find (\<lambda>o1. oi_index o1 = 0) owned' = Some token" for owned'
    using fee_only_owned [of claim "ctx_of requested amount policy mine owned p" owned' tr] arm req assms(2,4) that token(1)
    by (auto simp: verify_typed_fund_Inr)
  note outlay = accepted_outlay [OF assms(3,4) req assms(5,6) assms(7)]
  from outlay(1) [of policy] outlay(2) fee token row others show ?thesis by auto
qed

text \<open>A right sold for 90 of cash: the buyer's cash and the wallet's token go in, and the wallet funds the fee.\<close>

definition sell_pset :: pset where
  "sell_pset = \<lparr>pset_inputs = [token_input, demo_input\<lparr>witness_utxo := Some \<lparr>txo_asset = AssetExplicit lend_cash,
        txo_value = ValueExplicit 90, txo_script_pubkey = [0x54]\<rparr>\<rparr>],
     pset_outputs = [demo_output [0x51] lend_cash 90, demo_output [0x54] lend_tok 1, demo_output [] lend_coll 300]\<rparr>"

definition sell_elements :: elements where
  "sell_elements = (demo_elements sell_pset)\<lparr>asset_from_str := \<lambda>_. Some lend_coll\<rparr>"

definition sell_owned :: "owned_input list" where
  "sell_owned = [\<lparr>oi_index = 0, oi_asset = lend_tok, oi_amount = 1\<rparr>]"

lemmas sell_eval = template_eval sell_pset_def sell_elements_def sell_owned_def

lemma sell_verifies:
  "verify_typed_fund demo_tap sell_elements (SellRight 80 lend_cash 300) ''tpl'' ''L-BTC'' 300 lend_coll [0] sell_owned
   = Inr \<lparr>chk_claim = SellRight 80 lend_cash 300, chk_receives = 90\<rparr>"
  by (simp add: verify_typed_fund_def sell_eval verify_sell_right_def
      owned_input_0_def best_at_least_def mine_paying_def List.map_filter_simps explicit_def output_at_def
      result_ok_def)

lemma lend_order:
  "lend_coll < lend_cash" "lend_cash < lend_tok" "lend_coll < lend_tok"
proof -
  have "replicate 32 x < replicate 32 y" if "x < y" for x y :: byte
    using that replicate_Suc [of 31 x] replicate_Suc [of 31 y] by simp
  then show "lend_coll < lend_cash" "lend_cash < lend_tok" "lend_coll < lend_tok"
    by (simp_all add: lend_assets)
qed

lemma sell_template_verifies:
  "verify_fund_template_owned sell_elements ''tpl'' ''L-BTC'' 300 sell_owned =
     Inr \<lparr>fts_input_count = 2, fts_output_count = 3, fts_fee = 300, fts_deficit = 300, fts_proven_rows = 0,
          fts_owned_inputs = 1\<rparr>"
  by (simp add: sell_eval verify_fund_template_owned_def template_verdict_def add_in_def add_out_def
      sums_entry_def bt_get_def bt_remove_def checked_add_def checked_sub_def lend_order
      order_less_not_sym lend_order [THEN order_less_imp_not_eq] lend_order [THEN order_less_imp_not_eq2])

theorem verified_fee_claim_outlay_witness:
  "tot (owned_rows sell_owned @ [(lend_coll, 1000)]) lend_coll
     = tot (owned_rows sell_owned) lend_coll + tot [(lend_coll, 700)] lend_coll + unat (300 :: u64)
   \<and> verify_typed_fund demo_tap sell_elements (SellRight 80 lend_cash 300) ''tpl'' ''L-BTC'' 300 lend_coll [0]
       (sell_owned @ [\<lparr>oi_index = 1, oi_asset = lend_cash, oi_amount = 90\<rparr>])
     = Inr \<lparr>chk_claim = SellRight 80 lend_cash 300, chk_receives = 90\<rparr>"
proof -
  have p: "decode_pset sell_elements ''tpl'' = Inr sell_pset"
    by (simp add: sell_elements_def demo_elements_def decode_pset_def)
  have ins: "input_rows sell_elements sell_owned 0 (pset_inputs sell_pset) = Some ([(lend_tok, 1), (lend_cash, 90)], 0)"
    and outs: "output_rows sell_elements 0 (pset_outputs sell_pset)
      = Some ([(lend_cash, 90), (lend_tok, 1), (lend_coll, 300)], 0)"
    by (simp_all add: sell_eval)
  have bal: "tot ([(lend_tok, 1), (lend_cash, 90)] @ [(lend_coll, 1000)]) a
      = tot ([(lend_cash, 90), (lend_tok, 1), (lend_coll, 300)] @ [(lend_coll, 700)]) a" for a
    by simp
  have "fee_only (SellRight 80 lend_cash 300) = Some (300, 5000)" by simp
  note outlay = verified_fee_claim_outlay [OF sell_verifies this sell_template_verifies p ins outs bal]
  have "find (\<lambda>o1. oi_index o1 = 0) (sell_owned @ rest) = find (\<lambda>o1. oi_index o1 = 0) sell_owned" for rest
    by (simp add: sell_owned_def)
  with outlay show ?thesis by metis
qed

text \<open>C23.  A verified exercise keeps the position token in step with the debt: while a debt
  remains, output 0 returns the very token the wallet spends at input 0 to the wallet, not to an
  unspendable script, and output 1 continues the position; on a full buyback output 0 burns it.
  Either way the wallet receives at least the released collateral, and the amount reported is the
  largest that one of its outputs pays.\<close>

theorem verified_exercise_token_and_release:
  assumes "verify_typed_fund tr el (Exercise c) template aid amount policy mine owned = Inr chk"
  shows "\<exists>p token coll. decode_pset el template = Inr p
    \<and> asset_from_str el aid = Some (ex_cash c) \<and> amount = ex_amount c
    \<and> find (\<lambda>o1. oi_index o1 = 0) owned = Some token \<and> oi_amount token = 1
    \<and> coll = (case ex_collateral c of None \<Rightarrow> policy | Some a \<Rightarrow> a)
    \<and> (if 0 < ex_remaining c
       then states_row (pset_outputs p) 0 (oi_asset token) 1 \<and> 0 \<in> set mine
         \<and> op_return_payload (out_script_pubkey (pset_outputs p ! 0)) = None
         \<and> (\<exists>v. states_row (pset_outputs p) 1 coll v)
       else out_asset (pset_outputs p ! 0) = Some (oi_asset token)
         \<and> op_return_payload (out_script_pubkey (pset_outputs p ! 0)) \<noteq> None)
    \<and> ex_released c \<le> chk_receives chk
    \<and> (\<exists>i \<in> set mine. states_row (pset_outputs p) i coll (chk_receives chk))"
proof -
  from assms obtain requested p where
    req: "asset_from_str el aid = Some requested" and p: "decode_pset el template = Inr p"
    and arm: "verify_exercise (ctx_of requested amount policy mine owned p) c = Inr chk"
    by (auto simp: verify_typed_fund_Inr)
  let ?coll = "case ex_collateral c of None \<Rightarrow> policy | Some a \<Rightarrow> a"
  from verify_exercise_facts [OF arm] obtain token where
    "requested = ex_cash c" "amount = ex_amount c"
    and tok: "find (\<lambda>o1. oi_index o1 = 0) owned = Some token" "oi_amount token = 1"
    and ex: "exercise_token (ctx_of requested amount policy mine owned p) (oi_asset token) (ex_remaining c) ?coll = Inr ()"
    and best: "best_at_least (ex_released c) (mine_paying (ctx_of requested amount policy mine owned p) ?coll)
        = Some (chk_receives chk)"
    by (auto simp: option.case_eq_if split: if_splits)
  with best_at_least_Some(1,2) [OF best] req p show ?thesis
    by (auto simp: exercise_token_Inr mine_paying_mem)
qed

definition burn_pset :: pset where
  "burn_pset = \<lparr>pset_inputs = [], pset_outputs = [demo_output [0x6a, 1, 0] lend_tok 1,
     demo_output [0x51] lend_coll 40, demo_output [0x52] lend_coll 60]\<rparr>"

definition burn_claim :: exercise_claim where
  "burn_claim = \<lparr>ex_amount = 500, ex_released = 30, ex_remaining = 0, ex_cash = lend_cash, ex_collateral = None\<rparr>"

lemma burn_verifies:
  "verify_typed_fund demo_tap ((demo_elements burn_pset)\<lparr>asset_from_str := \<lambda>_. Some lend_cash\<rparr>)
     (Exercise burn_claim) ''tpl'' ''USDt'' 500 lend_coll [1, 2]
     [\<lparr>oi_index = 0, oi_asset = lend_tok, oi_amount = 1\<rparr>]
   = Inr \<lparr>chk_claim = Exercise burn_claim, chk_receives = 60\<rparr>"
  by (simp add: verify_typed_fund_def decode_pset_def demo_elements_def verify_exercise_def exercise_token_def
      owned_input_0_def best_at_least_def mine_paying_def List.map_filter_simps explicit_def output_at_def
      result_ok_def burn_pset_def demo_output_def burn_claim_def op_return_payload_def)

theorem verified_exercise_token_and_release_witness:
  "ex_released burn_claim \<le> 60 \<and> (\<exists>i \<in> set [1, 2]. states_row (pset_outputs burn_pset) i lend_coll 60)"
proof -
  have "decode_pset ((demo_elements burn_pset)\<lparr>asset_from_str := \<lambda>_. Some lend_cash\<rparr>) ''tpl'' = Inr burn_pset"
    by (simp add: decode_pset_def demo_elements_def)
  with verified_exercise_token_and_release [OF burn_verifies] show ?thesis
    by (auto simp: burn_claim_def)
qed

text \<open>The rows of the wallet's own outputs that state their asset and amount.\<close>

definition mine_rows :: "pset_output list \<Rightarrow> nat list \<Rightarrow> ledger" where
  "mine_rows outs mine = List.map_filter (\<lambda>i. if i < length outs
     then case (out_asset (outs ! i), out_amount (outs ! i)) of (Some a, Some v) \<Rightarrow> Some (a, v) | _ \<Rightarrow> None
     else None) (remdups mine)"

lemma mine_rows_mem: "i \<in> set mine \<Longrightarrow> states_row outs i a v \<Longrightarrow> (a, v) \<in> set (mine_rows outs mine)"
  by (auto simp: mine_rows_def set_map_filter states_row_def intro!: bexI [of _ i])

lemma paying_at_least:
  "(\<exists>v \<in> set (mine_paying cx a). b \<le> v) \<longleftrightarrow> (\<exists>i \<in> set (cx_mine cx). \<exists>v. states_row (cx_outputs cx) i a v \<and> b \<le> v)"
  unfolding mine_paying_mem Bex_def by blast

lemma verify_claim_Inr:
  "verify_claim cx lt fe receives = Inr chk \<longleftrightarrow>
   (\<exists>token. find (\<lambda>o1. oi_index o1 = 0) (cx_owned cx) = Some token \<and> oi_amount token = 1 \<and> oi_asset token = lt)
   \<and> cx_requested cx = cx_policy cx \<and> cx_amount cx = fe \<and> fe \<le> 20000 \<and> receives \<noteq> []
   \<and> states_row (cx_outputs cx) 0 lt 1 \<and> 0 \<in> set (cx_mine cx)
   \<and> (\<forall>r \<in> set receives. \<exists>i \<in> set (cx_mine cx). \<exists>v. states_row (cx_outputs cx) i (fst r) v \<and> snd r \<le> v)
   \<and> chk = \<lparr>chk_claim = Claim lt fe receives, chk_receives = snd (hd receives)\<rparr>"
  by (cases receives)
    (auto simp: verify_claim_def result_simps is_mine_def paying_at_least [symmetric] verify_receives_Inr
      simp del: verify_receives.simps)

text \<open>C24.  What a verified collection pays.  Every receipt the claim lists is covered by one output of the
  wallet that pays at least that much of that asset; when each asset is listed once, the wallet's outputs
  together pay at least what the claim lists, of every asset.  When an asset is listed more than once this
  fails: no output is used up by a receipt, so the claim with the whole list repeated any number of times,
  and with that many times the total, verifies against the same template.\<close>

theorem verified_collection_pays:
  assumes "verify_typed_fund tr el (Claim lt fe receives) template aid amount policy mine owned = Inr chk"
    and "decode_pset el template = Inr p"
  shows "list_all (\<lambda>r. \<exists>i \<in> set mine. \<exists>v. states_row (pset_outputs p) i (fst r) v \<and> snd r \<le> v) receives
    \<and> (distinct (map fst receives) \<longrightarrow> (\<forall>a. tot receives a \<le> tot (mine_rows (pset_outputs p) mine) a))
    \<and> (\<forall>k > 0. (\<exists>chk'. verify_typed_fund tr el (Claim lt fe (concat (replicate k receives)))
            template aid amount policy mine owned = Inr chk')
          \<and> (\<forall>a. tot (concat (replicate k receives)) a = k * tot receives a))"
proof -
  from assms obtain requested where
    req: "asset_from_str el aid = Some requested"
    and arm: "verify_claim (ctx_of requested amount policy mine owned p) lt fe receives = Inr chk"
    by (auto simp: verify_typed_fund_Inr)
  from arm have each: "\<forall>r \<in> set receives. \<exists>i \<in> set mine. \<exists>v. states_row (pset_outputs p) i (fst r) v \<and> snd r \<le> v"
    by (simp add: verify_claim_Inr)
  have once: "tot receives a \<le> tot (mine_rows (pset_outputs p) mine) a" if d: "distinct (map fst receives)" for a
  proof (cases "a \<in> fst ` set receives")
    case True
    then obtain r where r: "r \<in> set receives" "fst r = a" by auto
    with each obtain i v where iv: "i \<in> set mine" "states_row (pset_outputs p) i a v" "snd r \<le> v" by auto
    have "tot receives a = unat (snd r)" using tot_distinct [OF d r(1)] r(2) by simp
    also have "\<dots> \<le> unat v" using iv(3) by (simp add: word_le_nat_alt)
    also have "\<dots> \<le> tot (mine_rows (pset_outputs p) mine) a" using tot_mem [OF mine_rows_mem [OF iv(1,2)]] by simp
    finally show ?thesis .
  qed (simp add: tot_absent)
  have "\<exists>chk'. verify_claim (ctx_of requested amount policy mine owned p) lt fe (concat (replicate k receives)) = Inr chk'"
    if "0 < k" for k
    using arm that by (auto simp: verify_claim_Inr)
  then have "\<exists>chk'. verify_typed_fund tr el (Claim lt fe (concat (replicate k receives)))
      template aid amount policy mine owned = Inr chk'" if "0 < k" for k
    using that req assms(2) by (auto simp: verify_typed_fund_Inr)
  with each once show ?thesis by (auto simp: list_all_iff tot_repeated)
qed

definition collect_pset :: pset where
  "collect_pset = \<lparr>pset_inputs = [], pset_outputs = [demo_output [0x51] lend_ln 1, demo_output [0x51] lend_cash 90]\<rparr>"

definition collect_elements :: elements where
  "collect_elements = (demo_elements collect_pset)\<lparr>asset_from_str := \<lambda>_. Some lend_coll\<rparr>"

lemma collect_verifies:
  "verify_typed_fund demo_tap collect_elements (Claim lend_ln 300 [(lend_cash, 80)]) ''tpl'' ''L-BTC'' 300 lend_coll [0, 1]
     [\<lparr>oi_index = 0, oi_asset = lend_ln, oi_amount = 1\<rparr>]
   = Inr \<lparr>chk_claim = Claim lend_ln 300 [(lend_cash, 80)], chk_receives = 80\<rparr>"
proof -
  have "decode_pset collect_elements ''tpl'' = Inr collect_pset" "asset_from_str collect_elements ''L-BTC'' = Some lend_coll"
    by (simp_all add: collect_elements_def demo_elements_def decode_pset_def)
  moreover have "lend_ln \<noteq> lend_cash" by (simp add: lend_assets)
  ultimately show ?thesis
    by (simp add: verify_typed_fund_Inr verify_claim_Inr) (simp add: states_row_def collect_pset_def demo_output_def)
qed

theorem verified_collection_pays_witness:
  "tot [(lend_cash, 80)] lend_cash \<le> tot (mine_rows (pset_outputs collect_pset) [0, 1]) lend_cash
   \<and> (\<exists>chk'. verify_typed_fund demo_tap collect_elements (Claim lend_ln 300 (concat (replicate 2 [(lend_cash, 80)])))
         ''tpl'' ''L-BTC'' 300 lend_coll [0, 1] [\<lparr>oi_index = 0, oi_asset = lend_ln, oi_amount = 1\<rparr>] = Inr chk')
   \<and> tot (mine_rows (pset_outputs collect_pset) [0, 1]) lend_cash
       < tot (concat (replicate 2 [(lend_cash, 80)])) lend_cash"
proof -
  have p: "decode_pset collect_elements ''tpl'' = Inr collect_pset"
    by (simp add: collect_elements_def demo_elements_def decode_pset_def)
  have "lend_ln \<noteq> lend_cash" by (simp add: lend_assets)
  then have "tot (mine_rows (pset_outputs collect_pset) [0, 1]) lend_cash
       < tot (concat (replicate 2 [(lend_cash, 80)])) lend_cash"
    unfolding tot_repeated by (simp add: mine_rows_def collect_pset_def demo_output_def List.map_filter_simps)
  moreover have "(0 :: nat) < 2" "distinct (map fst [(lend_cash, 80 :: u64)])" by simp_all
  ultimately show ?thesis
    using verified_collection_pays [OF collect_verifies p] by blast
qed

text \<open>A memo that claims to be typed never falls back to plain text: whenever it is JSON
  whose \<open>kind\<close> starts with \<open>sw/\<close> the parser answers with a claim or a refusal, a claim comes only
  from the kind of that claim, and a memo is untyped only when it has no such kind.\<close>

theorem typed_memo_never_falls_back:
  "parse_typed_fund cr el js memo = r \<longleftrightarrow>
   (case typed_kind js ''sw/'' memo of
      None \<Rightarrow> r = None
    | Some (kind, v) \<Rightarrow>
        (case r of None \<Rightarrow> False
         | Some (Inl e) \<Rightarrow> parse_fields cr el js kind v = Inl e
         | Some (Inr c) \<Rightarrow> parse_fields cr el js kind v = Inr c \<and> kind_of c = kind))"
  by (auto simp: parse_typed_fund_def dest: parse_fields_kind split: option.splits sum.splits)

text \<open>The amounts in the approval text are exact: reading the shown decimal back gives the
  satoshi amount, for every 64-bit amount.\<close>

theorem fmt8_is_exact: "read8 (fmt8 sats) = Some (unat sats)"
  by (rule fmt8_read8)

end
