(* ===== verification/Venue.thy ===== *)
theory Venue
  imports Approval Typed_Json
begin

text \<open>
  The venue money key and covenant-digest signing of \<open>lc-wallet-core/src/venue.rs\<close>: key
  derivation, the tagged digests, the clear-signed typed requests, signing the key's own PSET
  inputs, the service-login binding, and the HTTPS login.  BIP32, secp256k1, the Elements sighash
  and the HTTP client are third-party; they are the fields of \<open>venue_lib\<close>.  An \<open>expect\<close>
  that fails is the error \<open>Panicked\<close>.
\<close>

record 'k venue_lib = "'k crypto" +
  new_master :: "bytes \<Rightarrow> bytes option"
  derive_priv :: "bytes \<Rightarrow> u32 list \<Rightarrow> bytes option"
    \<comment> \<open>the secret bytes of the child at a path of hardened indexes\<close>
  xonly_from_slice :: "bytes \<Rightarrow> bytes option"
  tap_tweak_hash :: "bytes \<Rightarrow> bytes"
  add_xonly_tweak :: "'k \<Rightarrow> bytes \<Rightarrow> 'k option"
  extract_tx :: "pset \<Rightarrow> bytes option"
  key_spend_sighash :: "bytes \<Rightarrow> nat \<Rightarrow> tx_out list \<Rightarrow> bytes \<Rightarrow> bytes option"
    \<comment> \<open>transaction, input index, all previous outputs, genesis hash\<close>
  address_script :: "string \<Rightarrow> script option"

datatype venue_error =
    BadSeed | DeriveFailed | Panicked
  | UnknownProduct string | BadDest | OtherOwner | TradeIsOwner
  | MissingUtxo nat | ExtractFailed
  | ServiceKeyHex | ServiceKeyInvalid | ServiceSigHex | ServiceSigMismatch
  | VenueNotBare | HttpFailed | NoChallenge | BadReply | VenueRefused string | RefusedStatus nat string

definition ORDER_TAG :: bytes where "ORDER_TAG = as_bytes ''rf/order/v2''"
definition ORDER_TAG_V1 :: bytes where "ORDER_TAG_V1 = as_bytes ''rf/order/v1''"
definition WITHDRAW_TAG :: bytes where "WITHDRAW_TAG = as_bytes ''rf/withdraw/v1''"
definition LOGIN_TAG :: bytes where "LOGIN_TAG = as_bytes ''rf/login/v1''"
definition DELEGATE_TAG :: bytes where "DELEGATE_TAG = as_bytes ''rf/delegate/v1''"
definition SERVICE_LOGIN_TAG :: bytes where "SERVICE_LOGIN_TAG = as_bytes ''lc/service-login/v1''"
definition PRODUCT :: bytes where "PRODUCT = as_bytes ''RF-BTC-USDT''"
definition VENUE_KEY_PURPOSE :: u32 where "VENUE_KEY_PURPOSE = 0x4C43"

lemmas venue_tags = ORDER_TAG_def ORDER_TAG_V1_def WITHDRAW_TAG_def LOGIN_TAG_def DELEGATE_TAG_def
  SERVICE_LOGIN_TAG_def

record fee_caps =
  max_bps :: u64
  max_chain :: u64

section \<open>The key\<close>

definition network_index :: "network \<Rightarrow> u32" where
  "network_index n = (case n of Liquid \<Rightarrow> 0 | LiquidTestnet \<Rightarrow> 1 | Regtest \<Rightarrow> 2)"

definition venue_key_path :: "network \<Rightarrow> u32 list" where
  "venue_key_path n = [VENUE_KEY_PURPOSE, network_index n, 0]"

definition from_seed :: "('k, 'x) venue_lib_scheme \<Rightarrow> bytes \<Rightarrow> network \<Rightarrow> venue_error + 'k" where
  "from_seed vl seed n =
     and_then (ok_or (new_master vl seed) BadSeed) (\<lambda>master.
     and_then (ok_or (derive_priv vl master (venue_key_path n)) DeriveFailed) (\<lambda>secret.
     ok_or (keypair_from_seckey vl secret) Panicked))"

definition account_pk :: "('k, 'x) venue_lib_scheme \<Rightarrow> 'k \<Rightarrow> bytes" where
  "account_pk vl k = x_only_public_key vl k"

definition sign_venue_digest :: "('k, 'x) venue_lib_scheme \<Rightarrow> 'k \<Rightarrow> bytes \<Rightarrow> bytes" where
  "sign_venue_digest vl k digest = sign_schnorr_no_aux vl digest k"

definition p2tr_script_pubkey :: "('k, 'x) venue_lib_scheme \<Rightarrow> 'k \<Rightarrow> script" where
  "p2tr_script_pubkey vl k = [0x51, 0x20] @ account_pk vl k"

definition tweaked_keypair :: "('k, 'x) venue_lib_scheme \<Rightarrow> 'k \<Rightarrow> venue_error + 'k" where
  "tweaked_keypair vl k = ok_or (add_xonly_tweak vl k (tap_tweak_hash vl (account_pk vl k))) Panicked"

definition p2tr_tweaked_script_pubkey :: "('k, 'x) venue_lib_scheme \<Rightarrow> 'k \<Rightarrow> venue_error + script" where
  "p2tr_tweaked_script_pubkey vl k =
     and_then (tweaked_keypair vl k) (\<lambda>tk. Inr ([0x51, 0x20] @ x_only_public_key vl tk))"

definition sign_keyspend_with ::
  "('k, 'x) venue_lib_scheme \<Rightarrow> 'k \<Rightarrow> bytes \<Rightarrow> nat \<Rightarrow> tx_out list \<Rightarrow> bytes \<Rightarrow> venue_error + bytes" where
  "sign_keyspend_with vl k tx i prevouts genesis =
     and_then (ok_or (key_spend_sighash vl tx i prevouts genesis) Panicked) (\<lambda>h.
     Inr (sign_schnorr_no_aux vl h k))"

definition sign_p2tr_keyspend ::
  "('k, 'x) venue_lib_scheme \<Rightarrow> 'k \<Rightarrow> bytes \<Rightarrow> nat \<Rightarrow> tx_out list \<Rightarrow> bytes \<Rightarrow> venue_error + bytes" where
  "sign_p2tr_keyspend vl k tx i prevouts genesis = sign_keyspend_with vl k tx i prevouts genesis"

section \<open>Signing the key's own inputs\<close>

text \<open>Which unfinished inputs pay one of the key's two scripts, and whether the tweaked key
  signs.\<close>

definition input_kind :: "script \<Rightarrow> script \<Rightarrow> pset_input \<Rightarrow> bool option" where
  "input_kind raw tweaked inp =
     (if final_script_witness inp \<noteq> None then None
      else case witness_utxo inp of
        None \<Rightarrow> None
      | Some utxo \<Rightarrow>
          if txo_script_pubkey utxo = raw then Some False
          else if txo_script_pubkey utxo = tweaked then Some True
          else None)"

fun mine_inputs :: "script \<Rightarrow> script \<Rightarrow> nat \<Rightarrow> pset_input list \<Rightarrow> (nat \<times> bool) list" where
  "mine_inputs raw tweaked i [] = []"
| "mine_inputs raw tweaked i (inp # rest) =
     (case input_kind raw tweaked inp of
        None \<Rightarrow> mine_inputs raw tweaked (Suc i) rest
      | Some needs_tweak \<Rightarrow> (i, needs_tweak) # mine_inputs raw tweaked (Suc i) rest)"

fun collect_prevouts :: "nat \<Rightarrow> pset_input list \<Rightarrow> venue_error + tx_out list" where
  "collect_prevouts i [] = Inr []"
| "collect_prevouts i (inp # rest) =
     and_then (ok_or (witness_utxo inp) (MissingUtxo i)) (\<lambda>u.
     and_then (collect_prevouts (Suc i) rest) (\<lambda>us. Inr (u # us)))"

fun sign_each ::
  "('k, 'x) venue_lib_scheme \<Rightarrow> 'k \<Rightarrow> 'k \<Rightarrow> bytes \<Rightarrow> tx_out list \<Rightarrow> bytes \<Rightarrow> (nat \<times> bool) list
   \<Rightarrow> pset_input list \<Rightarrow> venue_error + pset_input list" where
  "sign_each vl k tk tx prevouts genesis [] ins = Inr ins"
| "sign_each vl k tk tx prevouts genesis ((i, needs_tweak) # mine) ins =
     and_then (sign_keyspend_with vl (if needs_tweak then tk else k) tx i prevouts genesis) (\<lambda>sig.
     sign_each vl k tk tx prevouts genesis mine
       (ins[i := (ins ! i)\<lparr>final_script_witness := Some [sig]\<rparr>]))"

definition sign_pset_keyspend_inputs ::
  "('k, 'x) venue_lib_scheme \<Rightarrow> 'k \<Rightarrow> pset \<Rightarrow> bytes \<Rightarrow> venue_error + nat \<times> pset" where
  "sign_pset_keyspend_inputs vl k p genesis =
     (let raw_spk = p2tr_script_pubkey vl k in
     and_then (p2tr_tweaked_script_pubkey vl k) (\<lambda>tweaked_spk.
     let mine = mine_inputs raw_spk tweaked_spk 0 (pset_inputs p) in
     if mine = [] then Inr (0, p)
     else
       and_then (collect_prevouts 0 (pset_inputs p)) (\<lambda>prevouts.
       and_then (ok_or (extract_tx vl p) ExtractFailed) (\<lambda>tx.
       and_then (tweaked_keypair vl k) (\<lambda>tk.
       and_then (sign_each vl k tk tx prevouts genesis mine (pset_inputs p)) (\<lambda>ins.
       Inr (length mine, p\<lparr>pset_inputs := ins\<rparr>)))))))"

section \<open>Digests\<close>

datatype order_side = Buy | Sell

definition genesis_block_hash :: "network \<Rightarrow> string option" where
  "genesis_block_hash n = (case n of
     Liquid \<Rightarrow> Some ''1466275836220db2944ca059a3a10ef6fd2ea684b0688d2c379296888a206003''
   | LiquidTestnet \<Rightarrow> Some ''a771da8e52ee6ad581ed1e9a99825e5b3b7992225534eaa2ae23244fe26ab1c1''
   | Regtest \<Rightarrow> None)"

definition order_preimage ::
  "bytes \<Rightarrow> order_side \<Rightarrow> u64 \<Rightarrow> u64 \<Rightarrow> u32 \<Rightarrow> u64 \<Rightarrow> fee_caps option \<Rightarrow> bytes" where
  "order_preimage pk side price qty expiry nonce caps =
     (if caps \<noteq> None then ORDER_TAG else ORDER_TAG_V1) @ pk @ PRODUCT
     @ [case side of Buy \<Rightarrow> 0 | Sell \<Rightarrow> 1] @ u64_be price @ u64_be qty @ u32_be expiry @ u64_be nonce
     @ (case caps of None \<Rightarrow> [] | Some c \<Rightarrow> u64_be (max_bps c) @ u64_be (max_chain c))"

definition order_digest ::
  "('k, 'x) crypto_scheme \<Rightarrow> bytes \<Rightarrow> order_side \<Rightarrow> u64 \<Rightarrow> u64 \<Rightarrow> u32 \<Rightarrow> u64 \<Rightarrow> fee_caps option \<Rightarrow> bytes" where
  "order_digest cr pk side price qty expiry nonce caps =
     sha256 cr (order_preimage pk side price qty expiry nonce caps)"

definition withdraw_preimage :: "bytes \<Rightarrow> u64 \<Rightarrow> bytes \<Rightarrow> bytes \<Rightarrow> bytes" where
  "withdraw_preimage pk amt dest_spk_hash root = WITHDRAW_TAG @ pk @ u64_be amt @ dest_spk_hash @ root"

definition withdraw_digest :: "('k, 'x) crypto_scheme \<Rightarrow> bytes \<Rightarrow> u64 \<Rightarrow> bytes \<Rightarrow> bytes \<Rightarrow> bytes" where
  "withdraw_digest cr pk amt dest_spk_hash root = sha256 cr (withdraw_preimage pk amt dest_spk_hash root)"

definition delegate_preimage :: "bytes \<Rightarrow> bytes \<Rightarrow> string \<Rightarrow> bytes" where
  "delegate_preimage owner trade domain = DELEGATE_TAG @ owner @ trade @ as_bytes domain"

definition delegate_digest :: "('k, 'x) crypto_scheme \<Rightarrow> bytes \<Rightarrow> bytes \<Rightarrow> string \<Rightarrow> bytes" where
  "delegate_digest cr owner trade domain = sha256 cr (delegate_preimage owner trade domain)"

definition login_preimage :: "bytes \<Rightarrow> string \<Rightarrow> bytes" where
  "login_preimage pk challenge = LOGIN_TAG @ pk @ as_bytes challenge"

definition login_digest :: "('k, 'x) crypto_scheme \<Rightarrow> bytes \<Rightarrow> string \<Rightarrow> bytes" where
  "login_digest cr pk challenge = sha256 cr (login_preimage pk challenge)"

definition service_login_preimage :: "bytes \<Rightarrow> string \<Rightarrow> string \<Rightarrow> bytes" where
  "service_login_preimage pk domain challenge =
     SERVICE_LOGIN_TAG @ pk @ as_bytes domain @ [0] @ as_bytes challenge"

definition service_login_digest :: "('k, 'x) crypto_scheme \<Rightarrow> bytes \<Rightarrow> string \<Rightarrow> string \<Rightarrow> bytes" where
  "service_login_digest cr pk domain challenge = sha256 cr (service_login_preimage pk domain challenge)"

definition sign_service_login ::
  "('k, 'x) venue_lib_scheme \<Rightarrow> 'k \<Rightarrow> string \<Rightarrow> string \<Rightarrow> string \<times> string" where
  "sign_service_login vl k domain challenge =
     (let pk = account_pk vl k; digest = service_login_digest vl pk domain challenge
      in (hex_encode vl pk, signature_to_string vl (sign_venue_digest vl k digest)))"

definition verify_service_login ::
  "('k, 'x) venue_lib_scheme \<Rightarrow> string \<Rightarrow> string \<Rightarrow> string \<Rightarrow> string \<Rightarrow> venue_error + bytes" where
  "verify_service_login vl service_key domain challenge signature =
     and_then (ok_or (hex_decode_to_slice vl service_key 32) ServiceKeyHex) (\<lambda>pk.
     let digest = service_login_digest vl pk domain challenge in
     and_then (ok_or (xonly_from_slice vl pk) ServiceKeyInvalid) (\<lambda>xonly.
     and_then (ok_or (signature_from_str vl signature) ServiceSigHex) (\<lambda>sig.
     ensure (verify_schnorr vl sig digest xonly) ServiceSigMismatch (Inr pk))))"

definition p2tr_spk_hash :: "('k, 'x) crypto_scheme \<Rightarrow> bytes \<Rightarrow> bytes" where
  "p2tr_spk_hash cr pk = sha256 cr ([0x51, 0x20] @ pk)"

definition sign_login :: "('k, 'x) venue_lib_scheme \<Rightarrow> 'k \<Rightarrow> string \<Rightarrow> bytes \<times> bytes" where
  "sign_login vl k challenge =
     (let d = login_digest vl (account_pk vl k) challenge in (d, sign_venue_digest vl k d))"

definition sign_order ::
  "('k, 'x) venue_lib_scheme \<Rightarrow> 'k \<Rightarrow> order_side \<Rightarrow> u64 \<Rightarrow> u64 \<Rightarrow> u32 \<Rightarrow> u64 \<Rightarrow> fee_caps option
   \<Rightarrow> bytes \<times> bytes" where
  "sign_order vl k side price qty expiry nonce caps =
     (let d = order_digest vl (account_pk vl k) side price qty expiry nonce caps
      in (d, sign_venue_digest vl k d))"

definition sign_withdraw :: "('k, 'x) venue_lib_scheme \<Rightarrow> 'k \<Rightarrow> u64 \<Rightarrow> bytes \<Rightarrow> bytes \<times> bytes" where
  "sign_withdraw vl k amt root =
     (let pk = account_pk vl k; d = withdraw_digest vl pk amt (p2tr_spk_hash vl pk) root
      in (d, sign_venue_digest vl k d))"

section \<open>Typed requests\<close>

datatype typed_request =
    Order string order_side u64 u64 u32 u64 "fee_caps option"
      \<comment> \<open>product, side, price, qty, expiry, nonce, caps\<close>
  | Withdraw u64 string bytes  \<comment> \<open>amt, dest, root\<close>
  | Login string
  | Delegate string bytes bytes  \<comment> \<open>venue, owner, trade key\<close>

definition parse_side :: "string \<Rightarrow> parse_error + order_side" where
  "parse_side s =
     (if s = ''buy'' then Inr Buy else if s = ''sell'' then Inr Sell else Inl (UnknownSide s))"

definition parse_caps :: "'v serde \<Rightarrow> 'v \<Rightarrow> string \<Rightarrow> parse_error + fee_caps option" where
  "parse_caps js v kind =
     (if kind = ''rf/order/v2'' then
        and_then (u64_field js v ''maxBps'') (\<lambda>b.
        and_then (u64_field js v ''maxChain'') (\<lambda>c. Inr (Some \<lparr>max_bps = b, max_chain = c\<rparr>)))
      else if json_get js v ''maxBps'' \<noteq> None \<or> json_get js v ''maxChain'' \<noteq> None then Inl NoFeeCapsInV1
      else Inr None)"

definition parse_order :: "'v serde \<Rightarrow> 'v \<Rightarrow> string \<Rightarrow> parse_error + typed_request" where
  "parse_order js v kind =
     and_then (str_field js v ''product'') (\<lambda>product.
     and_then (str_field js v ''side'') (\<lambda>s.
     and_then (parse_side s) (\<lambda>side.
     and_then (u64_field js v ''price'') (\<lambda>price.
     and_then (u64_field js v ''qty'') (\<lambda>qty.
     and_then (u32_field js v ''expiry'') (\<lambda>expiry.
     and_then (u64_field js v ''nonce'') (\<lambda>nonce.
     and_then (parse_caps js v kind) (\<lambda>caps.
     Inr (Order product side price qty expiry nonce caps)))))))))"

definition parse_typed_fields ::
  "('k, 'x) crypto_scheme \<Rightarrow> 'v serde \<Rightarrow> string \<Rightarrow> 'v \<Rightarrow> parse_error + typed_request" where
  "parse_typed_fields cr js kind v =
     (if kind = ''rf/order/v1'' \<or> kind = ''rf/order/v2'' then parse_order js v kind
      else if kind = ''rf/withdraw/v1'' then
        and_then (hex32_field cr js v ''root'') (\<lambda>root.
        and_then (u64_field js v ''amt'') (\<lambda>amt.
        and_then (str_field js v ''dest'') (\<lambda>dest. Inr (Withdraw amt dest root))))
      else if kind = ''rf/login/v1'' then
        and_then (str_field js v ''challenge'') (\<lambda>c. Inr (Login c))
      else if kind = ''rf/delegate/v1'' then
        and_then (hex32_field cr js v ''owner'') (\<lambda>owner.
        and_then (hex32_field cr js v ''tradePk'') (\<lambda>trade.
        and_then (str_field js v ''venue'') (\<lambda>venue. Inr (Delegate venue owner trade))))
      else Inl (UnknownKind kind))"

definition parse_typed_description ::
  "('k, 'x) crypto_scheme \<Rightarrow> 'v serde \<Rightarrow> string \<Rightarrow> (parse_error + typed_request) option" where
  "parse_typed_description cr js description =
     map_option (\<lambda>(kind, v). parse_typed_fields cr js kind v) (typed_kind js ''rf/'' description)"

definition typed_request_digest ::
  "('k, 'x) venue_lib_scheme \<Rightarrow> typed_request \<Rightarrow> bytes \<Rightarrow> venue_error + bytes" where
  "typed_request_digest vl request pk = (case request of
     Order product side price qty expiry nonce caps \<Rightarrow>
       ensure (as_bytes product = PRODUCT) (UnknownProduct product)
       (Inr (order_digest vl pk side price qty expiry nonce caps))
   | Withdraw amt dest root \<Rightarrow>
       and_then (ok_or (address_script vl dest) BadDest) (\<lambda>spk.
       Inr (withdraw_digest vl pk amt (sha256 vl spk) root))
   | Login challenge \<Rightarrow> Inr (login_digest vl pk challenge)
   | Delegate venue owner trade_pk \<Rightarrow>
       ensure (owner = pk) OtherOwner
       (ensure (trade_pk \<noteq> owner) TradeIsOwner
       (Inr (delegate_digest vl owner trade_pk venue))))"

definition sign_typed ::
  "('k, 'x) venue_lib_scheme \<Rightarrow> 'k \<Rightarrow> typed_request \<Rightarrow> venue_error + bytes \<times> bytes" where
  "sign_typed vl k request =
     and_then (typed_request_digest vl request (account_pk vl k)) (\<lambda>digest.
     Inr (digest, sign_venue_digest vl k digest))"

section \<open>The HTTPS login\<close>

record http_request =
  hq_url :: string
  hq_content_type :: "string option"
  hq_body :: string

definition hex_digit_upper :: "nat \<Rightarrow> char" where
  "hex_digit_upper d = (if d < 10 then char_of (48 + d) else char_of (55 + d))"

definition unreserved :: "char \<Rightarrow> bool" where
  "unreserved c \<longleftrightarrow> is_ascii_alphanumeric c \<or> c \<in> {CHR ''-'', CHR ''_'', CHR ''.'', CHR ''~''}"

definition encode_byte :: "char \<Rightarrow> string" where
  "encode_byte c =
     (if unreserved c then [c]
      else [CHR ''%'', hex_digit_upper (of_char c div 16), hex_digit_upper (of_char c mod 16)])"

definition encode_value :: "string \<Rightarrow> string" where
  "encode_value v = concat (map encode_byte v)"

fun join_amp :: "string list \<Rightarrow> string" where
  "join_amp [] = []"
| "join_amp [x] = x"
| "join_amp (x # y # xs) = x @ ''&'' @ join_amp (y # xs)"

definition form_body :: "(string \<times> string) list \<Rightarrow> string" where
  "form_body pairs = join_amp (map (\<lambda>(k, v). k @ ''='' @ encode_value v) pairs)"

definition bare_host :: "string \<Rightarrow> bool" where
  "bare_host h \<longleftrightarrow>
     h \<noteq> [] \<and> list_all (\<lambda>c. is_ascii_alphanumeric c \<or> c = CHR ''.'' \<or> c = CHR ''-'') h"

definition login_pairs ::
  "('k, 'x) venue_lib_scheme \<Rightarrow> 'k \<Rightarrow> string \<Rightarrow> string option \<Rightarrow> string option
   \<Rightarrow> (string \<times> string) list" where
  "login_pairs vl k challenge identity link =
     [(''pk'', hex_encode vl (account_pk vl k)),
      (''sig'', signature_to_string vl (snd (sign_login vl k challenge))),
      (''challenge'', challenge)]
     @ (case identity of None \<Rightarrow> [] | Some i \<Rightarrow> [(''identity'', i)])
     @ (case link of None \<Rightarrow> [] | Some c \<Rightarrow> [(''link'', c)])"

definition challenge_reply :: "'v serde \<Rightarrow> 'v http_result \<Rightarrow> venue_error + string" where
  "challenge_reply js r = (case r of
     Replied (Some v) \<Rightarrow> ok_or (get_str js v ''challenge'') NoChallenge
   | Replied None \<Rightarrow> Inl BadReply
   | _ \<Rightarrow> Inl HttpFailed)"

definition login_reply :: "'v serde \<Rightarrow> 'v http_result \<Rightarrow> venue_error + 'v" where
  "login_reply js r = (case r of
     Replied (Some v) \<Rightarrow> (case get_str js v ''error'' of Some e \<Rightarrow> Inl (VenueRefused e) | None \<Rightarrow> Inr v)
   | Replied None \<Rightarrow> Inl BadReply
   | HttpStatus code text \<Rightarrow> Inl (RefusedStatus code text)
   | Unreachable \<Rightarrow> Inl HttpFailed)"

text \<open>The requests made, in order, and the outcome; \<open>post\<close> is the HTTP client.\<close>

definition sdk_login ::
  "('k, 'x) venue_lib_scheme \<Rightarrow> 'v serde \<Rightarrow> (http_request \<Rightarrow> 'v http_result) \<Rightarrow> string \<Rightarrow> 'k
   \<Rightarrow> string option \<Rightarrow> string option \<Rightarrow> http_request list \<times> (venue_error + 'v)" where
  "sdk_login vl js post venue_host k identity link =
     (if \<not> bare_host venue_host then ([], Inl VenueNotBare)
      else
        let base = ''https://'' @ venue_host;
            q1 = \<lparr>hq_url = base @ ''/api/sdk/challenge'', hq_content_type = None, hq_body = []\<rparr> in
        case challenge_reply js (post q1) of
          Inl e \<Rightarrow> ([q1], Inl e)
        | Inr challenge \<Rightarrow>
            let q2 = \<lparr>hq_url = base @ ''/api/sdk/login'',
                      hq_content_type = Some ''application/x-www-form-urlencoded'',
                      hq_body = form_body (login_pairs vl k challenge identity link)\<rparr>
            in ([q1, q2], login_reply js (post q2)))"

end
