(* ===== verification/Venue_Claims.thy ===== *)
theory Venue_Claims
  imports Venue
begin

text \<open>
  What the venue signing surface guarantees: a clear-signed digest binds every displayed field
  and the key, the digests of different kinds of request never coincide, PSET signing touches
  only the key's own unfinished inputs, the order version decides about fee caps, a service-login
  binding verifies, and the login form carries exactly the fields it was given.
\<close>

section \<open>Preimages\<close>

definition typed_preimage :: "('k, 'x) venue_lib_scheme \<Rightarrow> typed_request \<Rightarrow> bytes \<Rightarrow> bytes" where
  "typed_preimage vl r pk = (case r of
     Order product side price qty expiry nonce caps \<Rightarrow> order_preimage pk side price qty expiry nonce caps
   | Withdraw amt dest root \<Rightarrow>
       withdraw_preimage pk amt (case address_script vl dest of None \<Rightarrow> [] | Some spk \<Rightarrow> sha256 vl spk) root
   | Login challenge \<Rightarrow> login_preimage pk challenge
   | Delegate venue owner trade \<Rightarrow> delegate_preimage owner trade venue)"

text \<open>The destination script, which a withdrawal hashes on its own.\<close>

definition dest_texts :: "('k, 'x) venue_lib_scheme \<Rightarrow> typed_request \<Rightarrow> bytes list" where
  "dest_texts vl r = (case r of
     Withdraw amt dest root \<Rightarrow> (case address_script vl dest of None \<Rightarrow> [] | Some spk \<Rightarrow> [spk])
   | _ \<Rightarrow> [])"

text \<open>The byte arrays of a request have their fixed sizes.\<close>

definition request_sized :: "typed_request \<Rightarrow> bool" where
  "request_sized r = (case r of
     Withdraw amt dest root \<Rightarrow> length root = 32
   | Delegate venue owner trade \<Rightarrow> length owner = 32 \<and> length trade = 32
   | _ \<Rightarrow> True)"

definition same_request :: "('k, 'x) venue_lib_scheme \<Rightarrow> typed_request \<Rightarrow> typed_request \<Rightarrow> bool" where
  "same_request vl r r' \<longleftrightarrow> r = r' \<or>
     (\<exists>amt d d' root. r = Withdraw amt d root \<and> r' = Withdraw amt d' root
        \<and> address_script vl d = address_script vl d')"

lemma typed_request_digest_Inr:
  "typed_request_digest vl r pk = Inr d \<longleftrightarrow>
   d = sha256 vl (typed_preimage vl r pk) \<and>
   (case r of
      Order product side price qty expiry nonce caps \<Rightarrow> as_bytes product = PRODUCT
    | Withdraw amt dest root \<Rightarrow> address_script vl dest \<noteq> None
    | Login challenge \<Rightarrow> True
    | Delegate venue owner trade \<Rightarrow> owner = pk \<and> trade \<noteq> owner)"
  by (auto simp: typed_request_digest_def typed_preimage_def result_simps order_digest_def
      withdraw_digest_def login_digest_def delegate_digest_def split: typed_request.splits)

text \<open>The fourth byte of a preimage tells the kind of request.\<close>

definition kind_prefix :: "typed_request \<Rightarrow> string" where
  "kind_prefix r = (case r of Order _ _ _ _ _ _ _ \<Rightarrow> ''rf/o'' | Withdraw _ _ _ \<Rightarrow> ''rf/w''
     | Login _ \<Rightarrow> ''rf/l'' | Delegate _ _ _ \<Rightarrow> ''rf/d'')"

lemma preimage_prefix: "take 4 (typed_preimage vl r pk) = as_bytes (kind_prefix r)"
  by (simp add: typed_preimage_def kind_prefix_def order_preimage_def withdraw_preimage_def
      login_preimage_def delegate_preimage_def venue_tags as_bytes_def split: typed_request.split)

lemma order_preimage_inject:
  assumes "order_preimage pk side price qty expiry nonce caps
      = order_preimage pk' side' price' qty' expiry' nonce' caps'"
    and "length pk = 32" "length pk' = 32"
  shows "pk = pk' \<and> side = side' \<and> price = price' \<and> qty = qty' \<and> expiry = expiry' \<and> nonce = nonce'
    \<and> caps = caps'"
proof -
  have tags: "length ORDER_TAG = 11" "length ORDER_TAG_V1 = 11" "ORDER_TAG \<noteq> ORDER_TAG_V1"
    by (simp_all add: venue_tags)
  then have "(caps = None) = (caps' = None)"
    using arg_cong [OF assms(1), of "take 11"] by (auto simp: order_preimage_def split: if_splits)
  with assms tags show ?thesis
    by (cases caps; cases caps')
      (auto simp: order_preimage_def split: order_side.splits)
qed

lemma typed_preimage_inject:
  assumes eq: "typed_preimage vl r pk = typed_preimage vl r' pk'"
    and sz: "\<And>x. length (sha256 vl x) = 32" "length pk = 32" "length pk' = 32"
      "request_sized r" "request_sized r'"
    and ok: "typed_request_digest vl r pk = Inr d" "typed_request_digest vl r' pk' = Inr d'"
    and inj: "inj_on (sha256 vl) (set (dest_texts vl r) \<union> set (dest_texts vl r'))"
  shows "pk = pk' \<and> same_request vl r r'"
proof -
  have kind: "kind_prefix r = kind_prefix r'"
    using arg_cong [OF eq, of "take 4"] by (simp add: preimage_prefix)
  show ?thesis
  proof (cases r)
    case (Order product side price qty expiry nonce caps)
    with kind obtain product' side' price' qty' expiry' nonce' caps' where
      r': "r' = Order product' side' price' qty' expiry' nonce' caps'"
      by (cases r') (auto simp: kind_prefix_def)
    have "as_bytes product = as_bytes product'" using ok Order r' by (simp add: typed_request_digest_Inr)
    with order_preimage_inject [of pk side price qty expiry nonce caps pk'] eq sz Order r' show ?thesis
      by (simp add: typed_preimage_def same_request_def)
  next
    case (Withdraw amt dest root)
    with kind obtain amt' dest' root' where r': "r' = Withdraw amt' dest' root'"
      by (cases r') (auto simp: kind_prefix_def)
    from ok Withdraw r' obtain spk spk' where
      spk: "address_script vl dest = Some spk" "address_script vl dest' = Some spk'"
      by (auto simp: typed_request_digest_Inr)
    have "pk = pk' \<and> amt = amt' \<and> sha256 vl spk = sha256 vl spk' \<and> root = root'"
      using eq sz Withdraw r' spk by (simp add: typed_preimage_def withdraw_preimage_def request_sized_def)
    moreover have "spk \<in> set (dest_texts vl r) \<union> set (dest_texts vl r')"
      "spk' \<in> set (dest_texts vl r) \<union> set (dest_texts vl r')"
      using Withdraw r' spk by (simp_all add: dest_texts_def)
    then have "sha256 vl spk = sha256 vl spk' \<Longrightarrow> spk = spk'"
      using inj unfolding inj_on_def by blast
    ultimately show ?thesis using Withdraw r' spk by (auto simp: same_request_def)
  next
    case (Login challenge)
    with kind obtain challenge' where "r' = Login challenge'"
      by (cases r') (auto simp: kind_prefix_def)
    with Login eq sz show ?thesis
      by (simp add: typed_preimage_def login_preimage_def same_request_def)
  next
    case (Delegate venue owner trade)
    with kind obtain venue' owner' trade' where "r' = Delegate venue' owner' trade'"
      by (cases r') (auto simp: kind_prefix_def)
    with Delegate eq sz ok show ?thesis
      by (auto simp: typed_preimage_def delegate_preimage_def same_request_def request_sized_def
          typed_request_digest_Inr)
  qed
qed

section \<open>Signing inputs\<close>

lemma mine_inputs_spec:
  "mine_inputs raw tw i ins = map (\<lambda>j. (i + j, the (input_kind raw tw (ins ! j))))
     (filter (\<lambda>j. input_kind raw tw (ins ! j) \<noteq> None) [0..<length ins])"
proof (induction ins arbitrary: i)
  case (Cons inp ins)
  have "[0..<length (inp # ins)] = 0 # map Suc [0..<length ins]"
    by (simp add: map_Suc_upt upt_conv_Cons del: upt_Suc)
  then show ?case
    by (auto simp: Cons.IH filter_map o_def simp del: upt_Suc split: option.splits)
qed simp

lemma sign_each_spec:
  "sign_each vl k tk tx pre gen mine ins = Inr ins' \<Longrightarrow> distinct (map fst mine) \<Longrightarrow>
   (\<forall>m \<in> set mine. fst m < length ins) \<Longrightarrow>
   length ins' = length ins \<and>
   (\<forall>j < length ins. case map_of mine j of
      None \<Rightarrow> ins' ! j = ins ! j
    | Some tw \<Rightarrow> \<exists>sig. sign_keyspend_with vl (if tw then tk else k) tx j pre gen = Inr sig
        \<and> ins' ! j = (ins ! j)\<lparr>final_script_witness := Some [sig]\<rparr>)"
proof (induction mine arbitrary: ins)
  case (Cons m mine)
  obtain i tw where m: "m = (i, tw)" by (cases m)
  from Cons.prems(1) m obtain sig where
    sig: "sign_keyspend_with vl (if tw then tk else k) tx i pre gen = Inr sig"
    and rest: "sign_each vl k tk tx pre gen mine (ins[i := (ins ! i)\<lparr>final_script_witness := Some [sig]\<rparr>]) = Inr ins'"
    by (auto simp: result_simps)
  have i: "map_of mine i = None" "i < length ins"
    using Cons.prems(2,3) m by (auto simp: map_of_eq_None_iff)
  from Cons.IH [OF rest] Cons.prems(2,3) have IH: "length ins' = length ins"
    "\<And>j. j < length ins \<Longrightarrow> case map_of mine j of
      None \<Rightarrow> ins' ! j = (ins[i := (ins ! i)\<lparr>final_script_witness := Some [sig]\<rparr>]) ! j
    | Some tw \<Rightarrow> \<exists>sig'. sign_keyspend_with vl (if tw then tk else k) tx j pre gen = Inr sig'
        \<and> ins' ! j = (ins[i := (ins ! i)\<lparr>final_script_witness := Some [sig]\<rparr>] ! j)\<lparr>final_script_witness := Some [sig']\<rparr>"
    by auto
  have "case map_of (m # mine) j of
      None \<Rightarrow> ins' ! j = ins ! j
    | Some tw \<Rightarrow> \<exists>sig. sign_keyspend_with vl (if tw then tk else k) tx j pre gen = Inr sig
        \<and> ins' ! j = (ins ! j)\<lparr>final_script_witness := Some [sig]\<rparr>" if "j < length ins" for j
    using IH(2) [OF that] i sig m by (cases "j = i") (auto split: option.splits)
  with IH(1) show ?case by blast
qed simp

lemma own_inputs:
  assumes "mine = mine_inputs raw tw 0 ins"
  shows "distinct (map fst mine)" "\<forall>m \<in> set mine. fst m < length ins"
    "j < length ins \<Longrightarrow> map_of mine j = input_kind raw tw (ins ! j)"
    "length mine = length (filter (\<lambda>inp. input_kind raw tw inp \<noteq> None) ins)"
proof -
  let ?js = "filter (\<lambda>j. input_kind raw tw (ins ! j) \<noteq> None) [0..<length ins]"
  have mine: "mine = map (\<lambda>j. (j, the (input_kind raw tw (ins ! j)))) ?js"
    by (simp add: assms mine_inputs_spec)
  show "distinct (map fst mine)" "\<forall>m \<in> set mine. fst m < length ins"
    by (auto simp: mine o_def)
  show "map_of mine j = input_kind raw tw (ins ! j)" if "j < length ins"
    using that by (auto simp: mine map_of_map_restrict restrict_map_def)
  have "filter (\<lambda>inp. input_kind raw tw inp \<noteq> None) (map ((!) ins) [0..<length ins]) = map ((!) ins) ?js"
    by (simp add: filter_map o_def)
  then show "length mine = length (filter (\<lambda>inp. input_kind raw tw inp \<noteq> None) ins)"
    by (simp add: mine map_nth)
qed

lemma collect_prevouts_Inr:
  "collect_prevouts i ins = Inr us \<Longrightarrow> us = map (\<lambda>inp. the (witness_utxo inp)) ins"
  by (induction ins arbitrary: i us) (auto simp: result_simps)

lemma sign_keyspend_with_Inr:
  "sign_keyspend_with vl k tx i pre gen = Inr sig \<longleftrightarrow>
   (\<exists>h. key_spend_sighash vl tx i pre gen = Some h \<and> sig = sign_schnorr_no_aux vl h k)"
  by (auto simp: sign_keyspend_with_def result_simps)

section \<open>The login form\<close>

text \<open>Reading a form body back: split at \<open>&\<close>, then at the first \<open>=\<close>, then undo the percent
  encoding of the value.\<close>

definition hex_val :: "char \<Rightarrow> nat" where
  "hex_val c = (if is_digit c then of_char c - 48 else of_char c - 55)"

fun percent_decode :: "string \<Rightarrow> string" where
  "percent_decode (c # h # l # rest) =
     (if c = CHR ''%'' then char_of (16 * hex_val h + hex_val l) # percent_decode rest
      else c # percent_decode (h # l # rest))"
| "percent_decode s = s"

definition decode_pair :: "string \<Rightarrow> string \<times> string" where
  "decode_pair s =
     (takeWhile (\<lambda>c. c \<noteq> CHR ''='') s, percent_decode (drop 1 (dropWhile (\<lambda>c. c \<noteq> CHR ''='') s)))"

definition decode_form :: "string \<Rightarrow> (string \<times> string) list" where
  "decode_form body = map decode_pair (split_on (CHR ''&'') body)"

lemma hex_digit_val: "d < 16 \<Longrightarrow> hex_val (hex_digit_upper d) = d"
proof -
  have "list_all (\<lambda>d. hex_val (hex_digit_upper d) = d) [0..<16]" by code_simp
  then show "d < 16 \<Longrightarrow> hex_val (hex_digit_upper d) = d" by (simp add: list_all_iff)
qed

lemma hex_digit_safe: "d < 16 \<Longrightarrow> hex_digit_upper d \<noteq> CHR ''&''"
proof -
  have "list_all (\<lambda>d. hex_digit_upper d \<noteq> CHR ''&'') [0..<16]" by code_simp
  then show "d < 16 \<Longrightarrow> hex_digit_upper d \<noteq> CHR ''&''" by (simp add: list_all_iff)
qed

lemma unreserved_not: "\<not> unreserved (CHR ''&'')" "\<not> unreserved (CHR ''%'')"
  by code_simp+

lemma percent_decode_skip: "c \<noteq> CHR ''%'' \<Longrightarrow> percent_decode (c # s) = c # percent_decode s"
  by (cases s rule: percent_decode.cases) (auto split: list.splits)

lemma nibble: "of_char c div 16 < (16 :: nat)"
proof -
  have "of_char c < (16 * 16 :: nat)" using nat_of_char_less_256 [of c] by simp
  then show ?thesis by (rule less_mult_imp_div_less)
qed

lemma char_nibbles: "char_of (16 * (of_char c div 16) + of_char c mod 16 :: nat) = c"
  by (simp add: mult_div_mod_eq)

lemma percent_roundtrip: "percent_decode (encode_value v) = v"
proof (induction v)
  case (Cons c v)
  show ?case
  proof (cases "unreserved c")
    case True
    then have "c \<noteq> CHR ''%''" using unreserved_not by auto
    with True Cons show ?thesis by (simp add: encode_value_def encode_byte_def percent_decode_skip)
  next
    case False
    with Cons nibble [of c] char_nibbles [of c] show ?thesis
      by (simp add: encode_value_def encode_byte_def hex_digit_val)
  qed
qed (simp add: encode_value_def)

lemma encode_no_amp: "CHR ''&'' \<notin> set (encode_value v)"
proof -
  have "CHR ''&'' \<notin> set (encode_byte c)" for c
  proof -
    have "hex_digit_upper (of_char c div 16) \<noteq> CHR ''&''" "hex_digit_upper (of_char c mod 16) \<noteq> CHR ''&''"
      using nibble [of c] by (simp_all add: hex_digit_safe)
    then show ?thesis using unreserved_not by (auto simp: encode_byte_def dest: sym)
  qed
  then show ?thesis by (auto simp: encode_value_def)
qed

lemma split_join_amp:
  "xs \<noteq> [] \<Longrightarrow> (\<forall>x \<in> set xs. CHR ''&'' \<notin> set x) \<Longrightarrow> split_on (CHR ''&'') (join_amp xs) = xs"
  by (induction xs rule: join_amp.induct) (simp_all add: split_on_absent split_on_once)

lemma decode_pair_encoded: "CHR ''='' \<notin> set k \<Longrightarrow> decode_pair (k @ ''='' @ encode_value v) = (k, v)"
proof -
  assume k: "CHR ''='' \<notin> set k"
  then have "takeWhile (\<lambda>c. c \<noteq> CHR ''='') (k @ CHR ''='' # s) = k"
    "dropWhile (\<lambda>c. c \<noteq> CHR ''='') (k @ CHR ''='' # s) = CHR ''='' # s" for s
    by (induction k) auto
  then show ?thesis by (simp add: decode_pair_def percent_roundtrip)
qed

lemma form_roundtrip:
  assumes "pairs \<noteq> []" and keys: "\<forall>p \<in> set pairs. CHR ''='' \<notin> set (fst p) \<and> CHR ''&'' \<notin> set (fst p)"
  shows "decode_form (form_body pairs) = pairs"
proof -
  let ?xs = "map (\<lambda>(k, v). k @ ''='' @ encode_value v) pairs"
  have "split_on (CHR ''&'') (join_amp ?xs) = ?xs"
    using assms encode_no_amp by (intro split_join_amp) auto
  then have "decode_form (form_body pairs) = map (\<lambda>p. decode_pair (fst p @ ''='' @ encode_value (snd p))) pairs"
    by (simp add: decode_form_def form_body_def case_prod_unfold)
  also have "\<dots> = map (\<lambda>p. p) pairs"
    using keys by (intro map_cong refl) (simp add: decode_pair_encoded [simplified])
  finally show ?thesis by simp
qed

section \<open>A concrete library\<close>

text \<open>A stand-in library for the witnesses: the hash keeps the first byte and the length of a text,
  hex is the byte string itself, and a signature is the message.\<close>

definition demo_venue :: "unit venue_lib" where
  "demo_venue =
     \<lparr>sha256 = \<lambda>x. (if x = [] then 0 else hd x) # of_nat (length x) # replicate 30 0,
      keypair_from_seckey = \<lambda>_. Some (), x_only_public_key = \<lambda>_. replicate 32 9,
      sign_schnorr = \<lambda>m k aux. m, sign_schnorr_no_aux = \<lambda>m k. m, verify_schnorr = \<lambda>s m k. s = m,
      signature_to_string = map (\<lambda>b. char_of (unat b)), signature_from_str = \<lambda>s. Some (as_bytes s),
      hex_encode = map (\<lambda>b. char_of (unat b)),
      hex_decode_to_slice = \<lambda>s n. if length s = n then Some (as_bytes s) else None,
      new_master = Some, derive_priv = \<lambda>m path. Some m, xonly_from_slice = Some,
      tap_tweak_hash = \<lambda>pk. pk, add_xonly_tweak = \<lambda>k t. Some (),
      extract_tx = \<lambda>p. Some [], key_spend_sighash = \<lambda>tx i pre gen. Some [of_nat i],
      address_script = \<lambda>s. Some (as_bytes s)\<rparr>"

lemma demo_venue_hash: "x \<noteq> [] \<Longrightarrow> sha256 demo_venue x = hd x # of_nat (length x) # replicate 30 0"
  and demo_venue_addr: "address_script demo_venue s = Some (as_bytes s)"
  by (simp_all add: demo_venue_def)

lemma demo_venue_sized: "length (sha256 demo_venue x) = 32"
  by (simp add: demo_venue_def)

section \<open>The guarantees\<close>

text \<open>C27.  Clear-signing binds what is shown.  If two typed requests rebuild to the same digest,
  under keys of 32 bytes and a hash that does not collide on the two preimages and the withdrawal
  scripts, then they are the same request under the same key: same kind, side, price, quantity,
  expiry, nonce and fee caps of an order; same amount, destination script and root of a
  withdrawal; same challenge of a login; same venue and keys of a delegation.\<close>

theorem clear_signing_binds_fields:
  assumes d: "typed_request_digest vl r pk = Inr d" "typed_request_digest vl r' pk' = Inr d"
    and sz: "\<And>x. length (sha256 vl x) = 32" "length pk = 32" "length pk' = 32"
      "request_sized r" "request_sized r'"
    and inj: "inj_on (sha256 vl) (insert (typed_preimage vl r pk) (insert (typed_preimage vl r' pk')
        (set (dest_texts vl r) \<union> set (dest_texts vl r'))))"
  shows "pk = pk' \<and> same_request vl r r'"
proof (rule typed_preimage_inject [OF _ sz d])
  show "typed_preimage vl r pk = typed_preimage vl r' pk'"
  proof (rule inj_onD [OF inj])
    show "sha256 vl (typed_preimage vl r pk) = sha256 vl (typed_preimage vl r' pk')"
      using d by (simp add: typed_request_digest_Inr)
  qed simp_all
  show "inj_on (sha256 vl) (set (dest_texts vl r) \<union> set (dest_texts vl r'))"
    by (rule inj_on_subset [OF inj]) blast
qed

theorem clear_signing_binds_fields_witness:
  "same_request demo_venue (Withdraw 5 ''addr'' (replicate 32 1)) (Withdraw 5 ''addr'' (replicate 32 1))"
proof -
  let ?r = "Withdraw 5 ''addr'' (replicate 32 1)" and ?pk = "replicate 32 9"
  have d: "typed_request_digest demo_venue ?r ?pk = Inr (sha256 demo_venue (typed_preimage demo_venue ?r ?pk))"
    by (simp add: typed_request_digest_Inr demo_venue_addr)
  have "hd (typed_preimage demo_venue ?r ?pk) \<noteq> hd (as_bytes ''addr'')"
    "typed_preimage demo_venue ?r ?pk \<noteq> []" "as_bytes ''addr'' \<noteq> []"
    by (simp_all add: typed_preimage_def withdraw_preimage_def WITHDRAW_TAG_def as_bytes_def)
  then have "inj_on (sha256 demo_venue) {typed_preimage demo_venue ?r ?pk, as_bytes ''addr''}"
    by (auto simp: inj_on_def demo_venue_hash)
  moreover have "dest_texts demo_venue ?r = [as_bytes ''addr'']"
    by (simp add: dest_texts_def demo_venue_addr)
  ultimately show ?thesis
    using clear_signing_binds_fields [OF d d demo_venue_sized] by (simp add: request_sized_def)
qed

text \<open>C28.  A service login can never be replayed as a venue claim, nor across relying parties:
  no service-login preimage is the preimage of any typed request, and for domains without a NUL
  byte the preimage determines the key, the domain and the challenge.\<close>

theorem service_login_is_separate:
  assumes "length pk = 32" "length pk' = 32" "CHR 0x00 \<notin> set domain" "CHR 0x00 \<notin> set domain'"
  shows "service_login_preimage pk domain challenge \<noteq> typed_preimage vl r own \<and>
    (service_login_preimage pk domain challenge = service_login_preimage pk' domain' challenge' \<longleftrightarrow>
      pk = pk' \<and> domain = domain' \<and> challenge = challenge')"
proof
  have "take 4 (service_login_preimage pk domain challenge) = as_bytes ''lc/s''"
    by (simp add: service_login_preimage_def SERVICE_LOGIN_TAG_def as_bytes_def)
  then show "service_login_preimage pk domain challenge \<noteq> typed_preimage vl r own"
    using preimage_prefix [of vl r own] by (auto simp: kind_prefix_def split: typed_request.splits)
  have flat: "as_bytes d @ 0 # as_bytes c = as_bytes (d @ CHR 0x00 # c)" for d c
    by (simp add: as_bytes_def)
  note sep_split [OF assms(3,4)]
  with assms show "service_login_preimage pk domain challenge = service_login_preimage pk' domain' challenge' \<longleftrightarrow>
      pk = pk' \<and> domain = domain' \<and> challenge = challenge'"
    by (simp add: service_login_preimage_def flat)
qed

theorem service_login_is_separate_witness:
  "service_login_preimage (replicate 32 9) ''a.io'' ''bc'' \<noteq> service_login_preimage (replicate 32 9) ''a.iob'' ''c''"
  using service_login_is_separate [of "replicate 32 9" "replicate 32 9" "''a.io''" "''a.iob''" "''bc''"
      demo_venue "Login []" "[]" "''c''"]
  by simp

text \<open>The money key signs only typed claims of its own account: whatever \<open>sign_typed\<close> signs is
  the digest rebuilt from the request's fields under the wallet's own key; an order names the one
  product, a withdrawal a destination that is an address, and a delegation the wallet's own key as
  owner and a different trading key.\<close>

theorem sign_typed_only_own_claims:
  "sign_typed vl k r = Inr (digest, sig) \<longleftrightarrow>
     digest = sha256 vl (typed_preimage vl r (account_pk vl k)) \<and> sig = sign_schnorr_no_aux vl digest k \<and>
     (case r of
        Order product side price qty expiry nonce caps \<Rightarrow> product = ''RF-BTC-USDT''
      | Withdraw amt dest root \<Rightarrow> address_script vl dest \<noteq> None
      | Login challenge \<Rightarrow> True
      | Delegate venue owner trade \<Rightarrow> owner = account_pk vl k \<and> trade \<noteq> account_pk vl k)"
  by (auto simp: sign_typed_def result_simps typed_request_digest_Inr sign_venue_digest_def PRODUCT_def
      split: typed_request.splits)

text \<open>C30.  Signing a PSET touches only the key's own unfinished inputs: outputs and the number of
  inputs stay, every input that is final already or pays neither of the key's two scripts is
  unchanged, every other input gets exactly one signature, by the key its script demands, over its
  own sighash, and the count returned is the number of inputs signed.\<close>

theorem sign_pset_touches_only_own_inputs:
  assumes "sign_pset_keyspend_inputs vl k p genesis = Inr (n, p')"
  shows "\<exists>tweaked. p2tr_tweaked_script_pubkey vl k = Inr tweaked
    \<and> pset_outputs p' = pset_outputs p \<and> length (pset_inputs p') = length (pset_inputs p)
    \<and> n = length (filter (\<lambda>inp. input_kind (p2tr_script_pubkey vl k) tweaked inp \<noteq> None) (pset_inputs p))
    \<and> list_all (\<lambda>j. case input_kind (p2tr_script_pubkey vl k) tweaked (pset_inputs p ! j) of
         None \<Rightarrow> pset_inputs p' ! j = pset_inputs p ! j
       | Some tw \<Rightarrow> \<exists>tk tx prevouts h. tweaked_keypair vl k = Inr tk \<and> extract_tx vl p = Some tx
           \<and> key_spend_sighash vl tx j prevouts genesis = Some h
           \<and> prevouts = map (\<lambda>inp. the (witness_utxo inp)) (pset_inputs p)
           \<and> pset_inputs p' ! j = (pset_inputs p ! j)
               \<lparr>final_script_witness := Some [sign_schnorr_no_aux vl h (if tw then tk else k)]\<rparr>)
       [0..<length (pset_inputs p)]"
proof -
  from assms obtain tweaked where tw: "p2tr_tweaked_script_pubkey vl k = Inr tweaked"
    by (auto simp: sign_pset_keyspend_inputs_def Let_def and_then_eq_Inr)
  define mine where "mine = mine_inputs (p2tr_script_pubkey vl k) tweaked 0 (pset_inputs p)"
  note own = own_inputs [OF mine_def]
  show ?thesis
  proof (cases "mine = []")
    case True
    with assms tw have "n = 0" "p' = p"
      by (auto simp: sign_pset_keyspend_inputs_def Let_def mine_def)
    moreover have "input_kind (p2tr_script_pubkey vl k) tweaked (pset_inputs p ! j) = None"
      if "j < length (pset_inputs p)" for j
      using own(3) [OF that] True by simp
    ultimately show ?thesis
      using tw own(4) True by (auto simp: list_all_iff)
  next
    case False
    with assms tw obtain prevouts tx tk ins where
      pre: "collect_prevouts 0 (pset_inputs p) = Inr prevouts" and tx: "extract_tx vl p = Some tx"
      and tk: "tweaked_keypair vl k = Inr tk"
      and sign: "sign_each vl k tk tx prevouts genesis mine (pset_inputs p) = Inr ins"
      and res: "n = length mine" "p' = p\<lparr>pset_inputs := ins\<rparr>"
      by (auto simp: sign_pset_keyspend_inputs_def Let_def mine_def and_then_eq_Inr ok_or_eq_Inr)
    from sign_each_spec [OF sign own(1,2)] have len: "length ins = length (pset_inputs p)"
      and each: "\<And>j. j < length (pset_inputs p) \<Longrightarrow> case map_of mine j of
          None \<Rightarrow> ins ! j = pset_inputs p ! j
        | Some tw \<Rightarrow> \<exists>sig. sign_keyspend_with vl (if tw then tk else k) tx j prevouts genesis = Inr sig
            \<and> ins ! j = (pset_inputs p ! j)\<lparr>final_script_witness := Some [sig]\<rparr>"
      by auto
    have "case input_kind (p2tr_script_pubkey vl k) tweaked (pset_inputs p ! j) of
         None \<Rightarrow> pset_inputs p' ! j = pset_inputs p ! j
       | Some tw \<Rightarrow> \<exists>tk tx prevouts h. tweaked_keypair vl k = Inr tk \<and> extract_tx vl p = Some tx
           \<and> key_spend_sighash vl tx j prevouts genesis = Some h
           \<and> prevouts = map (\<lambda>inp. the (witness_utxo inp)) (pset_inputs p)
           \<and> pset_inputs p' ! j = (pset_inputs p ! j)
               \<lparr>final_script_witness := Some [sign_schnorr_no_aux vl h (if tw then tk else k)]\<rparr>"
      if "j < length (pset_inputs p)" for j
      using each [OF that] own(3) [OF that] tx tk res(2) collect_prevouts_Inr [OF pre]
      by (auto simp: sign_keyspend_with_Inr split: option.splits)
    with tw res len own(4) show ?thesis by (simp add: list_all_iff)
  qed
qed

text \<open>One unfinished input of the key, one of somebody else.\<close>

definition venue_input :: "script \<Rightarrow> pset_input" where
  "venue_input spk =
     \<lparr>witness_utxo = Some \<lparr>txo_asset = AssetExplicit [1], txo_value = ValueExplicit 1000,
        txo_script_pubkey = spk\<rparr>,
      final_script_witness = None, in_asset = None, in_amount = None, in_blind_asset_proof = None,
      in_blind_value_proof = None, issuance_value_amount = None, blinded_issuance = None,
      issuance_inflation_keys = None, issuance_blinding_nonce = None, issuance_asset_entropy = None,
      previous_txid = [], previous_output_index = 0\<rparr>"

definition venue_pset :: pset where
  "venue_pset = \<lparr>pset_inputs = [venue_input [0x52], venue_input ([0x51, 0x20] @ replicate 32 9)],
     pset_outputs = []\<rparr>"

definition venue_signed :: pset where
  "venue_signed = venue_pset\<lparr>pset_inputs := [venue_input [0x52],
     (venue_input ([0x51, 0x20] @ replicate 32 9))\<lparr>final_script_witness := Some [[1]]\<rparr>]\<rparr>"

lemma venue_signs: "sign_pset_keyspend_inputs demo_venue () venue_pset [] = Inr (1, venue_signed)"
  by (simp add: sign_pset_keyspend_inputs_def p2tr_script_pubkey_def p2tr_tweaked_script_pubkey_def
      tweaked_keypair_def account_pk_def input_kind_def sign_keyspend_with_def venue_pset_def
      venue_signed_def venue_input_def demo_venue_def)

theorem sign_pset_touches_only_own_inputs_witness:
  "pset_outputs venue_signed = pset_outputs venue_pset
   \<and> length (pset_inputs venue_signed) = length (pset_inputs venue_pset)"
  using sign_pset_touches_only_own_inputs [OF venue_signs] by blast

text \<open>The order version decides about fee caps: a description parses to an order only under
  one of the two order kinds, and the order carries caps exactly under \<open>rf/order/v2\<close>; a v1
  description that carries a cap field is refused.\<close>

theorem order_caps_follow_version:
  "parse_typed_fields cr js kind v = Inr (Order product side price qty expiry nonce caps) \<longleftrightarrow>
   kind \<in> {''rf/order/v1'', ''rf/order/v2''}
   \<and> str_field js v ''product'' = Inr product
   \<and> (\<exists>s. str_field js v ''side'' = Inr s \<and> parse_side s = Inr side)
   \<and> u64_field js v ''price'' = Inr price \<and> u64_field js v ''qty'' = Inr qty
   \<and> u32_field js v ''expiry'' = Inr expiry \<and> u64_field js v ''nonce'' = Inr nonce
   \<and> (case caps of
        Some c \<Rightarrow> kind = ''rf/order/v2'' \<and> u64_field js v ''maxBps'' = Inr (max_bps c)
          \<and> u64_field js v ''maxChain'' = Inr (max_chain c)
      | None \<Rightarrow> kind = ''rf/order/v1'' \<and> json_get js v ''maxBps'' = None \<and> json_get js v ''maxChain'' = None)"
proof -
  have caps: "parse_caps js v kind = Inr caps \<longleftrightarrow> (case caps of
      Some c \<Rightarrow> kind = ''rf/order/v2'' \<and> u64_field js v ''maxBps'' = Inr (max_bps c)
        \<and> u64_field js v ''maxChain'' = Inr (max_chain c)
    | None \<Rightarrow> kind \<noteq> ''rf/order/v2'' \<and> json_get js v ''maxBps'' = None \<and> json_get js v ''maxChain'' = None)"
    by (cases caps) (auto simp: parse_caps_def and_then_eq_Inr)
  have "parse_order js v kind = Inr (Order product side price qty expiry nonce caps) \<longleftrightarrow>
      str_field js v ''product'' = Inr product
      \<and> (\<exists>s. str_field js v ''side'' = Inr s \<and> parse_side s = Inr side)
      \<and> u64_field js v ''price'' = Inr price \<and> u64_field js v ''qty'' = Inr qty
      \<and> u32_field js v ''expiry'' = Inr expiry \<and> u64_field js v ''nonce'' = Inr nonce
      \<and> parse_caps js v kind = Inr caps"
    by (auto simp: parse_order_def and_then_eq_Inr)
  moreover have "parse_typed_fields cr js kind v = Inr (Order product side price qty expiry nonce caps) \<longleftrightarrow>
      kind \<in> {''rf/order/v1'', ''rf/order/v2''}
      \<and> parse_order js v kind = Inr (Order product side price qty expiry nonce caps)"
    by (auto simp: parse_typed_fields_def and_then_eq_Inr)
  ultimately show ?thesis
    unfolding caps by (cases caps) auto
qed

text \<open>Service-login bindings complete: what \<open>sign_service_login\<close> hands back verifies for the
  same domain and challenge and yields the wallet's key, under the documented laws of the
  libraries (hex and signature texts read back, a serialized key is a key, and a BIP340 signature
  verifies under its own public key).\<close>

theorem service_login_verifies:
  assumes "hex_decode_to_slice vl (hex_encode vl (account_pk vl k)) 32 = Some (account_pk vl k)"
    and "xonly_from_slice vl (account_pk vl k) = Some (account_pk vl k)"
    and "\<And>s. signature_from_str vl (signature_to_string vl s) = Some s"
    and "\<And>m. verify_schnorr vl (sign_schnorr_no_aux vl m k) m (account_pk vl k)"
  shows "verify_service_login vl (fst (sign_service_login vl k domain challenge)) domain challenge
      (snd (sign_service_login vl k domain challenge)) = Inr (account_pk vl k)"
  using assms by (simp add: sign_service_login_def verify_service_login_def sign_venue_digest_def Let_def)

theorem service_login_verifies_witness:
  "verify_service_login demo_venue (fst (sign_service_login demo_venue () ''a.io'' ''c1'')) ''a.io'' ''c1''
     (snd (sign_service_login demo_venue () ''a.io'' ''c1'')) = Inr (account_pk demo_venue ())"
proof (rule service_login_verifies)
  have "unat b mod 256 = unat b" for b :: byte
    using unsigned_less [where 'a = nat, of b] by simp
  then have bytes: "as_bytes (map (\<lambda>b. char_of (unat b)) s) = s" for s :: bytes
    by (induction s) (simp_all add: as_bytes_def word_unat_eq_iff)
  show "hex_decode_to_slice demo_venue (hex_encode demo_venue (account_pk demo_venue ())) 32
      = Some (account_pk demo_venue ())"
    using bytes by (simp add: demo_venue_def account_pk_def del: map_replicate)
  show "signature_from_str demo_venue (signature_to_string demo_venue s) = Some s" for s
    using bytes by (simp add: demo_venue_def)
qed (simp_all add: demo_venue_def account_pk_def)

text \<open>The login form cannot be split by what is put in it: reading the posted body back as a
  form gives exactly the key, the signature over the venue's challenge, the challenge, and the
  identity and link code when they were given, whatever bytes these contain.\<close>

theorem login_form_roundtrip:
  "decode_form (form_body (login_pairs vl k challenge identity link)) =
     [(''pk'', hex_encode vl (account_pk vl k)),
      (''sig'', signature_to_string vl (sign_schnorr_no_aux vl (sha256 vl (login_preimage (account_pk vl k) challenge)) k)),
      (''challenge'', challenge)]
     @ (case identity of None \<Rightarrow> [] | Some i \<Rightarrow> [(''identity'', i)])
     @ (case link of None \<Rightarrow> [] | Some c \<Rightarrow> [(''link'', c)])"
proof -
  have "decode_form (form_body (login_pairs vl k challenge identity link)) = login_pairs vl k challenge identity link"
    by (rule form_roundtrip) (auto simp: login_pairs_def split: option.splits)
  then show ?thesis
    by (simp add: login_pairs_def sign_login_def sign_venue_digest_def login_digest_def Let_def)
qed

end
