(* ===== verification/Link_Claims.thy ===== *)
theory Link_Claims
  imports App_Link Venue
begin

text \<open>
  What the link parsers guarantee: an app link is one of five addresses and its last \<open>request_id\<close>
  wins, and the venue of a login link is a host that the HTTPS login accepts as it is.
\<close>

section \<open>Supporting facts\<close>

lemma venue_ok_bare_host: "venue_ok v \<Longrightarrow> bare_host v"
  by (auto simp: venue_ok_def bare_host_def bare_domain_char_def list_all_iff)

lemma lowercase_idem: "to_ascii_lowercase (to_ascii_lowercase s) = to_ascii_lowercase s"
proof -
  let ?low = "\<lambda>c :: char. if CHR ''A'' \<le> c \<and> c \<le> CHR ''Z'' then char_of (of_char c + 32 :: nat) else c"
  have "?low (?low c) = ?low c" for c
  proof (cases "CHR ''A'' \<le> c \<and> c \<le> CHR ''Z''")
    case True
    then have c: "65 \<le> (of_char c :: nat)" "(of_char c :: nat) \<le> 90" by (simp_all add: less_eq_char_def)
    then have "\<not> char_of (of_char c + 32 :: nat) \<le> CHR ''Z''" by (simp add: less_eq_char_def)
    with True show ?thesis by simp
  qed auto
  then show ?thesis by (simp add: to_ascii_lowercase_def)
qed

text \<open>The accepted addresses, with the kind of link each is.\<close>

definition link_table :: "((string \<times> string \<times> string) \<times> link_type) list" where
  "link_table =
     [((''https'', ''app.sideswap.io'', ''/login/''), LinkLogin), ((''liquidconnect'', ''login'', ''/''), LinkLogin),
      ((''https'', ''app.sideswap.io'', ''/sign/''), LinkSign), ((''liquidconnect'', ''sign'', ''/''), LinkSign),
      ((''liquidconnect'', ''request'', ''/''), LinkOpen)]"

lemma classify_link_Inr: "classify_link s d p = Inr t \<Longrightarrow> ((s, d, p), t) \<in> set link_table"
  unfolding classify_link_def link_table_def by (auto simp del: prod.inject split: if_splits)

lemma parse_mobile_param_Inr: "parse_mobile_param m = Inr b \<Longrightarrow> b \<longleftrightarrow> bt_get m ''mobile'' = Some ''true''"
proof (cases "bt_get m ''mobile''")
  case (Some v)
  then show "parse_mobile_param m = Inr b \<Longrightarrow> ?thesis"
    by (cases "v = ''true''") (auto simp: parse_mobile_param_def bool_from_str_def result_simps split: if_splits)
qed (simp add: parse_mobile_param_def)

lemma host_domain_Inr: "host_domain h = Inr d \<longleftrightarrow> h = Some (Domain d)"
  by (auto simp: host_domain_def split: option.splits host.splits)

section \<open>The guarantees\<close>

text \<open>An app link is accepted only at one of five exact addresses, on a domain host without a
  port; its request id is the value of the last \<open>request_id\<close> parameter, and it is mobile only when
  the last \<open>mobile\<close> parameter is the text \<open>true\<close>.\<close>

theorem app_link_is_exact:
  assumes "parse_app_link url_parse input = Inr al"
  shows "\<exists>u d. url_parse input = Some u \<and> u_host u = Some (Domain d) \<and> u_port u = None
    \<and> ((u_scheme u, d, u_path u), link_type al) \<in> set link_table
    \<and> map_of (rev (u_query_pairs u)) ''request_id'' = Some (al_request_id al)
    \<and> (is_mobile al \<longleftrightarrow> map_of (rev (u_query_pairs u)) ''mobile'' = Some ''true'')"
proof -
  from assms obtain u d lt where
    u: "url_parse input = Some u" "u_host u = Some (Domain d)" "u_port u = None"
    and lt: "classify_link (u_scheme u) d (u_path u) = Inr (link_type al)"
    and rid: "bt_get (bt_collect (u_query_pairs u)) ''request_id'' = Some (al_request_id al)"
    and mob: "parse_mobile_param (bt_collect (u_query_pairs u)) = Inr (is_mobile al)"
    by (auto simp: parse_app_link_def result_simps Let_def host_domain_Inr)
  from u classify_link_Inr [OF lt] rid parse_mobile_param_Inr [OF mob] show ?thesis
    unfolding bt_get_collect by blast
qed

definition demo_url :: url where
  "demo_url = \<lparr>u_scheme = ''liquidconnect'', u_host = Some (Domain ''login''), u_host_str = Some ''login'',
     u_port = None, u_path = ''/'', u_query_pairs = [(''request_id'', ''r1''), (''request_id'', ''r2'')]\<rparr>"

theorem app_link_is_exact_witness:
  "map_of (rev (u_query_pairs demo_url)) ''request_id'' = Some ''r2''"
proof -
  have "parse_app_link (\<lambda>_. Some demo_url) ''x'' =
      Inr \<lparr>link_type = LinkLogin, al_request_id = ''r2'', is_mobile = False, al_network = None\<rparr>"
    by code_simp
  from app_link_is_exact [OF this] show ?thesis by auto
qed

text \<open>C39.  A venue-login link cannot steer the login elsewhere: the venue it yields is lower case, has
  a dot and no empty or numeric-octet label, and is a bare host in the sense of the HTTPS login, so every
  request of a login started from the link goes to that host's two SDK addresses.\<close>

theorem venue_link_steers_only_its_host:
  assumes "parse_venue_login_link url_parse input = Inr l"
  shows "bare_host (vl_venue l) \<and> to_ascii_lowercase (vl_venue l) = vl_venue l \<and> CHR ''.'' \<in> set (vl_venue l) \<and> vl_link_code l \<noteq> []
    \<and> [] \<notin> set (split_on CHR ''.'' (vl_venue l)) \<and> list_all (\<lambda>w. parse_u8 w = None) (split_on CHR ''.'' (vl_venue l))
    \<and> list_all (\<lambda>q. hq_url q = ''https://'' @ vl_venue l @ ''/api/sdk/challenge''
          \<or> hq_url q = ''https://'' @ vl_venue l @ ''/api/sdk/login'')
        (fst (sdk_login vl js post (vl_venue l) k identity (Some (vl_link_code l))))"
proof -
  from assms have "venue_ok (vl_venue l)" "vl_link_code l \<noteq> []" "to_ascii_lowercase (vl_venue l) = vl_venue l"
    by (auto simp: parse_venue_login_link_def result_simps Let_def lowercase_idem)
  with venue_ok_bare_host [of "vl_venue l"] show ?thesis
    by (auto simp: venue_ok_def list_ex_iff sdk_login_def Let_def split: sum.splits)
qed

definition venue_url :: url where
  "venue_url = \<lparr>u_scheme = ''liquidconnect'', u_host = Some (Domain ''venue-login''),
     u_host_str = Some ''venue-login'', u_port = None, u_path = '''',
     u_query_pairs = [(''venue'', ''Paper.swaption.io''), (''link'', ''abc'')]\<rparr>"

theorem venue_link_steers_only_its_host_witness: "bare_host ''paper.swaption.io''"
proof -
  have "parse_venue_login_link (\<lambda>_. Some venue_url) ''x'' =
      Inr \<lparr>vl_venue = ''paper.swaption.io'', vl_link_code = ''abc'', vl_network = None\<rparr>"
    by code_simp
  from venue_link_steers_only_its_host [OF this, THEN conjunct1] show ?thesis by (simp only: venue_login_link.simps)
qed

end
