(* ===== verification/Short_Id.thy ===== *)
theory Short_Id
  imports Wallet_Key
begin

text \<open>
  The short wallet id of \<open>lc-wallet-core/src/short_id.rs\<close>: forty bits of a tagged hash of the
  public key in Crockford's base 32, its canonicalisation, and the properties that make it a
  lookup form: a wallet matches its own id, canonicalisation is idempotent, and the id determines
  the forty bits.
\<close>

unbundle bit_operations_syntax

definition wallet_id_tag :: string where
  "wallet_id_tag = ''liquidconnect/wallet-id''"

definition ALPHABET :: string where
  "ALPHABET = ''0123456789ABCDEFGHJKMNPQRSTVWXYZ''"

definition SHORT_ID_LEN :: nat where
  "SHORT_ID_LEN = 8"

text \<open>The inner loop: while at least five bits are pending, the top five become a character.\<close>

function emit :: "u32 \<Rightarrow> nat \<Rightarrow> string \<Rightarrow> nat \<times> string" where
  "emit acc bits raw =
     (if 5 \<le> bits
      then emit acc (bits - 5) (raw @ [ALPHABET ! unat (drop_bit (bits - 5) acc AND 31)])
      else (bits, raw))"
  by auto
termination
  by (relation "measure (\<lambda>(acc, bits, raw). bits)") auto

declare emit.simps [simp del]

text \<open>The outer loop over the digest bytes.\<close>

fun encode_loop :: "bytes \<Rightarrow> u32 \<Rightarrow> nat \<Rightarrow> string \<Rightarrow> string" where
  "encode_loop [] acc bits raw = raw"
| "encode_loop (b # bs) acc bits raw =
     (let acc' = push_bit 8 acc OR ucast b;
          (bits', raw') = emit acc' (bits + 8) raw
      in encode_loop bs (acc' AND (push_bit bits' 1 - 1)) bits' raw')"

definition group :: "string \<Rightarrow> string" where
  "group raw = take 4 raw @ ''-'' @ take 4 (drop 4 raw)"

definition short_wallet_id :: "'k crypto \<Rightarrow> bytes \<Rightarrow> string" where
  "short_wallet_id cr pk =
     (let digest = tagged_hash cr wallet_id_tag pk
      in group (encode_loop (take 5 digest) 0 0 []))"

text \<open>One typed character: dropped, replaced or kept.  A multi-byte character is refused on its
  first byte, which is not in the alphabet either.\<close>

definition canon_char :: "char \<Rightarrow> char option option" where
  "canon_char c0 =
     (let c = char_upper c0 in
      if c = CHR ''-'' \<or> c = CHR '' '' then Some None
      else let d = (if c = CHR ''I'' \<or> c = CHR ''L'' then CHR ''1''
                    else if c = CHR ''O'' then CHR ''0'' else c)
           in if d \<in> set ALPHABET then Some (Some d) else None)"

fun normalize_loop :: "string \<Rightarrow> string \<Rightarrow> string option" where
  "normalize_loop [] raw = Some raw"
| "normalize_loop (c # cs) raw =
     (case canon_char c of
        None \<Rightarrow> None
      | Some None \<Rightarrow> normalize_loop cs raw
      | Some (Some d) \<Rightarrow> normalize_loop cs (raw @ [d]))"

definition normalize :: "string \<Rightarrow> string option" where
  "normalize input =
     (case normalize_loop input [] of
        None \<Rightarrow> None
      | Some raw \<Rightarrow> if length raw = SHORT_ID_LEN then Some (group raw) else None)"

definition matches :: "'k crypto \<Rightarrow> string \<Rightarrow> bytes \<Rightarrow> bool" where
  "matches cr input pk = (case normalize input of None \<Rightarrow> False | Some i \<Rightarrow> i = short_wallet_id cr pk)"

section \<open>What the loops compute\<close>

text \<open>Reference: the \<open>m\<close> least significant base-32 digits of a number, most significant first.\<close>

fun digs :: "nat \<Rightarrow> nat \<Rightarrow> string" where
  "digs n 0 = []"
| "digs n (Suc m) = digs (n div 32) m @ [ALPHABET ! (n mod 32)]"

fun be_val :: "bytes \<Rightarrow> nat" where
  "be_val [] = 0"
| "be_val (b # bs) = unat b * 256 ^ length bs + be_val bs"

lemma length_digs [simp]: "length (digs n m) = m"
  by (induction n m rule: digs.induct) simp_all

lemma ALPHABET_facts: "distinct ALPHABET" "length ALPHABET = 32"
  by (simp_all add: ALPHABET_def)

lemma digs_inject: "digs n m = digs n' m \<longleftrightarrow> n mod 32 ^ m = n' mod 32 ^ m"
proof (induction m arbitrary: n n')
  case (Suc m)
  have "digs n (Suc m) = digs n' (Suc m) \<longleftrightarrow>
      n div 32 mod 32 ^ m = n' div 32 mod 32 ^ m \<and> n mod 32 = n' mod 32"
    using ALPHABET_facts by (simp add: Suc.IH nth_eq_iff_index_eq)
  also have "\<dots> \<longleftrightarrow> n mod (32 * 32 ^ m) = n' mod (32 * 32 ^ m)"
    unfolding mod_mult2_eq by (auto dest: arg_cong [where f = "\<lambda>x. x div 32"] arg_cong [where f = "\<lambda>x. x mod 32"])
  finally show ?case by simp
qed simp

lemma unat_top5: "unat (drop_bit k (acc :: u32) AND 31) = unat acc div 2 ^ k mod 32"
proof -
  have "drop_bit k acc AND 31 = take_bit 5 (drop_bit k acc)"
    by (simp add: take_bit_eq_mask mask_eq_exp_minus_1)
  moreover have "unat (take_bit 5 (drop_bit k acc)) = take_bit 5 (drop_bit k (unat acc))"
    by (simp only: unsigned_take_bit_eq unsigned_drop_bit_eq take_bit_nat_eq_self [OF unsigned_less [of acc]])
  ultimately show ?thesis
    by (simp only: take_bit_eq_mod drop_bit_eq_div) simp
qed

lemma mod_div_mod:
  fixes X :: nat
  assumes "5 \<le> bits" "bits \<le> B"
  shows "X mod 2 ^ B div 2 ^ (bits - 5) mod 32 = X div 2 ^ (bits - 5) mod 32"
proof -
  have "(2 :: nat) ^ B = 2 ^ (bits - 5) * 2 ^ (B - (bits - 5))"
    using assms by (simp flip: power_add)
  then have "X mod 2 ^ B div 2 ^ (bits - 5) = X div 2 ^ (bits - 5) mod 2 ^ (B - (bits - 5))"
    by (simp add: mod_mult2_eq)
  moreover have "(32 :: nat) dvd 2 ^ (B - (bits - 5))"
    using assms le_imp_power_dvd [of 5 "B - (bits - 5)" "2 :: nat"] by simp
  ultimately show ?thesis by (simp add: mod_mod_cancel)
qed

lemma emit_digs:
  "unat acc = X mod 2 ^ B \<Longrightarrow> bits \<le> B \<Longrightarrow>
   emit acc bits (digs (X div 2 ^ bits) m) = (bits mod 5, digs (X div 2 ^ (bits mod 5)) (m + bits div 5))"
proof (induction bits arbitrary: m rule: less_induct)
  case (less bits)
  show ?case
  proof (cases "5 \<le> bits")
    case False
    then show ?thesis by (subst emit.simps) simp
  next
    case True
    let ?k = "bits - 5"
    have "(2 :: nat) ^ bits = 2 ^ ?k * 32"
      using True power_add [of "2 :: nat" ?k 5] by simp
    then have "X div 2 ^ ?k div 32 = X div 2 ^ bits" by (simp add: div_mult2_eq)
    then have "digs (X div 2 ^ bits) m @ [ALPHABET ! unat (drop_bit ?k acc AND 31)] = digs (X div 2 ^ ?k) (Suc m)"
      using less.prems True by (simp add: unat_top5 mod_div_mod)
    then have "emit acc bits (digs (X div 2 ^ bits) m) = emit acc ?k (digs (X div 2 ^ ?k) (Suc m))"
      using True by (subst emit.simps) simp
    also have "\<dots> = (?k mod 5, digs (X div 2 ^ (?k mod 5)) (Suc m + ?k div 5))"
      using True less.prems by (intro less.IH) auto
    also have "\<dots> = (bits mod 5, digs (X div 2 ^ (bits mod 5)) (m + bits div 5))"
      using True by (simp add: le_mod_geq le_div_geq)
    finally show ?thesis .
  qed
qed

lemma unat_shift_in:
  assumes "unat (acc :: u32) < 32"
  shows "unat (push_bit 8 acc OR ucast (b :: byte)) = unat acc * 256 + unat b"
proof -
  have b256: "unat b < 256" using unsigned_less [where 'a = nat, of b] by simp
  then have b: "unat (ucast b :: u32) = unat b" "unat b < 256"
    by (simp_all add: unsigned_ucast_eq take_bit_nat_eq_self)
  have s: "unat (push_bit 8 acc) = unat acc * 256"
    using assms unat_mult_lem [of acc 256] by (simp add: push_bit_eq_mult)
  have "push_bit 8 acc AND ucast b = 0"
    by (rule bit_eqI) (auto simp: bit_simps dest: bit_imp_le_length)
  then have "push_bit 8 acc OR ucast b = push_bit 8 acc + ucast b"
    by (simp add: disjunctive_add_eq_or)
  moreover have "unat (push_bit 8 acc + ucast b) = unat acc * 256 + unat b"
    using assms b s by (subst unat_add_lem [THEN iffD1]) simp_all
  ultimately show ?thesis by simp
qed

lemma unat_low_bits: "unat ((acc :: u32) AND (push_bit k 1 - 1)) = unat acc mod 2 ^ k"
proof -
  have "acc AND (push_bit k 1 - 1) = take_bit k acc"
    by (simp add: take_bit_eq_mask mask_eq_exp_minus_1 push_bit_eq_mult)
  then have "unat (acc AND (push_bit k 1 - 1)) = take_bit k (unat acc)"
    by (simp only: unsigned_take_bit_eq)
  then show ?thesis by (simp only: take_bit_eq_mod)
qed

lemma encode_loop_digs:
  "unat acc = X mod 2 ^ bits \<Longrightarrow> bits < 5 \<Longrightarrow>
   encode_loop bs acc bits (digs (X div 2 ^ bits) m) =
     digs ((X * 256 ^ length bs + be_val bs) div 2 ^ ((bits + 8 * length bs) mod 5))
       (m + (bits + 8 * length bs) div 5)"
proof (induction bs arbitrary: acc X bits m)
  case (Cons b bs)
  let ?X = "X * 256 + unat b" and ?acc = "push_bit 8 acc OR ucast b" and ?r = "(bits + 8) mod 5"
  have b: "unat b < 256" using unsigned_less [where 'a = nat, of b] by simp
  have "(2 :: nat) ^ bits \<le> 2 ^ 4"
    using Cons.prems(2) by (intro power_increasing) auto
  then have "X mod 2 ^ bits < 2 ^ 4"
    by (meson less_le_trans mod_less_divisor zero_less_numeral zero_less_power)
  then have small: "unat acc < 32" using Cons.prems(1) by simp
  have acc: "unat ?acc = ?X mod 2 ^ (bits + 8)"
    using unat_shift_in [OF small, of b] Cons.prems(1) b
    using mod_mult2_eq [of "256 * X + unat b" 256 "2 ^ bits"] by (simp add: power_add ac_simps)
  have top: "?X div 2 ^ (bits + 8) = X div 2 ^ bits"
    using b by (simp add: power_add mult.commute [of _ 256] div_mult2_eq)
  have "emit ?acc (bits + 8) (digs (X div 2 ^ bits) m)
      = (?r, digs (?X div 2 ^ ?r) (m + (bits + 8) div 5))"
    using emit_digs [OF acc order_refl, of m] by (simp add: top)
  moreover have "unat (?acc AND (push_bit ?r 1 - 1)) = ?X mod 2 ^ ?r"
  proof -
    have "?r \<le> bits + 8" by (rule mod_less_eq_dividend)
    then show ?thesis
      by (simp only: unat_low_bits acc mod_mod_cancel [OF le_imp_power_dvd])
  qed
  ultimately have "encode_loop (b # bs) acc bits (digs (X div 2 ^ bits) m) =
      digs ((?X * 256 ^ length bs + be_val bs) div 2 ^ ((?r + 8 * length bs) mod 5))
        (m + (bits + 8) div 5 + (?r + 8 * length bs) div 5)"
    using Cons.IH [of _ ?X ?r] by (simp add: Let_def)
  also have "(?r + 8 * length bs) mod 5 = (bits + 8 * length (b # bs)) mod 5"
    by (simp add: mod_add_left_eq add.assoc)
  also have "m + (bits + 8) div 5 + (?r + 8 * length bs) div 5 = m + (bits + 8 * length (b # bs)) div 5"
  proof -
    have "(a + c) div 5 = a div 5 + (a mod 5 + c) div 5" for a c :: nat by presburger
    from this [of "bits + 8" "8 * length bs"] show ?thesis by (simp add: add.assoc)
  qed
  finally show ?case by (simp add: algebra_simps)
qed simp

lemma be_val_bound: "be_val bs < 256 ^ length bs"
proof (induction bs)
  case (Cons b bs)
  have "unat b * 256 ^ length bs + be_val bs < (unat b + 1) * 256 ^ length bs" using Cons by simp
  also have "\<dots> \<le> 256 * 256 ^ length bs"
    using unsigned_less [where 'a = nat, of b] by (intro mult_right_mono) auto
  finally show ?case by simp
qed simp

lemma be_val_inject: "length bs = length bs' \<Longrightarrow> be_val bs = be_val bs' \<Longrightarrow> bs = bs'"
proof (induction bs bs' rule: list_induct2)
  case (Cons b bs b' bs')
  let ?m = "256 ^ length bs :: nat"
  have div: "(unat x * ?m + be_val xs) div ?m = unat x" "(unat x * ?m + be_val xs) mod ?m = be_val xs"
    if "length xs = length bs" for x :: byte and xs
    using be_val_bound [of xs] that by simp_all
  from Cons.prems Cons.hyps have "unat b * ?m + be_val bs = unat b' * ?m + be_val bs'" by simp
  with div [of bs b] div [of bs' b'] Cons.hyps have "unat b = unat b'" "be_val bs = be_val bs'" by metis+
  with Cons.IH show ?case by (simp add: word_unat_eq_iff)
qed simp

text \<open>The loops encode the first five digest bytes as one forty-bit number.\<close>

lemma encode_five:
  assumes "length bs = 5"
  shows "encode_loop bs 0 0 [] = digs (be_val bs) 8"
  using encode_loop_digs [of 0 0 0 bs 0] assms by simp

section \<open>Canonicalisation\<close>

lemma canon_char_id: "d \<in> set ALPHABET \<Longrightarrow> canon_char d = Some (Some d)"
proof -
  have "list_all (\<lambda>d. canon_char d = Some (Some d)) ALPHABET" by code_simp
  then show "d \<in> set ALPHABET \<Longrightarrow> canon_char d = Some (Some d)" by (simp add: list_all_iff)
qed

lemma canon_char_alphabet: "canon_char c = Some (Some d) \<Longrightarrow> d \<in> set ALPHABET"
  by (auto simp: canon_char_def Let_def split: if_splits)

lemma normalize_loop_id: "set s \<subseteq> set ALPHABET \<Longrightarrow> normalize_loop s raw = Some (raw @ s)"
  by (induction s arbitrary: raw) (simp_all add: canon_char_id)

lemma normalize_loop_alphabet:
  "normalize_loop s raw = Some r \<Longrightarrow> set raw \<subseteq> set ALPHABET \<Longrightarrow> set r \<subseteq> set ALPHABET"
proof (induction s arbitrary: raw)
  case (Cons c cs)
  then show ?case
    by (fastforce dest: canon_char_alphabet split: option.splits)
qed simp

lemma normalize_loop_append:
  "normalize_loop (s @ t) raw = (case normalize_loop s raw of None \<Rightarrow> None | Some r \<Rightarrow> normalize_loop t r)"
  by (induction s arbitrary: raw) (auto split: option.splits)

lemma normalize_group:
  assumes "length raw = 8" "set raw \<subseteq> set ALPHABET"
  shows "normalize (group raw) = Some (group raw)"
proof -
  have dash: "canon_char (CHR ''-'') = Some None" by (simp add: canon_char_def char_upper_def)
  have a: "set (take 4 raw) \<subseteq> set ALPHABET" "set (take 4 (drop 4 raw)) \<subseteq> set ALPHABET"
    using assms(2) by (meson order_trans set_take_subset set_drop_subset)+
  have "normalize_loop (group raw) [] = Some (take 4 raw @ take 4 (drop 4 raw))"
    by (simp add: group_def normalize_loop_append normalize_loop_id [OF a(1)] normalize_loop_id [OF a(2)] dash)
  moreover have "take 4 raw @ take 4 (drop 4 raw) = raw"
    using assms(1) by (simp add: append_take_drop_id)
  ultimately show ?thesis using assms(1) by (simp add: normalize_def SHORT_ID_LEN_def)
qed

lemma digs_alphabet: "set (digs n m) \<subseteq> set ALPHABET"
  using ALPHABET_facts(2) by (induction n m rule: digs.induct) (auto intro: nth_mem)

lemma group_inject: "length r = 8 \<Longrightarrow> length s = 8 \<Longrightarrow> group r = group s \<longleftrightarrow> r = s"
  by (auto simp: group_def) (metis append_take_drop_id length_drop take_all_iff numeral_Bit0 diff_add_inverse order_refl)

lemma short_wallet_id_group:
  assumes "length (tagged_hash cr wallet_id_tag pk) = 32"
  shows "short_wallet_id cr pk = group (digs (be_val (take 5 (tagged_hash cr wallet_id_tag pk))) 8)"
  using assms by (simp add: short_wallet_id_def encode_five)

section \<open>The guarantees\<close>

text \<open>A stand-in hash of 32 bytes for the witnesses: it keeps the last byte of the text.\<close>

definition demo_id_crypto :: "unit crypto" where
  "demo_id_crypto =
     \<lparr>sha256 = \<lambda>x. (if x = [] then 0 else last x) # replicate 31 7, keypair_from_seckey = \<lambda>_. Some (),
      x_only_public_key = \<lambda>_. replicate 32 9, sign_schnorr = \<lambda>m k aux. m,
      sign_schnorr_no_aux = \<lambda>m k. m, verify_schnorr = \<lambda>s m k. s = m, signature_to_string = \<lambda>_. [],
      signature_from_str = \<lambda>_. Some [], hex_encode = \<lambda>_. [],
      hex_decode_to_slice = \<lambda>s n. Some (replicate n 0)\<rparr>"

lemma demo_id_sized: "length (sha256 demo_id_crypto x) = 32"
  by (simp add: demo_id_crypto_def)

text \<open>A wallet answers to its own short id: the id it displays is already in canonical form
  and matches its public key.\<close>

theorem own_short_id_matches:
  assumes "\<And>x. length (sha256 cr x) = 32"
  shows "normalize (short_wallet_id cr pk) = Some (short_wallet_id cr pk) \<and> matches cr (short_wallet_id cr pk) pk"
proof -
  have "length (tagged_hash cr wallet_id_tag pk) = 32" by (simp add: tagged_hash_def assms)
  then have "normalize (short_wallet_id cr pk) = Some (short_wallet_id cr pk)"
    by (simp add: short_wallet_id_group normalize_group digs_alphabet)
  then show ?thesis by (simp add: matches_def)
qed

theorem own_short_id_matches_witness: "matches demo_id_crypto (short_wallet_id demo_id_crypto [1]) [1]"
  using own_short_id_matches [OF demo_id_sized] by blast

text \<open>Canonicalising what was typed is idempotent: whatever \<open>normalize\<close> returns is itself a
  canonical id, of eight alphabet characters with one dash.\<close>

theorem normalize_idempotent:
  assumes "normalize input = Some i"
  shows "normalize i = Some i \<and> length i = 9 \<and> set i \<subseteq> insert (CHR ''-'') (set ALPHABET)"
proof -
  from assms obtain raw where raw: "normalize_loop input [] = Some raw" "length raw = 8" and i: "i = group raw"
    by (auto simp: normalize_def SHORT_ID_LEN_def split: option.splits if_splits)
  have alpha: "set raw \<subseteq> set ALPHABET" using normalize_loop_alphabet [OF raw(1)] by simp
  moreover have "set i \<subseteq> insert (CHR ''-'') (set raw)"
    by (auto simp: i group_def dest: in_set_takeD in_set_dropD)
  ultimately show ?thesis
    using normalize_group [OF raw(2) alpha] raw(2) by (auto simp: i group_def)
qed

theorem normalize_idempotent_witness: "normalize ''K7M3-9PQ2'' = Some ''K7M3-9PQ2''"
proof -
  have "normalize ''k7m39pq2'' = Some ''K7M3-9PQ2''" by code_simp
  from normalize_idempotent [OF this] show ?thesis by blast
qed

text \<open>The id carries exactly forty bits of the tagged hash: two keys share a short id if and
  only if the first five bytes of their tagged hashes agree.\<close>

theorem short_id_is_forty_bits:
  assumes "\<And>x. length (sha256 cr x) = 32"
  shows "short_wallet_id cr pk = short_wallet_id cr pk' \<longleftrightarrow>
    take 5 (tagged_hash cr wallet_id_tag pk) = take 5 (tagged_hash cr wallet_id_tag pk')"
proof -
  have len: "length (tagged_hash cr wallet_id_tag x) = 32" for x by (simp add: tagged_hash_def assms)
  have bound: "be_val (take 5 (tagged_hash cr wallet_id_tag x)) mod 1099511627776
      = be_val (take 5 (tagged_hash cr wallet_id_tag x))" for x
    using be_val_bound [of "take 5 (tagged_hash cr wallet_id_tag x)"] len [of x] by simp
  show ?thesis
    using be_val_inject [of "take 5 (tagged_hash cr wallet_id_tag pk)" "take 5 (tagged_hash cr wallet_id_tag pk')"]
    by (auto simp: short_wallet_id_group len group_inject digs_inject bound)
qed

theorem short_id_is_forty_bits_witness:
  "short_wallet_id demo_id_crypto [1] \<noteq> short_wallet_id demo_id_crypto [2]"
  using short_id_is_forty_bits [OF demo_id_sized, of "[1]" "[2]"]
  by (simp add: tagged_hash_def demo_id_crypto_def)

end
