(* ===== verification/Transport.thy ===== *)
theory Transport
  imports Session_Props
begin

text \<open>
  The ready-made transport of \<open>lc-wallet-core/src/transport.rs\<close>: the events it reports, the handle's
  methods, the translation of core effects, and the actor that owns the connection.  The network,
  the clock and the channel are the environment: one \<open>net_event\<close> is what the actor's \<open>await\<close>
  points yield next, with how many of the frames it then sends go out before the sink fails.  Log
  output and the thirty-second ping timer itself are not modelled; a tick is an event.
\<close>

definition RECONNECT_MIN :: nat where "RECONNECT_MIN = 1"
definition RECONNECT_MAX :: nat where "RECONNECT_MAX = 60"

datatype wallet_event =
    EvConnected | EvLoggedIn | EvDisconnected
  | LoginRequested login_request | LoginRequestRemoved string
  | SignRequested sign_request | SignRequestRemoved string
  | SignMessageRequested sign_message_request
  | ReceiveAddressRequested receive_address_request | ReceiveAddressRequestRemoved string
  | AssetBalanceRequested asset_balance_request | AssetBalanceRequestRemoved string
  | HoldingsUpdated holdings_report | HoldingsRemoved string
  | SignMessageRequestRemoved string
  | PayRequested pay_request | PayRequestRemoved string
  | FundRequested fund_request | FundRequestRemoved string
  | Sessions "session list"
  | EvActionFailed user_action string
  | EvSessionCreated session | EvSessionRemoved string
  | EvMinimizeMobileApp

section \<open>The handle\<close>

text \<open>Each method queues one input for the actor.\<close>

definition open_link :: "(string \<Rightarrow> url option) \<Rightarrow> string \<Rightarrow> link_error + input" where
  "open_link url_parse u = and_then (parse_app_link url_parse u) (\<lambda>al. Inr (AppLinkInput al))"

definition accept_login :: "string \<Rightarrow> input" where
  "accept_login rid = LoginAccepted rid None"

definition accept_login_with_service_key :: "string \<Rightarrow> string \<Rightarrow> string \<Rightarrow> input" where
  "accept_login_with_service_key rid key signature =
     LoginAccepted rid (Some \<lparr>sb_key = key, sb_signature = signature\<rparr>)"

definition reject_login :: "string \<Rightarrow> input" where "reject_login rid = LoginRejected rid"
definition accept_sign :: "string \<Rightarrow> string \<Rightarrow> input" where "accept_sign rid pset = SignAccepted rid pset"
definition reject_sign :: "string \<Rightarrow> input" where "reject_sign rid = SignRejected rid"
definition accept_sign_message :: "string \<Rightarrow> input" where "accept_sign_message rid = SignMessageAccepted rid"

definition accept_sign_message_signed :: "string \<Rightarrow> string \<Rightarrow> input" where
  "accept_sign_message_signed rid signature = SignMessageSigned rid signature"

definition reject_sign_message :: "string \<Rightarrow> input" where "reject_sign_message rid = SignMessageRejected rid"

definition provide_receive_address :: "string \<Rightarrow> string \<Rightarrow> input" where
  "provide_receive_address rid address = ReceiveAddressProvided rid address"

definition reject_receive_address :: "string \<Rightarrow> input" where
  "reject_receive_address rid = ReceiveAddressRejected rid"

definition provide_asset_balance :: "string \<Rightarrow> u64 \<Rightarrow> input" where
  "provide_asset_balance rid amount = AssetBalanceProvided rid amount"

definition reject_asset_balance :: "string \<Rightarrow> input" where "reject_asset_balance rid = AssetBalanceRejected rid"
definition accept_pay :: "string \<Rightarrow> string \<Rightarrow> input" where "accept_pay rid txid = PayBuilt rid txid"
definition reject_pay :: "string \<Rightarrow> input" where "reject_pay rid = PayRejected rid"
definition accept_fund :: "string \<Rightarrow> string \<Rightarrow> input" where "accept_fund rid pset = FundSigned rid pset"
definition reject_fund :: "string \<Rightarrow> input" where "reject_fund rid = FundRejected rid"
definition stop_session :: "string \<Rightarrow> input" where "stop_session sid = StopSession sid"
definition register_fcm_token :: "string \<Rightarrow> input" where "register_fcm_token token = RegisterFcmToken token"

section \<open>Effects\<close>

fun apply_effects :: "effect list \<Rightarrow> string list \<times> wallet_event list" where
  "apply_effects [] = ([], [])"
| "apply_effects (e # es) =
     (let (out, evs) = apply_effects es in
      case e of
        Send data \<Rightarrow> (data # out, evs)
      | AddLoginRequest r \<Rightarrow> (out, LoginRequested r # evs)
      | RemoveLoginRequest i \<Rightarrow> (out, LoginRequestRemoved i # evs)
      | AddSignRequest r \<Rightarrow> (out, SignRequested r # evs)
      | RemoveSignRequest i \<Rightarrow> (out, SignRequestRemoved i # evs)
      | AddSignMessageRequest r \<Rightarrow> (out, SignMessageRequested r # evs)
      | RemoveSignMessageRequest i \<Rightarrow> (out, SignMessageRequestRemoved i # evs)
      | AddReceiveAddressRequest r \<Rightarrow> (out, ReceiveAddressRequested r # evs)
      | RemoveReceiveAddressRequest i \<Rightarrow> (out, ReceiveAddressRequestRemoved i # evs)
      | AddAssetBalanceRequest r \<Rightarrow> (out, AssetBalanceRequested r # evs)
      | RemoveAssetBalanceRequest i \<Rightarrow> (out, AssetBalanceRequestRemoved i # evs)
      | SetHoldings r \<Rightarrow> (out, HoldingsUpdated r # evs)
      | ClearHoldings d \<Rightarrow> (out, HoldingsRemoved d # evs)
      | AddPayRequest r \<Rightarrow> (out, PayRequested r # evs)
      | RemovePayRequest i \<Rightarrow> (out, PayRequestRemoved i # evs)
      | AddFundRequest r \<Rightarrow> (out, FundRequested r # evs)
      | RemoveFundRequest i \<Rightarrow> (out, FundRequestRemoved i # evs)
      | SessionList ss \<Rightarrow> (out, Sessions ss # evs)
      | SessionCreated s \<Rightarrow> (out, EvSessionCreated s # evs)
      | SessionRemoved i \<Rightarrow> (out, EvSessionRemoved i # evs)
      | MinimizeMobileApp \<Rightarrow> (out, EvMinimizeMobileApp # evs)
      | ActionFailed a m \<Rightarrow> (out, EvActionFailed a m # evs))"

section \<open>The actor\<close>

text \<open>Where the actor waits: for the connection, inside the connected loop with its
  \<open>was_logged_in\<close> flag, or nowhere any more.\<close>

datatype phase = Connecting | Online bool | Stopped

record 'k actor =
  a_core :: "'k core"
  a_delay :: nat
  a_phase :: phase

text \<open>\<open>budget\<close> is how many frames the sink takes before it fails; \<open>None\<close> when it does not fail.\<close>

type_synonym budget = "nat option"

datatype net_event =
    ConnectFailed
  | ConnectOk bytes budget
  | TextFrame bytes string budget
  | PingFrame
  | OtherFrame
  | StreamError
  | StreamEnd
  | HandleInput bytes input budget
  | HandlesDropped
  | PingTick bool  \<comment> \<open>whether the ping went out\<close>

record step_out =
  so_frames :: "string list"
  so_events :: "wallet_event list"
  so_sleep :: "nat option"

definition send_frames :: "string list \<Rightarrow> budget \<Rightarrow> string list \<times> bool" where
  "send_frames frames b = (case b of
     None \<Rightarrow> (frames, True)
   | Some n \<Rightarrow> if n < length frames then (take n frames, False) else (frames, True))"

definition new_actor :: "install_id \<Rightarrow> string \<Rightarrow> 'k \<Rightarrow> 'k actor" where
  "new_actor iid desc key =
     \<lparr>a_core = new_core iid desc key, a_delay = RECONNECT_MIN, a_phase = Connecting\<rparr>"

definition back_off :: "nat \<Rightarrow> nat" where
  "back_off d = min (d * 2) RECONNECT_MAX"

definition on_connect_failed :: "'k actor \<Rightarrow> 'k actor \<times> step_out" where
  "on_connect_failed a =
     (a\<lparr>a_delay := back_off (a_delay a)\<rparr>,
      \<lparr>so_frames = [], so_events = [], so_sleep = Some (a_delay a)\<rparr>)"

text \<open>A failed send right after connecting only ends the sending; the loop is entered anyway.\<close>

definition on_connected :: "'k session_env \<Rightarrow> bytes \<Rightarrow> budget \<Rightarrow> 'k actor \<Rightarrow> 'k actor \<times> step_out" where
  "on_connected env aux b a =
     (let (c, es) = handle env aux (Transport Connected) (a_core a);
          (out, evs) = apply_effects es;
          (sent, ok) = send_frames out b
      in (a\<lparr>a_core := c, a_delay := RECONNECT_MIN, a_phase := Online False\<rparr>,
          \<lparr>so_frames = sent, so_events = evs @ [EvConnected], so_sleep = None\<rparr>))"

text \<open>Leaving the connected loop: the frames of this last step are dropped.\<close>

definition leave :: "'k session_env \<Rightarrow> 'k actor \<Rightarrow> step_out \<Rightarrow> 'k actor \<times> step_out" where
  "leave env a so =
     (let (c, es) = handle env [] (Transport Disconnected) (a_core a);
          (_, evs) = apply_effects es
      in (a\<lparr>a_core := c, a_delay := back_off (a_delay a), a_phase := Connecting\<rparr>,
          so\<lparr>so_events := so_events so @ evs @ [EvDisconnected], so_sleep := Some (a_delay a)\<rparr>))"

definition quiet :: step_out where
  "quiet = \<lparr>so_frames = [], so_events = [], so_sleep = None\<rparr>"

definition on_text :: "'k session_env \<Rightarrow> bytes \<Rightarrow> string \<Rightarrow> budget \<Rightarrow> bool \<Rightarrow> 'k actor \<Rightarrow> 'k actor \<times> step_out" where
  "on_text env aux text b was a =
     (let (c, es) = handle env aux (Transport (Recv text)) (a_core a);
          (out, evs) = apply_effects es;
          fresh = (is_logged_in c \<and> \<not> was);
          (sent, ok) = send_frames out b;
          a' = a\<lparr>a_core := c, a_phase := Online (was \<or> fresh)\<rparr>;
          so = \<lparr>so_frames = sent, so_events = evs @ (if fresh then [EvLoggedIn] else []), so_sleep = None\<rparr>
      in if ok then (a', so) else leave env a' so)"

definition on_input :: "'k session_env \<Rightarrow> bytes \<Rightarrow> input \<Rightarrow> budget \<Rightarrow> 'k actor \<Rightarrow> 'k actor \<times> step_out" where
  "on_input env aux i b a =
     (let (c, es) = handle env aux i (a_core a);
          (out, evs) = apply_effects es;
          (sent, ok) = send_frames out b;
          a' = a\<lparr>a_core := c\<rparr>;
          so = \<lparr>so_frames = sent, so_events = evs, so_sleep = None\<rparr>
      in if ok then (a', so) else leave env a' so)"

text \<open>One turn of the loop; \<open>None\<close> when the actor is not waiting for such an event.  Handle inputs
  are polled in the connected loop only.\<close>

definition actor_step :: "'k session_env \<Rightarrow> net_event \<Rightarrow> 'k actor \<Rightarrow> ('k actor \<times> step_out) option" where
  "actor_step env ev a = (case a_phase a of
     Connecting \<Rightarrow>
       (case ev of
          ConnectFailed \<Rightarrow> Some (on_connect_failed a)
        | ConnectOk aux b \<Rightarrow> Some (on_connected env aux b a)
        | _ \<Rightarrow> None)
   | Online was \<Rightarrow>
       (case ev of
          TextFrame aux text b \<Rightarrow> Some (on_text env aux text b was a)
        | PingFrame \<Rightarrow> Some (a, quiet)
        | OtherFrame \<Rightarrow> Some (a, quiet)
        | StreamError \<Rightarrow> Some (leave env a quiet)
        | StreamEnd \<Rightarrow> Some (leave env a quiet)
        | HandleInput aux i b \<Rightarrow> Some (on_input env aux i b a)
        | HandlesDropped \<Rightarrow> Some (a\<lparr>a_phase := Stopped\<rparr>, quiet)
        | PingTick ok \<Rightarrow> Some (if ok then (a, quiet) else leave env a quiet)
        | _ \<Rightarrow> None)
   | Stopped \<Rightarrow> None)"

text \<open>The handle only offers user decisions: a transport event never comes through it.\<close>

definition user_event :: "net_event \<Rightarrow> bool" where
  "user_event ev = (case ev of
     HandleInput aux i b \<Rightarrow> (case i of Transport t \<Rightarrow> False | _ \<Rightarrow> True)
   | _ \<Rightarrow> True)"

inductive reachable :: "'k session_env \<Rightarrow> 'k actor \<Rightarrow> wallet_event list \<Rightarrow> bool" for env where
  start: "reachable env (new_actor iid desc key) []"
| step: "reachable env a evs \<Longrightarrow> user_event ev \<Longrightarrow> actor_step env ev a = Some (a', so) \<Longrightarrow>
    reachable env a' (evs @ so_events so)"

inductive_cases reachable_cases: "reachable env a evs"

end
