(* ===== verification/Transport_Claims.thy ===== *)
theory Transport_Claims
  imports Transport Session_Claims
begin

text \<open>
  What the host can rely on from the transport: the connectivity events it receives track the
  actor's real state, the reconnect delay stays within its bounds, and effects reach the wire and
  the host in order.
\<close>

section \<open>Connection flags\<close>

definition flags :: "'k core \<Rightarrow> bool \<times> bool" where
  "flags c = (connected c, login_succeed c)"

lemma flags_upd [simp]:
  "flags (c\<lparr>login_requests := a\<rparr>) = flags c" "flags (c\<lparr>sign_requests := b\<rparr>) = flags c"
  "flags (c\<lparr>sign_message_requests := d\<rparr>) = flags c" "flags (c\<lparr>receive_address_requests := e\<rparr>) = flags c"
  "flags (c\<lparr>asset_balance_requests := f\<rparr>) = flags c" "flags (c\<lparr>holdings := g\<rparr>) = flags c"
  "flags (c\<lparr>pay_requests := h\<rparr>) = flags c" "flags (c\<lparr>fund_requests := i\<rparr>) = flags c"
  "flags (c\<lparr>user_actions := j\<rparr>) = flags c" "flags (c\<lparr>next_action_id := k\<rparr>) = flags c"
  "flags (c\<lparr>mobile_requests := l\<rparr>) = flags c" "flags (c\<lparr>fcm_token := m\<rparr>) = flags c"
  by (simp_all add: flags_def)

lemma flags_add_user_action [simp]: "flags (fst (add_user_action env a c)) = flags c"
  by (simp add: add_user_action_def Let_def)

lemma flags_answer [simp]: "flags (fst (answer env rid a c)) = flags c"
  by (simp add: answer_def finish_request_def case_prod_unfold Let_def split: option.split)

lemma flags_sync [simp]:
  "flags (fst (sync_sign_requests s c)) = flags c" "flags (fst (sync_sign_message_requests sm c)) = flags c"
  "flags (fst (sync_pay_requests p c)) = flags c" "flags (fst (sync_fund_requests f c)) = flags c"
  "flags (fst (sync_receive_address_requests r c)) = flags c"
  "flags (fst (sync_asset_balance_requests a c)) = flags c" "flags (fst (sync_holdings h c)) = flags c"
  by (simp_all add: sync_defs case_prod_unfold Let_def)

lemma flags_login_resp: "flags (fst (handle_login_resp env lr c)) = (connected c, True)"
  by (simp add: handle_login_resp_def case_prod_unfold Let_def) (simp add: flags_def)

lemma flags_notification: "flags (fst (handle_notification n c)) = flags c"
  by (cases n) (simp_all add: handle_notification_def)

lemma flags_server_message:
  "connected (fst (handle_server_message env aux m c)) = connected c"
  "login_succeed c \<Longrightarrow> login_succeed (fst (handle_server_message env aux m c))"
proof -
  have "flags (fst (handle_server_message env aux m c)) = flags c
      \<or> flags (fst (handle_server_message env aux m c)) = (connected c, True)"
    by (auto simp: handle_server_message_def handle_response_def flags_login_resp flags_notification
        split: from_msg.splits resp.splits option.splits)
  then show "connected (fst (handle_server_message env aux m c)) = connected c"
    "login_succeed c \<Longrightarrow> login_succeed (fst (handle_server_message env aux m c))"
    by (auto simp: flags_def)
qed

lemma flags_recv:
  "connected (fst (handle env aux (Transport (Recv t)) c)) = connected c"
  "login_succeed c \<Longrightarrow> login_succeed (fst (handle env aux (Transport (Recv t)) c))"
  by (simp_all add: handle_def handle_transport_def flags_server_message split: option.split)

lemma flags_user_input:
  assumes "user_event (HandleInput aux' i b)"
  shows "flags (fst (handle env aux i c)) = flags c"
  using assms
  by (cases i) (simp_all add: user_event_def handle_defs Let_def split: link_type.split)

section \<open>Events\<close>

definition link_event :: "wallet_event \<Rightarrow> bool" where
  "link_event e \<longleftrightarrow> e \<in> {EvConnected, EvLoggedIn, EvDisconnected}"

lemma apply_effects_no_link: "list_all (\<lambda>e. \<not> link_event e) (snd (apply_effects es))"
  by (induction es) (auto simp: Let_def link_event_def case_prod_unfold split: effect.split)

text \<open>The connection as the host can follow it from the events: connect, at most one login, then
  disconnect.\<close>

fun track :: "phase \<Rightarrow> wallet_event list \<Rightarrow> phase option" where
  "track p [] = Some p"
| "track p (e # es) =
     (if \<not> link_event e then track p es
      else case (p, e) of
          (Connecting, EvConnected) \<Rightarrow> track (Online False) es
        | (Online False, EvLoggedIn) \<Rightarrow> track (Online True) es
        | (Online w, EvDisconnected) \<Rightarrow> track Connecting es
        | _ \<Rightarrow> None)"

lemma track_append: "track p (xs @ ys) = (case track p xs of None \<Rightarrow> None | Some q \<Rightarrow> track q ys)"
  by (induction p xs rule: track.induct) (auto split: phase.splits bool.splits wallet_event.splits)

lemma track_quiet: "list_all (\<lambda>e. \<not> link_event e) es \<Longrightarrow> track p es = Some p"
  by (induction es) auto

lemma track_effects [simp]: "track p (snd (apply_effects es)) = Some p"
  by (rule track_quiet [OF apply_effects_no_link])

lemma track_link [simp]:
  "track Connecting [EvConnected] = Some (Online False)"
  "track (Online False) [EvLoggedIn] = Some (Online True)"
  "track (Online w) [EvDisconnected] = Some Connecting"
  by (cases w; simp add: link_event_def)+

section \<open>The invariant\<close>

definition actor_inv :: "'k actor \<Rightarrow> bool" where
  "actor_inv a \<longleftrightarrow> RECONNECT_MIN \<le> a_delay a \<and> a_delay a \<le> RECONNECT_MAX \<and>
     (case a_phase a of
        Connecting \<Rightarrow> \<not> connected (a_core a) \<and> \<not> login_succeed (a_core a)
      | Online was \<Rightarrow> connected (a_core a) \<and> (was \<longleftrightarrow> login_succeed (a_core a))
      | Stopped \<Rightarrow> True)"

lemma back_off_bounds: "RECONNECT_MIN \<le> d \<Longrightarrow> RECONNECT_MIN \<le> back_off d \<and> back_off d \<le> RECONNECT_MAX"
  by (simp add: back_off_def RECONNECT_MIN_def RECONNECT_MAX_def)

lemma handle_connected: "handle env aux (Transport Connected) c = (c\<lparr>connected := True\<rparr>, [send env 0 ReqChallenge])"
  and handle_disconnected: "handle env aux (Transport Disconnected) c = (c\<lparr>connected := False, login_succeed := False\<rparr>, [])"
  by (simp_all add: handle_def handle_transport_def)

lemma leave_inv:
  assumes "RECONNECT_MIN \<le> a_delay a"
  shows "actor_inv (fst (leave env a so))"
    and "track (Online w) (so_events so) = Some (Online w') \<Longrightarrow>
      track (Online w) (so_events (snd (leave env a so))) = Some Connecting"
    and "a_phase (fst (leave env a so)) = Connecting"
  using assms back_off_bounds [of "a_delay a"]
  by (simp_all add: leave_def handle_disconnected actor_inv_def track_append del: track.simps(2))

lemma on_connected_inv:
  assumes "actor_inv a" "a_phase a = Connecting"
  shows "actor_inv (fst (on_connected env aux b a))"
    and "track Connecting (so_events (snd (on_connected env aux b a))) = Some (a_phase (fst (on_connected env aux b a)))"
  using assms
  by (auto simp: on_connected_def handle_connected actor_inv_def case_prod_unfold Let_def
      RECONNECT_MIN_def RECONNECT_MAX_def send_def link_event_def)

lemma on_text_inv:
  assumes "actor_inv a" "a_phase a = Online was"
  shows "actor_inv (fst (on_text env aux t b was a))"
    and "track (Online was) (so_events (snd (on_text env aux t b was a))) = Some (a_phase (fst (on_text env aux t b was a)))"
proof -
  let ?c = "fst (handle env aux (Transport (Recv t)) (a_core a))"
  let ?evs = "snd (apply_effects (snd (handle env aux (Transport (Recv t)) (a_core a))))"
  let ?fresh = "is_logged_in ?c \<and> \<not> was"
  have was: "connected (a_core a)" "was \<longleftrightarrow> login_succeed (a_core a)"
    using assms by (simp_all add: actor_inv_def)
  have now: "connected ?c" "was \<Longrightarrow> login_succeed ?c"
    using was flags_recv by (simp_all add: flags_recv)
  have track: "track (Online was) (?evs @ (if ?fresh then [EvLoggedIn] else [])) = Some (Online (was \<or> ?fresh))"
    by (auto simp: track_append link_event_def)
  have inv: "actor_inv (a\<lparr>a_core := ?c, a_phase := Online (was \<or> ?fresh)\<rparr>)"
    using assms now by (auto simp: actor_inv_def is_logged_in_def)
  let ?sent = "send_frames (fst (apply_effects (snd (handle env aux (Transport (Recv t)) (a_core a))))) b"
  let ?a = "a\<lparr>a_core := ?c, a_phase := Online (was \<or> ?fresh)\<rparr>"
  let ?so = "\<lparr>so_frames = fst ?sent, so_events = ?evs @ (if ?fresh then [EvLoggedIn] else []), so_sleep = None\<rparr>"
  have eq: "on_text env aux t b was a = (if snd ?sent then (?a, ?so) else leave env ?a ?so)"
    by (simp add: on_text_def case_prod_unfold Let_def)
  have min: "RECONNECT_MIN \<le> a_delay ?a" using assms(1) by (simp add: actor_inv_def)
  show "actor_inv (fst (on_text env aux t b was a))"
    unfolding eq using inv leave_inv(1) [OF min] by simp
  show "track (Online was) (so_events (snd (on_text env aux t b was a))) = Some (a_phase (fst (on_text env aux t b was a)))"
    unfolding eq using track leave_inv(2) [OF min, of was ?so] leave_inv(3) [OF min] by simp
qed

lemma on_input_inv:
  assumes "actor_inv a" "a_phase a = Online was" "user_event (HandleInput aux i b)"
  shows "actor_inv (fst (on_input env aux i b a))"
    and "track (Online was) (so_events (snd (on_input env aux i b a))) = Some (a_phase (fst (on_input env aux i b a)))"
proof -
  let ?h = "handle env aux i (a_core a)"
  let ?sent = "send_frames (fst (apply_effects (snd ?h))) b"
  let ?a = "a\<lparr>a_core := fst ?h\<rparr>"
  let ?so = "\<lparr>so_frames = fst ?sent, so_events = snd (apply_effects (snd ?h)), so_sleep = None\<rparr>"
  have eq: "on_input env aux i b a = (if snd ?sent then (?a, ?so) else leave env ?a ?so)"
    by (simp add: on_input_def case_prod_unfold Let_def)
  have min: "RECONNECT_MIN \<le> a_delay ?a" using assms(1) by (simp add: actor_inv_def)
  have "flags (fst ?h) = flags (a_core a)" using flags_user_input [OF assms(3)] .
  then have inv: "actor_inv ?a" using assms(1,2) by (simp add: actor_inv_def flags_def)
  show "actor_inv (fst (on_input env aux i b a))"
    unfolding eq using inv leave_inv(1) [OF min] by simp
  show "track (Online was) (so_events (snd (on_input env aux i b a))) = Some (a_phase (fst (on_input env aux i b a)))"
    unfolding eq using assms(2) leave_inv(2) [OF min, of was ?so] leave_inv(3) [OF min] by simp
qed

text \<open>Each turn keeps the invariant and moves the host's view exactly as the phase moves.\<close>

definition step_ok :: "phase \<Rightarrow> 'k actor \<times> step_out \<Rightarrow> bool" where
  "step_ok p r \<longleftrightarrow> actor_inv (fst r) \<and>
     (a_phase (fst r) \<noteq> Stopped \<longrightarrow> track p (so_events (snd r)) = Some (a_phase (fst r)))"

lemma step_ok_connecting:
  assumes "actor_inv a" "a_phase a = Connecting"
  shows "step_ok Connecting (on_connect_failed a)" "step_ok Connecting (on_connected env aux b a)"
  using assms on_connected_inv [OF assms, of env aux b] back_off_bounds [of "a_delay a"]
  by (simp_all add: step_ok_def on_connect_failed_def actor_inv_def)

lemma step_ok_online:
  assumes "actor_inv a" "a_phase a = Online was"
  shows "step_ok (Online was) (on_text env aux t b was a)"
    and "step_ok (Online was) (leave env a quiet)"
    and "step_ok (Online was) (a, quiet)"
    and "step_ok (Online was) (a\<lparr>a_phase := Stopped\<rparr>, quiet)"
    and "user_event (HandleInput aux i b) \<Longrightarrow> step_ok (Online was) (on_input env aux i b a)"
proof -
  have min: "RECONNECT_MIN \<le> a_delay a" using assms(1) by (simp add: actor_inv_def)
  show "step_ok (Online was) (on_text env aux t b was a)"
    using on_text_inv [OF assms] by (simp add: step_ok_def)
  show "step_ok (Online was) (leave env a quiet)"
    using leave_inv(1,3) [OF min] leave_inv(2) [OF min, of was quiet was]
    by (simp add: step_ok_def quiet_def)
  show "step_ok (Online was) (a, quiet)" "step_ok (Online was) (a\<lparr>a_phase := Stopped\<rparr>, quiet)"
    using assms by (simp_all add: step_ok_def quiet_def actor_inv_def)
  show "user_event (HandleInput aux i b) \<Longrightarrow> step_ok (Online was) (on_input env aux i b a)"
    using on_input_inv [OF assms] by (simp add: step_ok_def)
qed

lemma actor_step_ok:
  assumes "actor_inv a" "user_event ev" "actor_step env ev a = Some r"
  shows "step_ok (a_phase a) r \<and> a_phase a \<noteq> Stopped"
proof (cases "a_phase a")
  case Connecting
  then show ?thesis
    using assms(3) step_ok_connecting [OF assms(1)] by (cases ev) (auto simp: actor_step_def)
next
  case (Online was)
  then show ?thesis
    using assms(2,3) step_ok_online [OF assms(1)]
    by (cases ev) (auto simp: actor_step_def split: if_splits)
qed (use assms in \<open>simp add: actor_step_def\<close>)

lemma reachable_tracked:
  "reachable env a evs \<Longrightarrow> actor_inv a \<and> (a_phase a \<noteq> Stopped \<longrightarrow> track Connecting evs = Some (a_phase a))"
proof (induction rule: reachable.induct)
  case (start iid desc key)
  then show ?case
    by (simp add: new_actor_def new_core_def actor_inv_def RECONNECT_MIN_def RECONNECT_MAX_def)
next
  case (step a evs ev a' so)
  then show ?case
    using actor_step_ok [of a ev env "(a', so)"] by (auto simp: step_ok_def track_append)
qed

text \<open>
  C40.  Whatever the network does and whatever the user decides, the host's view is right: folding
  the connect, login and disconnect events it has received gives the state the actor is in, so it
  never sees a login without a connection, a second login on one connection, or a connection that
  is silently lost; the phase agrees with the core's own flags, so the host believes itself logged in
  exactly when the core does; and the delay before the next attempt stays between one and sixty
  seconds.
\<close>

theorem host_tracks_connection:
  assumes "reachable env a evs"
  shows "RECONNECT_MIN \<le> a_delay a \<and> a_delay a \<le> RECONNECT_MAX \<and>
    (a_phase a = Stopped \<or> track Connecting evs = Some (a_phase a)) \<and>
    (case a_phase a of
       Connecting \<Rightarrow> \<not> connected (a_core a) \<and> \<not> is_logged_in (a_core a)
     | Online was \<Rightarrow> connected (a_core a) \<and> was = is_logged_in (a_core a)
     | Stopped \<Rightarrow> True)"
  using reachable_tracked [OF assms] by (auto simp: actor_inv_def is_logged_in_def split: phase.splits)

theorem host_tracks_connection_witness:
  "\<exists>a evs. reachable demo_env a evs \<and> a_phase a = Online True \<and> is_logged_in (a_core a)
     \<and> track Connecting evs = Some (Online True) \<and> a_delay a \<le> RECONNECT_MAX"
proof -
  let ?a0 = "new_actor [1] ''ct'' () :: unit actor"
  let ?r1 = "on_connected demo_env [] None ?a0"
  let ?r2 = "on_text demo_env [] ''login'' None False (fst ?r1)"
  have p1: "a_phase (fst ?r1) = Online False" by (simp add: on_connected_def case_prod_unfold Let_def)
  have "reachable demo_env (fst ?r1) ([] @ so_events (snd ?r1))"
    by (rule reachable.step [where ev = "ConnectOk [] None", OF reachable.start])
      (simp_all add: user_event_def actor_step_def new_actor_def)
  then have r: "reachable demo_env (fst ?r2) (([] @ so_events (snd ?r1)) @ so_events (snd ?r2))"
    by (rule reachable.step [where ev = "TextFrame [] ''login'' None"])
      (simp_all add: user_event_def actor_step_def p1)
  have p2: "a_phase (fst ?r2) = Online True"
    by (simp add: on_text_def on_connected_def send_frames_def new_actor_def case_prod_unfold Let_def
        handle_def handle_transport_def handle_server_message_def handle_response_def demo_env_def
        is_logged_in_def handle_login_resp_def sync_defs new_core_def)
  show ?thesis using host_tracks_connection [OF r] r p2 by auto
qed

end
