(* ===== verification/Identity_Client.thy ===== *)
theory Identity_Client
  imports Typed_Json Short_Id
begin

text \<open>
  The identity API client of \<open>lc-wallet-core/src/identity.rs\<close>.  Every operation is one authenticated
  exchange: fetch a challenge, sign it with the action and its primary value, post the body with the
  three proof fields.  The HTTP client, the JSON reader and the derived deserialisers of the reply
  structs are parameters; the JSON bodies the client builds are the datatype \<open>jval\<close>.  An operation
  returns the requests it made, in order, with its outcome.
\<close>

record identity_client =
  ic_base_url :: string
  ic_gateway_bearer :: "string option"

record discoverability =
  by_contact_hash :: bool
  by_handle :: bool

record identity_status =
  is_identity_id :: "string option"
  is_email :: bool
  is_phone :: bool
  is_handle :: "string option"
  is_short_id :: "string option"
  is_discoverability :: discoverability

record verify_outcome =
  vo_verified :: bool
  vo_identity_id :: "string option"
  vo_txid :: "string option"

record connect_hint =
  ch_request_id :: string
  ch_link :: string

record phone_quote =
  pq_order_id :: string
  pq_price_sats :: u64
  pq_asset_id :: string
  pq_connected :: bool
  pq_connect :: "connect_hint option"

record phone_stage =
  ps_stage :: string
  ps_txid :: "string option"

record contact_match =
  cm_input_index :: nat
  cm_identity_id :: string

record discover_outcome =
  do_matched :: "contact_match list"
  do_unparsed_input_indexes :: "nat list"

record contact =
  ct_identity_id :: string
  ct_handle :: "string option"

text \<open>The bodies built with \<open>json!\<close>: strings, booleans, arrays and objects, an object being the
  ordered map that \<open>serde_json\<close> keeps.\<close>

datatype jval = JStr string | JBool bool | JArr "jval list" | JObj "(string, jval) btree"

definition json_obj :: "(string \<times> jval) list \<Rightarrow> jval" where
  "json_obj fs = JObj (bt_collect fs)"

record id_request =
  iq_url :: string
  iq_authorization :: "string option"
  iq_body :: jval

datatype id_error =
    IdRefused nat string | IdUnreachable | IdBadJson
  | NoChallengeInReply | BodyNotObject | UnknownActionPanic
  | BadReplyShape | MissingInReply string

text \<open>The libraries: the key operations, the text of a public key, JSON access, and one
  deserialiser for each reply struct.\<close>

record ('k, 'v) identity_lib =
  il_crypto :: "'k crypto"
  xonly_to_string :: "bytes \<Rightarrow> string"
  il_serde :: "'v serde"
  from_value_status :: "'v \<Rightarrow> identity_status option"
  from_value_verify :: "'v \<Rightarrow> verify_outcome option"
  from_value_quote :: "'v \<Rightarrow> phone_quote option"
  from_value_stage :: "'v \<Rightarrow> phone_stage option"
  from_value_discover :: "'v \<Rightarrow> discover_outcome option"
  from_value_contacts :: "'v \<Rightarrow> contact list option"

type_synonym 'r id_outcome = "id_request list \<times> (id_error + 'r)"

text \<open>An operation: the libraries, the client, the network, the key with the auxiliary bytes of its
  signature, and then the operation's own arguments.\<close>

type_synonym ('k, 'v, 'f) id_op =
  "('k, 'v) identity_lib \<Rightarrow> identity_client \<Rightarrow> (id_request \<Rightarrow> 'v http_result) \<Rightarrow> 'k \<Rightarrow> bytes \<Rightarrow> 'f"

definition trim_end_slashes :: "string \<Rightarrow> string" where
  "trim_end_slashes s = rev (dropWhile (\<lambda>c. c = CHR ''/'') (rev s))"

definition identity_client_new :: "string \<Rightarrow> string option \<Rightarrow> identity_client" where
  "identity_client_new base_url bearer =
     \<lparr>ic_base_url = trim_end_slashes base_url, ic_gateway_bearer = bearer\<rparr>"

section \<open>One request\<close>

definition id_query :: "identity_client \<Rightarrow> string \<Rightarrow> jval \<Rightarrow> id_request" where
  "id_query c path body =
     \<lparr>iq_url = ic_base_url c @ path,
      iq_authorization = map_option (\<lambda>b. ''Bearer '' @ b) (ic_gateway_bearer c),
      iq_body = body\<rparr>"

definition id_reply :: "'v serde \<Rightarrow> 'v http_result \<Rightarrow> id_error + 'v" where
  "id_reply js r = (case r of
     Replied (Some v) \<Rightarrow> Inr v
   | Replied None \<Rightarrow> Inl IdBadJson
   | HttpStatus code text \<Rightarrow>
       Inl (IdRefused code
         (case Option.bind (json_from_str js text) (\<lambda>v. get_str js v ''error'') of
            Some e \<Rightarrow> e | None \<Rightarrow> ''no detail''))
   | Unreachable \<Rightarrow> Inl IdUnreachable)"

definition action_table :: "(string \<times> string) list" where
  "action_table =
     [(''status'', ''status''), (''email_start'', ''email/start''), (''email_confirm'', ''email/confirm''),
      (''phone_start'', ''phone/start''), (''phone_pay'', ''phone/pay''), (''phone_status'', ''phone/status''),
      (''phone_sms'', ''phone/sms''), (''phone_confirm'', ''phone/confirm''),
      (''discoverability'', ''discoverability''), (''handle'', ''handle''), (''id'', ''id''),
      (''contacts_discover'', ''contacts/discover''), (''contacts_save'', ''contacts/save''),
      (''contacts_list'', ''contacts/list''), (''contact_address'', ''contacts/address'')]"

text \<open>\<open>None\<close> is the \<open>unreachable!\<close> panic.\<close>

definition action_path :: "string \<Rightarrow> string option" where
  "action_path action = map_of action_table action"

text \<open>The object the authenticated request carries: the caller's fields, then the three proof
  fields, inserted in this order.\<close>

definition with_proof :: "(string, jval) btree \<Rightarrow> string \<Rightarrow> string \<Rightarrow> string \<Rightarrow> (string, jval) btree" where
  "with_proof obj pubkey challenge signature =
     bt_insert ''signature'' (JStr signature)
       (bt_insert ''challenge'' (JStr challenge)
         (bt_insert ''public_key'' (JStr pubkey) obj))"

definition authed :: "('k, 'v, string \<Rightarrow> string \<Rightarrow> jval \<Rightarrow> 'v id_outcome) id_op" where
  "authed il c post k aux action value body =
     (let pubkey = xonly_to_string il (public_key (il_crypto il) k);
          q1 = id_query c ''/challenge'' (json_obj [(''public_key'', JStr pubkey)]) in
      case and_then (id_reply (il_serde il) (post q1)) (\<lambda>v.
             ok_or (get_str (il_serde il) v ''challenge'') NoChallengeInReply) of
        Inl e \<Rightarrow> ([q1], Inl e)
      | Inr challenge \<Rightarrow>
          let signature = signature_to_string (il_crypto il)
                (sign_identity (il_crypto il) k challenge action value aux) in
          (case body of
             JObj obj \<Rightarrow>
               (case action_path action of
                  None \<Rightarrow> ([q1], Inl UnknownActionPanic)
                | Some path \<Rightarrow>
                    let q2 = id_query c (''/'' @ path) (JObj (with_proof obj pubkey challenge signature))
                    in ([q1, q2], id_reply (il_serde il) (post q2)))
           | _ \<Rightarrow> ([q1], Inl BodyNotObject)))"

section \<open>The operations\<close>

text \<open>What an operation does with the reply: nothing, read it as a struct, or read one string.\<close>

definition discard :: "'v id_outcome \<Rightarrow> unit id_outcome" where
  "discard r = (fst r, and_then (snd r) (\<lambda>_. Inr ()))"

definition read_as ::
  "('v \<Rightarrow> 'r option) \<Rightarrow> 'v id_outcome \<Rightarrow> 'r id_outcome" where
  "read_as from_value r = (fst r, and_then (snd r) (\<lambda>v. ok_or (from_value v) BadReplyShape))"

definition read_string ::
  "'v serde \<Rightarrow> string \<Rightarrow> 'v id_outcome \<Rightarrow> string id_outcome" where
  "read_string js name r = (fst r, and_then (snd r) (\<lambda>v. ok_or (get_str js v name) (MissingInReply name)))"

definition status :: "('k, 'v, identity_status id_outcome) id_op" where
  "status il c post k aux =
     read_as (from_value_status il) (authed il c post k aux ''status'' '''' (json_obj []))"

definition email_start :: "('k, 'v, string \<Rightarrow> unit id_outcome) id_op" where
  "email_start il c post k aux email =
     discard (authed il c post k aux ''email_start'' email (json_obj [(''email'', JStr email)]))"

definition email_confirm :: "('k, 'v, string \<Rightarrow> string \<Rightarrow> verify_outcome id_outcome) id_op" where
  "email_confirm il c post k aux email code =
     read_as (from_value_verify il) (authed il c post k aux ''email_confirm'' email
       (json_obj [(''email'', JStr email), (''code'', JStr code)]))"

definition phone_start :: "('k, 'v, string \<Rightarrow> phone_quote id_outcome) id_op" where
  "phone_start il c post k aux phone =
     read_as (from_value_quote il)
       (authed il c post k aux ''phone_start'' phone (json_obj [(''phone'', JStr phone)]))"

definition phone_pay :: "('k, 'v, string \<Rightarrow> unit id_outcome) id_op" where
  "phone_pay il c post k aux order_id =
     discard (authed il c post k aux ''phone_pay'' order_id (json_obj [(''order_id'', JStr order_id)]))"

definition phone_status :: "('k, 'v, string \<Rightarrow> phone_stage id_outcome) id_op" where
  "phone_status il c post k aux order_id =
     read_as (from_value_stage il)
       (authed il c post k aux ''phone_status'' order_id (json_obj [(''order_id'', JStr order_id)]))"

definition phone_sms :: "('k, 'v, string \<Rightarrow> unit id_outcome) id_op" where
  "phone_sms il c post k aux order_id =
     discard (authed il c post k aux ''phone_sms'' order_id (json_obj [(''order_id'', JStr order_id)]))"

definition phone_confirm :: "('k, 'v, string \<Rightarrow> string \<Rightarrow> verify_outcome id_outcome) id_op" where
  "phone_confirm il c post k aux order_id code =
     read_as (from_value_verify il) (authed il c post k aux ''phone_confirm'' order_id
       (json_obj [(''order_id'', JStr order_id), (''code'', JStr code)]))"

definition show_bool :: "bool \<Rightarrow> string" where
  "show_bool b = (if b then ''true'' else ''false'')"

definition discoverability_value :: "bool \<Rightarrow> bool \<Rightarrow> string" where
  "discoverability_value contact hdl = show_bool contact @ '':'' @ show_bool hdl"

definition set_discoverability :: "('k, 'v, bool \<Rightarrow> bool \<Rightarrow> unit id_outcome) id_op" where
  "set_discoverability il c post k aux contact hdl =
     discard (authed il c post k aux ''discoverability'' (discoverability_value contact hdl)
       (json_obj [(''by_contact_hash'', JBool contact), (''by_handle'', JBool hdl)]))"

definition claim_handle :: "('k, 'v, string \<Rightarrow> string id_outcome) id_op" where
  "claim_handle il c post k aux hdl =
     read_string (il_serde il) ''handle''
       (authed il c post k aux ''handle'' hdl (json_obj [(''handle'', JStr hdl)]))"

text \<open>\<open>WalletKey::short_id\<close>.\<close>

definition short_id :: "'k crypto \<Rightarrow> 'k \<Rightarrow> string" where
  "short_id cr k = short_wallet_id cr (public_key cr k)"

definition claim_short_id :: "('k, 'v, string id_outcome) id_op" where
  "claim_short_id il c post k aux =
     (let i = short_id (il_crypto il) k in
      read_string (il_serde il) ''id'' (authed il c post k aux ''id'' i (json_obj [(''id'', JStr i)])))"

definition contact_entry :: "string \<times> string \<Rightarrow> jval" where
  "contact_entry e = json_obj [(''channel'', JStr (fst e)), (''value'', JStr (snd e))]"

definition contacts_discover :: "('k, 'v, (string \<times> string) list \<Rightarrow> discover_outcome id_outcome) id_op" where
  "contacts_discover il c post k aux contacts =
     read_as (from_value_discover il) (authed il c post k aux ''contacts_discover'' ''''
       (json_obj [(''contacts'', JArr (map contact_entry contacts))]))"

definition contacts_save :: "('k, 'v, string \<Rightarrow> string \<Rightarrow> unit id_outcome) id_op" where
  "contacts_save il c post k aux channel value =
     discard (authed il c post k aux ''contacts_save'' value
       (json_obj [(''channel'', JStr channel), (''value'', JStr value)]))"

definition contacts_list :: "('k, 'v, contact list id_outcome) id_op" where
  "contacts_list il c post k aux =
     read_as (from_value_contacts il) (authed il c post k aux ''contacts_list'' '''' (json_obj []))"

definition contact_address :: "('k, 'v, string \<Rightarrow> string id_outcome) id_op" where
  "contact_address il c post k aux identity_id =
     read_string (il_serde il) ''address'' (authed il c post k aux ''contact_address'' identity_id
       (json_obj [(''identity_id'', JStr identity_id)]))"

lemmas operation_defs = status_def email_start_def email_confirm_def phone_start_def phone_pay_def
  phone_status_def phone_sms_def phone_confirm_def set_discoverability_def claim_handle_def
  claim_short_id_def contacts_discover_def contacts_save_def contacts_list_def contact_address_def
  discard_def read_as_def read_string_def

end
