(* ===== verification/Identity_Claims.thy ===== *)
theory Identity_Claims
  imports Identity_Client
begin

text \<open>
  What the identity client guarantees: each of its fifteen operations is one authenticated exchange
  with its own route, carrying the operation's fields and a signature over the server's challenge, and
  a signature made for one operation is good for no other.
\<close>

section \<open>The operations as data\<close>

datatype id_call =
    CStatus | CEmailStart string | CEmailConfirm string string
  | CPhoneStart string | CPhonePay string | CPhoneStatus string | CPhoneSms string
  | CPhoneConfirm string string | CDiscoverability bool bool | CClaimHandle string | CClaimShortId
  | CDiscover "(string \<times> string) list" | CSave string string | CList | CAddress string

text \<open>The action that is signed, its primary value, and the fields of the body.\<close>

fun call_action :: "id_call \<Rightarrow> string" where
  "call_action CStatus = ''status''"
| "call_action (CEmailStart e) = ''email_start''"
| "call_action (CEmailConfirm e c) = ''email_confirm''"
| "call_action (CPhoneStart p) = ''phone_start''"
| "call_action (CPhonePay i) = ''phone_pay''"
| "call_action (CPhoneStatus i) = ''phone_status''"
| "call_action (CPhoneSms i) = ''phone_sms''"
| "call_action (CPhoneConfirm i c) = ''phone_confirm''"
| "call_action (CDiscoverability a b) = ''discoverability''"
| "call_action (CClaimHandle h) = ''handle''"
| "call_action CClaimShortId = ''id''"
| "call_action (CDiscover cs) = ''contacts_discover''"
| "call_action (CSave c v) = ''contacts_save''"
| "call_action CList = ''contacts_list''"
| "call_action (CAddress i) = ''contact_address''"

fun call_value :: "string \<Rightarrow> id_call \<Rightarrow> string" where
  "call_value own (CEmailStart e) = e"
| "call_value own (CEmailConfirm e c) = e"
| "call_value own (CPhoneStart p) = p"
| "call_value own (CPhonePay i) = i"
| "call_value own (CPhoneStatus i) = i"
| "call_value own (CPhoneSms i) = i"
| "call_value own (CPhoneConfirm i c) = i"
| "call_value own (CDiscoverability a b) = discoverability_value a b"
| "call_value own (CClaimHandle h) = h"
| "call_value own CClaimShortId = own"
| "call_value own (CSave c v) = v"
| "call_value own (CAddress i) = i"
| "call_value own CStatus = ''''"
| "call_value own (CDiscover cs) = ''''"
| "call_value own CList = ''''"

fun call_fields :: "string \<Rightarrow> id_call \<Rightarrow> (string \<times> jval) list" where
  "call_fields own CStatus = []"
| "call_fields own (CEmailStart e) = [(''email'', JStr e)]"
| "call_fields own (CEmailConfirm e c) = [(''email'', JStr e), (''code'', JStr c)]"
| "call_fields own (CPhoneStart p) = [(''phone'', JStr p)]"
| "call_fields own (CPhonePay i) = [(''order_id'', JStr i)]"
| "call_fields own (CPhoneStatus i) = [(''order_id'', JStr i)]"
| "call_fields own (CPhoneSms i) = [(''order_id'', JStr i)]"
| "call_fields own (CPhoneConfirm i c) = [(''order_id'', JStr i), (''code'', JStr c)]"
| "call_fields own (CDiscoverability a b) = [(''by_contact_hash'', JBool a), (''by_handle'', JBool b)]"
| "call_fields own (CClaimHandle h) = [(''handle'', JStr h)]"
| "call_fields own CClaimShortId = [(''id'', JStr own)]"
| "call_fields own (CDiscover cs) = [(''contacts'', JArr (map contact_entry cs))]"
| "call_fields own (CSave c v) = [(''channel'', JStr c), (''value'', JStr v)]"
| "call_fields own CList = []"
| "call_fields own (CAddress i) = [(''identity_id'', JStr i)]"

definition failure :: "'e + 'a \<Rightarrow> 'e option" where
  "failure r = (case r of Inl e \<Rightarrow> Some e | Inr _ \<Rightarrow> None)"

text \<open>The call, made through the client's operation: the requests and the error, if any.\<close>

fun perform :: "('k, 'v, id_call \<Rightarrow> id_request list \<times> id_error option) id_op" where
  "perform il c post k aux CStatus = apsnd failure (status il c post k aux)"
| "perform il c post k aux (CEmailStart e) = apsnd failure (email_start il c post k aux e)"
| "perform il c post k aux (CEmailConfirm e x) = apsnd failure (email_confirm il c post k aux e x)"
| "perform il c post k aux (CPhoneStart p) = apsnd failure (phone_start il c post k aux p)"
| "perform il c post k aux (CPhonePay i) = apsnd failure (phone_pay il c post k aux i)"
| "perform il c post k aux (CPhoneStatus i) = apsnd failure (phone_status il c post k aux i)"
| "perform il c post k aux (CPhoneSms i) = apsnd failure (phone_sms il c post k aux i)"
| "perform il c post k aux (CPhoneConfirm i x) = apsnd failure (phone_confirm il c post k aux i x)"
| "perform il c post k aux (CDiscoverability a b) = apsnd failure (set_discoverability il c post k aux a b)"
| "perform il c post k aux (CClaimHandle h) = apsnd failure (claim_handle il c post k aux h)"
| "perform il c post k aux CClaimShortId = apsnd failure (claim_short_id il c post k aux)"
| "perform il c post k aux (CDiscover cs) = apsnd failure (contacts_discover il c post k aux cs)"
| "perform il c post k aux (CSave ch v) = apsnd failure (contacts_save il c post k aux ch v)"
| "perform il c post k aux CList = apsnd failure (contacts_list il c post k aux)"
| "perform il c post k aux (CAddress i) = apsnd failure (contact_address il c post k aux i)"

section \<open>Routes\<close>

lemma call_action_routed: "action_path (call_action call) \<noteq> None"
  by (cases call) (simp_all add: action_path_def action_table_def)

lemma action_path_inject:
  assumes "action_path a = Some p" "action_path b = Some p"
  shows "a = b"
proof -
  have "distinct (map snd action_table)" by (simp add: action_table_def)
  moreover from assms have "(a, p) \<in> set action_table" "(b, p) \<in> set action_table"
    by (auto simp: action_path_def dest: map_of_SomeD)
  ultimately show ?thesis by (metis eq_snd_iff distinct_map inj_onD prod.inject)
qed

lemma action_no_comma: "CHR '','' \<notin> set (call_action call)"
  by (cases call) simp_all

section \<open>The exchange\<close>

text \<open>The proof fields are never among an operation's own fields.\<close>

definition proof_fields :: "string list" where
  "proof_fields = [''public_key'', ''challenge'', ''signature'']"

lemma call_fields_plain:
  "list_all (\<lambda>(n, v). n \<notin> set proof_fields \<and> map_of (rev (call_fields own call)) n = Some v) (call_fields own call)"
  by (cases call) (simp_all add: proof_fields_def)

text \<open>The parts of an authenticated request.\<close>

definition body_field :: "id_request \<Rightarrow> string \<Rightarrow> jval option" where
  "body_field q name = (case iq_body q of JObj obj \<Rightarrow> bt_get obj name | _ \<Rightarrow> None)"

lemma perform_authed:
  "fst (perform il c post k aux call) =
     fst (authed il c post k aux (call_action call) (call_value (short_id (il_crypto il) k) call)
       (json_obj (call_fields (short_id (il_crypto il) k) call)))"
  by (cases call) (simp_all add: operation_defs Let_def)

lemma perform_no_panic:
  "snd (perform il c post k aux call) \<noteq> Some UnknownActionPanic
   \<and> snd (perform il c post k aux call) \<noteq> Some BodyNotObject"
proof -
  have a: "snd (authed il c post k aux (call_action call) v (json_obj fs)) \<noteq> Inl e"
    if "e \<in> {UnknownActionPanic, BodyNotObject}" for e v fs
    using that call_action_routed [of call]
    by (auto simp: authed_def id_reply_def ok_or_def and_then_def json_obj_def Let_def
        split: sum.splits option.splits http_result.splits)
  show ?thesis
    using a [of UnknownActionPanic] a [of BodyNotObject]
    by (cases call) (auto simp: operation_defs failure_def and_then_def ok_or_def Let_def
        split: sum.splits option.splits)
qed

lemma authed_second:
  assumes "fst (authed il c post k aux action value (json_obj fs)) = [q1, q2]"
  shows "\<exists>v challenge path. post q1 = Replied (Some v) \<and> get_str (il_serde il) v ''challenge'' = Some challenge
    \<and> action_path action = Some path
    \<and> iq_url q2 = ic_base_url c @ ''/'' @ path \<and> iq_authorization q2 = iq_authorization q1
    \<and> body_field q2 ''public_key'' = Some (JStr (xonly_to_string il (public_key (il_crypto il) k)))
    \<and> body_field q2 ''challenge'' = Some (JStr challenge)
    \<and> body_field q2 ''signature'' = Some (JStr (signature_to_string (il_crypto il)
         (sign_identity (il_crypto il) k challenge action value aux)))
    \<and> (\<forall>n. n \<notin> set proof_fields \<longrightarrow> body_field q2 n = map_of (rev fs) n)"
  using assms
  by (auto simp: authed_def id_reply_def ok_or_def and_then_def json_obj_def id_query_def Let_def
      with_proof_def body_field_def bt_get_insert bt_get_collect proof_fields_def
      split: sum.splits option.splits http_result.splits)

lemma authed_first:
  "fst (authed il c post k aux action value body) = q # qs \<Longrightarrow>
   iq_url q = ic_base_url c @ ''/challenge'' \<and> length qs \<le> 1
   \<and> iq_body q = JObj [(''public_key'', JStr (xonly_to_string il (public_key (il_crypto il) k)))]"
  by (auto simp: authed_def id_query_def Let_def json_obj_def bt_collect_def
      split: sum.splits option.splits jval.splits)

section \<open>The guarantees\<close>

text \<open>A small instance: a reply is its challenge text.\<close>

definition demo_serde :: "string serde" where
  "demo_serde = \<lparr>json_from_str = Some, json_get = \<lambda>v n. if n = ''challenge'' then Some v else None,
     json_as_str = Some, json_as_u64 = \<lambda>_. None, json_as_array = \<lambda>_. None, json_is_null = \<lambda>_. False\<rparr>"

definition demo_identity :: "(unit, string) identity_lib" where
  "demo_identity = \<lparr>il_crypto = demo_id_crypto, xonly_to_string = \<lambda>_. ''k'', il_serde = demo_serde,
     from_value_status = \<lambda>_. None, from_value_verify = \<lambda>_. None, from_value_quote = \<lambda>_. None,
     from_value_stage = \<lambda>_. None, from_value_discover = \<lambda>_. None, from_value_contacts = \<lambda>_. Some []\<rparr>"

definition demo_client :: identity_client where
  "demo_client = identity_client_new ''https://x.io/api/identity//'' (Some ''tok'')"

text \<open>C25.  Every identity operation is one authenticated exchange.  It first posts only the public
  key to the challenge route; it makes at most one more request, and only after a reply with a
  challenge: to the operation's own route, with the same gateway header, carrying the key, that
  challenge, a signature over the challenge, the operation's action and its primary value, and every
  field of the operation unchanged.  It never reaches the \<open>unreachable!\<close> of the route table nor the
  object check.\<close>

theorem identity_operation_exchange:
  assumes "perform il c post k aux call = (qs, err)"
  shows "err \<noteq> Some UnknownActionPanic \<and> err \<noteq> Some BodyNotObject \<and>
    (\<exists>q1. iq_url q1 = ic_base_url c @ ''/challenge''
      \<and> iq_body q1 = JObj [(''public_key'', JStr (xonly_to_string il (public_key (il_crypto il) k)))]
      \<and> (qs = [q1] \<or> (\<exists>q2 v challenge path. qs = [q1, q2]
           \<and> post q1 = Replied (Some v) \<and> get_str (il_serde il) v ''challenge'' = Some challenge
           \<and> action_path (call_action call) = Some path
           \<and> iq_url q2 = ic_base_url c @ ''/'' @ path \<and> iq_authorization q2 = iq_authorization q1
           \<and> body_field q2 ''public_key'' = Some (JStr (xonly_to_string il (public_key (il_crypto il) k)))
           \<and> body_field q2 ''challenge'' = Some (JStr challenge)
           \<and> body_field q2 ''signature'' = Some (JStr (signature_to_string (il_crypto il)
                (sign_identity (il_crypto il) k challenge (call_action call)
                  (call_value (short_id (il_crypto il) k) call) aux)))
           \<and> list_all (\<lambda>(n, v). body_field q2 n = Some v) (call_fields (short_id (il_crypto il) k) call))))"
proof -
  let ?own = "short_id (il_crypto il) k"
  have qs: "fst (authed il c post k aux (call_action call) (call_value ?own call)
      (json_obj (call_fields ?own call))) = qs"
    using perform_authed [of il c post k aux call] assms by simp
  then obtain q1 rest where split: "qs = q1 # rest"
    by (auto simp: authed_def Let_def split: sum.splits jval.splits option.splits)
  note first = authed_first [OF qs [unfolded split]]
  have fields: "list_all (\<lambda>(n, v). body_field q2 n = Some v) (call_fields ?own call)"
    if "\<forall>n. n \<notin> set proof_fields \<longrightarrow> body_field q2 n = map_of (rev (call_fields ?own call)) n" for q2
    using that call_fields_plain [of ?own call] by (auto simp: list_all_iff)
  have "rest = [] \<or> (\<exists>q2. rest = [q2])" using first by (cases rest) auto
  with qs split fields authed_second [of il c post k aux "call_action call" "call_value ?own call"
      "call_fields ?own call" q1] first perform_no_panic [of il c post k aux call] assms
  show ?thesis by fastforce
qed

theorem identity_operation_exchange_witness:
  "\<exists>q1 q2. perform demo_identity demo_client (\<lambda>_. Replied (Some ''n1'')) () [] (CPhonePay ''o7'') = ([q1, q2], None)
     \<and> iq_url q2 = ''https://x.io/api/identity/phone/pay'' \<and> body_field q2 ''order_id'' = Some (JStr ''o7'')"
proof -
  obtain q1 q2 where p: "perform demo_identity demo_client (\<lambda>_. Replied (Some ''n1'')) () [] (CPhonePay ''o7'') = ([q1, q2], None)"
    by (simp add: operation_defs authed_def Let_def demo_identity_def demo_serde_def id_reply_def get_str_def
        ok_or_def and_then_def json_obj_def action_path_def action_table_def failure_def)
  have "ic_base_url demo_client = ''https://x.io/api/identity''" by code_simp
  with identity_operation_exchange [OF p] p show ?thesis
    by (simp add: action_path_def action_table_def) blast
qed

text \<open>C34.  An identity signature is good for one operation only.  If the messages signed for two
  operations are the same, for challenges without a comma and a hash that does not collide on the two
  texts, then the challenges, the actions, the routes and the primary values are the same; and the
  text is never hashed under the tag of a login or of the key derivation.\<close>

theorem identity_signature_binds_operation:
  assumes "identity_auth_message cr ch (call_action a) (call_value own a)
      = identity_auth_message cr ch' (call_action b) (call_value own' b)"
    and "CHR '','' \<notin> set ch" "CHR '','' \<notin> set ch'"
    and "inj_on (sha256 cr) ((\<lambda>t. sha256 cr (as_bytes identity_auth_tag) @ sha256 cr (as_bytes identity_auth_tag) @ as_bytes t)
      ` {identity_auth_text ch (call_action a) (call_value own a),
         identity_auth_text ch' (call_action b) (call_value own' b)})"
  shows "ch = ch' \<and> call_action a = call_action b \<and> action_path (call_action a) = action_path (call_action b)
    \<and> call_value own a = call_value own' b
    \<and> identity_auth_tag \<notin> {wallet_sign_tag, wallet_key_tag, wallet_id_tag}"
proof -
  have flat: "identity_auth_text c x v = ''liquidconnect identity, nonce: '' @ c @ CHR '','' #
      '' action: '' @ x @ CHR '','' # '' value: '' @ v" for c x v
    by (simp add: identity_auth_text_def)
  have "identity_auth_text ch (call_action a) (call_value own a)
      = identity_auth_text ch' (call_action b) (call_value own' b)"
    using inj_onD [OF assms(4) assms(1) [unfolded identity_auth_message_def tagged_hash_def]] by simp
  then have "ch = ch' \<and> call_action a = call_action b \<and> call_value own a = call_value own' b"
    unfolding flat same_append_eq sep_split [OF assms(2,3)] sep_split [OF action_no_comma action_no_comma]
    by blast
  then show ?thesis
    by (simp add: identity_auth_tag_def wallet_sign_tag_def wallet_key_tag_def wallet_id_tag_def)
qed

definition long_crypto :: "unit crypto" where
  "long_crypto = demo_id_crypto\<lparr>sha256 := \<lambda>x. x\<rparr>"

theorem identity_signature_binds_operation_witness:
  "identity_auth_message long_crypto ''c1'' ''phone_pay'' ''42'' \<noteq> identity_auth_message long_crypto ''c1'' ''phone_sms'' ''42''"
  using identity_signature_binds_operation [of long_crypto "''c1''" "CPhonePay ''42''" "[]" "''c1''" "CPhoneSms ''42''" "[]"]
  by (auto simp: long_crypto_def)

end
