(* ===== verification/Payjoin.thy ===== *)
theory Payjoin
  imports Approval Typed_Json "HOL-Library.Log_Nat"
begin

text \<open>
  The payjoin client of \<open>lc-wallet-core/src/payjoin.rs\<close>: the three calls with the checks on their
  replies, and the service-fee estimate.  The HTTP client, JSON and addresses are parameters.  The
  estimate is floating point in the source: \<open>f64\<close> is IEEE binary64 as Rust has it, a finite number
  being \<open>m * 2^e\<close>, with rounding to the nearest even significand and saturating conversion to \<open>u64\<close>.
\<close>

section \<open>Binary64\<close>

datatype f64 = NaN | Infinite bool | Finite int int  \<comment> \<open>sign; significand and exponent\<close>

definition pow2 :: "int \<Rightarrow> int" where
  "pow2 n = 2 ^ nat n"

text \<open>Nearest, ties to the even significand, of a significand that is cut by \<open>s\<close> bits.\<close>

definition round_even :: "int \<Rightarrow> int \<Rightarrow> int" where
  "round_even m s =
     (let q = m div pow2 s; r = m mod pow2 s; half = pow2 (s - 1)
      in if half < r \<or> half = r \<and> odd q then q + 1 else q)"

text \<open>53 significand bits, least exponent -1074, overflow from \<open>2^1024\<close> on.\<close>

definition finite_or_overflow :: "bool \<Rightarrow> int \<Rightarrow> int \<Rightarrow> f64" where
  "finite_or_overflow neg m e =
     (if m \<noteq> 0 \<and> 1024 < bitlen m + e then Infinite neg else Finite (if neg then - m else m) e)"

definition round_f64 :: "int \<Rightarrow> int \<Rightarrow> f64" where
  "round_f64 m e =
     (let s = max (bitlen \<bar>m\<bar> - 53) (- 1074 - e)
      in if s \<le> 0 then finite_or_overflow (m < 0) \<bar>m\<bar> e
         else finite_or_overflow (m < 0) (round_even \<bar>m\<bar> s) (e + s))"

definition u64_as_f64 :: "u64 \<Rightarrow> f64" where
  "u64_as_f64 w = round_f64 (uint w) 0"

fun mul_f64 :: "f64 \<Rightarrow> f64 \<Rightarrow> f64" where
  "mul_f64 NaN y = NaN"
| "mul_f64 x NaN = NaN"
| "mul_f64 (Infinite a) (Infinite b) = Infinite (a \<noteq> b)"
| "mul_f64 (Infinite a) (Finite m e) = (if m = 0 then NaN else Infinite (a \<noteq> (m < 0)))"
| "mul_f64 (Finite m e) (Infinite b) = (if m = 0 then NaN else Infinite ((m < 0) \<noteq> b))"
| "mul_f64 (Finite m e) (Finite m' e') = round_f64 (m * m') (e + e')"

definition trunc_dyadic :: "int \<Rightarrow> int \<Rightarrow> int" where
  "trunc_dyadic m e = (if 0 \<le> e then m * pow2 e else m div pow2 (- e))"

fun f64_as_u64 :: "f64 \<Rightarrow> u64" where
  "f64_as_u64 NaN = 0"
| "f64_as_u64 (Infinite neg) = (if neg then 0 else - 1)"
| "f64_as_u64 (Finite m e) =
     (if m \<le> 0 then 0 else if 2 ^ 64 \<le> trunc_dyadic m e then - 1 else word_of_int (trunc_dyadic m e))"

text \<open>The sum wraps in a release build.\<close>

definition estimate_service_fee :: "u64 \<Rightarrow> f64 \<Rightarrow> u64 \<Rightarrow> u64" where
  "estimate_service_fee network_fee_sats price fixed_fee =
     f64_as_u64 (mul_f64 (u64_as_f64 network_fee_sats) price) + fixed_fee"

section \<open>The calls\<close>

definition BASE_URL_PROD :: string where "BASE_URL_PROD = ''https://api.sideswap.io''"
definition BASE_URL_TESTNET :: string where "BASE_URL_TESTNET = ''https://api-testnet.sideswap.io''"

record utxo =
  utxo_txid :: bytes
  utxo_vout :: u32
  utxo_script_pub_key :: script
  utxo_asset_id :: asset_id
  utxo_value :: u64
  utxo_asset_bf :: bytes
  utxo_value_bf :: bytes
  utxo_asset_commitment :: bytes
  utxo_value_commitment :: bytes

record start_request =
  sq_asset_id :: asset_id
  sq_user_agent :: string
  sq_api_key :: "string option"

record 'a start_response =
  st_order_id :: string
  st_expires_at :: u64
  st_price :: f64
  st_fixed_fee :: u64
  st_fee_address :: 'a
  st_change_address :: 'a
  st_utxos :: "utxo list"

record pj_sign_request =
  pj_order_id :: string
  pj_pset :: string

datatype pj_request = ReqAcceptedAssets | ReqStart start_request | ReqSign pj_sign_request
datatype 'a pj_response = RespAcceptedAssets "asset_id list" | RespStart "'a start_response" | RespSign string

datatype pj_error =
    PjRefused nat string | PjUnreachable | PjBadJson | PjUnexpected
  | EmptyAssetList | FeeAddressNotBlinded | ChangeAddressNotBlinded | NoServerInputs

text \<open>The libraries: the HTTP client with the reply already read as a \<open>Response\<close>, the reader of an
  error body, and whether an address is blinded.\<close>

record 'a payjoin_lib =
  pj_post :: "string \<Rightarrow> pj_request \<Rightarrow> 'a pj_response http_result"
  server_error :: "string \<Rightarrow> string option"
  is_blinded :: "'a \<Rightarrow> bool"

definition pj_call :: "'a payjoin_lib \<Rightarrow> string \<Rightarrow> pj_request \<Rightarrow> pj_error + 'a pj_response" where
  "pj_call pl base_url request = (case pj_post pl (base_url @ ''/payjoin'') request of
     Replied (Some resp) \<Rightarrow> Inr resp
   | Replied None \<Rightarrow> Inl PjBadJson
   | HttpStatus code body \<Rightarrow>
       Inl (PjRefused code (case server_error pl body of Some e \<Rightarrow> e | None \<Rightarrow> ''unreadable error body''))
   | Unreachable \<Rightarrow> Inl PjUnreachable)"

definition accepted_assets :: "'a payjoin_lib \<Rightarrow> string \<Rightarrow> pj_error + asset_id list" where
  "accepted_assets pl base_url =
     and_then (pj_call pl base_url ReqAcceptedAssets) (\<lambda>resp. case resp of
       RespAcceptedAssets assets \<Rightarrow> ensure (assets \<noteq> []) EmptyAssetList (Inr assets)
     | _ \<Rightarrow> Inl PjUnexpected)"

definition pj_start ::
  "'a payjoin_lib \<Rightarrow> string \<Rightarrow> asset_id \<Rightarrow> string \<Rightarrow> string option \<Rightarrow> pj_error + 'a start_response" where
  "pj_start pl base_url asset user_agent api_key =
     and_then (pj_call pl base_url
         (ReqStart \<lparr>sq_asset_id = asset, sq_user_agent = user_agent, sq_api_key = api_key\<rparr>)) (\<lambda>resp. case resp of
       RespStart st \<Rightarrow>
         ensure (is_blinded pl (st_fee_address st)) FeeAddressNotBlinded
         (ensure (is_blinded pl (st_change_address st)) ChangeAddressNotBlinded
         (ensure (st_utxos st \<noteq> []) NoServerInputs
         (Inr st)))
     | _ \<Rightarrow> Inl PjUnexpected)"

definition pj_sign :: "'a payjoin_lib \<Rightarrow> string \<Rightarrow> string \<Rightarrow> string \<Rightarrow> pj_error + string" where
  "pj_sign pl base_url order_id pset_b64 =
     and_then (pj_call pl base_url (ReqSign \<lparr>pj_order_id = order_id, pj_pset = pset_b64\<rparr>)) (\<lambda>resp. case resp of
       RespSign pset \<Rightarrow> Inr pset
     | _ \<Rightarrow> Inl PjUnexpected)"

section \<open>What the estimate computes\<close>

lemma round_small:
  assumes "0 \<le> m" "m < 2 ^ 53" "- 1074 \<le> e" "e \<le> 900"
  shows "round_f64 m e = Finite m e"
proof -
  have "bitlen m \<le> 53" using assms(2) by (simp add: bitlen_le_iff_power)
  with assms show ?thesis by (simp add: round_f64_def finite_or_overflow_def)
qed

lemma exact_product:
  assumes "uint fee * m < 2 ^ 53" "0 < m" "k \<le> 1074"
  shows "f64_as_u64 (mul_f64 (u64_as_f64 fee) (Finite m (- int k))) = word_of_int (uint fee * m div 2 ^ k)"
proof -
  have prod: "0 \<le> uint fee * m" using assms(2) by simp
  have "uint fee * 1 \<le> uint fee * m" using assms(2) by (intro mult_left_mono) auto
  then have "uint fee < 2 ^ 53" using assms(1) by simp
  then have eq: "mul_f64 (u64_as_f64 fee) (Finite m (- int k)) = Finite (uint fee * m) (- int k)"
    using assms prod by (simp add: u64_as_f64_def round_small)
  have "uint fee * m div 2 ^ k \<le> uint fee * m div 1"
    using prod by (intro zdiv_mono2) simp_all
  moreover have "trunc_dyadic (uint fee * m) (- int k) = uint fee * m div 2 ^ k"
    by (simp add: trunc_dyadic_def pow2_def)
  ultimately show ?thesis
  proof (cases "uint fee * m = 0")
    case False
    with prod have "\<not> uint fee * m \<le> 0" by linarith
    with assms show ?thesis
      using \<open>uint fee * m div 2 ^ k \<le> uint fee * m div 1\<close> \<open>trunc_dyadic _ _ = _\<close> by (simp add: eq)
  qed (auto simp: eq)
qed

lemma ceiling_dyadic:
  "\<lceil>real_of_int x / 2 ^ k\<rceil> = x div 2 ^ k + (if 2 ^ k dvd x then 0 else 1)"
  using ceiling_divide_eq_div [of x "2 ^ k"] div_add1_eq
  by (auto simp: zdiv_zminus1_eq_if dvd_eq_mod_eq_0)

section \<open>The guarantees\<close>

text \<open>Nothing unchecked comes back from the payjoin service: an order is returned exactly when the
  service answered the start request with one whose fee and change addresses are both blinded and that
  contributes at least one input; an asset list only when it is not empty; a signed PSET only in reply
  to the sign request.  Every request goes to the one payjoin address under the base URL.\<close>

theorem payjoin_replies_checked:
  "(pj_start pl base asset agent api_key = Inr st \<longleftrightarrow>
      pj_post pl (base @ ''/payjoin'') (ReqStart \<lparr>sq_asset_id = asset, sq_user_agent = agent, sq_api_key = api_key\<rparr>)
        = Replied (Some (RespStart st))
      \<and> is_blinded pl (st_fee_address st) \<and> is_blinded pl (st_change_address st) \<and> st_utxos st \<noteq> [])
   \<and> (accepted_assets pl base = Inr assets \<longleftrightarrow>
      pj_post pl (base @ ''/payjoin'') ReqAcceptedAssets = Replied (Some (RespAcceptedAssets assets)) \<and> assets \<noteq> [])
   \<and> (pj_sign pl base order pset = Inr out \<longleftrightarrow>
      pj_post pl (base @ ''/payjoin'') (ReqSign \<lparr>pj_order_id = order, pj_pset = pset\<rparr>)
        = Replied (Some (RespSign out)))"
  by (auto simp: pj_start_def accepted_assets_def pj_sign_def pj_call_def result_simps
      split: http_result.splits option.splits pj_response.splits)

text \<open>C36.  The service-fee estimate is the exact product rounded down.  For a price \<open>m / 2^k\<close> whose
  product with the network fee fits the 53 significand bits, no rounding happens before the truncation,
  and the estimate is one satoshi below the documented \<open>ceil(network_fee * price) + fixed_fee\<close> whenever
  the product is not a whole number.\<close>

theorem estimate_is_floor_not_ceiling:
  assumes "uint fee * m < 2 ^ 53" "0 < m" "k \<le> 1074"
    and "uint fee * m div 2 ^ k + uint fixed < 2 ^ 64"
  shows "uint (estimate_service_fee fee (Finite m (- int k)) fixed) = \<lfloor>real_of_int (uint fee * m) / 2 ^ k\<rfloor> + uint fixed
    \<and> uint (estimate_service_fee fee (Finite m (- int k)) fixed) + (if 2 ^ k dvd uint fee * m then 0 else 1)
      = \<lceil>real_of_int (uint fee * m) / 2 ^ k\<rceil> + uint fixed"
proof -
  let ?q = "uint fee * m div 2 ^ k"
  have "0 \<le> ?q" using assms(2) by (simp add: pos_imp_zdiv_nonneg_iff)
  moreover have "?q < 2 ^ 64" using assms(4) uint_ge_0 [of fixed] by linarith
  ultimately have "uint (word_of_int ?q + fixed :: u64) = ?q + uint fixed"
    using assms(4) by (simp add: uint_word_ariths take_bit_eq_mod uint_word_of_int)
  then have "uint (estimate_service_fee fee (Finite m (- int k)) fixed) = ?q + uint fixed"
    by (simp add: estimate_service_fee_def exact_product [OF assms(1-3)])
  moreover have "\<lfloor>real_of_int (uint fee * m) / 2 ^ k\<rfloor> = ?q"
    using floor_divide_of_int_eq [of "uint fee * m" "2 ^ k"] by simp
  ultimately show ?thesis unfolding ceiling_dyadic by simp
qed

theorem estimate_is_floor_not_ceiling_witness:
  "uint (estimate_service_fee 10 (Finite 5 (- 2)) 100) = 112 \<and> \<lceil>real_of_int (10 * 5) / 4\<rceil> + 100 = (113 :: int)"
  using estimate_is_floor_not_ceiling [of "10 :: u64" 5 2 100] by simp

end
