(* ===== verification/Wire_Json.thy ===== *)
theory Wire_Json
  imports Wallet_Key "HOL-Library.Monad_Syntax"
begin

text \<open>
  The JSON form of the wire protocol, as the derive attributes of \<open>lc-wallet-core/src/wire.rs\<close> ask for
  it: externally tagged enums, structs as objects in field order, \<open>Option\<close> as \<open>null\<close> unless it is
  skipped, the defaulted fields, the catch-all error code, the transparent \<open>DurationMs\<close>, and the
  hand-written hex form of an \<open>InstallId\<close>.  A frame is a value of \<open>wjson\<close>; its text is made and read by
  \<open>serde_json\<close>, and the text of keys and signatures by the curve library, both parameters.
\<close>

datatype wjson =
    WNull | WBool bool | WInt int | WFloat string | WStr string
  | WArr "wjson list" | WObj "(string \<times> wjson) list"

section \<open>Fields of a struct\<close>

text \<open>A required field, an \<open>Option\<close> that may be absent from an object, or a \<open>serde(default)\<close> field.\<close>

datatype presence = Required | Nullable | Defaulted

text \<open>An object may have unknown fields, which are ignored, but no known field twice; an array lists
  the fields in order, and only defaulted ones may be missing at its end.\<close>

definition struct_of_map :: "(string \<times> presence) list \<Rightarrow> (string \<times> wjson) list \<Rightarrow> wjson option list option" where
  "struct_of_map decl kvs =
     (if distinct (filter (\<lambda>k. k \<in> set (map fst decl)) (map fst kvs))
         \<and> list_all (\<lambda>(n, p). p = Required \<longrightarrow> n \<in> set (map fst kvs)) decl
      then Some (map (\<lambda>(n, p). map_of kvs n) decl) else None)"

fun struct_of_seq :: "(string \<times> presence) list \<Rightarrow> wjson list \<Rightarrow> wjson option list option" where
  "struct_of_seq [] [] = Some []"
| "struct_of_seq [] (v # vs) = None"
| "struct_of_seq ((n, p) # ds) [] =
     (if p = Defaulted then map_option (Cons None) (struct_of_seq ds []) else None)"
| "struct_of_seq (d # ds) (v # vs) = map_option (Cons (Some v)) (struct_of_seq ds vs)"

definition struct_fields :: "(string \<times> presence) list \<Rightarrow> wjson \<Rightarrow> wjson option list option" where
  "struct_fields decl j = (case j of
     WObj kvs \<Rightarrow> struct_of_map decl kvs | WArr vs \<Rightarrow> struct_of_seq decl vs | _ \<Rightarrow> None)"

definition need :: "(wjson \<Rightarrow> 'a option) \<Rightarrow> wjson option \<Rightarrow> 'a option" where
  "need de f = Option.bind f de"

definition nullable :: "(wjson \<Rightarrow> 'a option) \<Rightarrow> wjson option \<Rightarrow> 'a option option" where
  "nullable de f = (case f of
     None \<Rightarrow> Some None | Some j \<Rightarrow> if j = WNull then Some None else map_option Some (de j))"

definition defaulted :: "(wjson \<Rightarrow> 'a list option) \<Rightarrow> wjson option \<Rightarrow> 'a list option" where
  "defaulted de f = (case f of None \<Rightarrow> Some [] | Some j \<Rightarrow> de j)"

text \<open>An externally tagged variant with content.\<close>

definition variant :: "wjson \<Rightarrow> (string \<times> wjson) option" where
  "variant j = (case j of WObj [(tag, v)] \<Rightarrow> Some (tag, v) | _ \<Rightarrow> None)"

definition tagged :: "string \<Rightarrow> wjson \<Rightarrow> wjson" where
  "tagged tag v = WObj [(tag, v)]"

section \<open>Leaves\<close>

definition de_str :: "wjson \<Rightarrow> string option" where
  "de_str j = (case j of WStr s \<Rightarrow> Some s | _ \<Rightarrow> None)"

definition de_bool :: "wjson \<Rightarrow> bool option" where
  "de_bool j = (case j of WBool b \<Rightarrow> Some b | _ \<Rightarrow> None)"

definition de_int_in :: "int \<Rightarrow> int \<Rightarrow> wjson \<Rightarrow> int option" where
  "de_int_in lo hi j = (case j of WInt i \<Rightarrow> if lo \<le> i \<and> i < hi then Some i else None | _ \<Rightarrow> None)"

definition de_i32 :: "wjson \<Rightarrow> req_id option" where
  "de_i32 j = de_int_in (- (2 ^ 31)) (2 ^ 31) j"

definition de_u64 :: "wjson \<Rightarrow> u64 option" where
  "de_u64 j = map_option word_of_int (de_int_in 0 (2 ^ 64) j)"

definition de_i64 :: "wjson \<Rightarrow> 64 word option" where
  "de_i64 j = map_option word_of_int (de_int_in (- (2 ^ 63)) (2 ^ 63) j)"

definition de_u8 :: "wjson \<Rightarrow> u8 option" where
  "de_u8 j = map_option word_of_int (de_int_in 0 (2 ^ 8) j)"

fun mapM :: "('a \<Rightarrow> 'b option) \<Rightarrow> 'a list \<Rightarrow> 'b list option" where
  "mapM f [] = Some []"
| "mapM f (x # xs) = do { y \<leftarrow> f x; ys \<leftarrow> mapM f xs; Some (y # ys) }"

definition de_vec :: "(wjson \<Rightarrow> 'a option) \<Rightarrow> wjson \<Rightarrow> 'a list option" where
  "de_vec de j = (case j of WArr vs \<Rightarrow> mapM de vs | _ \<Rightarrow> None)"

definition en_u64 :: "u64 \<Rightarrow> wjson" where "en_u64 w = WInt (uint w)"
definition en_i64 :: "64 word \<Rightarrow> wjson" where "en_i64 w = WInt (sint w)"
definition en_u8 :: "u8 \<Rightarrow> wjson" where "en_u8 w = WInt (uint w)"
definition en_opt :: "('a \<Rightarrow> wjson) \<Rightarrow> 'a option \<Rightarrow> wjson" where
  "en_opt en v = (case v of None \<Rightarrow> WNull | Some x \<Rightarrow> en x)"
definition en_vec :: "('a \<Rightarrow> wjson) \<Rightarrow> 'a list \<Rightarrow> wjson" where "en_vec en xs = WArr (map en xs)"

text \<open>\<open>skip_serializing_if = "Option::is_none"\<close>.\<close>

definition en_skip :: "string \<Rightarrow> string option \<Rightarrow> (string \<times> wjson) list" where
  "en_skip n v = (case v of None \<Rightarrow> [] | Some s \<Rightarrow> [(n, WStr s)])"

section \<open>The structs\<close>

definition session_decl :: "(string \<times> presence) list" where
  "session_decl =
     [(''session_id'', Required), (''domain'', Required), (''is_local'', Required)]"

definition en_session :: "session \<Rightarrow> wjson" where
  "en_session r = WObj (
      [(''session_id'', WStr (session_id r)), (''domain'', WStr (session_domain r)),
       (''is_local'', WBool (is_local r))])"

definition de_session :: "wjson \<Rightarrow> session option" where
  "de_session j = do {
     fs \<leftarrow> struct_fields session_decl j;
     x0 \<leftarrow> need de_str (fs ! 0);
     x1 \<leftarrow> need de_str (fs ! 1);
     x2 \<leftarrow> need de_bool (fs ! 2);
     Some \<lparr>session_id = x0, session_domain = x1, is_local = x2\<rparr> }"

definition login_request_decl :: "(string \<times> presence) list" where
  "login_request_decl =
     [(''request_id'', Required), (''domain'', Required), (''ttl'', Required),
      (''service_challenge'', Defaulted)]"

definition en_login_request :: "login_request \<Rightarrow> wjson" where
  "en_login_request r = WObj (
      [(''request_id'', WStr (lr_request_id r)), (''domain'', WStr (lr_domain r)),
       (''ttl'', en_u64 (lr_ttl r))]
      @ en_skip ''service_challenge'' (lr_service_challenge r))"

definition de_login_request :: "wjson \<Rightarrow> login_request option" where
  "de_login_request j = do {
     fs \<leftarrow> struct_fields login_request_decl j;
     x0 \<leftarrow> need de_str (fs ! 0);
     x1 \<leftarrow> need de_str (fs ! 1);
     x2 \<leftarrow> need de_u64 (fs ! 2);
     x3 \<leftarrow> nullable de_str (fs ! 3);
     Some \<lparr>lr_request_id = x0, lr_domain = x1, lr_ttl = x2, lr_service_challenge = x3\<rparr> }"

definition sign_request_decl :: "(string \<times> presence) list" where
  "sign_request_decl =
     [(''request_id'', Required), (''domain'', Required), (''pset'', Required), (''ttl'', Required)]"

definition en_sign_request :: "sign_request \<Rightarrow> wjson" where
  "en_sign_request r = WObj (
      [(''request_id'', WStr (sr_request_id r)), (''domain'', WStr (sr_domain r)),
       (''pset'', WStr (sr_pset r)), (''ttl'', en_u64 (sr_ttl r))])"

definition de_sign_request :: "wjson \<Rightarrow> sign_request option" where
  "de_sign_request j = do {
     fs \<leftarrow> struct_fields sign_request_decl j;
     x0 \<leftarrow> need de_str (fs ! 0);
     x1 \<leftarrow> need de_str (fs ! 1);
     x2 \<leftarrow> need de_str (fs ! 2);
     x3 \<leftarrow> need de_u64 (fs ! 3);
     Some \<lparr>sr_request_id = x0, sr_domain = x1, sr_pset = x2, sr_ttl = x3\<rparr> }"

definition sign_message_request_decl :: "(string \<times> presence) list" where
  "sign_message_request_decl =
     [(''request_id'', Required), (''domain'', Required), (''digest'', Required),
      (''description'', Nullable), (''ttl'', Required)]"

definition en_sign_message_request :: "sign_message_request \<Rightarrow> wjson" where
  "en_sign_message_request r = WObj (
      [(''request_id'', WStr (smr_request_id r)), (''domain'', WStr (smr_domain r)),
       (''digest'', WStr (smr_digest r)), (''description'', en_opt WStr (smr_description r)),
       (''ttl'', en_u64 (smr_ttl r))])"

definition de_sign_message_request :: "wjson \<Rightarrow> sign_message_request option" where
  "de_sign_message_request j = do {
     fs \<leftarrow> struct_fields sign_message_request_decl j;
     x0 \<leftarrow> need de_str (fs ! 0);
     x1 \<leftarrow> need de_str (fs ! 1);
     x2 \<leftarrow> need de_str (fs ! 2);
     x3 \<leftarrow> nullable de_str (fs ! 3);
     x4 \<leftarrow> need de_u64 (fs ! 4);
     Some \<lparr>smr_request_id = x0, smr_domain = x1, smr_digest = x2, smr_description = x3, smr_ttl = x4\<rparr> }"

definition receive_address_request_decl :: "(string \<times> presence) list" where
  "receive_address_request_decl =
     [(''request_id'', Required), (''domain'', Required), (''description'', Nullable),
      (''ttl'', Required)]"

definition en_receive_address_request :: "receive_address_request \<Rightarrow> wjson" where
  "en_receive_address_request r = WObj (
      [(''request_id'', WStr (rar_request_id r)), (''domain'', WStr (rar_domain r)),
       (''description'', en_opt WStr (rar_description r)), (''ttl'', en_u64 (rar_ttl r))])"

definition de_receive_address_request :: "wjson \<Rightarrow> receive_address_request option" where
  "de_receive_address_request j = do {
     fs \<leftarrow> struct_fields receive_address_request_decl j;
     x0 \<leftarrow> need de_str (fs ! 0);
     x1 \<leftarrow> need de_str (fs ! 1);
     x2 \<leftarrow> nullable de_str (fs ! 2);
     x3 \<leftarrow> need de_u64 (fs ! 3);
     Some \<lparr>rar_request_id = x0, rar_domain = x1, rar_description = x2, rar_ttl = x3\<rparr> }"

definition asset_balance_request_decl :: "(string \<times> presence) list" where
  "asset_balance_request_decl =
     [(''request_id'', Required), (''domain'', Required), (''description'', Nullable),
      (''asset_id'', Required), (''ttl'', Required)]"

definition en_asset_balance_request :: "asset_balance_request \<Rightarrow> wjson" where
  "en_asset_balance_request r = WObj (
      [(''request_id'', WStr (abr_request_id r)), (''domain'', WStr (abr_domain r)),
       (''description'', en_opt WStr (abr_description r)), (''asset_id'', WStr (abr_asset_id r)),
       (''ttl'', en_u64 (abr_ttl r))])"

definition de_asset_balance_request :: "wjson \<Rightarrow> asset_balance_request option" where
  "de_asset_balance_request j = do {
     fs \<leftarrow> struct_fields asset_balance_request_decl j;
     x0 \<leftarrow> need de_str (fs ! 0);
     x1 \<leftarrow> need de_str (fs ! 1);
     x2 \<leftarrow> nullable de_str (fs ! 2);
     x3 \<leftarrow> need de_str (fs ! 3);
     x4 \<leftarrow> need de_u64 (fs ! 4);
     Some \<lparr>abr_request_id = x0, abr_domain = x1, abr_description = x2, abr_asset_id = x3, abr_ttl = x4\<rparr> }"

definition holding_decl :: "(string \<times> presence) list" where
  "holding_decl =
     [(''label'', Required), (''kind'', Required), (''asset_id'', Nullable), (''unit'', Required),
      (''amount'', Required), (''precision'', Required)]"

definition en_holding :: "holding \<Rightarrow> wjson" where
  "en_holding r = WObj (
      [(''label'', WStr (h_label r)), (''kind'', WStr (h_kind r)),
       (''asset_id'', en_opt WStr (h_asset_id r)), (''unit'', WStr (h_unit r)),
       (''amount'', en_i64 (h_amount r)), (''precision'', en_u8 (h_precision r))])"

definition de_holding :: "wjson \<Rightarrow> holding option" where
  "de_holding j = do {
     fs \<leftarrow> struct_fields holding_decl j;
     x0 \<leftarrow> need de_str (fs ! 0);
     x1 \<leftarrow> need de_str (fs ! 1);
     x2 \<leftarrow> nullable de_str (fs ! 2);
     x3 \<leftarrow> need de_str (fs ! 3);
     x4 \<leftarrow> need de_i64 (fs ! 4);
     x5 \<leftarrow> need de_u8 (fs ! 5);
     Some \<lparr>h_label = x0, h_kind = x1, h_asset_id = x2, h_unit = x3, h_amount = x4, h_precision = x5\<rparr> }"

definition holdings_report_decl :: "(string \<times> presence) list" where
  "holdings_report_decl =
     [(''domain'', Required), (''holdings'', Required), (''as_of'', Required)]"

definition en_holdings_report :: "holdings_report \<Rightarrow> wjson" where
  "en_holdings_report r = WObj (
      [(''domain'', WStr (hr_domain r)), (''holdings'', en_vec en_holding (hr_holdings r)),
       (''as_of'', en_i64 (hr_as_of r))])"

definition de_holdings_report :: "wjson \<Rightarrow> holdings_report option" where
  "de_holdings_report j = do {
     fs \<leftarrow> struct_fields holdings_report_decl j;
     x0 \<leftarrow> need de_str (fs ! 0);
     x1 \<leftarrow> need (de_vec de_holding) (fs ! 1);
     x2 \<leftarrow> need de_i64 (fs ! 2);
     Some \<lparr>hr_domain = x0, hr_holdings = x1, hr_as_of = x2\<rparr> }"

definition pay_request_decl :: "(string \<times> presence) list" where
  "pay_request_decl =
     [(''request_id'', Required), (''domain'', Required), (''recipient'', Required),
      (''asset_id'', Required), (''amount'', Required), (''memo'', Nullable), (''ttl'', Required)]"

definition en_pay_request :: "pay_request \<Rightarrow> wjson" where
  "en_pay_request r = WObj (
      [(''request_id'', WStr (pr_request_id r)), (''domain'', WStr (pr_domain r)),
       (''recipient'', WStr (pr_recipient r)), (''asset_id'', WStr (pr_asset_id r)),
       (''amount'', en_u64 (pr_amount r)), (''memo'', en_opt WStr (pr_memo r)),
       (''ttl'', en_u64 (pr_ttl r))])"

definition de_pay_request :: "wjson \<Rightarrow> pay_request option" where
  "de_pay_request j = do {
     fs \<leftarrow> struct_fields pay_request_decl j;
     x0 \<leftarrow> need de_str (fs ! 0);
     x1 \<leftarrow> need de_str (fs ! 1);
     x2 \<leftarrow> need de_str (fs ! 2);
     x3 \<leftarrow> need de_str (fs ! 3);
     x4 \<leftarrow> need de_u64 (fs ! 4);
     x5 \<leftarrow> nullable de_str (fs ! 5);
     x6 \<leftarrow> need de_u64 (fs ! 6);
     Some \<lparr>pr_request_id = x0, pr_domain = x1, pr_recipient = x2, pr_asset_id = x3, pr_amount = x4,
       pr_memo = x5, pr_ttl = x6\<rparr> }"

definition fund_request_decl :: "(string \<times> presence) list" where
  "fund_request_decl =
     [(''request_id'', Required), (''domain'', Required), (''template'', Required),
      (''asset_id'', Required), (''amount'', Required), (''memo'', Nullable), (''ttl'', Required)]"

definition en_fund_request :: "fund_request \<Rightarrow> wjson" where
  "en_fund_request r = WObj (
      [(''request_id'', WStr (fr_request_id r)), (''domain'', WStr (fr_domain r)),
       (''template'', WStr (fr_template r)), (''asset_id'', WStr (fr_asset_id r)),
       (''amount'', en_u64 (fr_amount r)), (''memo'', en_opt WStr (fr_memo r)),
       (''ttl'', en_u64 (fr_ttl r))])"

definition de_fund_request :: "wjson \<Rightarrow> fund_request option" where
  "de_fund_request j = do {
     fs \<leftarrow> struct_fields fund_request_decl j;
     x0 \<leftarrow> need de_str (fs ! 0);
     x1 \<leftarrow> need de_str (fs ! 1);
     x2 \<leftarrow> need de_str (fs ! 2);
     x3 \<leftarrow> need de_str (fs ! 3);
     x4 \<leftarrow> need de_u64 (fs ! 4);
     x5 \<leftarrow> nullable de_str (fs ! 5);
     x6 \<leftarrow> need de_u64 (fs ! 6);
     Some \<lparr>fr_request_id = x0, fr_domain = x1, fr_template = x2, fr_asset_id = x3, fr_amount = x4,
       fr_memo = x5, fr_ttl = x6\<rparr> }"

definition login_resp_decl :: "(string \<times> presence) list" where
  "login_resp_decl =
     [(''sessions'', Required), (''sign_requests'', Required), (''sign_message_requests'', Defaulted),
      (''pay_requests'', Defaulted), (''receive_address_requests'', Defaulted),
      (''asset_balance_requests'', Defaulted), (''fund_requests'', Defaulted), (''holdings'', Defaulted)]"

definition login_resp_fields :: "login_resp \<Rightarrow> (string \<times> wjson) list" where
  "login_resp_fields r =
      [(''sessions'', en_vec en_session (sessions r)),
       (''sign_requests'', en_vec en_sign_request (resp_sign_requests r)),
       (''sign_message_requests'', en_vec en_sign_message_request (resp_sign_message_requests r)),
       (''pay_requests'', en_vec en_pay_request (resp_pay_requests r)),
       (''receive_address_requests'', en_vec en_receive_address_request (resp_receive_address_requests r)),
       (''asset_balance_requests'', en_vec en_asset_balance_request (resp_asset_balance_requests r)),
       (''fund_requests'', en_vec en_fund_request (resp_fund_requests r)),
       (''holdings'', en_vec en_holdings_report (resp_holdings r))]"

definition en_login_resp :: "login_resp \<Rightarrow> wjson" where
  "en_login_resp r = WObj (login_resp_fields r)"

definition de_login_resp :: "wjson \<Rightarrow> login_resp option" where
  "de_login_resp j = do {
     fs \<leftarrow> struct_fields login_resp_decl j;
     x0 \<leftarrow> need (de_vec de_session) (fs ! 0);
     x1 \<leftarrow> need (de_vec de_sign_request) (fs ! 1);
     x2 \<leftarrow> defaulted (de_vec de_sign_message_request) (fs ! 2);
     x3 \<leftarrow> defaulted (de_vec de_pay_request) (fs ! 3);
     x4 \<leftarrow> defaulted (de_vec de_receive_address_request) (fs ! 4);
     x5 \<leftarrow> defaulted (de_vec de_asset_balance_request) (fs ! 5);
     x6 \<leftarrow> defaulted (de_vec de_fund_request) (fs ! 6);
     x7 \<leftarrow> defaulted (de_vec de_holdings_report) (fs ! 7);
     Some \<lparr>sessions = x0, resp_sign_requests = x1, resp_sign_message_requests = x2, resp_pay_requests = x3,
       resp_receive_address_requests = x4, resp_asset_balance_requests = x5, resp_fund_requests = x6,
       resp_holdings = x7\<rparr> }"

section \<open>User actions\<close>

text \<open>The content of a struct variant with one or two string fields.\<close>

definition en1 :: "string \<Rightarrow> string \<Rightarrow> wjson" where "en1 n a = WObj [(n, WStr a)]"
definition en2 :: "string \<Rightarrow> string \<Rightarrow> string \<Rightarrow> string \<Rightarrow> wjson" where
  "en2 n a m b = WObj [(n, WStr a), (m, WStr b)]"

text \<open>The structs and variants of one required field.\<close>

definition de_only :: "string \<Rightarrow> (wjson \<Rightarrow> 'a option) \<Rightarrow> wjson \<Rightarrow> 'a option" where
  "de_only n de j = do { fs \<leftarrow> struct_fields [(n, Required)] j; need de (fs ! 0) }"

definition de1 :: "string \<Rightarrow> wjson \<Rightarrow> string option" where
  "de1 n j = de_only n de_str j"

definition de2 :: "string \<Rightarrow> string \<Rightarrow> wjson \<Rightarrow> (string \<times> string) option" where
  "de2 n m j = do {
     fs \<leftarrow> struct_fields [(n, Required), (m, Required)] j;
     a \<leftarrow> need de_str (fs ! 0); b \<leftarrow> need de_str (fs ! 1); Some (a, b) }"

definition de_accept_login :: "wjson \<Rightarrow> user_action option" where
  "de_accept_login j = do {
     fs \<leftarrow> struct_fields [(''request_id'', Required), (''descriptor'', Required),
        (''service_key'', Defaulted), (''service_signature'', Defaulted)] j;
     a \<leftarrow> need de_str (fs ! 0); b \<leftarrow> need de_str (fs ! 1);
     k \<leftarrow> nullable de_str (fs ! 2); s \<leftarrow> nullable de_str (fs ! 3);
     Some (AcceptLoginRequest a b k s) }"

definition de_accept_balance :: "wjson \<Rightarrow> user_action option" where
  "de_accept_balance j = do {
     fs \<leftarrow> struct_fields [(''request_id'', Required), (''amount'', Required)] j;
     a \<leftarrow> need de_str (fs ! 0); v \<leftarrow> need de_u64 (fs ! 1); Some (AcceptAssetBalanceRequest a v) }"

fun en_user_action :: "user_action \<Rightarrow> wjson" where
  "en_user_action (AcceptLoginRequest a b k s) = tagged ''AcceptLoginRequest''
     (WObj ([(''request_id'', WStr a), (''descriptor'', WStr b)]
        @ en_skip ''service_key'' k @ en_skip ''service_signature'' s))"
| "en_user_action (AcceptAssetBalanceRequest a v) = tagged ''AcceptAssetBalanceRequest''
     (WObj [(''request_id'', WStr a), (''amount'', en_u64 v)])"
| "en_user_action (StopSessionAction a) = tagged ''StopSession'' (en1 ''session_id'' a)"
| "en_user_action (LinkLoginRequest a) = tagged ''LinkLoginRequest'' (en1 ''request_id'' a)"
| "en_user_action (CancelLoginRequest a) = tagged ''CancelLoginRequest'' (en1 ''request_id'' a)"
| "en_user_action (CancelSignRequest a) = tagged ''CancelSignRequest'' (en1 ''request_id'' a)"
| "en_user_action (CancelReceiveAddressRequest a) = tagged ''CancelReceiveAddressRequest'' (en1 ''request_id'' a)"
| "en_user_action (CancelAssetBalanceRequest a) = tagged ''CancelAssetBalanceRequest'' (en1 ''request_id'' a)"
| "en_user_action (CancelSignMessageRequest a) = tagged ''CancelSignMessageRequest'' (en1 ''request_id'' a)"
| "en_user_action (CancelPayRequest a) = tagged ''CancelPayRequest'' (en1 ''request_id'' a)"
| "en_user_action (CancelFundRequest a) = tagged ''CancelFundRequest'' (en1 ''request_id'' a)"
| "en_user_action (AcceptSignRequest a b) = tagged ''AcceptSignRequest'' (en2 ''request_id'' a ''pset'' b)"
| "en_user_action (AcceptSignMessageRequest a b) = tagged ''AcceptSignMessageRequest'' (en2 ''request_id'' a ''signature'' b)"
| "en_user_action (AcceptReceiveAddressRequest a b) = tagged ''AcceptReceiveAddressRequest'' (en2 ''request_id'' a ''address'' b)"
| "en_user_action (AcceptPayRequest a b) = tagged ''AcceptPayRequest'' (en2 ''request_id'' a ''txid'' b)"
| "en_user_action (AcceptFundRequest a b) = tagged ''AcceptFundRequest'' (en2 ''request_id'' a ''pset'' b)"

definition de_user_action :: "wjson \<Rightarrow> user_action option" where
  "de_user_action j = do {
     (tag, v) \<leftarrow> variant j;
     if tag = ''AcceptLoginRequest'' then de_accept_login v
     else if tag = ''AcceptAssetBalanceRequest'' then de_accept_balance v
     else if tag = ''StopSession'' then map_option StopSessionAction (de1 ''session_id'' v)
     else if tag = ''LinkLoginRequest'' then map_option LinkLoginRequest (de1 ''request_id'' v)
     else if tag = ''CancelLoginRequest'' then map_option CancelLoginRequest (de1 ''request_id'' v)
     else if tag = ''CancelSignRequest'' then map_option CancelSignRequest (de1 ''request_id'' v)
     else if tag = ''CancelReceiveAddressRequest'' then map_option CancelReceiveAddressRequest (de1 ''request_id'' v)
     else if tag = ''CancelAssetBalanceRequest'' then map_option CancelAssetBalanceRequest (de1 ''request_id'' v)
     else if tag = ''CancelSignMessageRequest'' then map_option CancelSignMessageRequest (de1 ''request_id'' v)
     else if tag = ''CancelPayRequest'' then map_option CancelPayRequest (de1 ''request_id'' v)
     else if tag = ''CancelFundRequest'' then map_option CancelFundRequest (de1 ''request_id'' v)
     else if tag = ''AcceptSignRequest'' then map_option (\<lambda>(a, b). AcceptSignRequest a b) (de2 ''request_id'' ''pset'' v)
     else if tag = ''AcceptSignMessageRequest'' then map_option (\<lambda>(a, b). AcceptSignMessageRequest a b) (de2 ''request_id'' ''signature'' v)
     else if tag = ''AcceptReceiveAddressRequest'' then map_option (\<lambda>(a, b). AcceptReceiveAddressRequest a b) (de2 ''request_id'' ''address'' v)
     else if tag = ''AcceptPayRequest'' then map_option (\<lambda>(a, b). AcceptPayRequest a b) (de2 ''request_id'' ''txid'' v)
     else if tag = ''AcceptFundRequest'' then map_option (\<lambda>(a, b). AcceptFundRequest a b) (de2 ''request_id'' ''pset'' v)
     else None }"

section \<open>Envelopes\<close>

text \<open>\<open>InstallId\<close>: hex on the wire, read back from exactly sixteen bytes of hex.\<close>

definition install_id_fmt :: "'k crypto \<Rightarrow> install_id \<Rightarrow> string" where
  "install_id_fmt cr i = hex_encode cr i"

definition install_id_deserialize :: "'k crypto \<Rightarrow> string \<Rightarrow> install_id option" where
  "install_id_deserialize cr text = hex_decode_to_slice cr text 16"

text \<open>The libraries: the curve library's text of an x-only key beside \<open>crypto\<close>, and \<open>serde_json\<close>'s
  writer and reader.\<close>

record 'k wire_lib =
  wl_crypto :: "'k crypto"
  xonly_to_str :: "bytes \<Rightarrow> string"
  xonly_from_str :: "string \<Rightarrow> bytes option"
  json_print :: "wjson \<Rightarrow> string"
  json_parse :: "string \<Rightarrow> wjson option"

definition en_login_req :: "'k wire_lib \<Rightarrow> login_req \<Rightarrow> wjson" where
  "en_login_req wl r = WObj
     [(''public_key'', WStr (xonly_to_str wl (lq_public_key r))),
      (''signature'', WStr (signature_to_string (wl_crypto wl) (lq_signature r))),
      (''install_id'', en_opt (\<lambda>i. WStr (install_id_fmt (wl_crypto wl) i)) (lq_install_id r))]"

definition de_login_req :: "'k wire_lib \<Rightarrow> wjson \<Rightarrow> login_req option" where
  "de_login_req wl j = do {
     fs \<leftarrow> struct_fields [(''public_key'', Required), (''signature'', Required), (''install_id'', Nullable)] j;
     p \<leftarrow> need (\<lambda>j. Option.bind (de_str j) (xonly_from_str wl)) (fs ! 0);
     s \<leftarrow> need (\<lambda>j. Option.bind (de_str j) (signature_from_str (wl_crypto wl))) (fs ! 1);
     i \<leftarrow> nullable (\<lambda>j. Option.bind (de_str j) (install_id_deserialize (wl_crypto wl))) (fs ! 2);
     Some \<lparr>lq_public_key = p, lq_signature = s, lq_install_id = i\<rparr> }"

fun en_req :: "'k wire_lib \<Rightarrow> req \<Rightarrow> wjson" where
  "en_req wl ReqChallenge = tagged ''Challenge'' (WObj [])"
| "en_req wl (ReqLogin r) = tagged ''Login'' (en_login_req wl r)"
| "en_req wl (ReqUserAction a) = tagged ''UserAction'' (WObj [(''action'', en_user_action a)])"
| "en_req wl (ReqRegisterFcm t) = tagged ''RegisterFcm'' (en1 ''token'' t)"

definition de_empty :: "'a \<Rightarrow> wjson \<Rightarrow> 'a option" where
  "de_empty a j = map_option (\<lambda>_. a) (struct_fields [] j)"

definition de_req :: "'k wire_lib \<Rightarrow> wjson \<Rightarrow> req option" where
  "de_req wl j = do {
     (tag, v) \<leftarrow> variant j;
     if tag = ''Challenge'' then de_empty ReqChallenge v
     else if tag = ''Login'' then map_option ReqLogin (de_login_req wl v)
     else if tag = ''UserAction'' then map_option ReqUserAction (de_only ''action'' de_user_action v)
     else if tag = ''RegisterFcm'' then map_option ReqRegisterFcm (de1 ''token'' v)
     else None }"

fun en_to :: "'k wire_lib \<Rightarrow> to_msg \<Rightarrow> wjson" where
  "en_to wl (ToReq k r) = tagged ''Req'' (WObj [(''id'', WInt k), (''req'', en_req wl r)])"

definition de_with_id :: "string \<Rightarrow> (wjson \<Rightarrow> 'a option) \<Rightarrow> wjson \<Rightarrow> (req_id \<times> 'a) option" where
  "de_with_id n de v = do {
     fs \<leftarrow> struct_fields [(''id'', Required), (n, Required)] v;
     k \<leftarrow> need de_i32 (fs ! 0); r \<leftarrow> need de (fs ! 1); Some (k, r) }"

definition de_to :: "'k wire_lib \<Rightarrow> wjson \<Rightarrow> to_msg option" where
  "de_to wl j = do {
     (tag, v) \<leftarrow> variant j;
     if tag = ''Req'' then map_option (\<lambda>(k, r). ToReq k r) (de_with_id ''req'' (de_req wl) v)
     else None }"

text \<open>A unit variant is a string, or an object whose content is \<open>null\<close>; any other name is the
  catch-all.\<close>

definition code_named :: "string \<Rightarrow> error_code" where
  "code_named s = (if s = ''InvalidRequest'' then InvalidRequest else if s = ''Server'' then Server else UnknownCode)"

definition de_error_code :: "wjson \<Rightarrow> error_code option" where
  "de_error_code j = (case j of
     WStr s \<Rightarrow> Some (code_named s)
   | WObj [(s, v)] \<Rightarrow> if v = WNull then Some (code_named s) else None
   | _ \<Rightarrow> None)"

fun en_error_code :: "error_code \<Rightarrow> wjson" where
  "en_error_code InvalidRequest = WStr ''InvalidRequest''"
| "en_error_code Server = WStr ''Server''"
| "en_error_code UnknownCode = WStr ''Unknown''"

definition en_error :: "wire_error \<Rightarrow> wjson" where
  "en_error e = WObj [(''code'', en_error_code (err_code e)), (''message'', WStr (err_message e))]"

definition de_error :: "wjson \<Rightarrow> wire_error option" where
  "de_error j = do {
     fs \<leftarrow> struct_fields [(''code'', Required), (''message'', Required)] j;
     c \<leftarrow> need de_error_code (fs ! 0); m \<leftarrow> need de_str (fs ! 1); Some \<lparr>err_code = c, err_message = m\<rparr> }"

fun en_resp :: "resp \<Rightarrow> wjson" where
  "en_resp (RespChallenge c) = tagged ''Challenge'' (en1 ''challenge'' c)"
| "en_resp (RespLogin r) = tagged ''Login'' (en_login_resp r)"
| "en_resp RespUserAction = tagged ''UserAction'' (WObj [])"
| "en_resp RespRegisterFcm = tagged ''RegisterFcm'' (WObj [])"

definition de_resp :: "wjson \<Rightarrow> resp option" where
  "de_resp j = do {
     (tag, v) \<leftarrow> variant j;
     if tag = ''Challenge'' then map_option RespChallenge (de1 ''challenge'' v)
     else if tag = ''Login'' then map_option RespLogin (de_login_resp v)
     else if tag = ''UserAction'' then de_empty RespUserAction v
     else if tag = ''RegisterFcm'' then de_empty RespRegisterFcm v
     else None }"

fun en_notif :: "notif \<Rightarrow> wjson" where
  "en_notif (NSessionCreated r) = tagged ''SessionCreated'' (WObj [(''session'', en_session r)])"
| "en_notif (NSessionRemoved i) = tagged ''SessionRemoved'' (en1 ''session_id'' i)"
| "en_notif (NLoginRequestCreated r) = tagged ''LoginRequestCreated'' (WObj [(''request'', en_login_request r)])"
| "en_notif (NLoginRequestRemoved i) = tagged ''LoginRequestRemoved'' (en1 ''request_id'' i)"
| "en_notif (NSignRequestCreated r) = tagged ''SignRequestCreated'' (WObj [(''request'', en_sign_request r)])"
| "en_notif (NSignRequestRemoved i) = tagged ''SignRequestRemoved'' (en1 ''request_id'' i)"
| "en_notif (NSignMessageRequestCreated r) = tagged ''SignMessageRequestCreated'' (WObj [(''request'', en_sign_message_request r)])"
| "en_notif (NSignMessageRequestRemoved i) = tagged ''SignMessageRequestRemoved'' (en1 ''request_id'' i)"
| "en_notif (NReceiveAddressRequestCreated r) = tagged ''ReceiveAddressRequestCreated'' (WObj [(''request'', en_receive_address_request r)])"
| "en_notif (NReceiveAddressRequestRemoved i) = tagged ''ReceiveAddressRequestRemoved'' (en1 ''request_id'' i)"
| "en_notif (NAssetBalanceRequestCreated r) = tagged ''AssetBalanceRequestCreated'' (WObj [(''request'', en_asset_balance_request r)])"
| "en_notif (NAssetBalanceRequestRemoved i) = tagged ''AssetBalanceRequestRemoved'' (en1 ''request_id'' i)"
| "en_notif (NPayRequestCreated r) = tagged ''PayRequestCreated'' (WObj [(''request'', en_pay_request r)])"
| "en_notif (NPayRequestRemoved i) = tagged ''PayRequestRemoved'' (en1 ''request_id'' i)"
| "en_notif (NFundRequestCreated r) = tagged ''FundRequestCreated'' (WObj [(''request'', en_fund_request r)])"
| "en_notif (NFundRequestRemoved i) = tagged ''FundRequestRemoved'' (en1 ''request_id'' i)"
| "en_notif (NHoldingsUpdated r) = tagged ''HoldingsUpdated'' (WObj [(''report'', en_holdings_report r)])"
| "en_notif (NHoldingsRemoved i) = tagged ''HoldingsRemoved'' (en1 ''domain'' i)"

definition de_notif :: "wjson \<Rightarrow> notif option" where
  "de_notif j = do {
     (tag, v) \<leftarrow> variant j;
     if tag = ''SessionCreated'' then map_option NSessionCreated (de_only ''session'' de_session v)
     else if tag = ''SessionRemoved'' then map_option NSessionRemoved (de1 ''session_id'' v)
     else if tag = ''LoginRequestCreated'' then map_option NLoginRequestCreated (de_only ''request'' de_login_request v)
     else if tag = ''LoginRequestRemoved'' then map_option NLoginRequestRemoved (de1 ''request_id'' v)
     else if tag = ''SignRequestCreated'' then map_option NSignRequestCreated (de_only ''request'' de_sign_request v)
     else if tag = ''SignRequestRemoved'' then map_option NSignRequestRemoved (de1 ''request_id'' v)
     else if tag = ''SignMessageRequestCreated'' then map_option NSignMessageRequestCreated (de_only ''request'' de_sign_message_request v)
     else if tag = ''SignMessageRequestRemoved'' then map_option NSignMessageRequestRemoved (de1 ''request_id'' v)
     else if tag = ''ReceiveAddressRequestCreated'' then map_option NReceiveAddressRequestCreated (de_only ''request'' de_receive_address_request v)
     else if tag = ''ReceiveAddressRequestRemoved'' then map_option NReceiveAddressRequestRemoved (de1 ''request_id'' v)
     else if tag = ''AssetBalanceRequestCreated'' then map_option NAssetBalanceRequestCreated (de_only ''request'' de_asset_balance_request v)
     else if tag = ''AssetBalanceRequestRemoved'' then map_option NAssetBalanceRequestRemoved (de1 ''request_id'' v)
     else if tag = ''PayRequestCreated'' then map_option NPayRequestCreated (de_only ''request'' de_pay_request v)
     else if tag = ''PayRequestRemoved'' then map_option NPayRequestRemoved (de1 ''request_id'' v)
     else if tag = ''FundRequestCreated'' then map_option NFundRequestCreated (de_only ''request'' de_fund_request v)
     else if tag = ''FundRequestRemoved'' then map_option NFundRequestRemoved (de1 ''request_id'' v)
     else if tag = ''HoldingsUpdated'' then map_option NHoldingsUpdated (de_only ''report'' de_holdings_report v)
     else if tag = ''HoldingsRemoved'' then map_option NHoldingsRemoved (de1 ''domain'' v)
     else None }"

fun en_from :: "from_msg \<Rightarrow> wjson" where
  "en_from (FromResp k r) = tagged ''Resp'' (WObj [(''id'', WInt k), (''resp'', en_resp r)])"
| "en_from (FromError k e) = tagged ''Error'' (WObj [(''id'', WInt k), (''err'', en_error e)])"
| "en_from (FromNotif n) = tagged ''Notif'' (WObj [(''notif'', en_notif n)])"

definition de_from :: "wjson \<Rightarrow> from_msg option" where
  "de_from j = do {
     (tag, v) \<leftarrow> variant j;
     if tag = ''Resp'' then map_option (\<lambda>(k, r). FromResp k r) (de_with_id ''resp'' de_resp v)
     else if tag = ''Error'' then map_option (\<lambda>(k, e). FromError k e) (de_with_id ''err'' de_error v)
     else if tag = ''Notif'' then map_option FromNotif (de_only ''notif'' de_notif v)
     else None }"

end
