(* ===== verification/Ffi_Surface.thy ===== *)
theory Ffi_Surface
  imports Transport Approval Identity_Client Wire_Json
begin

text \<open>
  The foreign-function surface of \<open>lc-wallet-ffi/src/lib.rs\<close>: the records and events that cross to the
  host application, the wallet object over the transport handle, the approval functions, and the
  identity service over the identity client.  The tokio runtime and the generated scaffolding are not
  modelled; a runtime that cannot be built is the argument \<open>runtime_ok\<close>.
\<close>

datatype lc_error =
    LinkFailure link_error | FundFailure fund_error | IdentityFailure id_error
  | InstallIdNotHex | WalletKeyPanic | RuntimeFailure | PayjoinMatchedNothing

definition lc_result :: "('e \<Rightarrow> lc_error) \<Rightarrow> 'e + 'a \<Rightarrow> lc_error + 'a" where
  "lc_result f r = (case r of Inl e \<Rightarrow> Inl (f e) | Inr a \<Rightarrow> Inr a)"

datatype ffi_network = FfiLiquid | FfiLiquidTestnet | FfiRegtest

fun into_network :: "ffi_network \<Rightarrow> network" where
  "into_network FfiLiquid = Liquid"
| "into_network FfiLiquidTestnet = LiquidTestnet"
| "into_network FfiRegtest = Regtest"

section \<open>What the host sees\<close>

record login_request_info =
  li_request_id :: string
  li_domain :: string
  li_ttl_ms :: u64

record sign_request_info =
  si_request_id :: string
  si_domain :: string
  si_pset :: string
  si_ttl_ms :: u64

record sign_message_request_info =
  smi_request_id :: string
  smi_domain :: string
  smi_digest :: string
  smi_description :: "string option"
  smi_ttl_ms :: u64

record pay_request_info =
  pi_request_id :: string
  pi_domain :: string
  pi_recipient :: string
  pi_asset_id :: string
  pi_amount :: u64
  pi_memo :: "string option"
  pi_ttl_ms :: u64

record fund_request_info =
  fi_request_id :: string
  fi_domain :: string
  fi_template :: string
  fi_asset_id :: string
  fi_amount :: u64
  fi_memo :: "string option"
  fi_ttl_ms :: u64

record session_info =
  sei_session_id :: string
  sei_domain :: string
  sei_is_local :: bool

record receive_address_request_info =
  rai_request_id :: string
  rai_domain :: string
  rai_description :: "string option"
  rai_ttl_ms :: u64

record asset_balance_request_info =
  abi_request_id :: string
  abi_domain :: string
  abi_description :: "string option"
  abi_asset_id :: string
  abi_ttl_ms :: u64

record holding_info =
  hi_label :: string
  hi_kind :: string
  hi_asset_id :: "string option"
  hi_unit :: string
  hi_amount :: "64 word"
  hi_precision :: u8

record holdings_report_info =
  hri_domain :: string
  hri_holdings :: "holding_info list"
  hri_as_of_ms :: "64 word"

datatype ffi_event =
    FConnected | FLoggedIn | FDisconnected
  | FLoginRequested login_request_info | FLoginRequestRemoved string
  | FSignRequested sign_request_info | FSignRequestRemoved string
  | FSignMessageRequested sign_message_request_info | FSignMessageRequestRemoved string
  | FReceiveAddressRequested receive_address_request_info | FReceiveAddressRequestRemoved string
  | FAssetBalanceRequested asset_balance_request_info | FAssetBalanceRequestRemoved string
  | FHoldingsUpdated holdings_report_info | FHoldingsRemoved string
  | FPayRequested pay_request_info | FPayRequestRemoved string
  | FFundRequested fund_request_info | FFundRequestRemoved string
  | FSessions "session_info list" | FSessionCreated session_info | FSessionRemoved string
  | FActionFailed string string string  \<comment> \<open>action label, subject id, message\<close>
  | FMinimizeMobileApp

fun action_parts :: "user_action \<Rightarrow> string \<times> string" where
  "action_parts (LinkLoginRequest rid) = (''link_login_request'', rid)"
| "action_parts (AcceptLoginRequest rid d sk ss) = (''accept_login_request'', rid)"
| "action_parts (CancelLoginRequest rid) = (''cancel_login_request'', rid)"
| "action_parts (AcceptSignRequest rid p) = (''accept_sign_request'', rid)"
| "action_parts (CancelSignRequest rid) = (''cancel_sign_request'', rid)"
| "action_parts (AcceptSignMessageRequest rid s) = (''accept_sign_message_request'', rid)"
| "action_parts (CancelSignMessageRequest rid) = (''cancel_sign_message_request'', rid)"
| "action_parts (AcceptPayRequest rid t) = (''accept_pay_request'', rid)"
| "action_parts (CancelPayRequest rid) = (''cancel_pay_request'', rid)"
| "action_parts (AcceptFundRequest rid p) = (''accept_fund_request'', rid)"
| "action_parts (CancelFundRequest rid) = (''cancel_fund_request'', rid)"
| "action_parts (AcceptReceiveAddressRequest rid a) = (''accept_receive_address_request'', rid)"
| "action_parts (CancelReceiveAddressRequest rid) = (''cancel_receive_address_request'', rid)"
| "action_parts (AcceptAssetBalanceRequest rid v) = (''accept_asset_balance_request'', rid)"
| "action_parts (CancelAssetBalanceRequest rid) = (''cancel_asset_balance_request'', rid)"
| "action_parts (StopSessionAction sid) = (''stop_session'', sid)"

definition login_info :: "login_request \<Rightarrow> login_request_info" where
  "login_info r = \<lparr>li_request_id = lr_request_id r, li_domain = lr_domain r, li_ttl_ms = as_millis (lr_ttl r)\<rparr>"

definition sign_info :: "sign_request \<Rightarrow> sign_request_info" where
  "sign_info r = \<lparr>si_request_id = sr_request_id r, si_domain = sr_domain r, si_pset = sr_pset r,
     si_ttl_ms = as_millis (sr_ttl r)\<rparr>"

definition sign_message_info :: "sign_message_request \<Rightarrow> sign_message_request_info" where
  "sign_message_info r = \<lparr>smi_request_id = smr_request_id r, smi_domain = smr_domain r,
     smi_digest = smr_digest r, smi_description = smr_description r, smi_ttl_ms = as_millis (smr_ttl r)\<rparr>"

definition pay_info :: "pay_request \<Rightarrow> pay_request_info" where
  "pay_info r = \<lparr>pi_request_id = pr_request_id r, pi_domain = pr_domain r, pi_recipient = pr_recipient r,
     pi_asset_id = pr_asset_id r, pi_amount = pr_amount r, pi_memo = pr_memo r, pi_ttl_ms = as_millis (pr_ttl r)\<rparr>"

definition fund_info :: "fund_request \<Rightarrow> fund_request_info" where
  "fund_info r = \<lparr>fi_request_id = fr_request_id r, fi_domain = fr_domain r, fi_template = fr_template r,
     fi_asset_id = fr_asset_id r, fi_amount = fr_amount r, fi_memo = fr_memo r, fi_ttl_ms = as_millis (fr_ttl r)\<rparr>"

definition receive_address_info :: "receive_address_request \<Rightarrow> receive_address_request_info" where
  "receive_address_info r = \<lparr>rai_request_id = rar_request_id r, rai_domain = rar_domain r,
     rai_description = rar_description r, rai_ttl_ms = as_millis (rar_ttl r)\<rparr>"

definition asset_balance_info :: "asset_balance_request \<Rightarrow> asset_balance_request_info" where
  "asset_balance_info r = \<lparr>abi_request_id = abr_request_id r, abi_domain = abr_domain r,
     abi_description = abr_description r, abi_asset_id = abr_asset_id r, abi_ttl_ms = as_millis (abr_ttl r)\<rparr>"

definition holding_info_of :: "holding \<Rightarrow> holding_info" where
  "holding_info_of h = \<lparr>hi_label = h_label h, hi_kind = h_kind h, hi_asset_id = h_asset_id h,
     hi_unit = h_unit h, hi_amount = h_amount h, hi_precision = h_precision h\<rparr>"

definition holdings_info :: "holdings_report \<Rightarrow> holdings_report_info" where
  "holdings_info r = \<lparr>hri_domain = hr_domain r, hri_holdings = map holding_info_of (hr_holdings r),
     hri_as_of_ms = hr_as_of r\<rparr>"

definition session_info_of :: "session \<Rightarrow> session_info" where
  "session_info_of s = \<lparr>sei_session_id = session_id s, sei_domain = session_domain s, sei_is_local = is_local s\<rparr>"

fun map_event :: "wallet_event \<Rightarrow> ffi_event" where
  "map_event EvConnected = FConnected"
| "map_event EvLoggedIn = FLoggedIn"
| "map_event EvDisconnected = FDisconnected"
| "map_event (LoginRequested r) = FLoginRequested (login_info r)"
| "map_event (LoginRequestRemoved i) = FLoginRequestRemoved i"
| "map_event (SignRequested r) = FSignRequested (sign_info r)"
| "map_event (SignRequestRemoved i) = FSignRequestRemoved i"
| "map_event (SignMessageRequested r) = FSignMessageRequested (sign_message_info r)"
| "map_event (SignMessageRequestRemoved i) = FSignMessageRequestRemoved i"
| "map_event (PayRequested r) = FPayRequested (pay_info r)"
| "map_event (PayRequestRemoved i) = FPayRequestRemoved i"
| "map_event (FundRequested r) = FFundRequested (fund_info r)"
| "map_event (FundRequestRemoved i) = FFundRequestRemoved i"
| "map_event (Sessions ss) = FSessions (map session_info_of ss)"
| "map_event (EvSessionCreated s) = FSessionCreated (session_info_of s)"
| "map_event (EvSessionRemoved i) = FSessionRemoved i"
| "map_event (ReceiveAddressRequested r) = FReceiveAddressRequested (receive_address_info r)"
| "map_event (ReceiveAddressRequestRemoved i) = FReceiveAddressRequestRemoved i"
| "map_event (AssetBalanceRequested r) = FAssetBalanceRequested (asset_balance_info r)"
| "map_event (AssetBalanceRequestRemoved i) = FAssetBalanceRequestRemoved i"
| "map_event (HoldingsUpdated r) = FHoldingsUpdated (holdings_info r)"
| "map_event (HoldingsRemoved d) = FHoldingsRemoved d"
| "map_event (EvActionFailed a m) = (let (label, subject) = action_parts a in FActionFailed label subject m)"
| "map_event EvMinimizeMobileApp = FMinimizeMobileApp"

section \<open>The wallet object\<close>

text \<open>\<open>InstallId::random\<close> and its text, with the random bytes as an argument.\<close>

definition random_install_id_hex :: "'k crypto \<Rightarrow> bytes \<Rightarrow> string" where
  "random_install_id_hex cr random = install_id_fmt cr random"

definition ffi_wallet_new ::
  "'k crypto \<Rightarrow> bool \<Rightarrow> string \<Rightarrow> bytes \<Rightarrow> ffi_network \<Rightarrow> string \<Rightarrow> lc_error + 'k actor" where
  "ffi_wallet_new cr runtime_ok desc mbk n install_id_hex =
     and_then (ok_or (hex_decode_to_slice cr install_id_hex 16) InstallIdNotHex) (\<lambda>install.
     and_then (ok_or (wallet_key_new cr mbk (into_network n)) WalletKeyPanic) (\<lambda>key.
     ensure runtime_ok RuntimeFailure
     (Inr (new_actor install desc key))))"

text \<open>Each method hands its strings to the transport handle.\<close>

definition ffi_open_link :: "(string \<Rightarrow> url option) \<Rightarrow> string \<Rightarrow> lc_error + input" where
  "ffi_open_link url_parse u = lc_result LinkFailure (open_link url_parse u)"

definition ffi_accept_login :: "string \<Rightarrow> input" where "ffi_accept_login rid = accept_login rid"
definition ffi_reject_login :: "string \<Rightarrow> input" where "ffi_reject_login rid = reject_login rid"
definition ffi_accept_sign :: "string \<Rightarrow> string \<Rightarrow> input" where "ffi_accept_sign rid pset = accept_sign rid pset"
definition ffi_accept_sign_message :: "string \<Rightarrow> input" where "ffi_accept_sign_message rid = accept_sign_message rid"
definition ffi_accept_sign_message_signed :: "string \<Rightarrow> string \<Rightarrow> input" where "ffi_accept_sign_message_signed rid signature = accept_sign_message_signed rid signature"
definition ffi_reject_sign_message :: "string \<Rightarrow> input" where "ffi_reject_sign_message rid = reject_sign_message rid"
definition ffi_provide_receive_address :: "string \<Rightarrow> string \<Rightarrow> input" where "ffi_provide_receive_address rid address = provide_receive_address rid address"
definition ffi_reject_receive_address :: "string \<Rightarrow> input" where "ffi_reject_receive_address rid = reject_receive_address rid"
definition ffi_provide_asset_balance :: "string \<Rightarrow> u64 \<Rightarrow> input" where "ffi_provide_asset_balance rid amount = provide_asset_balance rid amount"
definition ffi_reject_asset_balance :: "string \<Rightarrow> input" where "ffi_reject_asset_balance rid = reject_asset_balance rid"
definition ffi_accept_pay :: "string \<Rightarrow> string \<Rightarrow> input" where "ffi_accept_pay rid txid = accept_pay rid txid"
definition ffi_reject_pay :: "string \<Rightarrow> input" where "ffi_reject_pay rid = reject_pay rid"
definition ffi_accept_fund :: "string \<Rightarrow> string \<Rightarrow> input" where "ffi_accept_fund rid pset = accept_fund rid pset"
definition ffi_reject_fund :: "string \<Rightarrow> input" where "ffi_reject_fund rid = reject_fund rid"
definition ffi_reject_sign :: "string \<Rightarrow> input" where "ffi_reject_sign rid = reject_sign rid"
definition ffi_stop_session :: "string \<Rightarrow> input" where "ffi_stop_session sid = stop_session sid"
definition ffi_register_fcm_token :: "string \<Rightarrow> input" where "ffi_register_fcm_token token = register_fcm_token token"

text \<open>The methods of the wallet object as data, with the input each one queues.\<close>

datatype ffi_call =
    CallOpenLink string
  | CallAcceptLogin string
  | CallRejectLogin string
  | CallAcceptSign string string
  | CallAcceptSignMessage string
  | CallAcceptSignMessageSigned string string
  | CallRejectSignMessage string
  | CallProvideReceiveAddress string string
  | CallRejectReceiveAddress string
  | CallProvideAssetBalance string u64
  | CallRejectAssetBalance string
  | CallAcceptPay string string
  | CallRejectPay string
  | CallAcceptFund string string
  | CallRejectFund string
  | CallRejectSign string
  | CallStopSession string
  | CallRegisterFcmToken string

fun ffi_input :: "(string \<Rightarrow> url option) \<Rightarrow> ffi_call \<Rightarrow> lc_error + input" where
  "ffi_input url_parse (CallOpenLink u) = ffi_open_link url_parse u"
| "ffi_input url_parse (CallAcceptLogin rid) = Inr (ffi_accept_login rid)"
| "ffi_input url_parse (CallRejectLogin rid) = Inr (ffi_reject_login rid)"
| "ffi_input url_parse (CallAcceptSign rid pset) = Inr (ffi_accept_sign rid pset)"
| "ffi_input url_parse (CallAcceptSignMessage rid) = Inr (ffi_accept_sign_message rid)"
| "ffi_input url_parse (CallAcceptSignMessageSigned rid signature) = Inr (ffi_accept_sign_message_signed rid signature)"
| "ffi_input url_parse (CallRejectSignMessage rid) = Inr (ffi_reject_sign_message rid)"
| "ffi_input url_parse (CallProvideReceiveAddress rid address) = Inr (ffi_provide_receive_address rid address)"
| "ffi_input url_parse (CallRejectReceiveAddress rid) = Inr (ffi_reject_receive_address rid)"
| "ffi_input url_parse (CallProvideAssetBalance rid amount) = Inr (ffi_provide_asset_balance rid amount)"
| "ffi_input url_parse (CallRejectAssetBalance rid) = Inr (ffi_reject_asset_balance rid)"
| "ffi_input url_parse (CallAcceptPay rid txid) = Inr (ffi_accept_pay rid txid)"
| "ffi_input url_parse (CallRejectPay rid) = Inr (ffi_reject_pay rid)"
| "ffi_input url_parse (CallAcceptFund rid pset) = Inr (ffi_accept_fund rid pset)"
| "ffi_input url_parse (CallRejectFund rid) = Inr (ffi_reject_fund rid)"
| "ffi_input url_parse (CallRejectSign rid) = Inr (ffi_reject_sign rid)"
| "ffi_input url_parse (CallStopSession sid) = Inr (ffi_stop_session sid)"
| "ffi_input url_parse (CallRegisterFcmToken token) = Inr (ffi_register_fcm_token token)"

lemmas ffi_methods = ffi_open_link_def open_link_def ffi_accept_login_def accept_login_def ffi_reject_login_def reject_login_def ffi_accept_sign_def accept_sign_def ffi_accept_sign_message_def accept_sign_message_def ffi_accept_sign_message_signed_def accept_sign_message_signed_def ffi_reject_sign_message_def reject_sign_message_def ffi_provide_receive_address_def provide_receive_address_def ffi_reject_receive_address_def reject_receive_address_def ffi_provide_asset_balance_def provide_asset_balance_def ffi_reject_asset_balance_def reject_asset_balance_def ffi_accept_pay_def accept_pay_def ffi_reject_pay_def reject_pay_def ffi_accept_fund_def accept_fund_def ffi_reject_fund_def reject_fund_def ffi_reject_sign_def reject_sign_def ffi_stop_session_def stop_session_def ffi_register_fcm_token_def register_fcm_token_def

section \<open>Approval\<close>

record ffi_output_summary =
  osi_address :: "string option"
  osi_script_hex :: string
  osi_asset :: "string option"
  osi_amount :: "u64 option"
  osi_is_fee :: bool
  osi_is_payjoin_service_fee :: bool
  osi_confidential :: bool

definition output_info :: "output_summary \<Rightarrow> ffi_output_summary" where
  "output_info o1 =
     \<lparr>osi_address = os_address o1, osi_script_hex = os_script_hex o1, osi_asset = os_asset o1,
      osi_amount = os_amount o1, osi_is_fee = os_is_fee o1,
      osi_is_payjoin_service_fee = os_is_payjoin_service_fee o1, osi_confidential = os_confidential o1\<rparr>"

record ffi_transaction_summary =
  tsi_input_count :: u32
  tsi_outputs :: "ffi_output_summary list"
  tsi_fee :: "u64 option"
  tsi_fully_explicit :: bool

definition ffi_summarize_pset ::
  "elements \<Rightarrow> string \<Rightarrow> ffi_network \<Rightarrow> string option \<Rightarrow> lc_error + ffi_transaction_summary" where
  "ffi_summarize_pset el pset_b64 n payjoin_fee_address =
     and_then (lc_result FundFailure (summarize_pset el pset_b64 (into_network n))) (\<lambda>summary.
     and_then (case payjoin_fee_address of
         None \<Rightarrow> Inr summary
       | Some fee_address \<Rightarrow>
           and_then (lc_result FundFailure (annotate_payjoin el fee_address summary)) (\<lambda>(annotated, marked).
           ensure (marked \<noteq> 0) PayjoinMatchedNothing (Inr annotated))) (\<lambda>s.
     Inr \<lparr>tsi_input_count = of_nat (ts_input_count s), tsi_outputs = map output_info (ts_outputs s),
          tsi_fee = ts_fee s, tsi_fully_explicit = ts_fully_explicit s\<rparr>))"

record ffi_fund_summary =
  ffs_input_count :: u32
  ffs_output_count :: u32
  ffs_fee :: u64
  ffs_deficit :: u64

definition ffi_verify_fund_template :: "elements \<Rightarrow> string \<Rightarrow> string \<Rightarrow> u64 \<Rightarrow> lc_error + ffi_fund_summary" where
  "ffi_verify_fund_template el template_b64 asset amount =
     and_then (lc_result FundFailure (verify_fund_template el template_b64 asset amount)) (\<lambda>s.
     Inr \<lparr>ffs_input_count = of_nat (fts_input_count s), ffs_output_count = of_nat (fts_output_count s),
          ffs_fee = fts_fee s, ffs_deficit = fts_deficit s\<rparr>)"

section \<open>The identity service\<close>

record identity_status_info =
  isi_identity_id :: "string option"
  isi_email :: bool
  isi_phone :: bool
  isi_handle :: "string option"
  isi_discoverable_by_contact :: bool
  isi_discoverable_by_handle :: bool

record verify_outcome_info =
  voi_verified :: bool
  voi_identity_id :: "string option"
  voi_txid :: "string option"

record connect_hint_info =
  chi_request_id :: string
  chi_link :: string

record phone_quote_info =
  pqi_order_id :: string
  pqi_price_sats :: u64
  pqi_asset_id :: string
  pqi_connected :: bool
  pqi_connect :: "connect_hint_info option"

record phone_stage_info =
  psi_stage :: string
  psi_txid :: "string option"

record ffi_contact_entry =
  ce_channel :: string
  ce_value :: string

record contact_match_info =
  cmi_input_index :: u32
  cmi_identity_id :: string

record discover_outcome_info =
  doi_matched :: "contact_match_info list"
  doi_unparsed_input_indexes :: "u32 list"

record contact_info =
  cti_identity_id :: string
  cti_handle :: "string option"

record 'k identity_service =
  svc_client :: identity_client
  svc_key :: 'k

definition identity_service_new ::
  "'k crypto \<Rightarrow> string \<Rightarrow> string option \<Rightarrow> bytes \<Rightarrow> ffi_network \<Rightarrow> 'k identity_service option" where
  "identity_service_new cr base_url bearer mbk n =
     map_option (\<lambda>key. \<lparr>svc_client = identity_client_new base_url bearer, svc_key = key\<rparr>)
       (wallet_key_new cr mbk (into_network n))"

type_synonym ('k, 'v, 'f) svc_op =
  "('k, 'v) identity_lib \<Rightarrow> 'k identity_service \<Rightarrow> (id_request \<Rightarrow> 'v http_result) \<Rightarrow> bytes \<Rightarrow> 'f"

type_synonym 'r svc_outcome = "id_request list \<times> (lc_error + 'r)"

text \<open>The requests of the client's call, and its result converted.\<close>

definition converted :: "('r \<Rightarrow> 's) \<Rightarrow> 'r id_outcome \<Rightarrow> 's svc_outcome" where
  "converted f r = (fst r, and_then (lc_result IdentityFailure (snd r)) (\<lambda>v. Inr (f v)))"

definition status_info :: "identity_status \<Rightarrow> identity_status_info" where
  "status_info s = \<lparr>isi_identity_id = is_identity_id s, isi_email = is_email s, isi_phone = is_phone s,
     isi_handle = is_handle s, isi_discoverable_by_contact = by_contact_hash (is_discoverability s),
     isi_discoverable_by_handle = by_handle (is_discoverability s)\<rparr>"

definition discover_info :: "discover_outcome \<Rightarrow> discover_outcome_info" where
  "discover_info d =
     \<lparr>doi_matched = map (\<lambda>m. \<lparr>cmi_input_index = of_nat (cm_input_index m), cmi_identity_id = cm_identity_id m\<rparr>)
        (do_matched d),
      doi_unparsed_input_indexes = map of_nat (do_unparsed_input_indexes d)\<rparr>"

definition verify_info :: "verify_outcome \<Rightarrow> verify_outcome_info" where
  "verify_info v =
     \<lparr>voi_verified = vo_verified v, voi_identity_id = vo_identity_id v, voi_txid = vo_txid v\<rparr>"

definition quote_info :: "phone_quote \<Rightarrow> phone_quote_info" where
  "quote_info q =
     \<lparr>pqi_order_id = pq_order_id q, pqi_price_sats = pq_price_sats q, pqi_asset_id = pq_asset_id q,
      pqi_connected = pq_connected q,
      pqi_connect = map_option (\<lambda>c. \<lparr>chi_request_id = ch_request_id c, chi_link = ch_link c\<rparr>) (pq_connect q)\<rparr>"

definition stage_info :: "phone_stage \<Rightarrow> phone_stage_info" where
  "stage_info s = \<lparr>psi_stage = ps_stage s, psi_txid = ps_txid s\<rparr>"

definition contact_info_of :: "contact \<Rightarrow> contact_info" where
  "contact_info_of c = \<lparr>cti_identity_id = ct_identity_id c, cti_handle = ct_handle c\<rparr>"

definition svc_status :: "('k, 'v, identity_status_info svc_outcome) svc_op" where
  "svc_status il s post aux =
     converted status_info (status il (svc_client s) post (svc_key s) aux)"

definition svc_email_start :: "('k, 'v, string \<Rightarrow> unit svc_outcome) svc_op" where
  "svc_email_start il s post aux email =
     converted id (email_start il (svc_client s) post (svc_key s) aux email)"

definition svc_email_confirm :: "('k, 'v, string \<Rightarrow> string \<Rightarrow> verify_outcome_info svc_outcome) svc_op" where
  "svc_email_confirm il s post aux email code =
     converted verify_info (email_confirm il (svc_client s) post (svc_key s) aux email code)"

definition svc_phone_start :: "('k, 'v, string \<Rightarrow> phone_quote_info svc_outcome) svc_op" where
  "svc_phone_start il s post aux phone =
     converted quote_info (phone_start il (svc_client s) post (svc_key s) aux phone)"

definition svc_phone_pay :: "('k, 'v, string \<Rightarrow> unit svc_outcome) svc_op" where
  "svc_phone_pay il s post aux order_id =
     converted id (phone_pay il (svc_client s) post (svc_key s) aux order_id)"

definition svc_phone_status :: "('k, 'v, string \<Rightarrow> phone_stage_info svc_outcome) svc_op" where
  "svc_phone_status il s post aux order_id =
     converted stage_info (phone_status il (svc_client s) post (svc_key s) aux order_id)"

definition svc_phone_sms :: "('k, 'v, string \<Rightarrow> unit svc_outcome) svc_op" where
  "svc_phone_sms il s post aux order_id =
     converted id (phone_sms il (svc_client s) post (svc_key s) aux order_id)"

definition svc_phone_confirm :: "('k, 'v, string \<Rightarrow> string \<Rightarrow> verify_outcome_info svc_outcome) svc_op" where
  "svc_phone_confirm il s post aux order_id code =
     converted verify_info (phone_confirm il (svc_client s) post (svc_key s) aux order_id code)"

definition svc_set_discoverability :: "('k, 'v, bool \<Rightarrow> bool \<Rightarrow> unit svc_outcome) svc_op" where
  "svc_set_discoverability il s post aux contact hdl =
     converted id (set_discoverability il (svc_client s) post (svc_key s) aux contact hdl)"

definition svc_contacts_discover :: "('k, 'v, ffi_contact_entry list \<Rightarrow> discover_outcome_info svc_outcome) svc_op" where
  "svc_contacts_discover il s post aux contacts =
     converted discover_info (contacts_discover il (svc_client s) post (svc_key s) aux
       (map (\<lambda>c. (ce_channel c, ce_value c)) contacts))"

definition svc_contacts_save :: "('k, 'v, string \<Rightarrow> string \<Rightarrow> unit svc_outcome) svc_op" where
  "svc_contacts_save il s post aux channel value =
     converted id (contacts_save il (svc_client s) post (svc_key s) aux channel value)"

definition svc_contacts_list :: "('k, 'v, contact_info list svc_outcome) svc_op" where
  "svc_contacts_list il s post aux =
     converted (map contact_info_of) (contacts_list il (svc_client s) post (svc_key s) aux)"

definition svc_contact_address :: "('k, 'v, string \<Rightarrow> string svc_outcome) svc_op" where
  "svc_contact_address il s post aux identity_id =
     converted id (contact_address il (svc_client s) post (svc_key s) aux identity_id)"

end
