(* ===== verification/Ffi_Claims.thy ===== *)
theory Ffi_Claims
  imports Ffi_Surface Transport_Claims Approval_Claims
begin

text \<open>
  What a host application on the foreign-function surface can rely on, across the core, the transport
  and the surface: its copy of the requests is the core's, one identity is used throughout, a refusal
  names the request the user answered, and what the approval functions return.
\<close>

section \<open>The foreign host's copy\<close>

record ffi_view =
  fv_login :: "string \<rightharpoonup> login_request_info"
  fv_sign :: "string \<rightharpoonup> sign_request_info"
  fv_sign_message :: "string \<rightharpoonup> sign_message_request_info"
  fv_receive_address :: "string \<rightharpoonup> receive_address_request_info"
  fv_asset_balance :: "string \<rightharpoonup> asset_balance_request_info"
  fv_holdings :: "string \<rightharpoonup> holdings_report_info"
  fv_pay :: "string \<rightharpoonup> pay_request_info"
  fv_fund :: "string \<rightharpoonup> fund_request_info"

fun apply_ffi_event :: "ffi_event \<Rightarrow> ffi_view \<Rightarrow> ffi_view" where
  "apply_ffi_event (FLoginRequested r) v = v\<lparr>fv_login := (fv_login v)(li_request_id r \<mapsto> r)\<rparr>"
| "apply_ffi_event (FLoginRequestRemoved i) v = v\<lparr>fv_login := (fv_login v)(i := None)\<rparr>"
| "apply_ffi_event (FSignRequested r) v = v\<lparr>fv_sign := (fv_sign v)(si_request_id r \<mapsto> r)\<rparr>"
| "apply_ffi_event (FSignRequestRemoved i) v = v\<lparr>fv_sign := (fv_sign v)(i := None)\<rparr>"
| "apply_ffi_event (FSignMessageRequested r) v =
     v\<lparr>fv_sign_message := (fv_sign_message v)(smi_request_id r \<mapsto> r)\<rparr>"
| "apply_ffi_event (FSignMessageRequestRemoved i) v = v\<lparr>fv_sign_message := (fv_sign_message v)(i := None)\<rparr>"
| "apply_ffi_event (FReceiveAddressRequested r) v =
     v\<lparr>fv_receive_address := (fv_receive_address v)(rai_request_id r \<mapsto> r)\<rparr>"
| "apply_ffi_event (FReceiveAddressRequestRemoved i) v =
     v\<lparr>fv_receive_address := (fv_receive_address v)(i := None)\<rparr>"
| "apply_ffi_event (FAssetBalanceRequested r) v =
     v\<lparr>fv_asset_balance := (fv_asset_balance v)(abi_request_id r \<mapsto> r)\<rparr>"
| "apply_ffi_event (FAssetBalanceRequestRemoved i) v = v\<lparr>fv_asset_balance := (fv_asset_balance v)(i := None)\<rparr>"
| "apply_ffi_event (FHoldingsUpdated r) v = v\<lparr>fv_holdings := (fv_holdings v)(hri_domain r \<mapsto> r)\<rparr>"
| "apply_ffi_event (FHoldingsRemoved d) v = v\<lparr>fv_holdings := (fv_holdings v)(d := None)\<rparr>"
| "apply_ffi_event (FPayRequested r) v = v\<lparr>fv_pay := (fv_pay v)(pi_request_id r \<mapsto> r)\<rparr>"
| "apply_ffi_event (FPayRequestRemoved i) v = v\<lparr>fv_pay := (fv_pay v)(i := None)\<rparr>"
| "apply_ffi_event (FFundRequested r) v = v\<lparr>fv_fund := (fv_fund v)(fi_request_id r \<mapsto> r)\<rparr>"
| "apply_ffi_event (FFundRequestRemoved i) v = v\<lparr>fv_fund := (fv_fund v)(i := None)\<rparr>"
| "apply_ffi_event _ v = v"

text \<open>The abstraction: every request through the surface's conversion.\<close>

definition ffi_view_of :: "host_view \<Rightarrow> ffi_view" where
  "ffi_view_of h =
     \<lparr>fv_login = map_option login_info \<circ> hv_login h, fv_sign = map_option sign_info \<circ> hv_sign h,
      fv_sign_message = map_option sign_message_info \<circ> hv_sign_message h,
      fv_receive_address = map_option receive_address_info \<circ> hv_receive_address h,
      fv_asset_balance = map_option asset_balance_info \<circ> hv_asset_balance h,
      fv_holdings = map_option holdings_info \<circ> hv_holdings h,
      fv_pay = map_option pay_info \<circ> hv_pay h, fv_fund = map_option fund_info \<circ> hv_fund h\<rparr>"

definition ffi_empty :: ffi_view where
  "ffi_empty =
     \<lparr>fv_login = Map.empty, fv_sign = Map.empty, fv_sign_message = Map.empty, fv_receive_address = Map.empty,
      fv_asset_balance = Map.empty, fv_holdings = Map.empty, fv_pay = Map.empty, fv_fund = Map.empty\<rparr>"

lemma info_keys [simp]:
  "li_request_id (login_info r1) = lr_request_id r1" "si_request_id (sign_info r2) = sr_request_id r2"
  "smi_request_id (sign_message_info r3) = smr_request_id r3"
  "rai_request_id (receive_address_info r4) = rar_request_id r4"
  "abi_request_id (asset_balance_info r5) = abr_request_id r5" "hri_domain (holdings_info r6) = hr_domain r6"
  "pi_request_id (pay_info r7) = pr_request_id r7" "fi_request_id (fund_info r8) = fr_request_id r8"
  by (simp_all add: login_info_def sign_info_def sign_message_info_def receive_address_info_def
      asset_balance_info_def holdings_info_def pay_info_def fund_info_def)

lemma map_option_upd: "map_option f \<circ> m(k := x) = (map_option f \<circ> m)(k := map_option f x)"
  by (simp add: fun_eq_iff)

text \<open>One effect and the event made of it commute with the abstraction.\<close>

lemma effect_mirrored:
  "fold apply_ffi_event (map map_event (snd (apply_effects [e]))) (ffi_view_of h) = ffi_view_of (apply_effect e h)"
  by (cases e) (simp_all add: ffi_view_of_def map_option_upd case_prod_unfold Let_def)

lemma apply_effects_Cons: "snd (apply_effects (e # es)) = snd (apply_effects [e]) @ snd (apply_effects es)"
  by (cases e) (simp_all add: case_prod_unfold Let_def)

lemma effects_mirrored:
  "fold apply_ffi_event (map map_event (snd (apply_effects es))) (ffi_view_of h) = ffi_view_of (fold apply_effect es h)"
proof (induction es arbitrary: h)
  case (Cons e es)
  show ?case
    unfolding apply_effects_Cons [of e es] by (simp add: effect_mirrored Cons.IH del: apply_effects.simps)
qed simp

abbreviation fold_events :: "wallet_event list \<Rightarrow> ffi_view \<Rightarrow> ffi_view" where
  "fold_events evs \<equiv> fold apply_ffi_event (map map_event evs)"

abbreviation core_copy :: "'k core \<Rightarrow> ffi_view" where
  "core_copy c \<equiv> ffi_view_of (core_view c)"

lemma handle_copied:
  "fold_events (snd (apply_effects (snd (handle env aux i c)))) (core_copy c) = core_copy (fst (handle env aux i c))"
  by (simp add: effects_mirrored handle_mirror)

lemma leave_copied:
  "fold_events (so_events so) v = core_copy (a_core a) \<Longrightarrow>
   fold_events (so_events (snd (leave env a so))) v = core_copy (a_core (fst (leave env a so)))"
  using handle_copied [of env "[]" "Transport Disconnected" "a_core a"]
  by (simp add: leave_def case_prod_unfold Let_def)

lemma on_connected_copied:
  "fold_events (so_events (snd (on_connected env aux b a))) (core_copy (a_core a))
     = core_copy (a_core (fst (on_connected env aux b a)))"
  using handle_copied [of env aux "Transport Connected" "a_core a"]
  by (simp add: on_connected_def case_prod_unfold Let_def)

lemma on_text_copied:
  "fold_events (so_events (snd (on_text env aux t b was a))) (core_copy (a_core a))
     = core_copy (a_core (fst (on_text env aux t b was a)))"
  using handle_copied [of env aux "Transport (Recv t)" "a_core a"]
  by (auto simp: on_text_def case_prod_unfold Let_def intro!: leave_copied)

lemma on_input_copied:
  "fold_events (so_events (snd (on_input env aux i b a))) (core_copy (a_core a))
     = core_copy (a_core (fst (on_input env aux i b a)))"
  using handle_copied [of env aux i "a_core a"]
  by (auto simp: on_input_def case_prod_unfold Let_def intro!: leave_copied)

lemma actor_step_copied:
  assumes "actor_step env ev a = Some r"
  shows "fold_events (so_events (snd r)) (core_copy (a_core a)) = core_copy (a_core (fst r))"
proof -
  have "fold_events (so_events quiet) v = v" for v by (simp add: quiet_def)
  with assms on_connected_copied on_text_copied on_input_copied leave_copied [of quiet "core_copy (a_core a)" a env]
  show ?thesis
    by (auto simp: actor_step_def on_connect_failed_def split: phase.splits net_event.splits if_splits)
qed

lemma reachable_copied: "reachable env a evs \<Longrightarrow> fold_events evs ffi_empty = core_copy (a_core a)"
proof (induction rule: reachable.induct)
  case (start iid desc key)
  show ?case
    by (simp add: new_actor_def new_core_def core_view_def ffi_view_of_def ffi_empty_def bt_get_def fun_eq_iff)
next
  case (step a evs ev a' so)
  then show ?case using actor_step_copied [of env ev a "(a', so)"] by simp
qed

text \<open>C10.  Refinement across three components: whatever the network does and whatever the user decides,
  a host application that only applies the events of the foreign-function surface holds, for each of
  the eight kinds of request and report, exactly the converted copies of what the session core
  holds; nothing the core forgot is still shown, and nothing it holds is missing.\<close>

theorem foreign_mirror_refines:
  assumes "reachable env a evs"
  shows "fold apply_ffi_event (map map_event evs) ffi_empty = ffi_view_of (core_view (a_core a))"
  using reachable_copied [OF assms] .

theorem foreign_mirror_refines_witness:
  "\<exists>a evs. reachable demo_env a evs
     \<and> fold apply_ffi_event (map map_event evs) ffi_empty = ffi_view_of (core_view (a_core a))
     \<and> fv_sign_message (ffi_view_of (core_view (a_core a))) ''m1'' = Some (sign_message_info demo_sign_message)"
proof -
  let ?a0 = "new_actor [1] ''ct'' () :: unit actor"
  let ?r1 = "on_connected demo_env [] None ?a0"
  let ?r2 = "on_text demo_env [] ''msg'' None False (fst ?r1)"
  have p1: "a_phase (fst ?r1) = Online False" by (simp add: on_connected_def case_prod_unfold Let_def)
  have "reachable demo_env (fst ?r1) ([] @ so_events (snd ?r1))"
    by (rule reachable.step [where ev = "ConnectOk [] None", OF reachable.start])
      (simp_all add: user_event_def actor_step_def new_actor_def)
  then have r: "reachable demo_env (fst ?r2) (([] @ so_events (snd ?r1)) @ so_events (snd ?r2))"
    by (rule reachable.step [where ev = "TextFrame [] ''msg'' None"])
      (simp_all add: user_event_def actor_step_def p1)
  have "bt_get (sign_message_requests (a_core (fst ?r2))) ''m1'' = Some demo_sign_message"
    by (simp add: on_text_def on_connected_def send_frames_def new_actor_def case_prod_unfold Let_def
        handle_def handle_transport_def handle_server_message_def handle_notification_def demo_env_def
        is_logged_in_def new_core_def bt_get_insert) (simp add: demo_sign_message_def bt_get_def)
  then have "fv_sign_message (ffi_view_of (core_view (a_core (fst ?r2)))) ''m1'' = Some (sign_message_info demo_sign_message)"
    by (simp add: ffi_view_of_def core_view_def)
  with foreign_mirror_refines [OF r] r show ?thesis by blast
qed

section \<open>Decisions through the surface\<close>

lemma ffi_input_login:
  "ffi_input url_parse call = Inr (LoginAccepted rid b) \<Longrightarrow> b = None"
  by (cases call) (auto simp: ffi_methods lc_result_def and_then_def split: sum.splits)

lemmas new_action_source = new_action_queued_by [THEN conjunct1]

text \<open>C15.  A host on the foreign-function surface can never accept a login that asks for a service
  key: no method of the wallet object queues an acceptance for such a request, and the method that
  looks as if it should changes nothing and reports the failure of a cancellation the user never
  asked for.\<close>

theorem ffi_never_binds_login:
  assumes "service_wanted c rid" and "ffi_input url_parse call = Inr i"
  shows "(bt_get (user_actions (fst (handle env aux i c))) k = Some (AcceptLoginRequest rid d sk ss)
        \<longrightarrow> bt_get (user_actions c) k = Some (AcceptLoginRequest rid d sk ss))
    \<and> (call = CallAcceptLogin rid \<longrightarrow> fst (handle env aux i c) = c
        \<and> map map_event (snd (apply_effects (snd (handle env aux i c))))
            = [FActionFailed ''cancel_login_request'' rid
                 ''this login needs a service key and none was supplied''])"
proof (intro conjI impI)
  assume new: "bt_get (user_actions (fst (handle env aux i c))) k = Some (AcceptLoginRequest rid d sk ss)"
  show "bt_get (user_actions c) k = Some (AcceptLoginRequest rid d sk ss)"
  proof (rule ccontr)
    assume old: "bt_get (user_actions c) k \<noteq> Some (AcceptLoginRequest rid d sk ss)"
    from queued_by_user_input [OF new_action_source [OF new old]] assms(1)
    obtain b where "i = LoginAccepted rid b" "b \<noteq> None" by (cases i) auto
    with ffi_input_login assms(2) show False by blast
  qed
next
  assume "call = CallAcceptLogin rid"
  then have i: "i = LoginAccepted rid None" using assms(2) by (auto simp: ffi_methods)
  show "fst (handle env aux i c) = c"
    and "map map_event (snd (apply_effects (snd (handle env aux i c))))
      = [FActionFailed ''cancel_login_request'' rid ''this login needs a service key and none was supplied'']"
    using assms(1) by (simp_all add: i handle_def handle_login_accepted_def)
qed

theorem ffi_never_binds_login_witness:
  "map map_event (snd (apply_effects (snd (handle demo_env [] (ffi_accept_login ''l1'')
       (fst (run_core demo_env [([], Transport (Recv ''ask''))] demo_core))))))
     = [FActionFailed ''cancel_login_request'' ''l1'' ''this login needs a service key and none was supplied'']"
proof -
  let ?c = "fst (run_core demo_env [([], Transport (Recv ''ask''))] demo_core)"
  have "service_wanted ?c ''l1''" by (simp add: run_defs demo_defs)
  from ffi_never_binds_login [OF this, of "\<lambda>_. None" "CallAcceptLogin ''l1''" "ffi_accept_login ''l1''"]
  show ?thesis by simp
qed

text \<open>The label the surface gives the action an answer asks for.\<close>

fun answer_label :: "input \<Rightarrow> string" where
  "answer_label (LoginAccepted rid b) = ''accept_login_request''"
| "answer_label (LoginRejected rid) = ''cancel_login_request''"
| "answer_label (SignAccepted rid p) = ''accept_sign_request''"
| "answer_label (SignRejected rid) = ''cancel_sign_request''"
| "answer_label (SignMessageAccepted rid) = ''accept_sign_message_request''"
| "answer_label (SignMessageSigned rid s) = ''accept_sign_message_request''"
| "answer_label (SignMessageRejected rid) = ''cancel_sign_message_request''"
| "answer_label (ReceiveAddressProvided rid a) = ''accept_receive_address_request''"
| "answer_label (ReceiveAddressRejected rid) = ''cancel_receive_address_request''"
| "answer_label (AssetBalanceProvided rid v) = ''accept_asset_balance_request''"
| "answer_label (AssetBalanceRejected rid) = ''cancel_asset_balance_request''"
| "answer_label (PayBuilt rid t) = ''accept_pay_request''"
| "answer_label (PayRejected rid) = ''cancel_pay_request''"
| "answer_label (FundSigned rid p) = ''accept_fund_request''"
| "answer_label (FundRejected rid) = ''cancel_fund_request''"
| "answer_label _ = []"

lemma queued_action_parts:
  assumes "queued_by env aux i c a" and "answered_request i = Some rid"
  shows "action_parts a = (answer_label i, rid)"
  using queued_by_user_input [OF assms(1)] assms(2) by (cases i) auto

text \<open>C17.  A refusal is reported for the decision it belongs to.  Take any session, let the user
  answer request \<open>rid\<close> so that an action is queued under \<open>k\<close>, and let anything happen after that
  short of the server settling \<open>k\<close>, reconnections included.  When the server then answers \<open>k\<close> with an
  error, the host receives exactly one event: the failure of that kind of answer, for that request,
  with the server's message; and the action is queued no more.\<close>

theorem refusal_names_the_answer:
  assumes "length pre + 1 + length mid < 2 ^ 31 - 1"
    and "c = fst (run_core env pre (new_core iid desc key))"
    and "answered_request i = Some rid"
    and "bt_get (user_actions (fst (handle env aux i c))) k = Some a"
    and "bt_get (user_actions c) k \<noteq> Some a"
    and "list_all (\<lambda>ai. \<not> settles env k (snd ai)) mid"
    and "from_str_json env t = Some (FromError k err)"
    and "r = handle env aux' (Transport (Recv t)) (fst (run_core env mid (fst (handle env aux i c))))"
  shows "map map_event (snd (apply_effects (snd r))) = [FActionFailed (answer_label i) rid (err_message err)]
    \<and> bt_get (user_actions (fst r)) k = None"
proof -
  have wf: "core_wf (length pre) c"
    using core_wf_run [OF core_wf_new, of pre env iid desc key] assms(1) by (simp add: assms(2))
  have parts: "action_parts a = (answer_label i, rid)"
    using queued_action_parts [OF new_action_source [OF assms(4,5)] assms(3)] .
  have "core_wf (Suc (length pre)) (fst (handle env aux i c))"
    using wf assms(1) by (intro core_wf_step) auto
  then have "bt_get (user_actions (fst (run_core env mid (fst (handle env aux i c))))) k = Some a"
    using assms(1) by (intro run_keeps_action [OF assms(4,6)]) auto
  then show ?thesis
    by (simp add: assms(8) handle_def handle_transport_def assms(7) handle_server_message_def parts bt_get_remove)
qed

definition refusing_env :: "unit session_env" where
  "refusing_env = demo_env\<lparr>from_str_json := (\<lambda>t.
     if t = ''no'' then Some (FromError 1 \<lparr>err_code = InvalidRequest, err_message = ''late''\<rparr>) else None)\<rparr>"

theorem refusal_names_the_answer_witness:
  "map map_event (snd (apply_effects (snd (handle refusing_env [] (Transport (Recv ''no''))
       (fst (run_core refusing_env [([], Transport Disconnected)]
         (fst (handle refusing_env [] (LoginRejected ''r'') demo_core))))))))
     = [FActionFailed ''cancel_login_request'' ''r'' ''late'']"
proof -
  have "list_all (\<lambda>ai. \<not> settles refusing_env 1 (snd ai)) [([], Transport Disconnected)]"
    by (simp add: settles_def)
  then show ?thesis
    using refusal_names_the_answer [of "[]" "[([], Transport Disconnected)]" demo_core refusing_env "[1]" "''ct''" "()"
        "LoginRejected ''r''" "''r''" "[]" 1 "CancelLoginRequest ''r''" "''no''" "\<lparr>err_code = InvalidRequest, err_message = ''late''\<rparr>"
        "handle refusing_env [] (Transport (Recv ''no'')) (fst (run_core refusing_env [([], Transport Disconnected)]
         (fst (handle refusing_env [] (LoginRejected ''r'') demo_core))))" "[]"]
    by (simp add: demo_core_def refusing_env_def new_core_def handle_def answer_def add_user_action_def
        finish_request_def bt_get_insert bt_get_def)
qed

section \<open>One identity\<close>

text \<open>What identifies the wallet to the server, as the core keeps it.\<close>

definition identity_of :: "'k core \<Rightarrow> install_id \<times> string \<times> 'k" where
  "identity_of c = (install_id c, descriptor c, wallet_key c)"

lemma identity_of_upd [simp]:
  "identity_of (c\<lparr>login_requests := a\<rparr>) = identity_of c" "identity_of (c\<lparr>sign_requests := b\<rparr>) = identity_of c"
  "identity_of (c\<lparr>sign_message_requests := d\<rparr>) = identity_of c"
  "identity_of (c\<lparr>receive_address_requests := e\<rparr>) = identity_of c"
  "identity_of (c\<lparr>asset_balance_requests := f\<rparr>) = identity_of c" "identity_of (c\<lparr>holdings := g\<rparr>) = identity_of c"
  "identity_of (c\<lparr>pay_requests := h\<rparr>) = identity_of c" "identity_of (c\<lparr>fund_requests := i\<rparr>) = identity_of c"
  "identity_of (c\<lparr>user_actions := j\<rparr>) = identity_of c" "identity_of (c\<lparr>next_action_id := k\<rparr>) = identity_of c"
  "identity_of (c\<lparr>mobile_requests := l\<rparr>) = identity_of c" "identity_of (c\<lparr>fcm_token := m\<rparr>) = identity_of c"
  "identity_of (c\<lparr>connected := n\<rparr>) = identity_of c" "identity_of (c\<lparr>login_succeed := p\<rparr>) = identity_of c"
  by (simp_all add: identity_of_def)

lemma identity_add_user_action [simp]: "identity_of (fst (add_user_action env a c)) = identity_of c"
  by (simp add: add_user_action_def Let_def)

lemma identity_answer [simp]: "identity_of (fst (answer env rid a c)) = identity_of c"
  by (simp add: answer_def finish_request_def case_prod_unfold Let_def split: option.split)

lemma identity_login_resp [simp]: "identity_of (fst (handle_login_resp env lr c)) = identity_of c"
  by (simp add: handle_login_resp_def sync_defs case_prod_unfold Let_def)

lemma identity_notification [simp]: "identity_of (fst (handle_notification n c)) = identity_of c"
  by (cases n) (simp_all add: handle_notification_def)

lemma identity_handle [simp]: "identity_of (fst (handle env aux i c)) = identity_of c"
  by (cases i) (auto simp: handle_defs handle_transport_def handle_server_message_def handle_response_def
      Let_def split: link_type.split transport_event.split option.split from_msg.split resp.split)

lemma identity_turns [simp]:
  "identity_of (a_core (fst (on_connected env aux b a))) = identity_of (a_core a)"
  "identity_of (a_core (fst (leave env a so))) = identity_of (a_core a)"
  by (simp_all add: on_connected_def leave_def case_prod_unfold Let_def)

lemma identity_on_text [simp]: "identity_of (a_core (fst (on_text env aux t b was a))) = identity_of (a_core a)"
  and identity_on_input [simp]: "identity_of (a_core (fst (on_input env aux i b a))) = identity_of (a_core a)"
  by (simp_all add: on_text_def on_input_def case_prod_unfold Let_def)

lemma identity_step: "actor_step env ev a = Some r \<Longrightarrow> identity_of (a_core (fst r)) = identity_of (a_core a)"
  by (auto simp: actor_step_def on_connect_failed_def split: phase.splits net_event.splits if_splits)

text \<open>Some turns of the actor, each with whatever the environment yields.\<close>

definition turns :: "'k session_env \<Rightarrow> 'k actor \<Rightarrow> 'k actor \<Rightarrow> bool" where
  "turns env = (\<lambda>a a'. \<exists>ev so. actor_step env ev a = Some (a', so))\<^sup>*\<^sup>*"

lemma identity_turns_star: "turns env a a' \<Longrightarrow> identity_of (a_core a') = identity_of (a_core a)"
  unfolding turns_def by (induction rule: rtranclp_induct) (auto dest: identity_step)

lemma ffi_wallet_new_identity:
  "ffi_wallet_new cr ok desc mbk n hex = Inr a \<longleftrightarrow>
   ok \<and> (\<exists>install key. hex_decode_to_slice cr hex 16 = Some install
     \<and> wallet_key_new cr mbk (into_network n) = Some key \<and> a = new_actor install desc key)"
  by (auto simp: ffi_wallet_new_def result_simps)

text \<open>C31.  One identity throughout.  A wallet object and an identity service built from the same master
  blinding key for the same network hold the same key, and after any number of turns of the wallet's
  actor the core still has that key, the descriptor it was built with and the install id its host
  passed in hex: a login challenge is then answered with the public key the identity service proves
  itself by, a signature by that key, and that install id.\<close>

theorem one_identity_throughout:
  assumes "ffi_wallet_new (env_crypto env) ok desc mbk n hex = Inr a0"
    and "identity_service_new (env_crypto env) url bearer mbk n = Some s"
    and "turns env a0 a"
    and "from_str_json env t = Some (FromResp q (RespChallenge ch))"
  shows "descriptor (a_core a) = desc
    \<and> hex_decode_to_slice (env_crypto env) hex 16 = Some (install_id (a_core a))
    \<and> snd (handle env aux (Transport (Recv t)) (a_core a))
        = [Send (to_string_json env (ToReq 0 (ReqLogin
            \<lparr>lq_public_key = public_key (env_crypto env) (svc_key s),
             lq_signature = sign_challenge (env_crypto env) (svc_key s) ch aux,
             lq_install_id = Some (install_id (a_core a))\<rparr>)))]"
proof -
  obtain install key where new: "hex_decode_to_slice (env_crypto env) hex 16 = Some install"
    "wallet_key_new (env_crypto env) mbk (into_network n) = Some key" "a0 = new_actor install desc key"
    using assms(1) by (auto simp: ffi_wallet_new_identity)
  from new(2) assms(2) have key: "svc_key s = key" by (auto simp: identity_service_new_def)
  from identity_turns_star [OF assms(3)] new(3)
  have "install_id (a_core a) = install" "descriptor (a_core a) = desc" "wallet_key (a_core a) = key"
    by (simp_all add: identity_of_def new_actor_def new_core_def)
  then show ?thesis
    by (simp add: new(1) key handle_def handle_transport_def assms(4) handle_server_message_def
        handle_response_def send_def)
qed

definition challenging_env :: "unit session_env" where
  "challenging_env = demo_env\<lparr>from_str_json := (\<lambda>t. Some (FromResp 0 (RespChallenge t)))\<rparr>"

theorem one_identity_throughout_witness:
  "\<exists>a0 a. ffi_wallet_new demo_crypto True ''ct'' [7] FfiLiquid ''beef'' = Inr a0 \<and> turns challenging_env a0 a
     \<and> connected (a_core a) \<and> descriptor (a_core a) = ''ct''
     \<and> hex_decode_to_slice demo_crypto ''beef'' 16 = Some (install_id (a_core a))
     \<and> length (snd (handle challenging_env [] (Transport (Recv ''nonce'')) (a_core a))) = 1"
proof -
  let ?a0 = "new_actor (as_bytes ''beef'') ''ct'' () :: unit actor"
  let ?r = "on_connected challenging_env [] None ?a0"
  have cr: "env_crypto challenging_env = demo_crypto" by (simp add: challenging_env_def demo_env_def)
  have new: "ffi_wallet_new (env_crypto challenging_env) True ''ct'' [7] FfiLiquid ''beef'' = Inr ?a0"
    by (simp add: cr ffi_wallet_new_identity wallet_key_new_def) (simp add: demo_crypto_def)
  have svc: "identity_service_new (env_crypto challenging_env) [] None [7] FfiLiquid
      = Some \<lparr>svc_client = identity_client_new [] None, svc_key = ()\<rparr>"
    by (simp add: cr identity_service_new_def wallet_key_new_def) (simp add: demo_crypto_def)
  have "actor_step challenging_env (ConnectOk [] None) ?a0 = Some (fst ?r, snd ?r)"
    by (simp add: actor_step_def new_actor_def)
  then have turns: "turns challenging_env ?a0 (fst ?r)" unfolding turns_def by blast
  have t: "from_str_json challenging_env ''nonce'' = Some (FromResp 0 (RespChallenge ''nonce''))"
    by (simp add: challenging_env_def)
  have "connected (a_core (fst ?r))"
    by (simp add: on_connected_def handle_connected case_prod_unfold Let_def)
  with one_identity_throughout [OF new svc turns t, of "[]"] new turns show ?thesis
    by (intro exI [of _ ?a0] exI [of _ "fst ?r"]) (simp add: cr)
qed

section \<open>The approval summary\<close>

text \<open>The summary the host should see: the rows of the outputs, those paying the payjoin service marked.\<close>

definition pset_row :: "elements \<Rightarrow> network \<Rightarrow> bytes option \<Rightarrow> pset_output \<Rightarrow> ffi_output_summary" where
  "pset_row el n payee o1 = output_info ((summarize_output el n o1)\<lparr>os_is_payjoin_service_fee :=
     (case payee of None \<Rightarrow> False | Some spk \<Rightarrow> script_to_hex el (out_script_pubkey o1) = script_to_hex el spk)\<rparr>)"

lemma lc_result_Inr: "lc_result f r = Inr v \<longleftrightarrow> r = Inr v"
  by (simp add: lc_result_def split: sum.split)

lemma os_hex [simp]: "os_script_hex (summarize_output el n o1) = script_to_hex el (out_script_pubkey o1)"
  and os_flag [simp]: "\<not> os_is_payjoin_service_fee (summarize_output el n o1)"
  by (simp_all add: summarize_output_def Let_def)

lemma row_unmarked [simp]: "pset_row el n None = output_info \<circ> summarize_output el n"
  by (simp add: pset_row_def fun_eq_iff summarize_output_def Let_def)

text \<open>The summary a host shows for approval is exact: it is given precisely when the PSET decodes
  and, if a payjoin service was named, that service's address is well formed and at least one output
  pays it; it then has one row per output, in order, with exactly the outputs paying the service
  marked as its fee; it states a network fee only when exactly one output is a fee output; and it
  claims to be fully explicit exactly when every output states asset and amount.\<close>

theorem ffi_summary_exact:
  "ffi_summarize_pset el b64 n payjoin = Inr ts \<longleftrightarrow>
   (\<exists>p payee. decode_pset el b64 = Inr p \<and>
      (case payjoin of
         None \<Rightarrow> payee = None
       | Some address \<Rightarrow> payee \<noteq> None \<and> payee = address_script_pubkey el address
           \<and> (\<exists>o1\<in>set (pset_outputs p). script_to_hex el (out_script_pubkey o1) = script_to_hex el (the payee))) \<and>
      ts = \<lparr>tsi_input_count = of_nat (length (pset_inputs p)),
            tsi_outputs = map (pset_row el (into_network n) payee) (pset_outputs p),
            tsi_fee = (case filter (\<lambda>o1. out_script_pubkey o1 = []) (pset_outputs p) of
                         [o1] \<Rightarrow> out_amount o1 | _ \<Rightarrow> None),
            tsi_fully_explicit =
              list_all (\<lambda>o1. out_asset o1 \<noteq> None \<and> out_amount o1 \<noteq> None) (pset_outputs p)\<rparr>)"
proof (cases payjoin)
  case None
  then show ?thesis
    by (auto simp: ffi_summarize_pset_def result_simps lc_result_Inr summarize_pset_exact)
next
  case (Some address)
  then show ?thesis
    by (auto simp: ffi_summarize_pset_def result_simps lc_result_Inr summarize_pset_exact annotate_payjoin_exact
        filter_empty_conv pset_row_def)
qed

end
