(* ===== verification/Wire_Claims.thy ===== *)
theory Wire_Claims
  imports Wire_Json Session_Claims "HOL-Library.Countable"
begin

text \<open>
  What the JSON form guarantees: every message is read back as it was written, frames of older and newer
  servers are read as the protocol means them, and every frame the session core sends is read by the
  server as the request it is.
\<close>

section \<open>Codecs\<close>

text \<open>The contract of an encoder and a decoder, and what follows for lists and options.\<close>

locale codec =
  fixes en :: "'a \<Rightarrow> wjson" and de :: "wjson \<Rightarrow> 'a option"
  assumes de_en [simp]: "de (en x) = Some x"
begin

lemma de_en_vec [simp]: "de_vec de (en_vec en xs) = Some xs"
proof -
  have "mapM de (map en xs) = Some xs" by (induction xs) simp_all
  then show ?thesis by (simp add: de_vec_def en_vec_def)
qed

lemma en_inject: "en x = en y \<longleftrightarrow> x = y"
  by (metis de_en option.inject)

lemma nullable_en:
  assumes "\<And>x. en x \<noteq> WNull"
  shows "nullable de (Some (en_opt en v)) = Some v"
  using assms by (simp add: nullable_def en_opt_def split: option.split)

end

interpretation str: codec WStr de_str
  by unfold_locales (simp add: de_str_def)

interpretation bool: codec WBool de_bool
  by unfold_locales (simp add: de_bool_def)

interpretation u64: codec en_u64 de_u64
proof
  show "de_u64 (en_u64 x) = Some x" for x
    using uint_bounded [of x] by (simp add: de_u64_def en_u64_def de_int_in_def)
qed

interpretation u8: codec en_u8 de_u8
proof
  show "de_u8 (en_u8 x) = Some x" for x
    using uint_bounded [of x] by (simp add: de_u8_def en_u8_def de_int_in_def)
qed

interpretation i64: codec en_i64 de_i64
proof
  show "de_i64 (en_i64 x) = Some x" for x
    using sint_lt [of x] sint_ge [of x] by (simp add: de_i64_def en_i64_def de_int_in_def)
qed

lemma nullable_str [simp]: "nullable de_str (Some (en_opt WStr v)) = Some v"
  by (rule str.nullable_en) simp

lemma field_simps_json [simp]:
  "need de (Some j) = de j" "nullable de None = Some None" "nullable de_str (Some (WStr s)) = Some (Some s)"
  "defaulted dl None = Some []" "defaulted dl (Some j) = dl j"
  by (simp_all add: need_def nullable_def defaulted_def de_str_def)

lemmas object_simps = struct_fields_def struct_of_map_def

section \<open>The structs round-trip\<close>

interpretation session: codec en_session de_session
  by unfold_locales (simp add: en_session_def de_session_def session_decl_def object_simps)

interpretation login_request: codec en_login_request de_login_request
  by unfold_locales (simp add: en_login_request_def de_login_request_def login_request_decl_def object_simps
      en_skip_def split: option.split)

interpretation sign_request: codec en_sign_request de_sign_request
  by unfold_locales (simp add: en_sign_request_def de_sign_request_def sign_request_decl_def object_simps)

interpretation sign_message_request: codec en_sign_message_request de_sign_message_request
  by unfold_locales (simp add: en_sign_message_request_def de_sign_message_request_def sign_message_request_decl_def object_simps)

interpretation receive_address_request: codec en_receive_address_request de_receive_address_request
  by unfold_locales (simp add: en_receive_address_request_def de_receive_address_request_def receive_address_request_decl_def object_simps)

interpretation asset_balance_request: codec en_asset_balance_request de_asset_balance_request
  by unfold_locales (simp add: en_asset_balance_request_def de_asset_balance_request_def asset_balance_request_decl_def object_simps)

interpretation holding: codec en_holding de_holding
  by unfold_locales (simp add: en_holding_def de_holding_def holding_decl_def object_simps)

interpretation holdings_report: codec en_holdings_report de_holdings_report
  by unfold_locales (simp add: en_holdings_report_def de_holdings_report_def holdings_report_decl_def object_simps)

interpretation pay_request: codec en_pay_request de_pay_request
  by unfold_locales (simp add: en_pay_request_def de_pay_request_def pay_request_decl_def object_simps)

interpretation fund_request: codec en_fund_request de_fund_request
  by unfold_locales (simp add: en_fund_request_def de_fund_request_def fund_request_decl_def object_simps)

interpretation login_resp: codec en_login_resp de_login_resp
  by unfold_locales (simp add: en_login_resp_def login_resp_fields_def de_login_resp_def login_resp_decl_def
      object_simps)

lemma variant_tagged [simp]: "variant (tagged t v) = Some (t, v)"
  by (simp add: variant_def tagged_def)

lemma de_only_single [simp]: "de_only n de (WObj [(n, j)]) = de j"
  by (simp add: de_only_def object_simps)

lemma de1_en1 [simp]: "de1 n (en1 n a) = Some a"
  by (simp add: de1_def en1_def)

lemma de2_en2 [simp]: "n \<noteq> m \<Longrightarrow> de2 n m (en2 n a m b) = Some (a, b)"
  by (simp add: de2_def en2_def object_simps)

lemma de_empty_object [simp]: "de_empty a (WObj []) = Some a"
  by (simp add: de_empty_def object_simps)

lemma accept_login_json [simp]:
  "de_accept_login (WObj ([(''request_id'', WStr a), (''descriptor'', WStr b)]
     @ en_skip ''service_key'' k @ en_skip ''service_signature'' s)) = Some (AcceptLoginRequest a b k s)"
  by (simp add: de_accept_login_def object_simps en_skip_def split: option.split)

lemma accept_balance_json [simp]:
  "de_accept_balance (WObj [(''request_id'', WStr a), (''amount'', en_u64 v)]) = Some (AcceptAssetBalanceRequest a v)"
  by (simp add: de_accept_balance_def object_simps)

interpretation user_action: codec en_user_action de_user_action
proof
  show "de_user_action (en_user_action a) = Some a" for a
    by (cases a) (simp_all add: de_user_action_def del: append.simps)
qed

interpretation error_code: codec en_error_code de_error_code
proof
  show "de_error_code (en_error_code c) = Some c" for c
    by (cases c) (simp_all add: de_error_code_def code_named_def)
qed

interpretation error: codec en_error de_error
  by unfold_locales (simp add: en_error_def de_error_def object_simps)

interpretation resp: codec en_resp de_resp
proof
  show "de_resp (en_resp r) = Some r" for r by (cases r) (simp_all add: de_resp_def)
qed

interpretation notif: codec en_notif de_notif
proof
  show "de_notif (en_notif n) = Some n" for n by (cases n) (simp_all add: de_notif_def)
qed

lemma de_with_id_object [simp]:
  "n \<noteq> ''id'' \<Longrightarrow> de_with_id n de (WObj [(''id'', WInt k), (n, j)])
     = (if - (2 ^ 31) \<le> k \<and> k < 2 ^ 31 then map_option (Pair k) (de j) else None)"
  by (cases "de j") (simp_all add: de_with_id_def object_simps de_i32_def de_int_in_def)

section \<open>Messages from the server\<close>

definition in_i32 :: "req_id \<Rightarrow> bool" where
  "in_i32 k \<longleftrightarrow> - (2 ^ 31) \<le> k \<and> k < 2 ^ 31"

fun id_ok :: "from_msg \<Rightarrow> bool" where
  "id_ok (FromResp k r) = in_i32 k"
| "id_ok (FromError k e) = in_i32 k"
| "id_ok (FromNotif n) = True"

lemma from_roundtrip: "id_ok m \<Longrightarrow> de_from (en_from m) = Some m"
  by (cases m) (simp_all add: de_from_def in_i32_def)

text \<open>Fields that came with a later version of the protocol.\<close>

definition later_fields :: "string set" where
  "later_fields = {n. (n, Defaulted) \<in> set login_resp_decl}"

lemma map_of_filter_distinct:
  "distinct (map fst kvs) \<Longrightarrow>
   map_of (filter P kvs) n = (case map_of kvs n of None \<Rightarrow> None | Some v \<Rightarrow> if P (n, v) then Some v else None)"
  by (induction kvs) (force dest: map_of_SomeD split: option.splits)+

lemma struct_of_map_extra:
  assumes "fst ` set extra \<inter> set (map fst decl) = {}"
  shows "struct_of_map decl (kvs @ extra) = struct_of_map decl kvs"
proof -
  have none: "map_of extra n = None" if "n \<in> set (map fst decl)" for n
    using assms that by (auto simp: map_of_eq_None_iff)
  have "map (\<lambda>(n, p). map_of (kvs @ extra) n) decl = map (\<lambda>(n, p). map_of kvs n) decl"
    using none by (force simp: map_add_def split: option.split)
  moreover have "filter (\<lambda>k. k \<in> set (map fst decl)) (map fst extra) = []"
    using assms by (force simp: filter_empty_conv)
  moreover have "list_all (\<lambda>(n, p). p = Required \<longrightarrow> n \<in> set (map fst (kvs @ extra))) decl
      = list_all (\<lambda>(n, p). p = Required \<longrightarrow> n \<in> set (map fst kvs)) decl"
    using assms by (force simp: list_all_iff)
  ultimately show ?thesis by (simp add: struct_of_map_def)
qed

lemma struct_of_map_filter:
  assumes "distinct (map fst kvs)"
    and "list_all (\<lambda>(n, p). p = Required \<longrightarrow> (\<exists>v. map_of kvs n = Some v \<and> P (n, v))) decl"
  shows "struct_of_map decl (filter P kvs)
    = Some (map (\<lambda>(n, p). case map_of kvs n of None \<Rightarrow> None | Some v \<Rightarrow> if P (n, v) then Some v else None) decl)"
proof -
  have "distinct (filter f (map fst (filter P kvs)))" for f
    using assms(1) by (simp add: distinct_map_filter)
  moreover have "list_all (\<lambda>(n, p). p = Required \<longrightarrow> n \<in> set (map fst (filter P kvs))) decl"
    using assms(2) by (force simp: list_all_iff dest: map_of_SomeD)
  ultimately show ?thesis
    by (simp add: struct_of_map_def map_of_filter_distinct [OF assms(1)])
qed

lemma defaulted_omitted [simp]:
  "(\<And>xs. dl (en_vec en xs) = Some xs) \<Longrightarrow>
   defaulted dl (if b \<longrightarrow> en_vec en xs \<noteq> WArr [] then Some (en_vec en xs) else None) = Some xs"
  by (auto simp: en_vec_def)

definition older_fields :: "string set \<Rightarrow> login_resp \<Rightarrow> (string \<times> wjson) list" where
  "older_fields S r = filter (\<lambda>(n, j). n \<in> S \<longrightarrow> j \<noteq> WArr []) (login_resp_fields r)"

lemma older_login_resp:
  assumes "S \<subseteq> later_fields" "fst ` set extra \<inter> set (map fst login_resp_decl) = {}"
  shows "de_login_resp (WObj (older_fields S r @ extra)) = Some r"
proof -
  have S: "''sessions'' \<notin> S" "''sign_requests'' \<notin> S"
    using assms(1) by (auto simp: later_fields_def login_resp_decl_def)
  have d: "distinct (map fst (login_resp_fields r))" by (simp add: login_resp_fields_def)
  have "struct_fields login_resp_decl (WObj (older_fields S r @ extra))
      = struct_of_map login_resp_decl (older_fields S r)"
    by (simp add: struct_fields_def struct_of_map_extra [OF assms(2)])
  also have "\<dots> = Some (map (\<lambda>(n, p). case map_of (login_resp_fields r) n of None \<Rightarrow> None
      | Some v \<Rightarrow> if n \<in> S \<longrightarrow> v \<noteq> WArr [] then Some v else None) login_resp_decl)"
    unfolding older_fields_def
    by (subst struct_of_map_filter [OF d]) (simp_all add: S login_resp_decl_def login_resp_fields_def)
  finally show ?thesis
    by (simp add: de_login_resp_def) (simp add: login_resp_decl_def login_resp_fields_def S)
qed

text \<open>C35.  The wallet reads the server's frames as they are meant.  Every message with a 32-bit id is
  read back from its JSON form as it was; a login response of an older server, which leaves out any of
  the six later fields that have nothing to say, or of a newer one, which adds fields this version does
  not know, is read as the same response; and an error whose code is new is still an error, with its
  message.\<close>

theorem server_frames_read_as_meant:
  "(id_ok m \<longrightarrow> de_from (en_from m) = Some m)
   \<and> (S \<subseteq> later_fields \<and> fst ` set extra \<inter> set (map fst login_resp_decl) = {}
      \<longrightarrow> de_login_resp (WObj (older_fields S r @ extra)) = Some r)
   \<and> (code \<noteq> ''InvalidRequest'' \<and> code \<noteq> ''Server''
      \<longrightarrow> de_error (WObj [(''code'', WStr code), (''message'', WStr text)])
          = Some \<lparr>err_code = UnknownCode, err_message = text\<rparr>)"
proof (intro conjI impI)
  show "de_error (WObj [(''code'', WStr code), (''message'', WStr text)])
      = Some \<lparr>err_code = UnknownCode, err_message = text\<rparr>"
    if "code \<noteq> ''InvalidRequest'' \<and> code \<noteq> ''Server''"
    using that by (simp add: de_error_def object_simps de_error_code_def code_named_def)
qed (simp_all add: from_roundtrip older_login_resp)

theorem server_frames_read_as_meant_witness:
  "de_from (en_from (FromResp 0 (RespLogin demo_login_resp))) = Some (FromResp 0 (RespLogin demo_login_resp))
   \<and> de_login_resp (WObj (older_fields {''holdings''} demo_login_resp @ [(''features'', WArr [])])) = Some demo_login_resp
   \<and> de_error (WObj [(''code'', WStr ''SomethingNew''), (''message'', WStr ''m'')])
       = Some \<lparr>err_code = UnknownCode, err_message = ''m''\<rparr>"
  using server_frames_read_as_meant [of "FromResp 0 (RespLogin demo_login_resp)" "{''holdings''}"
      "[(''features'', WArr [])]" demo_login_resp "''SomethingNew''" "''m''"]
  by (simp add: in_i32_def later_fields_def login_resp_decl_def)

section \<open>Messages to the server\<close>

text \<open>The session's environment with this JSON form.\<close>

definition json_env :: "'k wire_lib \<Rightarrow> 'k session_env" where
  "json_env wl =
     \<lparr>env_crypto = wl_crypto wl, to_string_json = (\<lambda>m. json_print wl (en_to wl m)),
      from_str_json = (\<lambda>t. Option.bind (json_parse wl t) de_from)\<rparr>"

text \<open>What the login answer needs of the key, signature and hex texts.\<close>

definition login_text_ok :: "'k wire_lib \<Rightarrow> login_req \<Rightarrow> bool" where
  "login_text_ok wl q \<longleftrightarrow>
     xonly_from_str wl (xonly_to_str wl (lq_public_key q)) = Some (lq_public_key q)
     \<and> signature_from_str (wl_crypto wl) (signature_to_string (wl_crypto wl) (lq_signature q)) = Some (lq_signature q)
     \<and> (case lq_install_id q of None \<Rightarrow> True
        | Some i \<Rightarrow> install_id_deserialize (wl_crypto wl) (install_id_fmt (wl_crypto wl) i) = Some i)"

lemma login_req_roundtrip: "login_text_ok wl q \<Longrightarrow> de_login_req wl (en_login_req wl q) = Some q"
  by (cases "lq_install_id q")
    (simp_all add: login_text_ok_def de_login_req_def en_login_req_def object_simps nullable_def en_opt_def)

lemma to_roundtrip:
  assumes "in_i32 k" "case r of ReqLogin q \<Rightarrow> login_text_ok wl q | _ \<Rightarrow> True"
  shows "de_to wl (en_to wl (ToReq k r)) = Some (ToReq k r)"
  using assms by (cases r) (simp_all add: de_to_def de_req_def in_i32_def login_req_roundtrip)

text \<open>The frames a step may send, seen from the state after it.\<close>

definition frames_after :: "'k session_env \<Rightarrow> bytes \<Rightarrow> 'k core \<Rightarrow> 'k core \<Rightarrow> to_msg set" where
  "frames_after env aux c c' =
     {ToReq 0 ReqChallenge}
     \<union> {ToReq 0 (ReqLogin \<lparr>lq_public_key = public_key (env_crypto env) (wallet_key c),
           lq_signature = sign_challenge (env_crypto env) (wallet_key c) ch aux,
           lq_install_id = Some (install_id c)\<rparr>) | ch. True}
     \<union> {ToReq 0 (ReqRegisterFcm t) | t. True}
     \<union> {ToReq k (ReqUserAction a) | k a. bt_get (user_actions c') k = Some a}"

lemma sends_within_mono: "ms \<subseteq> ms' \<Longrightarrow> sends_within env ms e \<Longrightarrow> sends_within env ms' e"
  by (auto simp: sends_within_def split: effect.splits)

lemma frames_after_member [simp]:
  "ToReq 0 ReqChallenge \<in> frames_after env aux c c'" "ToReq 0 (ReqRegisterFcm t) \<in> frames_after env aux c c'"
  "ToReq k (ReqUserAction a) \<in> frames_after env aux c c' \<longleftrightarrow> bt_get (user_actions c') k = Some a"
  by (auto simp: frames_after_def)

lemma sends_within_send [simp]: "ToReq k r \<in> ms \<Longrightarrow> sends_within env ms (send env k r)"
  by (simp add: sends_within_def send_def)

lemma login_resp_actions: "user_actions (fst (handle_login_resp env lr c)) = user_actions c"
  by (simp add: handle_login_resp_def sync_defs Let_def case_prod_unfold)

lemma login_sends_after:
  assumes "bt_wf (user_actions c)"
  shows "list_all (sends_within env (frames_after env aux c (fst (handle_login_resp env lr c))))
    (snd (handle_login_resp env lr c))"
proof -
  have "transport_frames env aux c \<subseteq> frames_after env aux c (fst (handle_login_resp env lr c))"
    using assms by (auto simp: transport_frames_def frames_after_def login_resp_actions bt_mem_get)
  from sends_within_mono [OF this] sends_within_login [of env aux c lr] show ?thesis
    by (auto simp: list_all_iff)
qed

lemma notification_silent: "list_all (sends_within env ms) (snd (handle_notification n c))"
  by (cases n) (simp_all add: handle_notification_def)

lemma transport_sends_after:
  assumes "bt_wf (user_actions c)"
  shows "list_all (sends_within env (frames_after env aux c (fst (handle_transport env aux ev c))))
    (snd (handle_transport env aux ev c))"
proof -
  have "ToReq 0 (ReqLogin \<lparr>lq_public_key = public_key (env_crypto env) (wallet_key c),
      lq_signature = sign_challenge (env_crypto env) (wallet_key c) ch aux,
      lq_install_id = Some (install_id c)\<rparr>) \<in> frames_after env aux c c'" for ch c'
    by (auto simp: frames_after_def)
  then show ?thesis
    using login_sends_after [OF assms, of env aux]
    by (auto simp: handle_transport_def handle_server_message_def handle_response_def notification_silent
        split: transport_event.split option.split from_msg.split resp.split)
qed

lemma handle_sends_after:
  assumes "bt_wf (user_actions c)"
  shows "list_all (sends_within env (frames_after env aux c (fst (handle env aux i c)))) (snd (handle env aux i c))"
proof (cases i)
  case (Transport ev)
  then show ?thesis using transport_sends_after [OF assms] by (simp add: handle_def)
next
  case (RegisterFcmToken t)
  then show ?thesis
    by (simp add: handle_def handle_register_fcm_def send_fcm_token_def Let_def split: option.split)
qed (auto simp: handle_defs answer_effects answer_user_actions add_user_action_effects Let_def
      add_user_action_queue [unfolded prod.inject] bt_get_insert split: option.split link_type.split)

text \<open>C11.  Every frame the wallet sends is read by the server as the request it is.  In any state of a
  session of fewer than \<open>2^31 - 2\<close> inputs, whatever the next input, each frame is the JSON text of one
  request, reading that text back gives exactly that request, and a request that carries a user action
  carries the action the core holds under the request's id; every other request has id 0.\<close>

theorem sent_frames_read_as_meant:
  assumes "core_wf n c" "n < 2 ^ 31 - 2"
    and "\<And>m. json_parse wl (json_print wl (en_to wl m)) = Some (en_to wl m)"
    and "\<And>ch. login_text_ok wl \<lparr>lq_public_key = public_key (wl_crypto wl) (wallet_key c),
      lq_signature = sign_challenge (wl_crypto wl) (wallet_key c) ch aux, lq_install_id = Some (install_id c)\<rparr>"
    and "Send t \<in> set (snd (handle (json_env wl) aux i c))"
  shows "\<exists>k r. t = json_print wl (en_to wl (ToReq k r))
    \<and> Option.bind (json_parse wl t) (de_to wl) = Some (ToReq k r)
    \<and> (case r of ReqUserAction a \<Rightarrow> bt_get (user_actions (fst (handle (json_env wl) aux i c))) k = Some a
       | _ \<Rightarrow> k = 0)"
proof -
  let ?env = "json_env wl" and ?c' = "fst (handle (json_env wl) aux i c)"
  have env [simp]: "env_crypto ?env = wl_crypto wl" "to_string_json ?env m = json_print wl (en_to wl m)" for m
    by (simp_all add: json_env_def)
  have wf: "bt_wf (user_actions c)" using assms(1) by (simp add: core_wf_def actions_wf_def)
  have "core_wf (Suc n) ?c'" using assms(1,2) by (intro core_wf_step) auto
  then have small: "in_i32 k" if "bt_get (user_actions ?c') k = Some a" for k a
  proof -
    from that have "k \<in> set (bt_keys (user_actions ?c'))" by (metis bt_get_None_iff option.distinct(1))
    with \<open>core_wf (Suc n) ?c'\<close> assms(2) show ?thesis by (force simp: core_wf_def actions_wf_def in_i32_def)
  qed
  have "sends_within ?env (frames_after ?env aux c ?c') (Send t)"
    using handle_sends_after [OF wf, of ?env aux i] assms(5) by (simp add: list_all_iff)
  then obtain m where m: "m \<in> frames_after ?env aux c ?c'" and t: "t = json_print wl (en_to wl m)"
    by (auto simp: sends_within_def)
  obtain k r where kr: "m = ToReq k r" by (cases m)
  have "in_i32 k" "case r of ReqLogin q \<Rightarrow> login_text_ok wl q | _ \<Rightarrow> True"
    and id: "case r of ReqUserAction a \<Rightarrow> bt_get (user_actions ?c') k = Some a | _ \<Rightarrow> k = 0"
    using m assms(4) small by (auto simp: kr frames_after_def in_i32_def)
  then have "Option.bind (json_parse wl t) (de_to wl) = Some (ToReq k r)"
    using to_roundtrip [of k wl r] by (simp add: t kr assms(3) del: en_to.simps)
  with id t kr show ?thesis by blast
qed

text \<open>An instance whose text layer numbers the values.\<close>

instance wjson :: countable
  by countable_datatype

definition demo_wire :: "unit wire_lib" where
  "demo_wire =
     \<lparr>wl_crypto = demo_crypto\<lparr>hex_decode_to_slice := (\<lambda>_ _. Some [1]), sign_schnorr := (\<lambda>_ _ _. [3]),
        signature_from_str := (\<lambda>_. Some [3])\<rparr>, xonly_to_str = (\<lambda>_. ''02''),
      xonly_from_str = (\<lambda>_. Some [2]), json_print = (\<lambda>j. replicate (to_nat j) CHR ''x''),
      json_parse = (\<lambda>t. Some (from_nat (length t)))\<rparr>"

theorem sent_frames_read_as_meant_witness:
  "\<exists>t k r. Send t \<in> set (snd (handle (json_env demo_wire) [] (Transport Connected) demo_core))
     \<and> Option.bind (json_parse demo_wire t) (de_to demo_wire) = Some (ToReq k r) \<and> k = 0 \<and> r = ReqChallenge"
proof -
  let ?t = "json_print demo_wire (en_to demo_wire (ToReq 0 ReqChallenge))"
  have law: "json_parse demo_wire (json_print demo_wire j) = Some j" for j
    by (simp add: demo_wire_def)
  have sent: "Send ?t \<in> set (snd (handle (json_env demo_wire) [] (Transport Connected) demo_core))"
    by (simp add: handle_def handle_transport_def send_def json_env_def)
  have wf: "core_wf 0 demo_core" unfolding demo_core_def by (rule core_wf_new)
  have "\<exists>k r. ?t = json_print demo_wire (en_to demo_wire (ToReq k r))
      \<and> Option.bind (json_parse demo_wire ?t) (de_to demo_wire) = Some (ToReq k r)
      \<and> (case r of ReqUserAction a \<Rightarrow>
           bt_get (user_actions (fst (handle (json_env demo_wire) [] (Transport Connected) demo_core))) k = Some a
         | _ \<Rightarrow> k = 0)"
    by (rule sent_frames_read_as_meant [OF wf _ law _ sent])
      (simp_all add: demo_wire_def login_text_ok_def demo_crypto_def demo_core_def new_core_def
        sign_challenge_def install_id_fmt_def install_id_deserialize_def public_key_def)
  moreover have "Option.bind (json_parse demo_wire ?t) (de_to demo_wire) = Some (ToReq 0 ReqChallenge)"
    by (simp add: law de_to_def de_req_def)
  ultimately show ?thesis using sent by blast
qed

section \<open>Types\<close>

lemma de_with_id_typed: "de_with_id n de v = Some (k, x) \<Longrightarrow> in_i32 k"
  by (auto simp: de_with_id_def need_def de_i32_def de_int_in_def in_i32_def
      split: bind_splits option.splits wjson.splits if_splits)

lemma de_from_typed: "de_from j = Some m \<Longrightarrow> id_ok m"
  by (auto simp: de_from_def split: bind_splits if_splits) (erule de_with_id_typed)+

text \<open>C37.  What the session reads from the wire is well typed: a text that is read at all is read as a
  message whose id is a 32-bit integer, and that message, written out and read again, is the same; a
  response or an error with any other id is not read, whatever else it says.\<close>

theorem decoded_frames_are_typed:
  "(from_str_json (json_env wl) t = Some m \<longrightarrow>
      id_ok m \<and> (\<exists>j. json_parse wl t = Some j \<and> de_from j = Some m \<and> de_from (en_from m) = de_from j))
   \<and> (\<not> in_i32 k \<longrightarrow> de_from (en_from (FromResp k r)) = None \<and> de_from (en_from (FromError k e)) = None)"
proof (intro conjI impI)
  assume "from_str_json (json_env wl) t = Some m"
  then obtain j where j: "json_parse wl t = Some j" "de_from j = Some m"
    by (auto simp: json_env_def split: bind_splits)
  show "id_ok m" using de_from_typed j(2) .
  with j from_roundtrip show "\<exists>j. json_parse wl t = Some j \<and> de_from j = Some m \<and> de_from (en_from m) = de_from j"
    by simp
qed (simp_all add: de_from_def in_i32_def)

theorem decoded_frames_are_typed_witness:
  "id_ok (FromNotif (NSessionRemoved ''s''))
   \<and> de_from (en_from (FromNotif (NSessionRemoved ''s''))) = Some (FromNotif (NSessionRemoved ''s''))
   \<and> de_from (en_from (FromResp (2 ^ 31) RespUserAction)) = None"
proof -
  let ?m = "FromNotif (NSessionRemoved ''s'')"
  have read: "from_str_json (json_env demo_wire) (json_print demo_wire (en_from ?m)) = Some ?m"
    by (simp add: json_env_def demo_wire_def from_roundtrip del: en_from.simps)
  have out: "\<not> in_i32 (2 ^ 31)" by (simp add: in_i32_def)
  from decoded_frames_are_typed [of demo_wire "json_print demo_wire (en_from ?m)" ?m "2 ^ 31" RespUserAction
      "\<lparr>err_code = Server, err_message = []\<rparr>"]
  show ?thesis using read out by (auto simp del: en_from.simps)
qed

end
