(* ===== verification/Bench_Host.thy ===== *)
theory Bench_Host
  imports Transport Venue
begin

text \<open>
  The hosts that ship with the SDK as programs of their own (\<open>lc-wallet-core/examples\<close>): the
  approve-everything bench \<open>approve-all-wallet.rs\<close>, the paying bench \<open>taker-bench-wallet.rs\<close>, the
  command-line wallet \<open>headless-wallet.rs\<close>, and the wallet halves of the two end-to-end drivers.  Each is
  the function from one host event, or one line, to the inputs it queues through the handle; \<open>None\<close> is
  a panic.  What they print, the files and the environment variables are not modelled beyond the
  values read; the software signer of \<open>taker-bench-wallet\<close> (\<open>lwk\<close>) is a parameter.
\<close>

section \<open>The approve-everything bench\<close>

definition DEFAULT_SEED :: bytes where
  "DEFAULT_SEED = replicate 32 0x5c"

text \<open>\<open>descriptor\<close>: the extended public key is BIP32's.\<close>

definition bench_descriptor :: "'k venue_lib \<Rightarrow> (bytes \<Rightarrow> string option) \<Rightarrow> bytes \<Rightarrow> string option" where
  "bench_descriptor vl master_xpub seed =
     map_option (\<lambda>xpub. ''ct(slip77('' @ hex_encode vl seed @ ''),elwpkh('' @ xpub @ ''/<0;1>/*))'')
       (master_xpub seed)"

record ('k, 'v) bench =
  b_lib :: "'k venue_lib"
  b_elements :: elements
  b_serde :: "'v serde"
  b_pset_to_base64 :: "pset \<Rightarrow> string"  \<comment> \<open>serialisation and base64\<close>
  b_block_hash :: "string \<Rightarrow> bytes"
  b_venue_key :: 'k
  b_expected_dest :: "string option"

datatype bench_error = SeedNotHex | SeedPanic | BenchVenue venue_error

text \<open>The start of \<open>main\<close>: the seed, the two keys, and the actor, whose install id is the first half of
  the seed.\<close>

definition bench_seed :: "'k venue_lib \<Rightarrow> string option \<Rightarrow> bench_error + bytes" where
  "bench_seed vl arg = (case arg of
     None \<Rightarrow> Inr DEFAULT_SEED
   | Some hex_seed \<Rightarrow> ok_or (hex_decode_to_slice vl hex_seed 32) SeedNotHex)"

definition bench_start ::
  "'k venue_lib \<Rightarrow> (bytes \<Rightarrow> string option) \<Rightarrow> string option \<Rightarrow> bench_error + 'k \<times> 'k actor" where
  "bench_start vl master_xpub arg =
     and_then (bench_seed vl arg) (\<lambda>seed.
     and_then (ok_or (wallet_key_new (crypto.truncate vl) seed LiquidTestnet) SeedPanic) (\<lambda>identity.
     and_then (case from_seed vl seed LiquidTestnet of Inl e \<Rightarrow> Inl (BenchVenue e) | Inr k \<Rightarrow> Inr k) (\<lambda>venue_key.
     and_then (ok_or (bench_descriptor vl master_xpub seed) SeedPanic) (\<lambda>desc.
     Inr (venue_key, new_actor (take 16 seed) desc identity)))))"

definition stop_stale :: "session list \<Rightarrow> input list" where
  "stop_stale ss = map (\<lambda>s. stop_session (session_id s)) (filter (\<lambda>s. \<not> is_local s) ss)"

definition bench_sign :: "('k, 'v) bench \<Rightarrow> sign_request \<Rightarrow> input list option" where
  "bench_sign b r =
     (let reject = [reject_sign (sr_request_id r)] in
      case decode_pset (b_elements b) (sr_pset r) of
        Inl _ \<Rightarrow> Some reject
      | Inr p \<Rightarrow>
          (case genesis_block_hash LiquidTestnet of
             None \<Rightarrow> None
           | Some genesis \<Rightarrow>
               (case sign_pset_keyspend_inputs (b_lib b) (b_venue_key b) p (b_block_hash b genesis) of
                  Inr (n, p') \<Rightarrow>
                    Some (if n = 0 then reject
                          else [accept_sign (sr_request_id r) (b_pset_to_base64 b p')])
                | Inl _ \<Rightarrow> Some reject)))"

text \<open>\<open>to_lowercase\<close> is compared with hexadecimal text only, where the ASCII letters decide.\<close>

definition digest_matches :: "('k, 'x) crypto_scheme \<Rightarrow> bytes \<Rightarrow> string \<Rightarrow> bool" where
  "digest_matches cr rebuilt digest \<longleftrightarrow> hex_encode cr rebuilt = to_ascii_lowercase digest"

definition unwrap_or :: "'e + 'a \<Rightarrow> 'a \<Rightarrow> 'a" where
  "unwrap_or r d = (case r of Inr a \<Rightarrow> a | Inl _ \<Rightarrow> d)"

definition expected_withdraw :: "string option \<Rightarrow> typed_request \<Rightarrow> bool" where
  "expected_withdraw expected typed = (case typed of
     Withdraw amt dest root \<Rightarrow> (case expected of None \<Rightarrow> True | Some e \<Rightarrow> e = dest)
   | _ \<Rightarrow> True)"

definition bench_sign_message :: "('k, 'v) bench \<Rightarrow> sign_message_request \<Rightarrow> input list" where
  "bench_sign_message b r =
     (let rid = smr_request_id r; reject = [reject_sign_message rid]; vl = b_lib b in
      case Option.bind (smr_description r) (parse_typed_description vl (b_serde b)) of
        Some (Inr typed) \<Rightarrow>
          let rebuilt = unwrap_or (typed_request_digest vl typed (account_pk vl (b_venue_key b))) (replicate 32 0)
          in if \<not> digest_matches vl rebuilt (smr_digest r) then reject
             else if \<not> expected_withdraw (b_expected_dest b) typed then reject
             else (case sign_typed vl (b_venue_key b) typed of
                     Inr (d, signature) \<Rightarrow> [accept_sign_message_signed rid (signature_to_string vl signature)]
                   | Inl _ \<Rightarrow> reject)
      | Some (Inl _) \<Rightarrow> reject
      | None \<Rightarrow> [accept_sign_message rid])"

definition bench_react :: "('k, 'v) bench \<Rightarrow> wallet_event \<Rightarrow> input list option" where
  "bench_react b ev = (case ev of
     Sessions ss \<Rightarrow> Some (stop_stale ss)
   | LoginRequested r \<Rightarrow> Some [accept_login (lr_request_id r)]
   | SignRequested r \<Rightarrow> bench_sign b r
   | SignMessageRequested r \<Rightarrow> Some (bench_sign_message b r)
   | PayRequested r \<Rightarrow> Some [reject_pay (pr_request_id r)]
   | _ \<Rightarrow> Some [])"

section \<open>Links from a file\<close>

text \<open>\<open>str::lines\<close>: pieces between line feeds without a carriage return at their end; what follows the
  last line feed is a line when it is not empty.\<close>

definition strip_cr :: "string \<Rightarrow> string" where
  "strip_cr l = (if l \<noteq> [] \<and> last l = CHR 0x0D then butlast l else l)"

definition lines :: "string \<Rightarrow> string list" where
  "lines t =
     (let ps = split_on (CHR 0x0A) t in
      map strip_cr (butlast ps) @ (if last ps = [] then [] else [last ps]))"

definition open_line :: "(string \<Rightarrow> url option) \<Rightarrow> string \<Rightarrow> input list" where
  "open_line url_parse line =
     (let l = trim line in
      if l = [] then [] else case open_link url_parse l of Inr i \<Rightarrow> [i] | Inl _ \<Rightarrow> [])"

text \<open>One round of the watcher: how many lines it has seen, and the text of the file when it can be
  read.\<close>

definition poll_links :: "(string \<Rightarrow> url option) \<Rightarrow> nat \<Rightarrow> string option \<Rightarrow> nat \<times> input list" where
  "poll_links url_parse seen file = (case file of
     None \<Rightarrow> (seen, [])
   | Some t \<Rightarrow> (length (lines t), concat (map (open_line url_parse) (drop seen (lines t)))))"

fun watch_links :: "(string \<Rightarrow> url option) \<Rightarrow> nat \<Rightarrow> string option list \<Rightarrow> input list" where
  "watch_links url_parse seen [] = []"
| "watch_links url_parse seen (f # fs) =
     (let (seen', is) = poll_links url_parse seen f in is @ watch_links url_parse seen' fs)"

section \<open>The paying bench\<close>

text \<open>The four calls on the wallet and the signer, each of which may fail.\<close>

record taker_signer =
  tk_parse_pset :: "string \<Rightarrow> pset option"
  tk_sync :: bool
  tk_add_details :: "pset \<Rightarrow> pset option"
  tk_sign :: "pset \<Rightarrow> (nat \<times> pset) option"
  tk_finalize :: "pset \<Rightarrow> pset option"
  tk_to_string :: "pset \<Rightarrow> string"

definition taker_process :: "taker_signer \<Rightarrow> pset \<Rightarrow> (nat \<times> pset) option" where
  "taker_process tk p =
     (if \<not> tk_sync tk then None
      else Option.bind (tk_add_details tk p) (\<lambda>p1.
           Option.bind (tk_sign tk p1) (\<lambda>(n, p2).
           Option.bind (tk_finalize tk p2) (\<lambda>p3. Some (n, p3)))))"

definition taker_sign :: "taker_signer \<Rightarrow> sign_request \<Rightarrow> input list" where
  "taker_sign tk r =
     (let reject = [reject_sign (sr_request_id r)] in
      case tk_parse_pset tk (sr_pset r) of
        None \<Rightarrow> reject
      | Some p \<Rightarrow>
          (case taker_process tk p of
             Some (n, p') \<Rightarrow>
               if n = 0 then reject else [accept_sign (sr_request_id r) (tk_to_string tk p')]
           | None \<Rightarrow> reject))"

definition taker_react :: "taker_signer \<Rightarrow> wallet_event \<Rightarrow> input list" where
  "taker_react tk ev = (case ev of
     Sessions ss \<Rightarrow> stop_stale ss
   | LoginRequested r \<Rightarrow> [accept_login (lr_request_id r)]
   | SignRequested r \<Rightarrow> taker_sign tk r
   | SignMessageRequested r \<Rightarrow> [reject_sign_message (smr_request_id r)]
   | _ \<Rightarrow> [])"

text \<open>The start of \<open>main\<close>, from what the signer yields: the master blinding key, the seed and the
  descriptor.\<close>

definition taker_start :: "'k crypto \<Rightarrow> bytes \<Rightarrow> bytes \<Rightarrow> string \<Rightarrow> 'k actor option" where
  "taker_start cr mbk seed desc =
     map_option (new_actor (take 16 seed) desc) (wallet_key_new cr mbk LiquidTestnet)"

section \<open>The command-line wallet\<close>

text \<open>A fresh identity each run, with no descriptor to disclose.\<close>

definition headless_start :: "'k crypto \<Rightarrow> bytes \<Rightarrow> install_id \<Rightarrow> 'k actor option" where
  "headless_start cr random_seed random_install =
     map_option (new_actor random_install []) (ephemeral cr random_seed)"

text \<open>\<open>str::contains\<close> and \<open>split_whitespace\<close>.\<close>

fun contains_str :: "string \<Rightarrow> string \<Rightarrow> bool" where
  "contains_str p [] = (p = [])"
| "contains_str p (c # cs) = (starts_with p (c # cs) \<or> contains_str p cs)"

lemma white_space_progress: "find (\<lambda>w. starts_with w s) white_space = Some w \<Longrightarrow> s \<noteq> []"
  by (auto simp: find_Some_iff white_space_def starts_with_def)

text \<open>The pieces: a character is kept in the current piece or, with its white-space scalar, ends it.\<close>

function split_ws :: "string \<Rightarrow> string \<Rightarrow> string list" where
  "split_ws piece s =
     (case find (\<lambda>w. starts_with w s) white_space of
        Some w \<Rightarrow> (if piece = [] then [] else [piece]) @ split_ws [] (drop (max 1 (length w)) s)
      | None \<Rightarrow> (case s of
            [] \<Rightarrow> if piece = [] then [] else [piece]
          | c # cs \<Rightarrow> split_ws (piece @ [c]) cs))"
  by pat_completeness auto
termination
  by (relation "measure (\<lambda>(piece, s). length s)") (auto dest: white_space_progress)

declare split_ws.simps [simp del]

definition split_whitespace :: "string \<Rightarrow> string list" where
  "split_whitespace s = split_ws [] s"

datatype command_outcome = Queue input | LinkRefused link_error | Quit | Usage

definition link_target :: "string \<Rightarrow> string" where
  "link_target target =
     (if contains_str ''://'' target then target
      else ''liquidconnect://login/?request_id='' @ target)"

definition headless_command :: "(string \<Rightarrow> url option) \<Rightarrow> string \<Rightarrow> command_outcome" where
  "headless_command url_parse line =
     (let parts = split_whitespace line;
          first = (case parts of [] \<Rightarrow> None | a # _ \<Rightarrow> Some a);
          second = (case parts of _ # b # _ \<Rightarrow> Some b | _ \<Rightarrow> None) in
      case (first, second) of
        (Some cmd, Some arg) \<Rightarrow>
          if cmd = ''link'' then
            (case open_link url_parse (link_target arg) of Inr i \<Rightarrow> Queue i | Inl e \<Rightarrow> LinkRefused e)
          else if cmd = ''accept'' then Queue (accept_login arg)
          else if cmd = ''reject'' then Queue (reject_login arg)
          else if cmd = ''quit'' then Quit else Usage
      | (Some cmd, None) \<Rightarrow> if cmd = ''quit'' then Quit else Usage
      | _ \<Rightarrow> Usage)"

section \<open>The wallet halves of the drivers\<close>

definition SIGN_SEED :: bytes where "SIGN_SEED = replicate 32 0x5c"
definition PAY_SEED :: bytes where "PAY_SEED = replicate 32 0x6d"

text \<open>The keys and the actor; the install id is random.\<close>

definition e2e_sign_start ::
  "'k venue_lib \<Rightarrow> (bytes \<Rightarrow> string option) \<Rightarrow> install_id \<Rightarrow> bench_error + 'k \<times> 'k actor" where
  "e2e_sign_start vl master_xpub random_install =
     and_then (ok_or (wallet_key_new (crypto.truncate vl) SIGN_SEED LiquidTestnet) SeedPanic) (\<lambda>identity.
     and_then (case from_seed vl SIGN_SEED LiquidTestnet of Inl e \<Rightarrow> Inl (BenchVenue e) | Inr k \<Rightarrow> Inr k) (\<lambda>venue_key.
     and_then (ok_or (bench_descriptor vl master_xpub SIGN_SEED) SeedPanic) (\<lambda>desc.
     Inr (venue_key, new_actor random_install desc identity))))"

definition e2e_pay_start ::
  "'k venue_lib \<Rightarrow> (bytes \<Rightarrow> string option) \<Rightarrow> install_id \<Rightarrow> bench_error + 'k actor" where
  "e2e_pay_start vl master_xpub random_install =
     and_then (ok_or (wallet_key_new (crypto.truncate vl) PAY_SEED LiquidTestnet) SeedPanic) (\<lambda>identity.
     and_then (ok_or (bench_descriptor vl master_xpub PAY_SEED) SeedPanic) (\<lambda>desc.
     Inr (new_actor random_install desc identity)))"

text \<open>\<open>sign-message-e2e.rs\<close>: the digest is rebuilt with \<open>unwrap\<close>.\<close>

definition e2e_sign_message :: "('k, 'v) bench \<Rightarrow> sign_message_request \<Rightarrow> input list option" where
  "e2e_sign_message b r =
     (let rid = smr_request_id r; reject = Some [reject_sign_message rid]; vl = b_lib b in
      case Option.bind (smr_description r) (parse_typed_description vl (b_serde b)) of
        Some (Inr typed) \<Rightarrow>
          (case typed_request_digest vl typed (account_pk vl (b_venue_key b)) of
             Inl _ \<Rightarrow> None
           | Inr rebuilt \<Rightarrow>
               if \<not> digest_matches vl rebuilt (smr_digest r) then reject
               else (case sign_typed vl (b_venue_key b) typed of
                       Inr (d, signature) \<Rightarrow>
                         Some [accept_sign_message_signed rid (signature_to_string vl signature)]
                     | Inl _ \<Rightarrow> reject))
      | Some (Inl _) \<Rightarrow> reject
      | None \<Rightarrow> Some [accept_sign_message rid])"

definition e2e_sign_react :: "('k, 'v) bench \<Rightarrow> wallet_event \<Rightarrow> input list option" where
  "e2e_sign_react b ev = (case ev of
     LoginRequested r \<Rightarrow> Some [accept_login (lr_request_id r)]
   | SignMessageRequested r \<Rightarrow> e2e_sign_message b r
   | _ \<Rightarrow> Some [])"

text \<open>\<open>pay-request-e2e.rs\<close>: the payment is answered only when every field arrived as it was sent.\<close>

record pay_intent =
  pay_recipient :: string
  pay_asset :: string
  pay_amount :: u64
  pay_memo :: string
  pay_txid :: string

text \<open>The intent of the drill; the recipient is an address the Elements library makes.\<close>

definition e2e_pay_intent :: "string \<Rightarrow> pay_intent" where
  "e2e_pay_intent recipient =
     \<lparr>pay_recipient = recipient, pay_asset = concat (replicate 32 ''22''), pay_amount = 100000,
      pay_memo = ''RF deposit'', pay_txid = concat (replicate 32 ''cd'')\<rparr>"

definition e2e_pay_react :: "pay_intent \<Rightarrow> wallet_event \<Rightarrow> input list" where
  "e2e_pay_react x ev = (case ev of
     LoginRequested r \<Rightarrow> [accept_login (lr_request_id r)]
   | PayRequested r \<Rightarrow>
       if pr_recipient r \<noteq> pay_recipient x \<or> pr_asset_id r \<noteq> pay_asset x
          \<or> pr_amount r \<noteq> pay_amount x \<or> pr_memo r \<noteq> Some (pay_memo x)
       then [reject_pay (pr_request_id r)]
       else [accept_pay (pr_request_id r) (pay_txid x)]
   | _ \<Rightarrow> [])"

end
