(* ===== verification/Host_Loop.thy ===== *)
theory Host_Loop
  imports Bench_Host Ffi_Claims
begin

text \<open>
  A host program and the SDK's actor together, as the \<open>main\<close> of every example runs them: the actor
  sends events into one channel, the host takes them out one at a time and queues its answers in the
  handle's channel, from which the actor takes them while it is connected; a second thread queues the
  links it is given.  What a host can make the core do is proved once for every host, in the locale
  \<open>host\<close>, and used for the hosts that ship with the SDK.
\<close>

section \<open>The loop\<close>

record 'k hosted =
  h_actor :: "'k actor"
  h_inbox :: "wallet_event list"  \<comment> \<open>delivered and not yet taken\<close>
  h_seen :: "wallet_event list"  \<comment> \<open>taken, oldest first\<close>
  h_queue :: "input list"

definition is_net :: "net_event \<Rightarrow> bool" where
  "is_net ev = (case ev of HandleInput aux i b \<Rightarrow> False | _ \<Rightarrow> True)"

inductive hosted_run ::
  "'k session_env \<Rightarrow> (string \<Rightarrow> url option) \<Rightarrow> (wallet_event \<Rightarrow> input list option) \<Rightarrow> 'k \<Rightarrow> 'k hosted \<Rightarrow> bool"
  for env url_parse react key where
  hosted_start: "hosted_run env url_parse react key
    \<lparr>h_actor = new_actor iid desc key, h_inbox = [], h_seen = [], h_queue = []\<rparr>"
| hosted_turn: "hosted_run env url_parse react key s \<Longrightarrow> is_net ev \<Longrightarrow>
    actor_step env ev (h_actor s) = Some (a', so) \<Longrightarrow>
    hosted_run env url_parse react key (s\<lparr>h_actor := a', h_inbox := h_inbox s @ so_events so\<rparr>)"
| hosted_take: "hosted_run env url_parse react key s \<Longrightarrow> h_queue s = i # q \<Longrightarrow>
    actor_step env (HandleInput aux i b) (h_actor s) = Some (a', so) \<Longrightarrow>
    hosted_run env url_parse react key (s\<lparr>h_actor := a', h_inbox := h_inbox s @ so_events so, h_queue := q\<rparr>)"
| hosted_react: "hosted_run env url_parse react key s \<Longrightarrow> h_inbox s = e # es \<Longrightarrow> react e = Some is \<Longrightarrow>
    hosted_run env url_parse react key (s\<lparr>h_inbox := es, h_seen := h_seen s @ [e], h_queue := h_queue s @ is\<rparr>)"
| hosted_link: "hosted_run env url_parse react key s \<Longrightarrow>
    hosted_run env url_parse react key (s\<lparr>h_queue := h_queue s @ open_line url_parse line\<rparr>)"

text \<open>How a program enters the loop, \<open>WalletConnect::spawn\<close>: both channels empty and the actor not yet
  connected; the address is only the connection's.  A method of the handle puts its input at the end of
  the channel.\<close>

record 'k wallet_connect_config =
  wc_url :: string
  wc_descriptor :: string
  wc_key :: 'k
  wc_install_id :: install_id

definition spawn :: "'k wallet_connect_config \<Rightarrow> 'k hosted" where
  "spawn config =
     \<lparr>h_actor = new_actor (wc_install_id config) (wc_descriptor config) (wc_key config),
      h_inbox = [], h_seen = [], h_queue = []\<rparr>"

definition handle_send :: "input \<Rightarrow> 'k hosted \<Rightarrow> 'k hosted" where
  "handle_send i s = s\<lparr>h_queue := h_queue s @ [i]\<rparr>"

lemma spawned_run: "hosted_run env url_parse react (wc_key config) (spawn config)"
  unfolding spawn_def by (rule hosted_start)

lemma sends_in_order: "fold handle_send is s = s\<lparr>h_queue := h_queue s @ is\<rparr>"
  by (induction "is" arbitrary: s) (simp_all add: handle_send_def)

lemma reaction_sends:
  assumes "hosted_run env url_parse react key s" and "h_inbox s = e # es" and "react e = Some is"
  shows "hosted_run env url_parse react key (fold handle_send is (s\<lparr>h_inbox := es, h_seen := h_seen s @ [e]\<rparr>))"
  using hosted_react [OF assms] by (simp add: sends_in_order)

text \<open>Where an input the host queues comes from.\<close>

definition host_input ::
  "(string \<Rightarrow> url option) \<Rightarrow> (wallet_event \<Rightarrow> input list option) \<Rightarrow> wallet_event set \<Rightarrow> input \<Rightarrow> bool" where
  "host_input url_parse react seen i \<longleftrightarrow>
     (\<exists>e \<in> seen. \<exists>is. react e = Some is \<and> i \<in> set is) \<or> (\<exists>line. i \<in> set (open_line url_parse line))"

lemma host_input_mono: "host_input url_parse react A i \<Longrightarrow> A \<subseteq> B \<Longrightarrow> host_input url_parse react B i"
  by (auto simp: host_input_def)

lemma open_line_link: "i \<in> set (open_line url_parse line) \<Longrightarrow> \<exists>al. i = AppLinkInput al"
  by (auto simp: open_line_def open_link_def Let_def result_simps split: sum.splits if_splits)

section \<open>What the actor does to the core\<close>

text \<open>The part of the core that answers and requests for messages live in.\<close>

definition work :: "'k core \<Rightarrow> (req_id, user_action) btree \<times> (string, sign_message_request) btree" where
  "work c = (user_actions c, sign_message_requests c)"

lemma work_flags [simp]: "work (c\<lparr>connected := a\<rparr>) = work c" "work (c\<lparr>login_succeed := b\<rparr>) = work c"
  by (simp_all add: work_def)

text \<open>A turn leaves the core's work alone or lets it handle one input: an event of the transport, or the
  input that was taken.  The host is told of its effects.\<close>

definition turn_input :: "net_event \<Rightarrow> bytes \<Rightarrow> input \<Rightarrow> bool" where
  "turn_input ev aux i \<longleftrightarrow> (\<exists>t. i = Transport t) \<or> (\<exists>b. ev = HandleInput aux i b)"

definition turn_core :: "'k session_env \<Rightarrow> net_event \<Rightarrow> 'k actor \<Rightarrow> 'k actor \<Rightarrow> step_out \<Rightarrow> bool" where
  "turn_core env ev a a' so \<longleftrightarrow> work (a_core a') = work (a_core a) \<or>
     (\<exists>aux i. turn_input ev aux i \<and> work (a_core a') = work (fst (handle env aux i (a_core a)))
        \<and> set (snd (apply_effects (snd (handle env aux i (a_core a))))) \<subseteq> set (so_events so))"

lemma leave_work: "work (a_core (fst (leave env a so))) = work (a_core a)"
  and leave_events: "set (so_events so) \<subseteq> set (so_events (snd (leave env a so)))"
  by (auto simp: leave_def handle_disconnected case_prod_unfold Let_def)

lemma turn_coreI:
  assumes "turn_input ev aux i" and "work (a_core a') = work (fst (handle env aux i (a_core a)))"
    and "set (snd (apply_effects (snd (handle env aux i (a_core a))))) \<subseteq> set (so_events so)"
  shows "turn_core env ev a a' so"
  using assms unfolding turn_core_def by blast

lemma actor_step_core:
  assumes "actor_step env ev a = Some (a', so)"
  shows "turn_core env ev a a' so"
proof -
  have connected: "turn_core env ev a (fst (on_connected env aux b a)) (snd (on_connected env aux b a))" for aux b
    by (rule turn_coreI [where i = "Transport Connected" and aux = aux])
      (auto simp: turn_input_def on_connected_def case_prod_unfold Let_def work_def)
  have gone: "turn_core env ev a (fst (leave env a quiet)) (snd (leave env a quiet))"
    by (simp add: turn_core_def leave_work)
  have said: "turn_core env ev a (fst (on_text env aux t b was a)) (snd (on_text env aux t b was a))" for aux t b was
    using leave_events
    by (intro turn_coreI [where i = "Transport (Recv t)" and aux = aux])
      (auto simp: turn_input_def on_text_def case_prod_unfold Let_def leave_work intro: subsetD [OF leave_events])
  have asked: "turn_core env ev a (fst (on_input env aux i b a)) (snd (on_input env aux i b a))"
    if "ev = HandleInput aux i b" for aux i b
    using that
    by (intro turn_coreI [where i = i and aux = aux])
      (auto simp: turn_input_def on_input_def case_prod_unfold Let_def leave_work intro: subsetD [OF leave_events])
  have same: "work (a_core a') = work (a_core a) \<Longrightarrow> turn_core env ev a a' so"
    by (simp add: turn_core_def)
  show ?thesis
    using assms connected gone said asked same
    by (auto simp: actor_step_def on_connect_failed_def split: phase.splits net_event.splits if_splits)
      (metis fst_conv snd_conv)+
qed

section \<open>Announced requests\<close>

lemma folded_announcement:
  "hv_sign_message (fold apply_effect es h) rid = Some r \<Longrightarrow>
   hv_sign_message h rid = Some r \<or> SignMessageRequested r \<in> set (snd (apply_effects es))"
proof (induction es arbitrary: h)
  case (Cons e es)
  then have "hv_sign_message (apply_effect e h) rid = Some r \<or> SignMessageRequested r \<in> set (snd (apply_effects es))"
    by simp
  then show ?case by (cases e) (auto simp: case_prod_unfold Let_def split: if_splits)
qed simp

lemma handle_announces:
  assumes "bt_get (sign_message_requests (fst (handle env aux i c))) rid = Some r"
  shows "bt_get (sign_message_requests c) rid = Some r
    \<or> SignMessageRequested r \<in> set (snd (apply_effects (snd (handle env aux i c))))"
  using folded_announcement [of "snd (handle env aux i c)" "core_view c" rid r, unfolded handle_mirror] assms
  by (simp add: core_view_def)

lemma turn_announces:
  assumes "turn_core env ev a a' so" and "bt_get (sign_message_requests (a_core a')) rid = Some r"
  shows "bt_get (sign_message_requests (a_core a)) rid = Some r \<or> SignMessageRequested r \<in> set (so_events so)"
  using assms handle_announces [of env _ _ "a_core a" rid r]
  by (fastforce simp: turn_core_def work_def)

lemma reachable_announced:
  "reachable env a evs \<Longrightarrow> bt_get (sign_message_requests (a_core a)) rid = Some r \<Longrightarrow>
   SignMessageRequested r \<in> set evs"
proof (induction arbitrary: r rule: reachable.induct)
  case (start iid desc key)
  then show ?case by (simp add: new_actor_def new_core_def)
next
  case (step a evs ev a' so)
  from turn_announces [OF actor_step_core [OF step.hyps(3)] step.prems] step.IH show ?case by auto
qed

lemma reachable_stores: "reachable env a evs \<Longrightarrow> stores_wf (a_core a)"
proof (induction rule: reachable.induct)
  case (step a evs ev a' so)
  then show ?case
    by (auto simp: actor_step_def on_connect_failed_def on_connected_def on_text_def on_input_def leave_def
        handle_stores_wf case_prod_unfold Let_def split: phase.splits net_event.splits if_splits)
qed (simp add: new_actor_def)

section \<open>Every host\<close>

text \<open>Why an action is queued: a host's input, handled by a core with the wallet's key that held only
  announced requests under their own ids.\<close>

definition explained ::
  "'k session_env \<Rightarrow> (string \<Rightarrow> url option) \<Rightarrow> (wallet_event \<Rightarrow> input list option) \<Rightarrow> 'k
   \<Rightarrow> wallet_event set \<Rightarrow> wallet_event set \<Rightarrow> user_action \<Rightarrow> bool" where
  "explained env url_parse react key seen announced a \<longleftrightarrow>
     (\<exists>i aux c. host_input url_parse react seen i \<and> queued_by env aux i c a \<and> wallet_key c = key
        \<and> (\<forall>rid r. bt_get (sign_message_requests c) rid = Some r \<longrightarrow>
             smr_request_id r = rid \<and> SignMessageRequested r \<in> announced))"

lemma explained_mono:
  "explained env url_parse react key A B a \<Longrightarrow> A \<subseteq> A' \<Longrightarrow> B \<subseteq> B' \<Longrightarrow> explained env url_parse react key A' B' a"
  unfolding explained_def by (blast intro: host_input_mono)

text \<open>The contract: a host answers through the handle, which has no method for the transport.\<close>

locale host =
  fixes react :: "wallet_event \<Rightarrow> input list option"
  assumes user_only: "react e = Some is \<Longrightarrow> i \<in> set is \<Longrightarrow> i \<noteq> Transport t"
begin

lemma host_input_user: "host_input url_parse react seen i \<Longrightarrow> i \<noteq> Transport t"
  using user_only open_line_link unfolding host_input_def by fast

lemma queue_from_host:
  "hosted_run env url_parse react key s \<Longrightarrow> i \<in> set (h_queue s) \<Longrightarrow> host_input url_parse react (set (h_seen s)) i"
proof (induction arbitrary: i rule: hosted_run.induct)
  case (hosted_react s e es "is")
  then show ?case by (fastforce simp: host_input_def)
next
  case (hosted_link s line)
  then show ?case by (auto simp: host_input_def)
qed auto

lemma hosted_reachable:
  "hosted_run env url_parse react key s \<Longrightarrow> reachable env (h_actor s) (h_seen s @ h_inbox s)"
proof (induction rule: hosted_run.induct)
  case (hosted_start iid desc)
  then show ?case by (simp add: reachable.start)
next
  case (hosted_turn s ev a' so)
  have "user_event ev" using hosted_turn.hyps(2) by (cases ev) (simp_all add: user_event_def is_net_def)
  with hosted_turn.IH hosted_turn.hyps(3) show ?case
    using reachable.step [of env "h_actor s" "h_seen s @ h_inbox s" ev a' so] by simp
next
  case (hosted_take s i q aux b a' so)
  have "i \<noteq> Transport t" for t
    using hosted_take.hyps by (intro host_input_user [OF queue_from_host [OF hosted_take.hyps(1)]]) simp
  then have "user_event (HandleInput aux i b)" by (simp add: user_event_def split: input.split)
  with hosted_take.IH hosted_take.hyps(3) show ?case
    using reachable.step [of env "h_actor s" "h_seen s @ h_inbox s" "HandleInput aux i b" a' so] by simp
qed simp_all

lemma hosted_key: "hosted_run env url_parse react key s \<Longrightarrow> wallet_key (a_core (h_actor s)) = key"
proof (induction rule: hosted_run.induct)
  case (hosted_turn s ev a' so)
  with identity_step [OF hosted_turn.hyps(3)] show ?case by (simp add: identity_of_def)
next
  case (hosted_take s i q aux b a' so)
  with identity_step [OF hosted_take.hyps(3)] show ?case by (simp add: identity_of_def)
qed (simp_all add: new_actor_def new_core_def)

lemma held_announced:
  assumes "hosted_run env url_parse react key s"
    and "bt_get (sign_message_requests (a_core (h_actor s))) rid = Some r"
  shows "smr_request_id r = rid \<and> SignMessageRequested r \<in> set (h_seen s) \<union> set (h_inbox s)"
  using reachable_announced [OF hosted_reachable [OF assms(1)] assms(2)]
    reachable_stores [OF hosted_reachable [OF assms(1)]] assms(2)
  by (auto simp: stores_wf_def keyed_def)

text \<open>An action in the queue was put there by an input of the host.\<close>

lemma step_explained:
  assumes "hosted_run env url_parse react key s" and "turn_core env ev (h_actor s) a' so"
    and "\<And>aux i b. ev = HandleInput aux i b \<Longrightarrow> i \<in> set (h_queue s)"
    and "bt_get (user_actions (a_core a')) k = Some x"
  shows "bt_get (user_actions (a_core (h_actor s))) k = Some x
    \<or> explained env url_parse react key (set (h_seen s)) (set (h_seen s) \<union> set (h_inbox s)) x"
proof (rule disjCI)
  assume old: "\<not> explained env url_parse react key (set (h_seen s)) (set (h_seen s) \<union> set (h_inbox s)) x"
  show "bt_get (user_actions (a_core (h_actor s))) k = Some x"
  proof (rule ccontr)
    assume new: "bt_get (user_actions (a_core (h_actor s))) k \<noteq> Some x"
    then obtain aux i where i: "turn_input ev aux i"
      "bt_get (user_actions (fst (handle env aux i (a_core (h_actor s))))) k = Some x"
      using assms(2,4) by (auto simp: turn_core_def work_def)
    have q: "queued_by env aux i (a_core (h_actor s)) x" using new_action_source [OF i(2) new] .
    then have "\<nexists>t. i = Transport t" using queued_by_user_input by fastforce
    with i(1) assms(3) have "i \<in> set (h_queue s)" by (auto simp: turn_input_def)
    from queue_from_host [OF assms(1) this] q hosted_key [OF assms(1)] held_announced [OF assms(1)] old
    show False unfolding explained_def by blast
  qed
qed

lemma actions_explained:
  "hosted_run env url_parse react key s \<Longrightarrow> bt_get (user_actions (a_core (h_actor s))) k = Some x \<Longrightarrow>
   explained env url_parse react key (set (h_seen s)) (set (h_seen s) \<union> set (h_inbox s)) x"
proof (induction arbitrary: x rule: hosted_run.induct)
  case (hosted_start iid desc)
  then show ?case by (simp add: new_actor_def new_core_def)
next
  case (hosted_turn s ev a' so)
  from step_explained [OF hosted_turn.hyps(1) actor_step_core [OF hosted_turn.hyps(3)]] hosted_turn.hyps(2)
    hosted_turn.prems hosted_turn.IH
  have "explained env url_parse react key (set (h_seen s)) (set (h_seen s) \<union> set (h_inbox s)) x"
    by (fastforce simp: is_net_def)
  then show ?case by (rule explained_mono) auto
next
  case (hosted_take s i q aux b a' so)
  from step_explained [OF hosted_take.hyps(1) actor_step_core [OF hosted_take.hyps(3)]] hosted_take.hyps(2)
    hosted_take.prems hosted_take.IH
  have "explained env url_parse react key (set (h_seen s)) (set (h_seen s) \<union> set (h_inbox s)) x" by fastforce
  then show ?case by (rule explained_mono) auto
next
  case (hosted_react s e es "is")
  then have "explained env url_parse react key (set (h_seen s)) (set (h_seen s) \<union> set (h_inbox s)) x" by simp
  then show ?case by (rule explained_mono) (use hosted_react.hyps(2) in auto)
qed simp

text \<open>An acceptance of a message: the host's own signature, or the wallet's key over an announced digest.\<close>

lemma message_acceptance:
  assumes "hosted_run env url_parse react key s"
    and "bt_get (user_actions (a_core (h_actor s))) k = Some (AcceptSignMessageRequest rid sg)"
  shows "\<exists>e \<in> set (h_seen s). \<exists>is. react e = Some is \<and>
    (SignMessageSigned rid sg \<in> set is \<or>
     SignMessageAccepted rid \<in> set is \<and>
       (\<exists>r d aux. SignMessageRequested r \<in> set (h_seen s) \<union> set (h_inbox s) \<and> smr_request_id r = rid
          \<and> hex_decode_to_slice (env_crypto env) (smr_digest r) 32 = Some d
          \<and> sg = signature_to_string (env_crypto env) (sign_schnorr (env_crypto env) d key aux)))"
proof -
  obtain i aux c where i: "host_input url_parse react (set (h_seen s)) i"
    and q: "queued_by env aux i c (AcceptSignMessageRequest rid sg)" and key: "wallet_key c = key"
    and held: "\<And>rid r. bt_get (sign_message_requests c) rid = Some r \<Longrightarrow>
      smr_request_id r = rid \<and> SignMessageRequested r \<in> set (h_seen s) \<union> set (h_inbox s)"
    using actions_explained [OF assms] unfolding explained_def by blast
  from queued_by_user_input [OF q]
  have act: "i = SignMessageSigned rid sg \<or> i = SignMessageAccepted rid \<and> sign_message_digest env aux c rid = Inr sg"
    by (cases i) auto
  then obtain e "is" where e: "e \<in> set (h_seen s)" "react e = Some is" "i \<in> set is"
    using i open_line_link unfolding host_input_def by blast
  show ?thesis using act
  proof
    assume "i = SignMessageAccepted rid \<and> sign_message_digest env aux c rid = Inr sg"
    then obtain r d where "bt_get (sign_message_requests c) rid = Some r"
      "hex_decode_to_slice (env_crypto env) (smr_digest r) 32 = Some d"
      "sg = signature_to_string (env_crypto env) (sign_schnorr (env_crypto env) d key aux)"
      "i = SignMessageAccepted rid"
      by (auto simp: sign_message_digest_def result_simps sign_digest_def key)
    with held e show ?thesis by blast
  qed (use e in blast)
qed

end

section \<open>The hosts of the SDK\<close>

lemma stop_stale_inputs: "i \<in> set (stop_stale ss) \<Longrightarrow> \<exists>s \<in> set ss. \<not> is_local s \<and> i = StopSession (session_id s)"
  by (auto simp: stop_stale_def stop_session_def)

lemmas handle_methods = accept_login_def reject_login_def accept_sign_def reject_sign_def accept_sign_message_def
  accept_sign_message_signed_def reject_sign_message_def accept_pay_def reject_pay_def stop_session_def

lemma bench_sign_total: "\<exists>i. bench_sign b r = Some [i]
    \<and> (i = SignRejected (sr_request_id r) \<or> (\<exists>p. i = SignAccepted (sr_request_id r) p))"
  by (auto simp: bench_sign_def Let_def genesis_block_hash_def handle_methods split: sum.split)

lemma bench_message_inputs: "\<exists>i. bench_sign_message b r = [i] \<and> (i = SignMessageRejected (smr_request_id r)
    \<or> i = SignMessageAccepted (smr_request_id r) \<or> (\<exists>sg. i = SignMessageSigned (smr_request_id r) sg))"
  by (auto simp: bench_sign_message_def Let_def handle_methods split: sum.split option.split)

lemma bench_inputs:
  assumes "bench_react b e = Some is" "i \<in> set is"
  shows "i \<noteq> Transport t"
proof (cases e)
  case (SignRequested r)
  with assms bench_sign_total [of b r] show ?thesis by (auto simp: bench_react_def)
next
  case (SignMessageRequested r)
  with assms bench_message_inputs [of b r] show ?thesis by (auto simp: bench_react_def)
qed (use assms in \<open>auto simp: bench_react_def handle_methods dest: stop_stale_inputs\<close>)

interpretation bench_host: host "bench_react b" for b
  by unfold_locales (rule bench_inputs)

interpretation taker_host: host "\<lambda>e. Some (taker_react tk e)" for tk
proof
  fix e "is" i t
  assume "Some (taker_react tk e) = Some is" "i \<in> set is"
  then show "i \<noteq> Transport t"
    by (cases e) (auto simp: taker_react_def taker_sign_def Let_def handle_methods dest: stop_stale_inputs
        split: option.splits if_splits)
qed

interpretation e2e_sign_host: host "e2e_sign_react b" for b
proof
  fix e "is" i t
  assume "e2e_sign_react b e = Some is" "i \<in> set is"
  then show "i \<noteq> Transport t"
    by (cases e) (auto simp: e2e_sign_react_def e2e_sign_message_def Let_def handle_methods
        split: option.splits sum.splits if_splits)
qed

interpretation e2e_pay_host: host "\<lambda>e. Some (e2e_pay_react x e)" for x
proof
  fix e "is" i t
  assume "Some (e2e_pay_react x e) = Some is" "i \<in> set is"
  then show "i \<noteq> Transport t" by (cases e) (auto simp: e2e_pay_react_def handle_methods split: if_splits)
qed

section \<open>What the approve-everything bench signs\<close>

definition bench_typed :: "('k, 'v) bench \<Rightarrow> sign_message_request \<Rightarrow> (parse_error + typed_request) option" where
  "bench_typed b r = Option.bind (smr_description r) (parse_typed_description (b_lib b) (b_serde b))"

text \<open>The claim a request states is one the bench may sign for: its digest was rebuilt from the parts for
  the bench's own key and is the one in the request, and a withdrawal goes where the drill said.\<close>

definition bench_vouches :: "('k, 'v) bench \<Rightarrow> sign_message_request \<Rightarrow> bytes \<Rightarrow> bool" where
  "bench_vouches b r d \<longleftrightarrow> (\<exists>typed. bench_typed b r = Some (Inr typed)
     \<and> typed_request_digest (b_lib b) typed (account_pk (b_lib b) (b_venue_key b)) = Inr d
     \<and> digest_matches (b_lib b) d (smr_digest r) \<and> expected_withdraw (b_expected_dest b) typed)"

lemma bench_signed_message:
  assumes "SignMessageSigned rid sg \<in> set (bench_sign_message b r)"
  shows "rid = smr_request_id r \<and> (\<exists>d. bench_vouches b r d
    \<and> sg = signature_to_string (b_lib b) (sign_venue_digest (b_lib b) (b_venue_key b) d))"
  using assms
  by (auto simp: bench_sign_message_def bench_vouches_def bench_typed_def sign_typed_def unwrap_or_def Let_def
      handle_methods result_simps split: option.splits sum.splits if_splits)

lemma bench_accepted_message:
  assumes "SignMessageAccepted rid \<in> set (bench_sign_message b r)"
  shows "rid = smr_request_id r \<and> bench_typed b r = None"
  using assms
  by (auto simp: bench_sign_message_def bench_typed_def Let_def handle_methods
      split: option.splits sum.splits if_splits)

lemma bench_message_event:
  assumes "bench_react b e = Some is" "SignMessageSigned rid sg \<in> set is \<or> SignMessageAccepted rid \<in> set is"
  shows "\<exists>r. e = SignMessageRequested r \<and> is = bench_sign_message b r"
proof (cases e)
  case (SignRequested r)
  with assms bench_sign_total [of b r] show ?thesis by (auto simp: bench_react_def)
qed (use assms in \<open>auto simp: bench_react_def handle_methods dest: stop_stale_inputs\<close>)

end
