(* ===== verification/Host_Claims.thy ===== *)
theory Host_Claims
  imports Host_Loop Venue_Claims
begin

text \<open>
  What the approve-everything bench signs when it runs against the SDK's actor, and which links its
  watcher opens.
\<close>

section \<open>The bench\<close>

text \<open>C32.  The approve-everything bench, run against the SDK's actor for any length of time and with any
  server, only ever answers a message-signing request with one of two signatures.  Either the request
  states a venue claim: then the signature is the money key's, over a digest the bench rebuilt from the
  stated parts for its own key, equal to the digest in the request, and a withdrawal goes to the
  expected destination when one was named.  Or it states none: then it is the identity key's, over the
  digest of a request the server announced under that id.\<close>

theorem bench_signs_only_what_it_rebuilt:
  assumes "hosted_run env url_parse (bench_react b) key s"
    and "bt_get (user_actions (a_core (h_actor s))) k = Some (AcceptSignMessageRequest rid sg)"
  shows "\<exists>r. SignMessageRequested r \<in> set (h_seen s) \<and> smr_request_id r = rid
    \<and> ((\<exists>d. bench_vouches b r d
          \<and> sg = signature_to_string (b_lib b) (sign_venue_digest (b_lib b) (b_venue_key b) d))
      \<or> bench_typed b r = None
        \<and> (\<exists>r' d aux. SignMessageRequested r' \<in> set (h_seen s) \<union> set (h_inbox s) \<and> smr_request_id r' = rid
            \<and> hex_decode_to_slice (env_crypto env) (smr_digest r') 32 = Some d
            \<and> sg = signature_to_string (env_crypto env) (sign_schnorr (env_crypto env) d key aux)))"
proof -
  from bench_host.message_acceptance [OF assms] obtain e "is" where e: "e \<in> set (h_seen s)" "bench_react b e = Some is"
    and act: "SignMessageSigned rid sg \<in> set is \<or> SignMessageAccepted rid \<in> set is
       \<and> (\<exists>r d aux. SignMessageRequested r \<in> set (h_seen s) \<union> set (h_inbox s) \<and> smr_request_id r = rid
          \<and> hex_decode_to_slice (env_crypto env) (smr_digest r) 32 = Some d
          \<and> sg = signature_to_string (env_crypto env) (sign_schnorr (env_crypto env) d key aux))"
    by blast
  then obtain r where r: "e = SignMessageRequested r" "is = bench_sign_message b r"
    using bench_message_event [OF e(2)] by blast
  from act show ?thesis
  proof
    assume "SignMessageSigned rid sg \<in> set is"
    with bench_signed_message [of rid sg b r] e r show ?thesis by auto
  next
    assume "SignMessageAccepted rid \<in> set is \<and> (\<exists>r d aux. SignMessageRequested r \<in> set (h_seen s) \<union> set (h_inbox s)
      \<and> smr_request_id r = rid \<and> hex_decode_to_slice (env_crypto env) (smr_digest r) 32 = Some d
      \<and> sg = signature_to_string (env_crypto env) (sign_schnorr (env_crypto env) d key aux))"
    with bench_accepted_message [of rid b r] e r show ?thesis by blast
  qed
qed

definition claim_serde :: "string serde" where
  "claim_serde =
     \<lparr>json_from_str = Some,
      json_get = \<lambda>v n. if n = ''kind'' then Some ''rf/login/v1'' else if n = ''challenge'' then Some ''c1'' else None,
      json_as_str = Some, json_as_u64 = \<lambda>_. None, json_as_array = \<lambda>_. None, json_is_null = \<lambda>_. False\<rparr>"

definition claim_request :: sign_message_request where
  "claim_request =
     \<lparr>smr_request_id = ''m1'', smr_domain = ''a.io'', smr_digest = ''r-'' @ replicate 30 (CHR 0x00),
      smr_description = Some ''login'', smr_ttl = 1000\<rparr>"

definition claim_env :: "unit session_env" where
  "claim_env = demo_env\<lparr>from_str_json := \<lambda>t. Some (FromNotif (NSignMessageRequestCreated claim_request))\<rparr>"

definition no_elements :: elements where
  "no_elements =
     \<lparr>base64_decode = \<lambda>_. None, deserialize_pset = \<lambda>_. None, asset_from_str = \<lambda>_. None, asset_to_string = \<lambda>_. [],
      blind_asset_proof_verify = \<lambda>_ _ _. False, blind_value_proof_verify = \<lambda>_ _ _ _. False,
      generate_asset_entropy = \<lambda>_ _. [], asset_from_entropy = \<lambda>_. [], address_from_script = \<lambda>_ _. None,
      address_script_pubkey = \<lambda>_. None, script_to_hex = \<lambda>_. []\<rparr>"

definition demo_bench :: "(unit, string) bench" where
  "demo_bench =
     \<lparr>b_lib = demo_venue, b_elements = no_elements, b_serde = claim_serde, b_pset_to_base64 = \<lambda>_. [],
      b_block_hash = \<lambda>_. [], b_venue_key = (), b_expected_dest = Some ''home''\<rparr>"

definition claim_signature :: string where
  "claim_signature = ''r-'' @ replicate 30 (CHR 0x00)"

lemma demo_bench_answers:
  "bench_react demo_bench (SignMessageRequested claim_request) = Some [SignMessageSigned ''m1'' claim_signature]"
  by code_simp

lemma demo_bench_run:
  "\<exists>s. hosted_run claim_env (\<lambda>_. None) (bench_react demo_bench) () s
     \<and> bt_get (user_actions (a_core (h_actor s))) 1 = Some (AcceptSignMessageRequest ''m1'' claim_signature)
     \<and> h_seen s = [EvConnected, SignMessageRequested claim_request]"
proof -
  let ?run = "hosted_run claim_env (\<lambda>_. None) (bench_react demo_bench) ()"
  let ?a0 = "new_actor [1] ''ct'' () :: unit actor"
  let ?i = "SignMessageSigned ''m1'' claim_signature"
  let ?r1 = "on_connected claim_env [] None ?a0"
  let ?r2 = "on_text claim_env [] ''x'' None False (fst ?r1)"
  let ?r3 = "on_input claim_env [] ?i None (fst ?r2)"
  let ?s1 = "\<lparr>h_actor = fst ?r1, h_inbox = [EvConnected], h_seen = [], h_queue = []\<rparr>"
  let ?s2 = "\<lparr>h_actor = fst ?r2, h_inbox = [EvConnected, SignMessageRequested claim_request], h_seen = [], h_queue = []\<rparr>"
  let ?s4 = "\<lparr>h_actor = fst ?r2, h_inbox = [], h_seen = [EvConnected, SignMessageRequested claim_request], h_queue = [?i]\<rparr>"
  note defs = on_connected_def on_text_def on_input_def new_actor_def claim_env_def claim_request_def demo_defs run_defs
    send_frames_def is_logged_in_def case_prod_unfold Let_def
  have "actor_step claim_env (ConnectOk [] None) ?a0 = Some (fst ?r1, snd ?r1)" and "so_events (snd ?r1) = [EvConnected]"
    by (simp_all add: actor_step_def new_actor_def) (simp add: defs)
  with hosted_turn [OF hosted_start, of "ConnectOk [] None" claim_env "[1]" "''ct''" "()" "fst ?r1" "snd ?r1"
      "\<lambda>_. None" "bench_react demo_bench"]
  have s1: "?run ?s1" by (simp add: is_net_def)
  have "a_phase (fst ?r1) = Online False" by (simp add: defs)
  then have step2: "actor_step claim_env (TextFrame [] ''x'' None) (fst ?r1) = Some (fst ?r2, snd ?r2)"
    by (simp add: actor_step_def)
  have "so_events (snd ?r2) = [SignMessageRequested claim_request]" by (simp add: defs)
  then have s2: "?run ?s2"
    using hosted_turn [OF s1, of "TextFrame [] ''x'' None" "fst ?r2" "snd ?r2"] step2 by (simp add: is_net_def)
  have "bench_react demo_bench EvConnected = Some []" by (simp add: bench_react_def)
  then have s4: "?run ?s4"
    using hosted_react [OF hosted_react [OF s2, of EvConnected]] demo_bench_answers by fastforce
  have "a_phase (fst ?r2) = Online False" by (simp add: defs)
  then have "actor_step claim_env (HandleInput [] ?i None) (fst ?r2) = Some (fst ?r3, snd ?r3)"
    by (simp add: actor_step_def)
  then have "?run (?s4\<lparr>h_actor := fst ?r3, h_inbox := so_events (snd ?r3), h_queue := []\<rparr>)"
    using hosted_take [OF s4, of ?i "[]" "[]" None "fst ?r3" "snd ?r3"] by simp
  moreover have "bt_get (user_actions (a_core (fst ?r3))) 1 = Some (AcceptSignMessageRequest ''m1'' claim_signature)"
    by (simp add: defs)
  ultimately show ?thesis by (intro exI conjI) (assumption, simp_all)
qed

theorem bench_signs_only_what_it_rebuilt_witness:
  "\<exists>s r d. hosted_run claim_env (\<lambda>_. None) (bench_react demo_bench) () s
     \<and> SignMessageRequested r \<in> set (h_seen s) \<and> smr_request_id r = ''m1'' \<and> bench_vouches demo_bench r d"
proof -
  obtain s where s: "hosted_run claim_env (\<lambda>_. None) (bench_react demo_bench) () s"
    "bt_get (user_actions (a_core (h_actor s))) 1 = Some (AcceptSignMessageRequest ''m1'' claim_signature)"
    "h_seen s = [EvConnected, SignMessageRequested claim_request]"
    using demo_bench_run by blast
  moreover have "bench_typed demo_bench claim_request \<noteq> None" by code_simp
  ultimately obtain d where "smr_request_id claim_request = ''m1'' \<and> bench_vouches demo_bench claim_request d"
    using bench_signs_only_what_it_rebuilt [OF s(1,2)] by auto
  with s show ?thesis by (intro exI [of _ s] exI [of _ claim_request] exI [of _ d]) simp
qed

section \<open>Links from a file\<close>

text \<open>A text made of whole lines.\<close>

definition whole_lines :: "string \<Rightarrow> bool" where
  "whole_lines t \<longleftrightarrow> t = [] \<or> last t = CHR 0x0A"

lemma split_on_append: "split_on d (a @ d # b) = split_on d a @ split_on d b"
  by (induction a) (auto split: list.split)

lemma lines_append:
  assumes "whole_lines a"
  shows "lines (a @ b) = lines a @ lines b"
proof (cases "a = []")
  case False
  then obtain xs where a: "a = xs @ [CHR 0x0A]" using assms by (metis append_butlast_last_id whole_lines_def)
  show ?thesis
    using split_on_append [of "CHR 0x0A" xs b] split_on_append [of "CHR 0x0A" xs "[]"]
    by (simp add: a lines_def Let_def butlast_append)
qed (simp add: lines_def)

text \<open>A file that only grows by whole lines between two reads: each read sees one of these texts.\<close>

fun grown :: "string \<Rightarrow> string list \<Rightarrow> string" where
  "grown t [] = t"
| "grown t (a # as) = grown (t @ a) as"

fun reads :: "string \<Rightarrow> string list \<Rightarrow> string option list" where
  "reads t [] = []"
| "reads t (a # as) = Some (t @ a) # reads (t @ a) as"

text \<open>Every line of such a file is opened exactly once, in order; a read that fails changes nothing.\<close>

theorem whole_lines_opened_once:
  assumes "whole_lines t" and "list_all whole_lines as"
  shows "concat (map (open_line url_parse) (lines t)) @ watch_links url_parse (length (lines t)) (reads t as)
    = concat (map (open_line url_parse) (lines (grown t as)))"
  using assms
proof (induction as arbitrary: t)
  case (Cons a as)
  have "whole_lines (t @ a)" using Cons.prems by (auto simp: whole_lines_def last_append)
  from Cons.IH [OF this] Cons.prems lines_append [of t a] show ?case by (simp add: poll_links_def)
qed simp

theorem failed_read_skipped:
  "watch_links url_parse n (None # fs) = watch_links url_parse n fs"
  by (simp add: poll_links_def)

text \<open>A line that is read while it is being written is opened as far as it got, and never again.\<close>

theorem half_line_opened_as_is:
  assumes "CHR 0x0A \<notin> set a" and "CHR 0x0A \<notin> set b" and "a \<noteq> []"
  shows "watch_links url_parse 0 [Some a, Some (a @ b @ [CHR 0x0A])] = open_line url_parse a"
proof -
  have "lines a = [a]" using assms by (simp add: lines_def split_on_absent)
  moreover have "length (lines (a @ b @ [CHR 0x0A])) = 1"
    using split_on_once [of "CHR 0x0A" "a @ b" "[]"] assms by (simp add: lines_def Let_def)
  ultimately show ?thesis by (simp add: poll_links_def)
qed

end
