(* ===== verification/Relying_Party.thy ===== *)
theory Relying_Party
  imports Bench_Host Wire_Json
begin

text \<open>
  The relying-party halves of the end-to-end drivers \<open>sign-message-e2e.rs\<close> and \<open>pay-request-e2e.rs\<close>: a
  client of the connect server's other socket, and the two drills that use it.  What the socket yields
  is a list of items that the client consumes; a \<open>RpQuiet\<close> item is where the thirty seconds of a timed
  wait run out.  JSON values are those of \<open>Wire_Json\<close>, their text a parameter.  The links handed to the
  wallet are collected in the client's state.
\<close>

section \<open>JSON values\<close>

text \<open>\<open>Value::get\<close>, \<open>pointer\<close>, indexing, \<open>as_str\<close> and \<open>as_i64\<close>; the last of two equal keys wins.\<close>

definition wget :: "wjson \<Rightarrow> string \<Rightarrow> wjson option" where
  "wget v k = (case v of WObj kvs \<Rightarrow> map_of (rev kvs) k | _ \<Rightarrow> None)"

fun wpointer :: "wjson \<Rightarrow> string list \<Rightarrow> wjson option" where
  "wpointer v [] = Some v"
| "wpointer v (k # ks) = Option.bind (wget v k) (\<lambda>w. wpointer w ks)"

definition windex :: "wjson \<Rightarrow> string \<Rightarrow> wjson" where
  "windex v k = (case wget v k of Some w \<Rightarrow> w | None \<Rightarrow> WNull)"

definition as_str :: "wjson \<Rightarrow> string option" where
  "as_str v = (case v of WStr s \<Rightarrow> Some s | _ \<Rightarrow> None)"

definition as_i64 :: "wjson \<Rightarrow> int option" where
  "as_i64 v = (case v of WInt i \<Rightarrow> if - (2 ^ 63) \<le> i \<and> i < 2 ^ 63 then Some i else None | _ \<Rightarrow> None)"

section \<open>The client\<close>

datatype rp_item = RpText string | RpOther | RpSocketError | RpQuiet

datatype rp_error =
    RpBadJson | RpSocket | RpClosed | RpTimeout
  | ResponseIdMismatch | RequestFailed wjson
  | RpMissing string | RpBadLink link_error | SessionWrongKey
  | RpBadSignature | MalformedAccepted | TxidMismatch | ClientDataMismatch | RpPanic

record rp =
  rp_sink_ok :: bool
  rp_source :: "rp_item list"
  rp_next_id :: int
  rp_sent :: "wjson list"
  rp_links :: "input list"  \<comment> \<open>what the wallet's handle was given\<close>

type_synonym 'a rp_op = "rp \<Rightarrow> rp \<times> (rp_error + 'a)"

definition rp_return :: "rp_error + 'a \<Rightarrow> 'a rp_op" where
  "rp_return r st = (st, r)"

definition rp_bind :: "'a rp_op \<Rightarrow> ('a \<Rightarrow> 'b rp_op) \<Rightarrow> 'b rp_op" where
  "rp_bind m f st = (case m st of (st', Inl e) \<Rightarrow> (st', Inl e) | (st', Inr a) \<Rightarrow> f a st')"

definition rp_connect :: "bool \<Rightarrow> rp_item list \<Rightarrow> rp" where
  "rp_connect sink source =
     \<lparr>rp_sink_ok = sink, rp_source = source, rp_next_id = 1, rp_sent = [], rp_links = []\<rparr>"

fun rp_recv :: "(string \<Rightarrow> wjson option) \<Rightarrow> bool \<Rightarrow> rp_item list \<Rightarrow> rp_item list \<times> (rp_error + wjson)" where
  "rp_recv parse timed [] = ([], Inl RpClosed)"
| "rp_recv parse timed (RpText t # rest) = (rest, ok_or (parse t) RpBadJson)"
| "rp_recv parse timed (RpOther # rest) = rp_recv parse timed rest"
| "rp_recv parse timed (RpSocketError # rest) = (rest, Inl RpSocket)"
| "rp_recv parse timed (RpQuiet # rest) = (if timed then (rest, Inl RpTimeout) else rp_recv parse timed rest)"

lemma rp_recv_shorter: "rp_recv parse timed src = (rest, Inr v) \<Longrightarrow> length rest < length src"
  by (induction parse timed src rule: rp_recv.induct)
    (auto simp: ok_or_def less_SucI split: option.splits if_splits)

function request_loop ::
  "(string \<Rightarrow> wjson option) \<Rightarrow> int \<Rightarrow> rp_item list \<Rightarrow> rp_item list \<times> (rp_error + wjson)" where
  "request_loop parse i src = (case rp_recv parse False src of
     (rest, Inl e) \<Rightarrow> (rest, Inl e)
   | (rest, Inr msg) \<Rightarrow>
       (case wpointer msg [''Resp''] of
          Some resp \<Rightarrow>
            (rest, if Option.bind (wget resp ''id'') as_i64 = Some i then Inr (windex resp ''resp'')
                   else Inl ResponseIdMismatch)
        | None \<Rightarrow>
            (case wpointer msg [''Error''] of
               Some err \<Rightarrow> (rest, Inl (RequestFailed err))
             | None \<Rightarrow> request_loop parse i rest)))"
  by pat_completeness auto
termination
  by (relation "measure (\<lambda>(parse, i, src). length src)") (auto dest: rp_recv_shorter [OF sym])

declare request_loop.simps [simp del]

definition rp_request :: "(string \<Rightarrow> wjson option) \<Rightarrow> wjson \<Rightarrow> wjson rp_op" where
  "rp_request parse req st =
     (let i = rp_next_id st; st1 = st\<lparr>rp_next_id := i + 1\<rparr> in
      if \<not> rp_sink_ok st then (st1, Inl RpSocket)
      else
        let (rest, r) = request_loop parse i (rp_source st)
        in (st1\<lparr>rp_sent := rp_sent st @ [WObj [(''Req'', WObj [(''id'', WInt i), (''req'', req)])]],
                rp_source := rest\<rparr>, r))"

function notif_loop ::
  "(string \<Rightarrow> wjson option) \<Rightarrow> bool \<Rightarrow> string \<Rightarrow> rp_item list \<Rightarrow> rp_item list \<times> (rp_error + wjson)" where
  "notif_loop parse timed kind src = (case rp_recv parse timed src of
     (rest, Inl e) \<Rightarrow> (rest, Inl e)
   | (rest, Inr msg) \<Rightarrow>
       (case wpointer msg [''Notif'', ''notif'', kind] of
          Some notif \<Rightarrow> (rest, Inr notif)
        | None \<Rightarrow> notif_loop parse timed kind rest))"
  by pat_completeness auto
termination
  by (relation "measure (\<lambda>(parse, timed, kind, src). length src)") (auto dest: rp_recv_shorter [OF sym])

declare notif_loop.simps [simp del]

lemma notif_loop_shorter: "notif_loop parse timed kind src = (rest, Inr v) \<Longrightarrow> length rest < length src"
proof (induction src rule: measure_induct_rule [where f = length])
  case (less src)
  note unfold = notif_loop.simps [of parse timed kind src]
  obtain rest1 msg where recv: "rp_recv parse timed src = (rest1, Inr msg)"
    using less.prems unfold by (auto split: prod.splits sum.splits)
  note short = rp_recv_shorter [OF recv]
  show ?case
  proof (cases "wpointer msg [''Notif'', ''notif'', kind]")
    case None
    then have "notif_loop parse timed kind rest1 = (rest, Inr v)"
      using less.prems recv unfold by simp
    from less.IH [OF short this] short show ?thesis by simp
  next
    case (Some n)
    with less.prems recv short unfold show ?thesis by simp
  qed
qed

definition wait_notif :: "(string \<Rightarrow> wjson option) \<Rightarrow> bool \<Rightarrow> string \<Rightarrow> wjson rp_op" where
  "wait_notif parse timed kind st =
     (let (rest, r) = notif_loop parse timed kind (rp_source st) in (st\<lparr>rp_source := rest\<rparr>, r))"

text \<open>Waiting for a request to leave \<open>Active\<close>: the kind of the notification and its field.\<close>

function terminal_loop ::
  "(string \<Rightarrow> wjson option) \<Rightarrow> string \<Rightarrow> string \<Rightarrow> string \<Rightarrow> rp_item list \<Rightarrow> rp_item list \<times> (rp_error + wjson)" where
  "terminal_loop parse kind fld rid src = (case notif_loop parse True kind src of
     (rest, Inl e) \<Rightarrow> (rest, Inl e)
   | (rest, Inr notif) \<Rightarrow>
       let request = windex notif fld in
       if as_str (windex request ''request_id'') = Some rid \<and> as_str (windex request ''status'') \<noteq> Some ''Active''
       then (rest, Inr request)
       else terminal_loop parse kind fld rid rest)"
  by pat_completeness auto
termination
  by (relation "measure (\<lambda>(parse, kind, fld, rid, src). length src)") (auto dest: notif_loop_shorter [OF sym])

declare terminal_loop.simps [simp del]

definition wait_sign_message_terminal :: "(string \<Rightarrow> wjson option) \<Rightarrow> string \<Rightarrow> wjson rp_op" where
  "wait_sign_message_terminal parse rid st =
     (let (rest, r) = terminal_loop parse ''SignMessageRequestUpdated'' ''sign_message_request'' rid (rp_source st)
      in (st\<lparr>rp_source := rest\<rparr>, and_then r (\<lambda>request. Inr (windex request ''status''))))"

definition wait_pay_terminal :: "(string \<Rightarrow> wjson option) \<Rightarrow> string \<Rightarrow> wjson rp_op" where
  "wait_pay_terminal parse rid st =
     (let (rest, r) = terminal_loop parse ''PayRequestUpdated'' ''pay_request'' rid (rp_source st)
      in (st\<lparr>rp_source := rest\<rparr>, r))"

text \<open>\<open>verify\<close>: a signature in hex over a digest, by a key in hex.\<close>

definition rp_verify :: "'k venue_lib \<Rightarrow> string \<Rightarrow> bytes \<Rightarrow> string \<Rightarrow> rp_error + unit" where
  "rp_verify vl signature_hex digest pk_hex =
     and_then (ok_or (hex_decode_to_slice vl signature_hex 64) RpBadSignature) (\<lambda>signature.
     and_then (ok_or (Option.bind (hex_decode_to_slice vl pk_hex 32) (xonly_from_slice vl)) RpBadSignature) (\<lambda>pk.
     ensure (verify_schnorr vl signature digest pk) RpBadSignature (Inr ())))"

section \<open>Opening a session\<close>

definition text_at :: "string \<Rightarrow> wjson \<Rightarrow> string rp_op" where
  "text_at what v = rp_return (ok_or (as_str v) (RpMissing what))"

definition rp_link :: "(string \<Rightarrow> url option) \<Rightarrow> string \<Rightarrow> unit rp_op" where
  "rp_link url_parse u st = (case open_link url_parse u of
     Inl e \<Rightarrow> (st, Inl (RpBadLink e))
   | Inr i \<Rightarrow> (st\<lparr>rp_links := rp_links st @ [i]\<rparr>, Inr ()))"

text \<open>The common start of both drills: log in, start a login, hand its link to the wallet, and wait for
  the session, which must be bound to the wallet's key.\<close>

definition rp_session ::
  "(string \<Rightarrow> wjson option) \<Rightarrow> (string \<Rightarrow> url option) \<Rightarrow> string \<Rightarrow> string rp_op" where
  "rp_session parse url_parse identity_pk =
     rp_bind (rp_request parse (WObj [(''Login'', WObj [(''domain'', WStr ''paper.swaption.io'')])])) (\<lambda>_.
     rp_bind (rp_request parse (WObj [(''StartLogin'', WObj [(''client_data'', WNull)])])) (\<lambda>start_login.
     rp_bind (text_at ''request_id'' (windex (windex (windex start_login ''StartLogin'') ''login_request'') ''request_id'')) (\<lambda>rid.
     rp_bind (rp_link url_parse (''liquidconnect://login/?request_id='' @ rid)) (\<lambda>_.
     rp_bind (wait_notif parse True ''SessionCreated'') (\<lambda>session.
     rp_bind (text_at ''session_id'' (windex (windex session ''session'') ''session_id'')) (\<lambda>sid.
     let wallet_id = (case as_str (windex (windex session ''session'') ''wallet_id'') of Some w \<Rightarrow> w | None \<Rightarrow> [])
     in rp_return (ensure (wallet_id = identity_pk) SessionWrongKey (Inr sid))))))))"

section \<open>The message-signing drill\<close>

definition start_sign_message :: "string \<Rightarrow> string \<Rightarrow> string \<Rightarrow> wjson" where
  "start_sign_message sid digest_hex description =
     WObj [(''StartSignMessage'', WObj [(''session_id'', WStr sid), (''digest'', WStr digest_hex),
       (''description'', WStr description), (''client_data'', WNull), (''ttl'', WInt 60000)])]"

text \<open>One request: started, awaited, and its signature checked against a key.\<close>

definition rp_sign_message ::
  "'k venue_lib \<Rightarrow> (string \<Rightarrow> wjson option) \<Rightarrow> string \<Rightarrow> bytes \<Rightarrow> string \<Rightarrow> string \<Rightarrow> unit rp_op" where
  "rp_sign_message vl parse sid digest description pk_hex =
     rp_bind (rp_request parse (start_sign_message sid (hex_encode vl digest) description)) (\<lambda>resp.
     rp_bind (text_at ''sign request id''
       (windex (windex (windex resp ''StartSignMessage'') ''sign_message_request'') ''request_id'')) (\<lambda>rid.
     rp_bind (wait_sign_message_terminal parse rid) (\<lambda>status.
     rp_bind (text_at ''signature'' (windex (windex status ''Succeed'') ''signature'')) (\<lambda>signature.
     rp_return (rp_verify vl signature digest pk_hex)))))"

definition order_description :: "nat \<Rightarrow> nat \<Rightarrow> nat \<Rightarrow> nat \<Rightarrow> string" where
  \<open>order_description price qty expiry nonce =
     ''{"kind":"rf/order/v1","product":"RF-BTC-USDT","side":"sell","price":"'' @ show_nat price
     @ ''","qty":"'' @ show_nat qty @ ''","expiry":'' @ show_nat expiry
     @ '',"nonce":"'' @ show_nat nonce @ ''"}''\<close>

definition sign_message_drill ::
  "'k venue_lib \<Rightarrow> (string \<Rightarrow> wjson option) \<Rightarrow> (string \<Rightarrow> url option) \<Rightarrow> string \<Rightarrow> bytes \<Rightarrow> unit rp_op" where
  "sign_message_drill vl parse url_parse identity_pk venue_pk =
     rp_bind (rp_session parse url_parse identity_pk) (\<lambda>sid.
     rp_bind (rp_sign_message vl parse sid (order_digest vl venue_pk Sell 7700000000 1000 50 1 None)
       (order_description 7700000000 1000 50 1) (hex_encode vl venue_pk)) (\<lambda>_.
     rp_sign_message vl parse sid (replicate 32 0x42) ''Test opaque approval'' identity_pk))"

section \<open>The payment drill\<close>

definition start_pay :: "string \<Rightarrow> pay_intent \<Rightarrow> string \<Rightarrow> string \<Rightarrow> wjson" where
  "start_pay sid x recipient client_data =
     WObj [(''StartPay'', WObj [(''session_id'', WStr sid), (''recipient'', WStr recipient),
       (''asset_id'', WStr (pay_asset x)), (''amount'', en_u64 (pay_amount x)), (''memo'', WStr (pay_memo x)),
       (''client_data'', WStr client_data), (''ttl'', WInt 60000)])]"

text \<open>A request that must be refused: any error counts.\<close>

definition must_fail :: "'a rp_op \<Rightarrow> unit rp_op" where
  "must_fail m st = (case m st of (st', Inl e) \<Rightarrow> (st', Inr ()) | (st', Inr a) \<Rightarrow> (st', Inl MalformedAccepted))"

definition pay_drill ::
  "(string \<Rightarrow> wjson option) \<Rightarrow> (string \<Rightarrow> url option) \<Rightarrow> string \<Rightarrow> pay_intent \<Rightarrow> string \<Rightarrow> unit rp_op" where
  "pay_drill parse url_parse identity_pk x client_data =
     rp_bind (rp_session parse url_parse identity_pk) (\<lambda>sid.
     rp_bind (must_fail (rp_request parse (start_pay sid x ''not-an-address'' client_data))) (\<lambda>_.
     rp_bind (rp_request parse (start_pay sid x (pay_recipient x) client_data)) (\<lambda>resp.
     rp_bind (text_at ''pay request id''
       (windex (windex (windex resp ''StartPay'') ''pay_request'') ''request_id'')) (\<lambda>rid.
     rp_bind (wait_pay_terminal parse rid) (\<lambda>terminal.
     rp_bind (text_at ''txid'' (windex (windex (windex terminal ''status'') ''Succeed'') ''txid'')) (\<lambda>txid.
     rp_return
       (ensure (txid = pay_txid x) TxidMismatch
       (ensure (as_str (windex terminal ''client_data'') = Some client_data) ClientDataMismatch (Inr ())))))))))"

section \<open>The programs\<close>

text \<open>Both connect and run their drill; \<open>k\<close> is the wallet half's venue key.\<close>

definition sign_message_e2e ::
  "'k venue_lib \<Rightarrow> (string \<Rightarrow> wjson option) \<Rightarrow> (string \<Rightarrow> url option) \<Rightarrow> string \<Rightarrow> 'k \<Rightarrow> bool \<Rightarrow> rp_item list
   \<Rightarrow> rp \<times> (rp_error + unit)" where
  "sign_message_e2e vl parse url_parse identity_pk k sink source =
     sign_message_drill vl parse url_parse identity_pk (account_pk vl k) (rp_connect sink source)"

definition pay_client_data :: string where
  \<open>pay_client_data = ''{"venueAccount":7,"nonce":"abc123"}''\<close>

definition pay_request_e2e ::
  "(string \<Rightarrow> wjson option) \<Rightarrow> (string \<Rightarrow> url option) \<Rightarrow> string \<Rightarrow> string \<Rightarrow> bool \<Rightarrow> rp_item list
   \<Rightarrow> rp \<times> (rp_error + unit)" where
  "pay_request_e2e parse url_parse identity_pk recipient sink source =
     pay_drill parse url_parse identity_pk (e2e_pay_intent recipient) pay_client_data (rp_connect sink source)"

end
