(* ===== verification/Driver_Claims.thy ===== *)
theory Driver_Claims
  imports Relying_Party Venue_Claims
begin

text \<open>
  The relying party of the end-to-end drivers: which frames a request reads past, what that loses, and
  what a message-signing drill that ends well has verified.
\<close>

section \<open>The relying party\<close>

text \<open>What the client passes over while it waits for a response: frames that are neither a response nor
  an error, and items that carry no text.\<close>

definition passed_over :: "(string \<Rightarrow> wjson option) \<Rightarrow> rp_item \<Rightarrow> bool" where
  "passed_over parse it = (case it of
     RpText t \<Rightarrow> (case parse t of
        None \<Rightarrow> False
      | Some m \<Rightarrow> wpointer m [''Resp''] = None \<and> wpointer m [''Error''] = None)
   | RpSocketError \<Rightarrow> False
   | _ \<Rightarrow> True)"

lemma request_loop_passes: "passed_over parse it \<Longrightarrow> request_loop parse i (it # src) = request_loop parse i src"
  using request_loop.simps [of parse i "it # src"] request_loop.simps [of parse i src]
  by (cases it) (auto simp: passed_over_def ok_or_def split: option.splits)

lemma request_loop_passes_all:
  "list_all (passed_over parse) pre \<Longrightarrow> request_loop parse i (pre @ src) = request_loop parse i src"
  by (induction pre) (simp_all add: request_loop_passes)

text \<open>A frame that answers request \<open>i\<close>.\<close>

definition answers :: "(string \<Rightarrow> wjson option) \<Rightarrow> int \<Rightarrow> string \<Rightarrow> wjson \<Rightarrow> bool" where
  "answers parse i t v \<longleftrightarrow> (\<exists>m resp. parse t = Some m \<and> wpointer m [''Resp''] = Some resp
     \<and> Option.bind (wget resp ''id'') as_i64 = Some i \<and> windex resp ''resp'' = v)"

lemma request_loop_answer: "answers parse i t v \<Longrightarrow> request_loop parse i (RpText t # rest) = (rest, Inr v)"
  using request_loop.simps [of parse i "RpText t # rest"] by (auto simp: answers_def ok_or_def)

lemma request_loop_Inr:
  "request_loop parse i src = (rest, Inr v) \<Longrightarrow>
   \<exists>pre t. src = pre @ RpText t # rest \<and> list_all (passed_over parse) pre \<and> answers parse i t v"
proof (induction src)
  case Nil
  then show ?case using request_loop.simps [of parse i "[]"] by simp
next
  case (Cons it src)
  show ?case
  proof (cases "passed_over parse it")
    case True
    with Cons obtain pre t where "src = pre @ RpText t # rest" "list_all (passed_over parse) pre" "answers parse i t v"
      by (auto simp: request_loop_passes)
    with True show ?thesis by (intro exI [of _ "it # pre"] exI [of _ t]) simp
  next
    case False
    with Cons.prems request_loop.simps [of parse i "it # src"]
    have "\<exists>t. it = RpText t \<and> src = rest \<and> answers parse i t v"
      by (cases it) (auto simp: passed_over_def answers_def ok_or_def split: option.splits if_splits)
    then obtain t where "it = RpText t" "src = rest" "answers parse i t v" by blast
    then show ?thesis by (intro exI [of _ "[]"] exI [of _ t]) simp
  qed
qed

definition drill_frame :: "int \<Rightarrow> wjson \<Rightarrow> wjson" where
  "drill_frame i req = WObj [(''Req'', WObj [(''id'', WInt i), (''req'', req)])]"

lemma rp_request_answered:
  assumes "rp_request parse req st = (st', Inr v)"
  shows "rp_sink_ok st \<and> rp_next_id st' = rp_next_id st + 1 \<and> rp_sink_ok st' \<and> rp_links st' = rp_links st
    \<and> rp_sent st' = rp_sent st @ [drill_frame (rp_next_id st) req]
    \<and> (\<exists>pre t. rp_source st = pre @ RpText t # rp_source st' \<and> list_all (passed_over parse) pre
         \<and> answers parse (rp_next_id st) t v)"
  using assms request_loop_Inr [of parse "rp_next_id st" "rp_source st" _ v]
  by (auto simp: rp_request_def Let_def drill_frame_def split: if_splits prod.splits)

lemma rp_bind_Inr:
  "rp_bind m f st = (st', Inr b) \<longleftrightarrow> (\<exists>st1 a. m st = (st1, Inr a) \<and> f a st1 = (st', Inr b))"
  by (auto simp: rp_bind_def split: prod.splits sum.splits)

lemma text_at_Inr: "text_at what v st = (st', Inr x) \<longleftrightarrow> st' = st \<and> as_str v = Some x"
  by (auto simp: text_at_def rp_return_def result_simps)

lemma rp_return_eq: "rp_return r st = (st', q) \<longleftrightarrow> st' = st \<and> q = r"
  by (auto simp: rp_return_def)

text \<open>What a wait leaves as it was.\<close>

definition rp_log :: "rp \<Rightarrow> bool \<times> int \<times> wjson list \<times> input list" where
  "rp_log st = (rp_sink_ok st, rp_next_id st, rp_sent st, rp_links st)"

lemma wait_log:
  "wait_notif parse timed kind st = (st', r) \<Longrightarrow> rp_log st' = rp_log st"
  "wait_sign_message_terminal parse rid st = (st', w) \<Longrightarrow> rp_log st' = rp_log st"
  "wait_pay_terminal parse rid st = (st', w) \<Longrightarrow> rp_log st' = rp_log st"
  by (auto simp: wait_notif_def wait_sign_message_terminal_def wait_pay_terminal_def rp_log_def Let_def
      split: prod.splits)

lemma request_log:
  "rp_request parse req st = (st', Inr v) \<Longrightarrow>
   rp_log st' = (True, rp_next_id st + 1, rp_sent st @ [drill_frame (rp_next_id st) req], rp_links st)"
  using rp_request_answered by (auto simp: rp_log_def)

lemma link_log:
  "rp_link url_parse u st = (st', Inr v) \<Longrightarrow> \<exists>i. open_link url_parse u = Inr i
     \<and> rp_log st' = (rp_sink_ok st, rp_next_id st, rp_sent st, rp_links st @ [i])"
  by (auto simp: rp_link_def rp_log_def split: sum.splits)

lemma terminal_after_response:
  "wait_sign_message_terminal parse rid (st\<lparr>rp_source := RpQuiet # rest\<rparr>) = (st\<lparr>rp_source := rest\<rparr>, Inl RpTimeout)"
  using terminal_loop.simps [of parse "''SignMessageRequestUpdated''" "''sign_message_request''" rid "RpQuiet # rest"]
    notif_loop.simps [of parse True "''SignMessageRequestUpdated''" "RpQuiet # rest"]
  by (simp add: wait_sign_message_terminal_def)

text \<open>C16.  An answer that overtakes the response is lost.  While the relying party waits for the response
  to a message-signing request, it reads and discards every readable frame that is neither a response nor
  an error (these two, an unreadable frame and a socket error end the wait); when the response is followed by a quiet time, the round ends in a timeout whatever came before the response, the wallet's finished
  signature for this very request included.\<close>

theorem overtaking_answer_is_lost:
  assumes "rp_sink_ok st" and "rp_source st = pre @ RpText t # RpQuiet # rest"
    and "list_all (passed_over parse) pre" and "answers parse (rp_next_id st) t resp"
    and "as_str (windex (windex (windex resp ''StartSignMessage'') ''sign_message_request'') ''request_id'') = Some rid"
  shows "snd (rp_sign_message vl parse sid digest description pk st) = Inl RpTimeout
    \<and> rp_source (fst (rp_sign_message vl parse sid digest description pk st)) = rest"
proof -
  let ?req = "start_sign_message sid (hex_encode vl digest) description"
  define st1 where "st1 = st\<lparr>rp_next_id := rp_next_id st + 1, rp_sent := rp_sent st @ [drill_frame (rp_next_id st) ?req]\<rparr>"
  have "request_loop parse (rp_next_id st) (rp_source st) = (RpQuiet # rest, Inr resp)"
    by (simp add: assms(2) request_loop_passes_all [OF assms(3)] request_loop_answer [OF assms(4)])
  then have req: "rp_request parse ?req st = (st1\<lparr>rp_source := RpQuiet # rest\<rparr>, Inr resp)"
    by (simp add: rp_request_def assms(1) drill_frame_def st1_def Let_def)
  show ?thesis
    by (simp add: rp_sign_message_def rp_bind_def req text_at_def rp_return_def assms(5) terminal_after_response)
qed

definition overtaken_parse :: "string \<Rightarrow> wjson option" where
  "overtaken_parse t =
     (if t = ''done'' then Some (WObj [(''Notif'', WObj [(''notif'', WObj [(''SignMessageRequestUpdated'',
          WObj [(''sign_message_request'', WObj [(''request_id'', WStr ''m1''),
            (''status'', WObj [(''Succeed'', WObj [(''signature'', WStr ''5e'')])])])])])])])
      else if t = ''resp'' then Some (WObj [(''Resp'', WObj [(''id'', WInt 1), (''resp'',
          WObj [(''StartSignMessage'', WObj [(''sign_message_request'', WObj [(''request_id'', WStr ''m1'')])])])])])
      else None)"

definition overtaken_rp :: rp where
  "overtaken_rp = rp_connect True [RpText ''done'', RpText ''resp'', RpQuiet]"

theorem overtaking_answer_is_lost_witness:
  "snd (terminal_loop overtaken_parse ''SignMessageRequestUpdated'' ''sign_message_request'' ''m1'' (rp_source overtaken_rp))
     = Inr (WObj [(''request_id'', WStr ''m1''), (''status'', WObj [(''Succeed'', WObj [(''signature'', WStr ''5e'')])])])
   \<and> snd (rp_sign_message demo_venue overtaken_parse ''s'' [] [] [] overtaken_rp) = Inl RpTimeout"
proof -
  let ?resp = "WObj [(''StartSignMessage'', WObj [(''sign_message_request'', WObj [(''request_id'', WStr ''m1'')])])]"
  have source: "rp_source overtaken_rp = [RpText ''done''] @ RpText ''resp'' # RpQuiet # []" "rp_sink_ok overtaken_rp"
    by (simp_all add: overtaken_rp_def rp_connect_def)
  have passed: "list_all (passed_over overtaken_parse) [RpText ''done'']" by code_simp
  have answer: "answers overtaken_parse (rp_next_id overtaken_rp) ''resp'' ?resp"
    by (simp add: answers_def overtaken_parse_def overtaken_rp_def rp_connect_def wget_def windex_def as_i64_def)
  have rid: "as_str (windex (windex (windex ?resp ''StartSignMessage'') ''sign_message_request'') ''request_id'') = Some ''m1''"
    by code_simp
  have "snd (terminal_loop overtaken_parse ''SignMessageRequestUpdated'' ''sign_message_request'' ''m1'' (rp_source overtaken_rp))
     = Inr (WObj [(''request_id'', WStr ''m1''), (''status'', WObj [(''Succeed'', WObj [(''signature'', WStr ''5e'')])])])"
    by code_simp
  with overtaking_answer_is_lost [OF source(2,1) passed answer rid, of demo_venue "''s''" "[]" "[]" "[]"]
  show ?thesis by simp
qed

text \<open>What a drill that ends well has established.\<close>

definition verified :: "'k venue_lib \<Rightarrow> string \<Rightarrow> bytes \<Rightarrow> string \<Rightarrow> bool" where
  "verified vl signature_hex digest pk_hex \<longleftrightarrow> (\<exists>signature pk. hex_decode_to_slice vl signature_hex 64 = Some signature
     \<and> Option.bind (hex_decode_to_slice vl pk_hex 32) (xonly_from_slice vl) = Some pk
     \<and> verify_schnorr vl signature digest pk)"

lemma rp_verify_Inr: "rp_verify vl s d pk = Inr () \<longleftrightarrow> verified vl s d pk"
  by (auto simp: rp_verify_def verified_def result_simps)

lemma rp_sign_message_Inr:
  assumes "rp_sign_message vl parse sid digest description pk st = (st', Inr u)"
  shows "(\<exists>sg. verified vl sg digest pk) \<and> rp_log st' = (True, rp_next_id st + 1,
      rp_sent st @ [drill_frame (rp_next_id st) (start_sign_message sid (hex_encode vl digest) description)], rp_links st)"
proof -
  obtain st1 resp rid w sg where req: "rp_request parse (start_sign_message sid (hex_encode vl digest) description) st = (st1, Inr resp)"
    and wait: "wait_sign_message_terminal parse rid st1 = (st', Inr w)" and ok: "verified vl sg digest pk"
    using assms by (auto simp: rp_sign_message_def rp_bind_Inr text_at_Inr rp_return_eq rp_verify_Inr [symmetric])
  show ?thesis using ok request_log [OF req] wait_log(2) [OF wait] by auto
qed

lemma rp_session_Inr:
  assumes "rp_session parse url_parse identity_pk st = (st', Inr sid)"
  shows "\<exists>rid i. open_link url_parse (''liquidconnect://login/?request_id='' @ rid) = Inr i
    \<and> rp_log st' = (True, rp_next_id st + 2,
      rp_sent st @ [drill_frame (rp_next_id st) (WObj [(''Login'', WObj [(''domain'', WStr ''paper.swaption.io'')])]),
        drill_frame (rp_next_id st + 1) (WObj [(''StartLogin'', WObj [(''client_data'', WNull)])])],
      rp_links st @ [i])"
proof -
  obtain st1 st2 st3 v1 v2 rid v3 where
    "rp_request parse (WObj [(''Login'', WObj [(''domain'', WStr ''paper.swaption.io'')])]) st = (st1, Inr v1)"
    "rp_request parse (WObj [(''StartLogin'', WObj [(''client_data'', WNull)])]) st1 = (st2, Inr v2)"
    "rp_link url_parse (''liquidconnect://login/?request_id='' @ rid) st2 = (st3, Inr ())"
    "wait_notif parse True ''SessionCreated'' st3 = (st', Inr v3)"
    using assms by (auto simp: rp_session_def rp_bind_Inr text_at_Inr rp_return_eq Let_def)
  from request_log [OF this(1)] request_log [OF this(2)] link_log [OF this(3)] wait_log(1) [OF this(4)]
  show ?thesis by (auto simp: rp_log_def)
qed

theorem message_drill_verifies:
  assumes "sign_message_drill vl parse url_parse identity_pk venue_pk st = (st', Inr ())"
  shows "(\<exists>s1. verified vl s1 (order_digest vl venue_pk Sell 7700000000 1000 50 1 None) (hex_encode vl venue_pk))
    \<and> (\<exists>s2. verified vl s2 (replicate 32 0x42) identity_pk)
    \<and> rp_next_id st' = rp_next_id st + 4 \<and> length (rp_sent st') = length (rp_sent st) + 4
    \<and> (\<exists>rid i. open_link url_parse (''liquidconnect://login/?request_id='' @ rid) = Inr i
         \<and> rp_links st' = rp_links st @ [i])"
proof -
  obtain sid st1 st2 where
    "rp_session parse url_parse identity_pk st = (st1, Inr sid)"
    "rp_sign_message vl parse sid (order_digest vl venue_pk Sell 7700000000 1000 50 1 None)
       (order_description 7700000000 1000 50 1) (hex_encode vl venue_pk) st1 = (st2, Inr ())"
    "rp_sign_message vl parse sid (replicate 32 0x42) ''Test opaque approval'' identity_pk st2 = (st', Inr ())"
    using assms by (auto simp: sign_message_drill_def rp_bind_Inr)
  from rp_session_Inr [OF this(1)] rp_sign_message_Inr [OF this(2)] rp_sign_message_Inr [OF this(3)]
  show ?thesis by (auto simp: rp_log_def)
qed

end
