(* ===== verification/Venue_Drill.thy ===== *)
theory Venue_Drill
  imports Venue Lending Bench_Host
begin

text \<open>
  The programs that drive a venue with the money key: \<open>rf-venue-e2e.rs\<close>, \<open>venue-sdk-login.rs\<close>,
  \<open>sign-withdraw-claim.rs\<close> and \<open>rf-vectors.rs\<close> of \<open>lc-wallet-core/examples\<close>.  The venue is the function
  from the requests made so far, the latest last, to its reply; every operation returns the requests
  with its result.  A failed \<open>expect\<close> is the error \<open>DrillPanic\<close>.
\<close>

datatype drill_request =
    Post string "(string \<times> string) list"  \<comment> \<open>path and form fields\<close>
  | GetState string  \<comment> \<open>the token in the query\<close>

datatype drill_error =
    DrillPanic | DrillHttp nat string | DrillTransport | DrillBadBody
  | LoginRefused string | OrderRefused string | PrepareRefused string | WithdrawRefused string
  | DigestMismatch | RootNotHex | KeptMissing | LimitDidNotRest | IocNotFilled | NotMargined
  | SeedBad | DrillVenue venue_error | DestMissing

type_synonym 'v venue_net = "drill_request list \<Rightarrow> 'v http_result"
type_synonym 'a drill_op = "drill_request list \<Rightarrow> drill_request list \<times> (drill_error + 'a)"

definition drill_return :: "drill_error + 'a \<Rightarrow> 'a drill_op" where
  "drill_return r h = (h, r)"

definition drill_bind :: "'a drill_op \<Rightarrow> ('a \<Rightarrow> 'b drill_op) \<Rightarrow> 'b drill_op" where
  "drill_bind m f h = (case m h of (h', Inl e) \<Rightarrow> (h', Inl e) | (h', Inr a) \<Rightarrow> f a h')"

definition drill_expect :: "'a option \<Rightarrow> 'a drill_op" where
  "drill_expect x = drill_return (ok_or x DrillPanic)"

section \<open>The venue's routes\<close>

definition venue_answer :: "'v http_result \<Rightarrow> drill_error + 'v" where
  "venue_answer r = (case r of
     Replied (Some v) \<Rightarrow> Inr v
   | Replied None \<Rightarrow> Inl DrillBadBody
   | HttpStatus code body \<Rightarrow> Inl (DrillHttp code body)
   | Unreachable \<Rightarrow> Inl DrillTransport)"

definition venue_post :: "'v venue_net \<Rightarrow> string \<Rightarrow> (string \<times> string) list \<Rightarrow> 'v drill_op" where
  "venue_post net path flds h = (let h' = h @ [Post path flds] in (h', venue_answer (net h')))"

text \<open>A status other than success is an error of the call itself here.\<close>

definition venue_state :: "'v venue_net \<Rightarrow> string \<Rightarrow> 'v drill_op" where
  "venue_state net token h = (let h' = h @ [GetState token] in (h', venue_answer (net h')))"

definition dec :: "u64 \<Rightarrow> string" where
  "dec raw = show_nat (unat raw div 100000000) @ ''.'' @ pad8 (unat raw mod 100000000)"

definition get_u64 :: "'v serde \<Rightarrow> 'v \<Rightarrow> string \<Rightarrow> u64 option" where
  "get_u64 js v name = Option.bind (json_get js v name) (json_as_u64 js)"

definition refused :: "'v serde \<Rightarrow> (string \<Rightarrow> drill_error) \<Rightarrow> 'v \<Rightarrow> 'v drill_op" where
  "refused js err v = drill_return (case get_str js v ''error'' of Some e \<Rightarrow> Inl (err e) | None \<Rightarrow> Inr v)"

definition drill_login ::
  "'k venue_lib \<Rightarrow> 'v serde \<Rightarrow> 'v venue_net \<Rightarrow> 'k \<Rightarrow> (string \<times> u64) drill_op" where
  "drill_login vl js net k =
     drill_bind (venue_post net ''/api/sdk/challenge'' []) (\<lambda>ch.
     drill_bind (drill_expect (get_str js ch ''challenge'')) (\<lambda>challenge.
     drill_bind (venue_post net ''/api/sdk/login''
       [(''pk'', hex_encode vl (account_pk vl k)), (''challenge'', challenge),
        (''sig'', signature_to_string vl (snd (sign_login vl k challenge)))]) (\<lambda>r0.
     drill_bind (refused js LoginRefused r0) (\<lambda>r.
     drill_bind (drill_expect (get_str js r ''token'')) (\<lambda>token.
     drill_bind (drill_expect (get_u64 js r ''account'')) (\<lambda>account.
     drill_return (Inr (token, account))))))))"

definition side_text :: "order_side \<Rightarrow> string" where
  "side_text s = (case s of Buy \<Rightarrow> ''buy'' | Sell \<Rightarrow> ''sell'')"

text \<open>The session number is cut to 32 bits, and the expiry is 24 sessions later in 32-bit arithmetic.\<close>

definition order_fields ::
  "'k venue_lib \<Rightarrow> 'k \<Rightarrow> string \<Rightarrow> order_side \<Rightarrow> u64 \<Rightarrow> u64 \<Rightarrow> bool \<Rightarrow> u32 \<Rightarrow> u64 \<Rightarrow> (string \<times> string) list" where
  "order_fields vl k token side price qty ioc expiry nonce =
     [(''token'', token), (''side'', side_text side), (''price'', dec price), (''qty'', dec qty),
      (''expiry'', show_nat (unat expiry)), (''nonce'', show_nat (unat nonce)),
      (''sig'', signature_to_string vl (snd (sign_order vl k side price qty expiry nonce None)))]
     @ (if ioc then [(''ioc'', ''1'')] else [])"

definition signed_order ::
  "'k venue_lib \<Rightarrow> 'v serde \<Rightarrow> 'v venue_net \<Rightarrow> 'k \<Rightarrow> string \<Rightarrow> order_side \<Rightarrow> u64 \<Rightarrow> u64 \<Rightarrow> bool \<Rightarrow> 'v drill_op" where
  "signed_order vl js net k token side price qty ioc =
     drill_bind (venue_state net token) (\<lambda>st.
     drill_bind (drill_expect (get_u64 js st ''session'')) (\<lambda>session.
     drill_bind (drill_expect (Option.bind (json_get js st ''me'') (\<lambda>me. get_u64 js me ''nextNonce''))) (\<lambda>nonce.
     let expiry = (ucast session :: u32) + 24 in
     drill_bind (venue_post net ''/api/order'' (order_fields vl k token side price qty ioc expiry nonce)) (\<lambda>r.
     refused js OrderRefused r))))"

section \<open>The withdrawal\<close>

text \<open>One round: prepare, rebuild the digest from the parts, sign, post.  The reply's error decides
  whether there is another round.  A root that is no hex is an error and one of the wrong length a panic
  in the source; both are \<open>RootNotHex\<close>.\<close>

definition withdraw_round ::
  "'k venue_lib \<Rightarrow> 'v serde \<Rightarrow> 'v venue_net \<Rightarrow> 'k \<Rightarrow> string \<Rightarrow> u64 \<Rightarrow> string option drill_op" where
  "withdraw_round vl js net k token amt =
     drill_bind (venue_post net ''/api/withdraw/prepare'' [(''token'', token), (''amount'', dec amt)]) (\<lambda>p0.
     drill_bind (refused js PrepareRefused p0) (\<lambda>p.
     drill_bind (drill_expect (get_str js p ''root'')) (\<lambda>root_hex.
     drill_bind (drill_return (ok_or (hex_decode_to_slice vl root_hex 32) RootNotHex)) (\<lambda>root.
     let (digest, sig) = sign_withdraw vl k amt root in
     drill_bind (drill_return (ensure
         (hex_encode vl digest = (case get_str js p ''digest'' of Some d \<Rightarrow> d | None \<Rightarrow> [])) DigestMismatch (Inr ()))) (\<lambda>_.
     drill_bind (venue_post net ''/api/withdraw''
         [(''token'', token), (''amount'', dec amt), (''sig'', signature_to_string vl sig)]) (\<lambda>r.
     drill_return (Inr (get_str js r ''error''))))))))"

fun withdraw_rounds ::
  "'k venue_lib \<Rightarrow> 'v serde \<Rightarrow> 'v venue_net \<Rightarrow> 'k \<Rightarrow> string \<Rightarrow> u64 \<Rightarrow> nat list \<Rightarrow> unit drill_op" where
  "withdraw_rounds vl js net k token amt [] = drill_return (Inl KeptMissing)"
| "withdraw_rounds vl js net k token amt (attempt # rest) =
     drill_bind (withdraw_round vl js net k token amt) (\<lambda>err. case err of
       None \<Rightarrow> drill_return (Inr ())
     | Some e \<Rightarrow>
         if contains_str ''prepare and sign again'' e \<and> attempt < 2
         then withdraw_rounds vl js net k token amt rest
         else drill_return (Inl (WithdrawRefused e)))"

definition signed_withdraw ::
  "'k venue_lib \<Rightarrow> 'v serde \<Rightarrow> 'v venue_net \<Rightarrow> 'k \<Rightarrow> string \<Rightarrow> u64 \<Rightarrow> unit drill_op" where
  "signed_withdraw vl js net k token amt = withdraw_rounds vl js net k token amt [0, 1, 2]"

section \<open>The drill\<close>

definition TICK :: u64 where "TICK = 100000000"

text \<open>The session's opening price rounded to the tick, in 64-bit arithmetic.\<close>

definition drill_price :: "u64 \<Rightarrow> u64" where
  "drill_price opening = max ((opening + TICK div 2) div TICK * TICK) TICK"

definition ensure_op :: "bool \<Rightarrow> drill_error \<Rightarrow> unit drill_op" where
  "ensure_op b e = drill_return (ensure b e (Inr ()))"

text \<open>\<open>is_false\<close> tells the JSON value \<open>false\<close>.\<close>

definition venue_drill ::
  "'k venue_lib \<Rightarrow> 'v serde \<Rightarrow> ('v \<Rightarrow> bool) \<Rightarrow> 'v venue_net \<Rightarrow> 'k \<Rightarrow> 'k \<Rightarrow> unit drill_op" where
  "venue_drill vl js is_false net ka kb =
     drill_bind (drill_login vl js net ka) (\<lambda>(tok_a, _).
     drill_bind (drill_login vl js net kb) (\<lambda>(tok_b, _).
     drill_bind (venue_state net tok_a) (\<lambda>st.
     drill_bind (drill_expect (get_u64 js st ''sessionOpenRaw'')) (\<lambda>opening.
     let price = drill_price opening; qty = 1000 in
     drill_bind (signed_order vl js net ka tok_a Sell price qty False) (\<lambda>ra.
     drill_bind (ensure_op (case json_get js ra ''restId'' of None \<Rightarrow> False | Some v \<Rightarrow> \<not> json_is_null js v)
       LimitDidNotRest) (\<lambda>_.
     drill_bind (signed_order vl js net kb tok_b Buy price qty True) (\<lambda>rb.
     drill_bind (ensure_op (case json_get js rb ''iocCancelled'' of None \<Rightarrow> False | Some v \<Rightarrow> is_false v)
       IocNotFilled) (\<lambda>_.
     drill_bind (venue_state net tok_b) (\<lambda>mb.
     drill_bind (ensure_op (case Option.bind (json_get js mb ''me'') (\<lambda>me. get_u64 js me ''marginRaw'') of
         None \<Rightarrow> False | Some m \<Rightarrow> m > 0) NotMargined) (\<lambda>_.
     signed_withdraw vl js net kb tok_b qty))))))))))"

definition seed32 :: "'k venue_lib \<Rightarrow> string \<Rightarrow> drill_error + bytes" where
  "seed32 vl hex_s = ok_or (hex_decode_to_slice vl hex_s 32) SeedBad"

definition drill_key :: "'k venue_lib \<Rightarrow> bytes \<Rightarrow> drill_error + 'k" where
  "drill_key vl seed = (case from_seed vl seed LiquidTestnet of Inl e \<Rightarrow> Inl (DrillVenue e) | Inr k \<Rightarrow> Inr k)"

definition venue_e2e ::
  "'k venue_lib \<Rightarrow> 'v serde \<Rightarrow> ('v \<Rightarrow> bool) \<Rightarrow> 'v venue_net \<Rightarrow> string \<Rightarrow> string \<Rightarrow> unit drill_op" where
  "venue_e2e vl js is_false net seed_a seed_b =
     drill_bind (drill_return (seed32 vl seed_a)) (\<lambda>a.
     drill_bind (drill_return (seed32 vl seed_b)) (\<lambda>b.
     drill_bind (drill_return (drill_key vl a)) (\<lambda>ka.
     drill_bind (drill_return (drill_key vl b)) (\<lambda>kb.
     venue_drill vl js is_false net ka kb))))"

section \<open>The one-shot login\<close>

definition form_encode :: "(string \<times> string) list \<Rightarrow> string" where
  "form_encode pairs =
     join ''&'' (map (\<lambda>(k, v). k @ ''='' @ concat (map (\<lambda>b.
       if CHR ''A'' \<le> b \<and> b \<le> CHR ''Z'' \<or> CHR ''a'' \<le> b \<and> b \<le> CHR ''z'' \<or> CHR ''0'' \<le> b \<and> b \<le> CHR ''9''
          \<or> b = CHR ''-'' \<or> b = CHR ''_'' \<or> b = CHR ''.'' \<or> b = CHR ''~''
       then [b]
       else ''%'' @ [hex_digit_upper (of_char b div 16), hex_digit_upper (of_char b mod 16)]) v)) pairs)"

text \<open>\<open>challenge_reply\<close> of the library reads the first reply the same way; the second is not searched
  for an error.\<close>

definition sdk_login_reply :: "'v http_result \<Rightarrow> venue_error + 'v" where
  "sdk_login_reply r = (case r of
     Replied (Some v) \<Rightarrow> Inr v
   | Replied None \<Rightarrow> Inl BadReply
   | HttpStatus code text \<Rightarrow> Inl (RefusedStatus code text)
   | Unreachable \<Rightarrow> Inl HttpFailed)"

definition trim_slashes :: "string \<Rightarrow> string" where
  "trim_slashes s = rev (dropWhile (\<lambda>c. c = CHR ''/'') (rev s))"

definition venue_sdk_login ::
  "'k venue_lib \<Rightarrow> 'v serde \<Rightarrow> (http_request \<Rightarrow> 'v http_result) \<Rightarrow> string \<Rightarrow> 'k
   \<Rightarrow> string option \<Rightarrow> string option \<Rightarrow> http_request list \<times> (venue_error + 'v)" where
  "venue_sdk_login vl js post base_arg k identity link =
     (let base = trim_slashes base_arg;
          q1 = \<lparr>hq_url = base @ ''/api/sdk/challenge'', hq_content_type = None, hq_body = []\<rparr> in
      case challenge_reply js (post q1) of
        Inl e \<Rightarrow> ([q1], Inl e)
      | Inr challenge \<Rightarrow>
          let (_, sig) = sign_login vl k challenge;
              pairs = [(''pk'', hex_encode vl (account_pk vl k)), (''sig'', signature_to_string vl sig),
                       (''challenge'', challenge)]
                @ (case identity of None \<Rightarrow> [] | Some i \<Rightarrow> [(''identity'', i)])
                @ (case link of None \<Rightarrow> [] | Some c \<Rightarrow> [(''link'', c)]);
              q2 = \<lparr>hq_url = base @ ''/api/sdk/login'',
                    hq_content_type = Some ''application/x-www-form-urlencoded'', hq_body = form_encode pairs\<rparr>
          in ([q1, q2], sdk_login_reply (post q2)))"

section \<open>The recovery signer and the test vectors\<close>

datatype claim_error = ClaimUsage | AmountBad | ClaimSeedBad | ClaimRootBad | ClaimVenue venue_error

definition sign_withdraw_claim ::
  "'k venue_lib \<Rightarrow> string option \<Rightarrow> string option \<Rightarrow> string option \<Rightarrow> string option
   \<Rightarrow> claim_error + bytes \<times> bytes" where
  "sign_withdraw_claim vl seed_arg amt_arg dest_arg root_arg =
     and_then (ok_or seed_arg ClaimUsage) (\<lambda>seed_hex.
     and_then (ok_or amt_arg ClaimUsage) (\<lambda>amt_s.
     and_then (ok_or (parse_u64 amt_s) AmountBad) (\<lambda>amt.
     and_then (ok_or dest_arg ClaimUsage) (\<lambda>dest.
     and_then (ok_or root_arg ClaimUsage) (\<lambda>root_hex.
     and_then (ok_or (hex_decode_to_slice vl seed_hex 32) ClaimSeedBad) (\<lambda>seed.
     and_then (ok_or (hex_decode_to_slice vl root_hex 32) ClaimRootBad) (\<lambda>root.
     and_then (case from_seed vl seed LiquidTestnet of Inl e \<Rightarrow> Inl (ClaimVenue e) | Inr k \<Rightarrow> Inr k) (\<lambda>k.
     case sign_typed vl k (Withdraw amt dest root) of Inl e \<Rightarrow> Inl (ClaimVenue e) | Inr r \<Rightarrow> Inr r))))))))"

definition rf_vectors :: "'k venue_lib \<Rightarrow> 'k \<Rightarrow> (bytes \<times> bytes) list" where
  "rf_vectors vl k =
     [sign_login vl k ''c1'',
      sign_order vl k Sell 7700000000 1000 50 1 None,
      sign_order vl k Buy 11500000000000 10000000 100 7 None,
      sign_withdraw vl k 5000 (replicate 32 0xAA)]"

text \<open>\<open>main\<close> of \<open>rf-vectors\<close>: \<open>None\<close> is the panic of its \<open>expect\<close>.\<close>

definition rf_vectors_main :: "'k venue_lib \<Rightarrow> (bytes \<times> bytes) list option" where
  "rf_vectors_main vl = (case from_seed vl (replicate 32 7) LiquidTestnet of
     Inl _ \<Rightarrow> None | Inr k \<Rightarrow> Some (rf_vectors vl k))"

text \<open>\<open>main\<close> of \<open>venue-sdk-login\<close>: the arguments after the program's name.\<close>

definition venue_sdk_login_main ::
  "'k venue_lib \<Rightarrow> 'v serde \<Rightarrow> (http_request \<Rightarrow> 'v http_result) \<Rightarrow> string list
   \<Rightarrow> http_request list \<times> (claim_error + 'v)" where
  "venue_sdk_login_main vl js post args = (case args of
     base # seed_hex # rest \<Rightarrow>
       (case and_then (ok_or (hex_decode_to_slice vl seed_hex 32) ClaimSeedBad) (\<lambda>seed.
               case from_seed vl seed LiquidTestnet of Inl e \<Rightarrow> Inl (ClaimVenue e) | Inr k \<Rightarrow> Inr k) of
          Inl e \<Rightarrow> ([], Inl e)
        | Inr k \<Rightarrow>
            let (qs, r) = venue_sdk_login vl js post base k
                  (case rest of i # _ \<Rightarrow> Some i | _ \<Rightarrow> None) (case rest of _ # c # _ \<Rightarrow> Some c | _ \<Rightarrow> None)
            in (qs, case r of Inl e \<Rightarrow> Inl (ClaimVenue e) | Inr v \<Rightarrow> Inr v))
   | _ \<Rightarrow> ([], Inl ClaimUsage))"

end
