(* ===== verification/Venue_Driver_Claims.thy ===== *)
theory Venue_Driver_Claims
  imports Venue_Drill Venue_Claims
begin

text \<open>
  What the venue drivers guarantee: the withdrawal drill ends and signs only what it rebuilt, the one-shot
  login makes the library's requests, and the drill's price is near the session's opening.
\<close>

section \<open>The withdrawal drill\<close>

definition prepare_request :: "string \<Rightarrow> u64 \<Rightarrow> drill_request" where
  "prepare_request token amt = Post ''/api/withdraw/prepare'' [(''token'', token), (''amount'', dec amt)]"

text \<open>The requests of a round: it ends after the preparation, or posts the signature for the root it
  was given.\<close>

definition round_requests :: "'k venue_lib \<Rightarrow> 'k \<Rightarrow> string \<Rightarrow> u64 \<Rightarrow> bytes option \<Rightarrow> drill_request list" where
  "round_requests vl k token amt r = prepare_request token amt # (case r of
     None \<Rightarrow> []
   | Some root \<Rightarrow>
       let pk = account_pk vl k in
       [Post ''/api/withdraw'' [(''token'', token), (''amount'', dec amt),
          (''sig'', signature_to_string vl (sign_schnorr_no_aux vl
             (sha256 vl (withdraw_preimage pk amt (sha256 vl ([0x51, 0x20] @ pk)) root)) k))]])"

text \<open>What the venue's preparation has to say before that signature is made: the root, and the digest
  that follows from it for the wallet's own script.\<close>

definition agreed :: "'k venue_lib \<Rightarrow> 'v serde \<Rightarrow> 'k \<Rightarrow> u64 \<Rightarrow> bytes \<Rightarrow> 'v http_result \<Rightarrow> bool" where
  "agreed vl js k amt root reply \<longleftrightarrow> (\<exists>p root_hex. reply = Replied (Some p) \<and> get_str js p ''error'' = None
     \<and> get_str js p ''root'' = Some root_hex \<and> hex_decode_to_slice vl root_hex 32 = Some root
     \<and> hex_encode vl (fst (sign_withdraw vl k amt root)) = (case get_str js p ''digest'' of Some d \<Rightarrow> d | None \<Rightarrow> []))"

lemma venue_post_eq:
  "venue_post net path flds h = (h @ [Post path flds], venue_answer (net (h @ [Post path flds])))"
  by (simp add: venue_post_def Let_def)

lemmas drill_steps = drill_bind_def drill_return_def drill_expect_def refused_def venue_post_eq case_prod_unfold

lemma venue_answer_Inr: "venue_answer r = Inr v \<longleftrightarrow> r = Replied (Some v)"
  by (auto simp: venue_answer_def split: http_result.split option.split)

lemma venue_answer_kept: "venue_answer r \<noteq> Inl KeptMissing"
  by (auto simp: venue_answer_def split: http_result.split option.split)

text \<open>One round, whatever the venue says: it posts a signature exactly for a root that was agreed on.\<close>

lemma withdraw_round_agreed:
  assumes "agreed vl js k amt root (net (h @ [prepare_request token amt]))"
  shows "\<exists>r. withdraw_round vl js net k token amt h = (h @ round_requests vl k token amt (Some root), r)
    \<and> r \<noteq> Inl KeptMissing"
proof -
  let ?h1 = "h @ [prepare_request token amt]"
  from assms obtain p root_hex where ok: "net ?h1 = Replied (Some p)" "get_str js p ''error'' = None"
    "get_str js p ''root'' = Some root_hex" "hex_decode_to_slice vl root_hex 32 = Some root"
    "hex_encode vl (fst (sign_withdraw vl k amt root)) = (case get_str js p ''digest'' of Some d \<Rightarrow> d | None \<Rightarrow> [])"
    by (auto simp: agreed_def)
  let ?sig = "signature_to_string vl (snd (sign_withdraw vl k amt root))"
  let ?h2 = "?h1 @ [Post ''/api/withdraw'' [(''token'', token), (''amount'', dec amt), (''sig'', ?sig)]]"
  have "withdraw_round vl js net k token amt h
      = (?h2, case venue_answer (net ?h2) of Inl e \<Rightarrow> Inl e | Inr r \<Rightarrow> Inr (get_str js r ''error''))"
    using ok unfolding venue_answer_Inr [symmetric]
    by (simp add: withdraw_round_def drill_steps prepare_request_def split: sum.split)
  moreover have "?h2 = h @ round_requests vl k token amt (Some root)"
    by (simp add: round_requests_def sign_withdraw_def sign_venue_digest_def withdraw_digest_def p2tr_spk_hash_def Let_def)
  ultimately show ?thesis using venue_answer_kept [of "net ?h2"] by (auto split: sum.splits)
qed

lemma withdraw_round_stops:
  assumes "\<nexists>root. agreed vl js k amt root (net (h @ [prepare_request token amt]))"
  shows "\<exists>e. withdraw_round vl js net k token amt h = (h @ round_requests vl k token amt None, Inl e) \<and> e \<noteq> KeptMissing"
proof (cases "venue_answer (net (h @ [prepare_request token amt]))")
  case (Inl e)
  with venue_answer_kept [of "net (h @ [prepare_request token amt])"] show ?thesis
    by (auto simp: withdraw_round_def drill_steps prepare_request_def round_requests_def)
next
  case (Inr p)
  with assms have "\<not> (\<exists>root root_hex. get_str js p ''error'' = None
    \<and> get_str js p ''root'' = Some root_hex \<and> hex_decode_to_slice vl root_hex 32 = Some root
    \<and> hex_encode vl (fst (sign_withdraw vl k amt root)) = (case get_str js p ''digest'' of Some d \<Rightarrow> d | None \<Rightarrow> []))"
    by (auto simp: agreed_def venue_answer_Inr)
  with Inr show ?thesis
    by (auto simp: withdraw_round_def drill_steps prepare_request_def round_requests_def ok_or_def ensure_def
        split: option.splits if_splits)
qed

lemma withdraw_round_shape:
  obtains (stopped) e where "withdraw_round vl js net k token amt h = (h @ round_requests vl k token amt None, Inl e)"
      "e \<noteq> KeptMissing"
  | (posted) root r where "withdraw_round vl js net k token amt h = (h @ round_requests vl k token amt (Some root), r)"
      "agreed vl js k amt root (net (h @ [prepare_request token amt]))" "r \<noteq> Inl KeptMissing"
proof (cases "\<exists>root. agreed vl js k amt root (net (h @ [prepare_request token amt]))")
  case True
  then show ?thesis using posted withdraw_round_agreed [of vl js k amt _ net h token] by blast
next
  case False
  then show ?thesis using stopped withdraw_round_stops [of vl js k amt net h token] by blast
qed

text \<open>A run of rounds: each signature posted was agreed on in its own preparation.\<close>

definition drill_rounds ::
  "'k venue_lib \<Rightarrow> 'v serde \<Rightarrow> 'v venue_net \<Rightarrow> 'k \<Rightarrow> string \<Rightarrow> u64 \<Rightarrow> drill_request list \<Rightarrow> bytes option list
   \<Rightarrow> drill_request list \<Rightarrow> bool" where
  "drill_rounds vl js net k token amt h roots h' \<longleftrightarrow>
     h' = h @ concat (map (round_requests vl k token amt) roots)
     \<and> (\<forall>i < length roots. \<forall>root. roots ! i = Some root \<longrightarrow>
          agreed vl js k amt root
            (net (h @ concat (map (round_requests vl k token amt) (take i roots)) @ [prepare_request token amt])))"

lemma drill_rounds_Cons:
  "drill_rounds vl js net k token amt h (r # roots) h' \<longleftrightarrow>
     (\<forall>root. r = Some root \<longrightarrow> agreed vl js k amt root (net (h @ [prepare_request token amt])))
     \<and> drill_rounds vl js net k token amt (h @ round_requests vl k token amt r) roots h'"
  by (auto simp: drill_rounds_def nth_Cons take_Cons less_Suc_eq_0_disj split: nat.splits)

lemma drill_rounds_Nil [simp]: "drill_rounds vl js net k token amt h [] h' \<longleftrightarrow> h' = h"
  by (simp add: drill_rounds_def)

lemma withdraw_rounds_shape:
  "attempts \<noteq> [] \<Longrightarrow> 2 \<le> last attempts \<Longrightarrow>
   \<exists>roots. roots \<noteq> [] \<and> length roots \<le> length attempts
     \<and> drill_rounds vl js net k token amt h roots (fst (withdraw_rounds vl js net k token amt attempts h))
     \<and> snd (withdraw_rounds vl js net k token amt attempts h) \<noteq> Inl KeptMissing
     \<and> (snd (withdraw_rounds vl js net k token amt attempts h) = Inr () \<longrightarrow> last roots \<noteq> None)"
proof (induction attempts arbitrary: h)
  case (Cons attempt rest)
  show ?case
  proof (cases rule: withdraw_round_shape [of vl js net k token amt h])
    case (stopped e)
    then show ?thesis
      by (intro exI [of _ "[None]"]) (simp add: drill_bind_def drill_rounds_Cons)
  next
    case (posted root r)
    let ?h1 = "h @ round_requests vl k token amt (Some root)"
    show ?thesis
    proof (cases "\<exists>e. r = Inr (Some e) \<and> contains_str ''prepare and sign again'' e \<and> attempt < 2")
      case True
      then have again: "withdraw_rounds vl js net k token amt (attempt # rest) h
          = withdraw_rounds vl js net k token amt rest ?h1"
        using posted(1) by (auto simp: drill_bind_def)
      from True Cons.prems have "rest \<noteq> []" "2 \<le> last rest" by (auto split: if_splits)
      from Cons.IH [OF this, of ?h1] obtain roots where "roots \<noteq> []" "length roots \<le> length rest"
        "drill_rounds vl js net k token amt ?h1 roots (fst (withdraw_rounds vl js net k token amt rest ?h1))"
        "snd (withdraw_rounds vl js net k token amt rest ?h1) \<noteq> Inl KeptMissing"
        "snd (withdraw_rounds vl js net k token amt rest ?h1) = Inr () \<longrightarrow> last roots \<noteq> None"
        by blast
      with posted(2) show ?thesis
        unfolding again by (intro exI [of _ "Some root # roots"]) (simp add: drill_rounds_Cons)
    next
      case False
      then have "fst (withdraw_rounds vl js net k token amt (attempt # rest) h) = ?h1
          \<and> snd (withdraw_rounds vl js net k token amt (attempt # rest) h) \<noteq> Inl KeptMissing"
        using posted(1,3) by (auto simp: drill_bind_def drill_return_def split: sum.splits option.splits)
      with posted(2) show ?thesis
        by (intro exI [of _ "[Some root]"]) (simp add: drill_rounds_Cons)
    qed
  qed
qed simp

text \<open>C26.  The withdrawal drill ends, whatever the venue answers and however often it asks for another
  signature: after at most three rounds of at most two requests each, and never in the branch that
  reports a fourth miss.  Every signature it posts is over the digest rebuilt for its own key, its own
  script, the amount it was asked for and the root of that round's preparation, and only after the venue
  stated the same digest; success means a signature was posted last.\<close>

theorem withdraw_drill_ends:
  "\<exists>roots. length roots \<in> {1, 2, 3}
     \<and> drill_rounds vl js net k token amt h roots (fst (signed_withdraw vl js net k token amt h))
     \<and> length (fst (signed_withdraw vl js net k token amt h)) \<le> length h + 6
     \<and> snd (signed_withdraw vl js net k token amt h) \<noteq> Inl KeptMissing
     \<and> (snd (signed_withdraw vl js net k token amt h) = Inr () \<longrightarrow> last roots \<noteq> None)"
proof -
  let ?w = "signed_withdraw vl js net k token amt h"
  from withdraw_rounds_shape [of "[0, 1, 2]" vl js net k token amt h]
  obtain roots where roots: "roots \<noteq> []" "length roots \<le> 3" "drill_rounds vl js net k token amt h roots (fst ?w)"
    "snd ?w \<noteq> Inl KeptMissing" "snd ?w = Inr () \<longrightarrow> last roots \<noteq> None"
    by (auto simp: signed_withdraw_def)
  have "length (concat (map (round_requests vl k token amt) rs)) \<le> 2 * length rs" for rs
    by (induction rs) (auto simp: round_requests_def Let_def split: option.split)
  from this [of roots] roots(2,3) have "length (fst ?w) \<le> length h + 6" by (simp add: drill_rounds_def)
  moreover have "length roots \<in> {1, 2, 3}" using roots(1,2) by (cases roots) (auto simp: le_Suc_eq numeral_3_eq_3)
  ultimately show ?thesis using roots by blast
qed

definition again_serde :: "string serde" where
  "again_serde =
     \<lparr>json_from_str = Some,
      json_get = \<lambda>v n.
        if v = ''prep'' \<and> n = ''root'' then Some (replicate 32 (CHR ''r''))
        else if v = ''prep'' \<and> n = ''digest'' then Some (''rv'' @ replicate 30 (CHR 0x00))
        else if v = ''miss'' \<and> n = ''error'' then Some ''root moved: prepare and sign again'' else None,
      json_as_str = Some, json_as_u64 = \<lambda>_. None, json_as_array = \<lambda>_. None, json_is_null = \<lambda>_. False\<rparr>"

definition again_venue :: "string venue_net" where
  "again_venue h = (case last h of
     Post path flds \<Rightarrow> Replied (Some (if path = ''/api/withdraw'' then ''miss'' else ''prep''))
   | GetState token \<Rightarrow> Unreachable)"

lemma again_digest:
  "hex_encode demo_venue (fst (sign_withdraw demo_venue () 5 (as_bytes (replicate 32 (CHR ''r'')))))
     = ''rv'' @ replicate 30 (CHR 0x00)"
  by code_simp

lemma again_round:
  "withdraw_round demo_venue again_serde again_venue () ''t'' 5 h
     = (h @ round_requests demo_venue () ''t'' 5 (Some (as_bytes (replicate 32 (CHR ''r'')))),
        Inr (Some ''root moved: prepare and sign again''))"
proof -
  let ?root = "replicate 32 (CHR ''r'')"
  have prep: "again_venue (h @ [Post ''/api/withdraw/prepare'' f]) = Replied (Some ''prep'')"
    and post: "again_venue (h @ [p, Post ''/api/withdraw'' f]) = Replied (Some ''miss'')" for p f
    by (simp_all add: again_venue_def)
  have fields: "get_str again_serde ''prep'' ''error'' = None" "get_str again_serde ''prep'' ''root'' = Some ?root"
    "get_str again_serde ''prep'' ''digest'' = Some (''rv'' @ replicate 30 (CHR 0x00))"
    "get_str again_serde ''miss'' ''error'' = Some ''root moved: prepare and sign again''"
    by (code_simp)+
  have root: "hex_decode_to_slice demo_venue ?root 32 = Some (as_bytes ?root)" by (simp add: demo_venue_def)
  show ?thesis
    using again_digest
    by (simp only: withdraw_round_def drill_steps prep post fields root venue_answer_def http_result.case option.case
        sum.case fst_conv snd_conv ok_or_def append_assoc append.simps ensure_def if_True refl)
      (simp add: round_requests_def prepare_request_def sign_withdraw_def sign_venue_digest_def withdraw_digest_def
        p2tr_spk_hash_def Let_def drill_steps post fields venue_answer_def)
qed

lemma again_run:
  "length (fst (signed_withdraw demo_venue again_serde again_venue () ''t'' 5 [])) = 6
   \<and> snd (signed_withdraw demo_venue again_serde again_venue () ''t'' 5 [])
       = Inl (WithdrawRefused ''root moved: prepare and sign again'')"
proof -
  have "contains_str ''prepare and sign again'' ''root moved: prepare and sign again''" by code_simp
  then show ?thesis
    by (simp add: signed_withdraw_def drill_bind_def drill_return_def again_round round_requests_def prepare_request_def Let_def
        del: contains_str.simps)
qed

theorem withdraw_drill_ends_witness:
  "\<exists>roots. drill_rounds demo_venue again_serde again_venue () ''t'' 5 [] roots
       (fst (signed_withdraw demo_venue again_serde again_venue () ''t'' 5 []))
     \<and> length roots \<in> {1, 2, 3} \<and> length (fst (signed_withdraw demo_venue again_serde again_venue () ''t'' 5 [])) = 6"
proof -
  obtain roots where "length roots \<in> {1, 2, 3} \<and> drill_rounds demo_venue again_serde again_venue () ''t'' 5 [] roots
       (fst (signed_withdraw demo_venue again_serde again_venue () ''t'' 5 []))"
    using withdraw_drill_ends [of demo_venue again_serde again_venue "()" "''t''" 5 "[]"] by blast
  with again_run show ?thesis by (intro exI [of _ roots]) (simp only: simp_thms)
qed

section \<open>The one-shot login\<close>

lemma join_with_amp: "join ''&'' xs = join_amp xs"
  by (induction xs rule: join_amp.induct) simp_all

lemma form_encode_body: "form_encode pairs = form_body pairs"
proof -
  have "(if CHR ''A'' \<le> b \<and> b \<le> CHR ''Z'' \<or> CHR ''a'' \<le> b \<and> b \<le> CHR ''z'' \<or> CHR ''0'' \<le> b \<and> b \<le> CHR ''9''
          \<or> b = CHR ''-'' \<or> b = CHR ''_'' \<or> b = CHR ''.'' \<or> b = CHR ''~''
       then [b] else ''%'' @ [hex_digit_upper (of_char b div 16), hex_digit_upper (of_char b mod 16)]) = encode_byte b" for b
    by (auto simp: encode_byte_def unreserved_def is_ascii_alphanumeric_def is_ascii_alphabetic_def is_digit_def)
  then show ?thesis
    by (simp add: form_encode_def form_body_def encode_value_def join_with_amp)
qed

lemma trim_slashes_bare:
  assumes "bare_host host"
  shows "trim_slashes (''https://'' @ host @ replicate n (CHR ''/'')) = ''https://'' @ host"
proof -
  obtain xs x where host: "host = xs @ [x]" using assms by (metis bare_host_def rev_exhaust)
  with assms have "x \<noteq> CHR ''/''"
    by (auto simp: bare_host_def is_ascii_alphanumeric_def is_ascii_alphabetic_def is_digit_def)
  with host show ?thesis by (simp add: trim_slashes_def dropWhile_append)
qed

text \<open>The library's verdict with a refusal in the last reply overlooked.\<close>

definition overlook :: "'v http_result \<Rightarrow> venue_error + 'v \<Rightarrow> venue_error + 'v" where
  "overlook reply verdict = (case verdict of
     Inl (VenueRefused e) \<Rightarrow> (case reply of Replied (Some v) \<Rightarrow> Inr v | _ \<Rightarrow> verdict)
   | _ \<Rightarrow> verdict)"

text \<open>C33.  The login program and the library log in alike: given an HTTPS address of a bare host, with any
  slashes after it, the program makes exactly the requests that \<open>sdk_login\<close> makes for that host, the form
  included, and ends as it does, with one exception: a reply that carries an \<open>error\<close> is a refusal to the
  library and a success to the program.\<close>

theorem login_program_is_sdk_login:
  assumes "bare_host host"
  shows "fst (venue_sdk_login vl js post (''https://'' @ host @ replicate n (CHR ''/'')) k identity link)
      = fst (sdk_login vl js post host k identity link)
    \<and> snd (venue_sdk_login vl js post (''https://'' @ host @ replicate n (CHR ''/'')) k identity link)
      = overlook (post (last (fst (sdk_login vl js post host k identity link))))
          (snd (sdk_login vl js post host k identity link))"
proof -
  let ?q1 = "\<lparr>hq_url = ''https://'' @ host @ ''/api/sdk/challenge'', hq_content_type = None, hq_body = []\<rparr>"
  have refused: "challenge_reply js r \<noteq> Inl (VenueRefused e)" for r e
    by (simp add: challenge_reply_def ok_or_def split: http_result.split option.split)
  have reply: "sdk_login_reply r = overlook r (login_reply js r)" for r
    by (simp add: overlook_def sdk_login_reply_def login_reply_def split: http_result.split option.split)
  note unfold = venue_sdk_login_def sdk_login_def trim_slashes_bare [OF assms, simplified] form_encode_body
    login_pairs_def case_prod_unfold Let_def assms
  show ?thesis
  proof (cases "challenge_reply js (post ?q1)")
    case (Inl e)
    with refused [of "post ?q1"] show ?thesis by (cases e) (simp_all add: unfold overlook_def)
  next
    case (Inr challenge)
    then show ?thesis by (simp add: unfold reply)
  qed
qed

definition lenient_post :: "http_request \<Rightarrow> string http_result" where
  "lenient_post q = Replied (Some (if hq_body q = [] then ''hello'' else ''no''))"

definition lenient_serde :: "string serde" where
  "lenient_serde = again_serde\<lparr>json_get := \<lambda>v n.
     if v = ''hello'' \<and> n = ''challenge'' then Some ''c1''
     else if v = ''no'' \<and> n = ''error'' then Some ''unknown account'' else None\<rparr>"

theorem login_program_is_sdk_login_witness:
  "snd (sdk_login demo_venue lenient_serde lenient_post ''v.io'' () None None) = Inl (VenueRefused ''unknown account'')
   \<and> snd (venue_sdk_login demo_venue lenient_serde lenient_post ''https://v.io//'' () None None) = Inr ''no''"
proof -
  have bare: "bare_host ''v.io''" by code_simp
  have refused: "snd (sdk_login demo_venue lenient_serde lenient_post ''v.io'' () None None)
      = Inl (VenueRefused ''unknown account'')" by code_simp
  have last: "lenient_post (last (fst (sdk_login demo_venue lenient_serde lenient_post ''v.io'' () None None)))
      = Replied (Some ''no'')" by code_simp
  have url: "''https://'' @ ''v.io'' @ replicate 2 (CHR ''/'') = ''https://v.io//''" by code_simp
  from login_program_is_sdk_login [OF bare, of demo_venue lenient_serde lenient_post 2 "()" None None]
  show ?thesis unfolding url refused last by (simp add: overlook_def)
qed

section \<open>The drill's price\<close>

text \<open>Short of an overflow, the price is a positive multiple of the tick and at most half a tick from the
  session's opening, or the tick itself when the opening is below half of one.\<close>

theorem drill_price_near:
  assumes "unat opening + 50000000 < 2 ^ 64"
  shows "100000000 dvd unat (drill_price opening) \<and> 0 < unat (drill_price opening)
    \<and> (50000000 \<le> unat opening \<longrightarrow>
         unat (drill_price opening) \<le> unat opening + 50000000 \<and> unat opening < unat (drill_price opening) + 50000000)"
proof -
  let ?q = "(unat opening + 50000000) div 100000000"
  have "unat (opening + 50000000) = unat opening + 50000000"
    using assms by (simp add: unat_word_ariths)
  then have "unat ((opening + 50000000) div 100000000) = ?q" by (simp add: unat_div_distrib)
  moreover have q: "?q * 100000000 \<le> unat opening + 50000000" by simp
  ultimately have "unat ((opening + 50000000) div 100000000 * 100000000) = ?q * 100000000"
    using assms by (simp add: unat_word_ariths)
  then have "unat (drill_price opening) = max (?q * 100000000) 100000000"
    by (simp add: drill_price_def TICK_def max_def word_le_nat_alt)
  moreover have "unat opening + 50000000 < ?q * 100000000 + 100000000" by (simp add: div_mult_mod_eq dividend_less_div_times)
  ultimately show ?thesis using q by (auto simp: max_def)
qed

end
