(* ===== verification/Probes.thy ===== *)
theory Probes
  imports Identity_Client Payjoin
begin

text \<open>
  The programs that probe a live service: \<open>email-e2e.rs\<close>, \<open>identity-probe.rs\<close> and \<open>payjoin-probe.rs\<close> of
  \<open>lc-wallet-core/examples\<close>.  The identity service answers a request from the requests made by the
  operations before it; the auxiliary bytes of the signature of an operation depend on them too.  A
  failed \<open>expect\<close>, \<open>assert!\<close> or index is the error \<open>ProbePanic\<close>.  What the programs print is not modelled.
\<close>

datatype probe_error =
    ProbePanic | ProbeId id_error | OddHex | BadHexByte | SeedLength
  | NotVerified | UnknownVerb string | NonMutualResolved | ProbeTransport | ProbePayjoin pj_error

type_synonym 'v id_net = "id_request list \<Rightarrow> id_request \<Rightarrow> 'v http_result"
type_synonym 'a probe_op = "id_request list \<Rightarrow> id_request list \<times> (probe_error + 'a)"

definition probe_return :: "probe_error + 'a \<Rightarrow> 'a probe_op" where
  "probe_return r h = (h, r)"

definition probe_bind :: "'a probe_op \<Rightarrow> ('a \<Rightarrow> 'b probe_op) \<Rightarrow> 'b probe_op" where
  "probe_bind m f h = (case m h of (h', Inl e) \<Rightarrow> (h', Inl e) | (h', Inr a) \<Rightarrow> f a h')"

definition probe_assert :: "bool \<Rightarrow> unit probe_op" where
  "probe_assert b = probe_return (ensure b ProbePanic (Inr ()))"

text \<open>One operation of the client, with its error passed on or handed to the caller.\<close>

definition try_op ::
  "'v id_net \<Rightarrow> (id_request list \<Rightarrow> bytes) \<Rightarrow> ((id_request \<Rightarrow> 'v http_result) \<Rightarrow> bytes \<Rightarrow> 'a id_outcome)
   \<Rightarrow> (id_error + 'a) probe_op" where
  "try_op net aux opr h = (case opr (net h) (aux h) of (qs, r) \<Rightarrow> (h @ qs, Inr r))"

definition run_op ::
  "'v id_net \<Rightarrow> (id_request list \<Rightarrow> bytes) \<Rightarrow> ((id_request \<Rightarrow> 'v http_result) \<Rightarrow> bytes \<Rightarrow> 'a id_outcome)
   \<Rightarrow> 'a probe_op" where
  "run_op net aux opr = probe_bind (try_op net aux opr) (\<lambda>r. probe_return
     (case r of Inl e \<Rightarrow> Inl (ProbeId e) | Inr a \<Rightarrow> Inr a))"

section \<open>The email round\<close>

definition hex_value :: "char \<Rightarrow> nat option" where
  "hex_value c =
     (if is_digit c then Some (of_char c - 48)
      else if CHR ''a'' \<le> c \<and> c \<le> CHR ''f'' then Some (of_char c - 87)
      else if CHR ''A'' \<le> c \<and> c \<le> CHR ''F'' then Some (of_char c - 55)
      else None)"

text \<open>\<open>u8::from_str_radix\<close> on two bytes: a leading plus sign is dropped, a minus sign is no digit.\<close>

definition hex_byte :: "char \<Rightarrow> char \<Rightarrow> u8 option" where
  "hex_byte a b =
     (if a = CHR ''+'' then map_option of_nat (hex_value b)
      else Option.bind (hex_value a) (\<lambda>x. map_option (\<lambda>y. of_nat (16 * x + y)) (hex_value b)))"

text \<open>A \<open>str\<close> is cut only between characters, whose bytes after the first are \<open>0x80\<close> to \<open>0xBF\<close>.\<close>

definition char_boundary :: "string \<Rightarrow> bool" where
  "char_boundary s = (case s of [] \<Rightarrow> True | c # _ \<Rightarrow> \<not> (CHR 0x80 \<le> c \<and> c \<le> CHR 0xBF))"

fun hex_pairs :: "string \<Rightarrow> probe_error + bytes" where
  "hex_pairs (a # b # rest) =
     (if \<not> char_boundary rest then Inl ProbePanic
      else and_then (ok_or (hex_byte a b) BadHexByte) (\<lambda>x.
           and_then (hex_pairs rest) (\<lambda>xs. Inr (x # xs))))"
| "hex_pairs _ = Inr []"

definition hex_decode :: "string \<Rightarrow> probe_error + bytes" where
  "hex_decode s = ensure (even (length s)) OddHex (hex_pairs s)"

definition default_base :: string where
  "default_base = ''http://127.0.0.1:3129/v1/identity''"

definition email_register ::
  "('k, 'v) identity_lib \<Rightarrow> identity_client \<Rightarrow> 'v id_net \<Rightarrow> (id_request list \<Rightarrow> bytes) \<Rightarrow> 'k \<Rightarrow> string
   \<Rightarrow> unit probe_op" where
  "email_register il c net aux k email =
     probe_bind (run_op net aux (\<lambda>post ax. status il c post k ax)) (\<lambda>st.
     probe_bind (if is_identity_id st = None
       then run_op net aux (\<lambda>post ax. set_discoverability il c post k ax True False)
       else probe_return (Inr ())) (\<lambda>_.
     run_op net aux (\<lambda>post ax. email_start il c post k ax email)))"

definition email_verify ::
  "('k, 'v) identity_lib \<Rightarrow> identity_client \<Rightarrow> 'v id_net \<Rightarrow> (id_request list \<Rightarrow> bytes) \<Rightarrow> 'k \<Rightarrow> string
   \<Rightarrow> string \<Rightarrow> unit probe_op" where
  "email_verify il c net aux k email code =
     probe_bind (run_op net aux (\<lambda>post ax. email_confirm il c post k ax email code)) (\<lambda>_.
     probe_bind (run_op net aux (\<lambda>post ax. status il c post k ax)) (\<lambda>st.
     probe_return (ensure (is_email st) NotVerified (Inr ()))))"

text \<open>\<open>main\<close>: the arguments, the seed, the key and the client, then the verb.\<close>

definition email_e2e ::
  "('k, 'v) identity_lib \<Rightarrow> 'v id_net \<Rightarrow> (id_request list \<Rightarrow> bytes) \<Rightarrow> string list \<Rightarrow> string option
   \<Rightarrow> string option \<Rightarrow> unit probe_op" where
  "email_e2e il net aux args env_base env_bearer = (case args of
     seed_hex # verb # email # rest \<Rightarrow>
       probe_bind (probe_return (hex_decode seed_hex)) (\<lambda>seed.
       probe_bind (probe_return (ensure (length seed = 32) SeedLength (Inr ()))) (\<lambda>_.
       probe_bind (probe_return (ok_or (wallet_key_new (il_crypto il) seed LiquidTestnet) ProbePanic)) (\<lambda>k.
       let c = identity_client_new (case env_base of Some b \<Rightarrow> b | None \<Rightarrow> default_base) env_bearer in
       if verb = ''start'' then email_register il c net aux k email
       else if verb = ''confirm'' then
         (case rest of
            [] \<Rightarrow> probe_return (Inl ProbePanic)
          | code # _ \<Rightarrow> email_verify il c net aux k email code)
       else probe_return (Inl (UnknownVerb verb)))))
   | _ \<Rightarrow> probe_return (Inl ProbePanic))"

section \<open>The identity probe\<close>

definition replay_query :: "string \<Rightarrow> string option \<Rightarrow> string \<Rightarrow> jval \<Rightarrow> id_request" where
  "replay_query base bearer path body =
     \<lparr>iq_url = base @ path,
      iq_authorization = Some (''Bearer '' @ (case bearer of Some b \<Rightarrow> b | None \<Rightarrow> [])),
      iq_body = body\<rparr>"

text \<open>The hand-rolled challenge, with \<open>?\<close> on the reply and \<open>unwrap\<close> on its challenge.\<close>

definition replay_challenge ::
  "('k, 'v) identity_lib \<Rightarrow> 'v id_net \<Rightarrow> 'k \<Rightarrow> string \<Rightarrow> string option \<Rightarrow> string probe_op" where
  "replay_challenge il net k base bearer h =
     (let q = replay_query base bearer ''/challenge''
            (json_obj [(''public_key'', JStr (xonly_to_string il (public_key (il_crypto il) k)))]) in
      (h @ [q], case net h q of
         Replied (Some v) \<Rightarrow> ok_or (get_str (il_serde il) v ''challenge'') ProbePanic
       | _ \<Rightarrow> Inl ProbeTransport))"

text \<open>\<open>call\<close>: whatever comes back is only printed.\<close>

definition replay_call :: "'v id_net \<Rightarrow> id_request \<Rightarrow> unit probe_op" where
  "replay_call net q h = (case net h q of
     Replied _ \<Rightarrow> (h @ [q], Inr ())
   | HttpStatus code body \<Rightarrow> (h @ [q], Inr ())
   | Unreachable \<Rightarrow> (h @ [q], Inr ()))"

definition replay_twice ::
  "('k, 'v) identity_lib \<Rightarrow> 'v id_net \<Rightarrow> (id_request list \<Rightarrow> bytes) \<Rightarrow> 'k \<Rightarrow> string \<Rightarrow> string option
   \<Rightarrow> unit probe_op" where
  "replay_twice il net aux k base bearer =
     probe_bind (replay_challenge il net k base bearer) (\<lambda>nonce.
     probe_bind (\<lambda>h. (h, Inr (signature_to_string (il_crypto il)
         (sign_identity (il_crypto il) k nonce ''status'' '''' (aux h))))) (\<lambda>sig.
     let q = replay_query base bearer ''/status''
           (json_obj [(''public_key'', JStr (xonly_to_string il (public_key (il_crypto il) k))),
                      (''challenge'', JStr nonce), (''signature'', JStr sig)]) in
     probe_bind (replay_call net q) (\<lambda>_. replay_call net q)))"

definition identity_probe ::
  "('k, 'v) identity_lib \<Rightarrow> 'v id_net \<Rightarrow> (id_request list \<Rightarrow> bytes) \<Rightarrow> bytes \<Rightarrow> string option \<Rightarrow> string option
   \<Rightarrow> unit probe_op" where
  "identity_probe il net aux random_seed base_arg bearer =
     (let base = (case base_arg of Some b \<Rightarrow> b | None \<Rightarrow> default_base);
          c = identity_client_new base bearer in
     probe_bind (probe_return (ok_or (ephemeral (il_crypto il) random_seed) ProbePanic)) (\<lambda>k.
     probe_bind (run_op net aux (\<lambda>post ax. status il c post k ax)) (\<lambda>st.
     probe_bind (probe_assert (is_identity_id st = None)) (\<lambda>_.
     probe_bind (run_op net aux (\<lambda>post ax. set_discoverability il c post k ax True False)) (\<lambda>_.
     probe_bind (run_op net aux (\<lambda>post ax. status il c post k ax)) (\<lambda>st'.
     probe_bind (probe_assert (is_identity_id st' \<noteq> None)) (\<lambda>_.
     probe_bind (run_op net aux (\<lambda>post ax. contacts_save il c post k ax ''email'' ''someone@example.com'')) (\<lambda>_.
     probe_bind (run_op net aux (\<lambda>post ax. contacts_list il c post k ax)) (\<lambda>contacts.
     probe_bind (probe_assert (contacts = [])) (\<lambda>_.
     probe_bind (try_op net aux (\<lambda>post ax. contact_address il c post k ax ''id-nonexistent'')) (\<lambda>r.
     probe_bind (probe_return (case r of Inl _ \<Rightarrow> Inr () | Inr _ \<Rightarrow> Inl NonMutualResolved)) (\<lambda>_.
     probe_bind (try_op net aux (\<lambda>post ax. email_start il c post k ax ''probe@example.com'')) (\<lambda>_.
     replay_twice il net aux k base bearer)))))))))))))"

section \<open>The payjoin probe\<close>

text \<open>The first accepted asset is indexed; the result is the quote with the estimate printed for it.\<close>

definition payjoin_probe ::
  "'a payjoin_lib \<Rightarrow> string option \<Rightarrow> probe_error + 'a start_response \<times> u64" where
  "payjoin_probe pl arg =
     (let base = (if arg = Some ''prod'' then BASE_URL_PROD else BASE_URL_TESTNET) in
      case accepted_assets pl base of
        Inl e \<Rightarrow> Inl (ProbePayjoin e)
      | Inr assets \<Rightarrow>
          (case assets of
             [] \<Rightarrow> Inl ProbePanic
           | first # _ \<Rightarrow>
               (case pj_start pl base first ''lc-wallet-core payjoin-probe'' None of
                  Inl e \<Rightarrow> Inl (ProbePayjoin e)
                | Inr quote \<Rightarrow> Inr (quote, estimate_service_fee 1000 (st_price quote) (st_fixed_fee quote)))))"

section \<open>What the probes establish\<close>

text \<open>The list of accepted assets is checked before it is indexed, so the payjoin probe has no panic.\<close>

theorem payjoin_probe_never_panics: "payjoin_probe pl arg \<noteq> Inl ProbePanic"
proof -
  have "accepted_assets pl base \<noteq> Inr []" for base
    by (simp add: accepted_assets_def and_then_def ensure_def split: sum.split pj_response.split)
  then show ?thesis
    by (auto simp: payjoin_probe_def Let_def split: sum.split list.split)
qed

definition hex_digit_lower :: "nat \<Rightarrow> char" where
  "hex_digit_lower d = char_of (if d < 10 then 48 + d else 87 + d)"

definition hex_text :: "bytes \<Rightarrow> string" where
  "hex_text bs = concat (map (\<lambda>b. [hex_digit_lower (unat b div 16), hex_digit_lower (unat b mod 16)]) bs)"

lemma of_nat_unat_u8: "word_of_nat (unat b) = (b :: u8)"
  by simp

lemma hex_digit_facts:
  assumes "d < 16"
  shows "hex_value (hex_digit_lower d) = Some d" and "char_boundary (hex_digit_lower d # rest)"
    and "hex_digit_lower d \<noteq> CHR ''+''"
proof -
  have "list_all (\<lambda>d. hex_value (hex_digit_lower d) = Some d \<and> \<not> CHR 0x80 \<le> hex_digit_lower d
      \<and> hex_digit_lower d \<noteq> CHR ''+'') [0..<16]" by code_simp
  with assms show "hex_value (hex_digit_lower d) = Some d" and "char_boundary (hex_digit_lower d # rest)"
    and "hex_digit_lower d \<noteq> CHR ''+''"
    by (simp_all add: list_all_iff char_boundary_def)
qed

text \<open>Reading the hex text of a seed gives the seed back; a byte written with a plus sign is read too.\<close>

theorem hex_decode_roundtrip: "hex_decode (hex_text bs) = Inr bs"
proof -
  have len: "length (hex_text xs) = 2 * length xs" for xs by (induction xs) (simp_all add: hex_text_def)
  have "hex_pairs (hex_text bs) = Inr bs"
  proof (induction bs)
    case (Cons b bs)
    have "unat c < 256" for c :: u8 using unsigned_less [where 'a = nat, of c] by simp
    then have d: "unat c div 16 < 16" for c :: u8 by (simp add: less_mult_imp_div_less)
    have "char_boundary (hex_text bs)"
      using hex_digit_facts(2) [OF d] by (cases bs) (simp_all add: hex_text_def char_boundary_def)
    moreover have whole: "16 * word_of_nat (unat b div 16) + word_of_nat (unat b mod 16) = b"
      using of_nat_unat_u8 [of b] arg_cong [OF mult_div_mod_eq [of 16 "unat b"], of "word_of_nat :: nat \<Rightarrow> u8"]
      by (simp only: of_nat_add of_nat_mult of_nat_numeral)
    moreover have "hex_byte (hex_digit_lower (unat b div 16)) (hex_digit_lower (unat b mod 16)) = Some b"
      using hex_digit_facts(1,3) [OF d, of b] hex_digit_facts(1) [of "unat b mod 16"] whole
      by (simp add: hex_byte_def)
    ultimately show ?case using Cons.IH by (simp add: hex_text_def)
  qed (simp add: hex_text_def)
  then show ?thesis by (simp add: hex_decode_def len)
qed

lemma hex_decode_plus: "hex_decode ''+5'' = Inr [5]"
  by code_simp

lemma probe_bind_Inr:
  "probe_bind m f h = (h', Inr b) \<longleftrightarrow> (\<exists>h1 a. m h = (h1, Inr a) \<and> f a h1 = (h', Inr b))"
  by (auto simp: probe_bind_def split: prod.splits sum.splits)

lemma run_op_Inr:
  "run_op net aux opr h = (h', Inr a) \<longleftrightarrow> (\<exists>qs. opr (net h) (aux h) = (qs, Inr a) \<and> h' = h @ qs)"
  by (auto simp: run_op_def probe_bind_Inr try_op_def probe_return_def split: prod.splits sum.splits)

text \<open>The email round ends well only when the service, asked after the confirmation, shows the address as
  verified; what the confirmation itself replied is not looked at.\<close>

theorem email_verify_asks_again:
  "email_verify il c net aux k email code h = (h', Inr ()) \<longleftrightarrow>
   (\<exists>qs1 o1 qs2 st. email_confirm il c (net h) k (aux h) email code = (qs1, Inr o1)
      \<and> status il c (net (h @ qs1)) k (aux (h @ qs1)) = (qs2, Inr st)
      \<and> is_email st \<and> h' = h @ qs1 @ qs2)"
  by (auto simp: email_verify_def probe_bind_Inr run_op_Inr probe_return_def ensure_def split: if_splits)

text \<open>The identity probe reports success whether or not the second use of a challenge is refused: once it
  has a challenge, the two replayed requests go out and their replies decide nothing.\<close>

theorem replay_verdict_ignored:
  assumes "replay_challenge il net k base bearer h = (h1, Inr nonce)"
  shows "\<exists>q. replay_twice il net aux k base bearer h = (h1 @ [q, q], Inr ())
    \<and> iq_url q = base @ ''/status''"
  using assms
  by (simp add: replay_twice_def probe_bind_def replay_call_def replay_query_def Let_def
      split: http_result.split)

end
