(* ===== verification/Host_Settle.thy ===== *)
theory Host_Settle
  imports Host_Claims
begin

text \<open>
  How a host and the actor work off what has piled up while the connection holds and nothing new
  arrives: the host takes its events, the actor takes the host's inputs, in any order the scheduler
  picks.  That this ends, and in which state, is proved once for every attentive host, and used for the
  benches.
\<close>

section \<open>Work without news\<close>

text \<open>The turns of the loop that need no network event, over a sink that takes every frame: how many there
  were, the auxiliary bytes of the inputs taken, and the frames sent.\<close>

inductive settling ::
  "'k session_env \<Rightarrow> (wallet_event \<Rightarrow> input list option) \<Rightarrow> 'k hosted \<Rightarrow> nat \<Rightarrow> bytes list \<Rightarrow> string list
   \<Rightarrow> 'k hosted \<Rightarrow> bool"
  for env react s0 where
  idle: "settling env react s0 0 [] [] s0"
| took: "settling env react s0 n auxs fs s \<Longrightarrow> h_queue s = i # q \<Longrightarrow>
    actor_step env (HandleInput aux i None) (h_actor s) = Some (a', so) \<Longrightarrow>
    settling env react s0 (Suc n) (auxs @ [aux]) (fs @ so_frames so)
      (s\<lparr>h_actor := a', h_inbox := h_inbox s @ so_events so, h_queue := q\<rparr>)"
| reacted: "settling env react s0 n auxs fs s \<Longrightarrow> h_inbox s = e # es \<Longrightarrow> react e = Some is \<Longrightarrow>
    settling env react s0 (Suc n) auxs fs
      (s\<lparr>h_inbox := es, h_seen := h_seen s @ [e], h_queue := h_queue s @ is\<rparr>)"

lemma settling_hosted:
  "settling env react s0 n auxs fs s \<Longrightarrow> hosted_run env url_parse react key s0 \<Longrightarrow>
   hosted_run env url_parse react key s"
  by (induction rule: settling.induct) (auto intro: hosted_take hosted_react)

text \<open>What is still to be handled: the queue, then the answers to the events in the inbox.\<close>

definition inputs_of :: "(wallet_event \<Rightarrow> input list option) \<Rightarrow> wallet_event list \<Rightarrow> input list" where
  "inputs_of react es = concat (map (\<lambda>e. case react e of Some is \<Rightarrow> is | None \<Rightarrow> []) es)"

lemma inputs_of_simps [simp]:
  "inputs_of react [] = []"
  "inputs_of react (e # es) = (case react e of Some is \<Rightarrow> is | None \<Rightarrow> []) @ inputs_of react es"
  "inputs_of react (es @ es') = inputs_of react es @ inputs_of react es'"
  by (simp_all add: inputs_of_def)

lemma inputs_ofI: "e \<in> set es \<Longrightarrow> react e = Some is \<Longrightarrow> i \<in> set is \<Longrightarrow> i \<in> set (inputs_of react es)"
  by (auto simp: inputs_of_def intro!: bexI [of _ e])

definition backlog :: "(wallet_event \<Rightarrow> input list option) \<Rightarrow> 'k hosted \<Rightarrow> input list" where
  "backlog react s = h_queue s @ inputs_of react (h_inbox s)"

definition load :: "(wallet_event \<Rightarrow> input list option) \<Rightarrow> 'k hosted \<Rightarrow> nat" where
  "load react s = length (h_inbox s) + 2 * length (backlog react s)"

definition settled :: "'k hosted \<Rightarrow> bool" where
  "settled s \<longleftrightarrow> h_inbox s = [] \<and> h_queue s = []"

section \<open>What an input of the user tells the host\<close>

definition aside :: "wallet_event \<Rightarrow> bool" where
  "aside e = (case e of EvMinimizeMobileApp \<Rightarrow> True | EvActionFailed a m \<Rightarrow> True | _ \<Rightarrow> False)"

lemma user_input_asides:
  assumes "\<And>t. i \<noteq> Transport t"
  shows "list_all aside (snd (apply_effects (snd (handle env aux i c))))
    \<and> length (snd (apply_effects (snd (handle env aux i c)))) \<le> 1"
  using assms
  by (cases i) (auto simp: handle_arms handle_login_accepted_def handle_sign_message_accepted_def handle_app_link_def
      handle_register_fcm_def send_fcm_token_def answer_def add_user_action_def finish_request_def send_def aside_def
      case_prod_unfold Let_def split: option.splits link_type.splits)

lemma on_input_sent:
  "on_input env aux i None a = (a\<lparr>a_core := fst (handle env aux i (a_core a))\<rparr>,
     \<lparr>so_frames = fst (apply_effects (snd (handle env aux i (a_core a)))),
      so_events = snd (apply_effects (snd (handle env aux i (a_core a)))), so_sleep = None\<rparr>)"
  by (simp add: on_input_def send_frames_def case_prod_unfold Let_def)

lemma run_core_snoc:
  "run_core env (xs @ [(aux, i)]) c =
     (fst (handle env aux i (fst (run_core env xs c))),
      snd (run_core env xs c) @ snd (handle env aux i (fst (run_core env xs c))))"
  by (induction xs arbitrary: c) (auto simp: case_prod_unfold Let_def)

lemma frames_append: "fst (apply_effects (es @ es')) = fst (apply_effects es) @ fst (apply_effects es')"
  by (induction es) (auto simp: case_prod_unfold Let_def split: effect.split)

text \<open>The state of the work: the actor has handled a prefix of the backlog, in order, and the rest of
  it is what is still to be handled.\<close>

definition on_track ::
  "'k session_env \<Rightarrow> (wallet_event \<Rightarrow> input list option) \<Rightarrow> 'k hosted \<Rightarrow> nat \<Rightarrow> bytes list \<Rightarrow> string list \<Rightarrow> 'k hosted \<Rightarrow> bool" where
  "on_track env react s0 n auxs fs s \<longleftrightarrow>
     a_phase (h_actor s) = a_phase (h_actor s0)
   \<and> n + load react s \<le> load react s0
   \<and> (\<exists>done. length done = length auxs \<and> backlog react s0 = done @ backlog react s
        \<and> a_core (h_actor s) = fst (run_core env (zip auxs done) (a_core (h_actor s0)))
        \<and> fs = fst (apply_effects (snd (run_core env (zip auxs done) (a_core (h_actor s0))))))"

section \<open>Attentive hosts\<close>

text \<open>A host that never fails to react, and has nothing to say about the two events its own inputs
  cause.\<close>

locale attentive_host = host +
  assumes total: "\<exists>is. react e = Some is"
    and unmoved: "aside e \<Longrightarrow> react e = Some []"
begin

lemma asides_unanswered: "list_all aside es \<Longrightarrow> inputs_of react es = []"
  by (induction es) (simp_all add: unmoved)

lemma on_track_took:
  assumes "on_track env react s0 n auxs fs s" and "h_queue s = i # q" and "\<And>t. i \<noteq> Transport t"
    and "a_phase (h_actor s0) = Online w"
    and "actor_step env (HandleInput aux i None) (h_actor s) = Some (a', so)"
  shows "on_track env react s0 (Suc n) (auxs @ [aux]) (fs @ so_frames so)
    (s\<lparr>h_actor := a', h_inbox := h_inbox s @ so_events so, h_queue := q\<rparr>)"
proof -
  let ?h = "handle env aux i (a_core (h_actor s))"
  from assms(1) obtain "done" where phase: "a_phase (h_actor s) = Online w"
    and less: "n + load react s \<le> load react s0" and len: "length done = length auxs"
    and rest: "backlog react s0 = done @ backlog react s"
    and core: "a_core (h_actor s) = fst (run_core env (zip auxs done) (a_core (h_actor s0)))"
    and sent: "fs = fst (apply_effects (snd (run_core env (zip auxs done) (a_core (h_actor s0)))))"
    using assms(4) unfolding on_track_def by auto
  from assms(5) phase have a': "a' = (h_actor s)\<lparr>a_core := fst ?h\<rparr>" and so: "so_frames so = fst (apply_effects (snd ?h))"
    "so_events so = snd (apply_effects (snd ?h))"
    by (auto simp: actor_step_def on_input_sent)
  have few: "inputs_of react (so_events so) = []" "length (so_events so) \<le> 1"
    using user_input_asides [OF assms(3), of env aux "a_core (h_actor s)"] asides_unanswered so(2) by auto
  let ?s' = "s\<lparr>h_actor := a', h_inbox := h_inbox s @ so_events so, h_queue := q\<rparr>"
  have "backlog react s = i # backlog react ?s'" using assms(2) few by (simp add: backlog_def)
  then have "Suc n + load react ?s' \<le> load react s0" "backlog react s0 = (done @ [i]) @ backlog react ?s'"
    using less few(2) rest by (simp_all add: load_def)
  moreover have "zip (auxs @ [aux]) (done @ [i]) = zip auxs done @ [(aux, i)]" using len by simp
  ultimately show ?thesis
    unfolding on_track_def using len phase assms(4) a' so(1) core sent
    by (intro conjI exI [of _ "done @ [i]"]) (simp_all add: run_core_snoc frames_append)
qed

lemma on_track_reacted:
  assumes "on_track env react s0 n auxs fs s" and "h_inbox s = e # es" and "react e = Some is"
  shows "on_track env react s0 (Suc n) auxs fs (s\<lparr>h_inbox := es, h_seen := h_seen s @ [e], h_queue := h_queue s @ is\<rparr>)"
  using assms by (auto simp: on_track_def load_def backlog_def)

lemma settling_on_track:
  assumes "hosted_run env url_parse react key s0" and "a_phase (h_actor s0) = Online w"
    and "settling env react s0 n auxs fs s"
  shows "on_track env react s0 n auxs fs s"
  using assms(3)
proof (induction rule: settling.induct)
  case idle
  then show ?case by (simp add: on_track_def)
next
  case (took n auxs fs s i q aux a' so)
  have "i \<noteq> Transport t" for t
    using queue_from_host [OF settling_hosted [OF took.hyps(1) assms(1)]] took.hyps(2) by (intro host_input_user) auto
  from on_track_took [OF took.IH took.hyps(2) this assms(2) took.hyps(3)] show ?case .
next
  case (reacted n auxs fs s e es "is")
  from on_track_reacted [OF reacted.IH reacted.hyps(2,3)] show ?case .
qed

text \<open>There is always a next turn until everything is settled.\<close>

lemma settling_progress:
  assumes "settling env react s0 n auxs fs s" and "a_phase (h_actor s) = Online w" and "\<not> settled s"
  shows "\<exists>auxs' fs' s'. settling env react s0 (Suc n) auxs' fs' s'"
proof (cases "h_queue s")
  case Nil
  with assms(3) obtain e es where "h_inbox s = e # es" by (cases "h_inbox s") (auto simp: settled_def)
  moreover obtain "is" where "react e = Some is" using total by blast
  ultimately show ?thesis using settling.reacted [OF assms(1)] by blast
next
  case (Cons i q)
  moreover have "actor_step env (HandleInput [] i None) (h_actor s) = Some (on_input env [] i None (h_actor s))"
    using assms(2) by (simp add: actor_step_def)
  ultimately show ?thesis using settling.took [OF assms(1)] by (metis prod.collapse)
qed

lemma settles:
  assumes "hosted_run env url_parse react key s0" and "a_phase (h_actor s0) = Online w"
    and "settling env react s0 n auxs fs s"
  shows "n \<le> load react s0"
    and "\<not> settled s \<Longrightarrow> \<exists>auxs' fs' s'. settling env react s0 (Suc n) auxs' fs' s'"
    and "settled s \<Longrightarrow> length auxs = length (backlog react s0)
      \<and> a_core (h_actor s) = fst (run_core env (zip auxs (backlog react s0)) (a_core (h_actor s0)))
      \<and> fs = fst (apply_effects (snd (run_core env (zip auxs (backlog react s0)) (a_core (h_actor s0)))))"
proof -
  note ok = settling_on_track [OF assms]
  from ok show "n \<le> load react s0" by (simp add: on_track_def)
  from ok assms(2) show "\<not> settled s \<Longrightarrow> \<exists>auxs' fs' s'. settling env react s0 (Suc n) auxs' fs' s'"
    by (intro settling_progress [OF assms(3)]) (auto simp: on_track_def)
  assume "settled s"
  then have "backlog react s = []" by (simp add: backlog_def settled_def)
  with ok show "length auxs = length (backlog react s0)
      \<and> a_core (h_actor s) = fst (run_core env (zip auxs (backlog react s0)) (a_core (h_actor s0)))
      \<and> fs = fst (apply_effects (snd (run_core env (zip auxs (backlog react s0)) (a_core (h_actor s0)))))"
    by (auto simp: on_track_def)
qed

end

interpretation bench_attends: attentive_host "bench_react b" for b
proof
  fix e
  show "\<exists>is. bench_react b e = Some is"
    using bench_sign_total by (cases e) (auto simp: bench_react_def)
  show "aside e \<Longrightarrow> bench_react b e = Some []" by (cases e) (auto simp: bench_react_def aside_def)
qed

interpretation taker_attends: attentive_host "\<lambda>e. Some (taker_react tk e)" for tk
  by unfold_locales (auto simp: taker_react_def aside_def split: wallet_event.split)

interpretation e2e_pay_attends: attentive_host "\<lambda>e. Some (e2e_pay_react x e)" for x
  by unfold_locales (auto simp: e2e_pay_react_def aside_def split: wallet_event.split)

end
