(* ===== verification/Composition_Claims.thy ===== *)
theory Composition_Claims
  imports Host_Settle Identity_Claims
begin

text \<open>
  Guarantees of several components at once: a bench and the actor work off what has piled up, whatever
  the order of their turns; and what a signature made for one protocol is worth in another.
\<close>

section \<open>Every backlog is worked off\<close>

lemma sent_frame: "Send t \<in> set es \<Longrightarrow> t \<in> set (fst (apply_effects es))"
  by (induction es) (auto simp: case_prod_unfold Let_def split: effect.splits)

text \<open>An effect that an input has in every connected state, it has in every run it is part of.\<close>

lemma run_core_says:
  assumes "i \<in> snd ` set xs" and "\<And>aux c. connected c \<Longrightarrow> \<exists>e \<in> set (snd (handle env aux i c)). P e"
    and "connected c" and "\<And>x t. x \<in> set xs \<Longrightarrow> snd x \<noteq> Transport t"
  shows "\<exists>e \<in> set (snd (run_core env xs c)). P e"
  using assms(1,3,4)
proof (induction xs arbitrary: c)
  case (Cons x xs)
  obtain aux j where x: "x = (aux, j)" by fastforce
  let ?h = "handle env aux j c"
  have "user_event (HandleInput aux j None)"
    using Cons.prems(3) [of x] by (simp add: x user_event_def split: input.split)
  from flags_user_input [OF this, of env aux c] Cons.prems(2) have "connected (fst ?h)" by (simp add: flags_def)
  then have "i \<in> snd ` set xs \<Longrightarrow> \<exists>e \<in> set (snd (run_core env xs (fst ?h))). P e"
    using Cons.IH Cons.prems(3) by simp
  moreover have "i = j \<Longrightarrow> \<exists>e \<in> set (snd ?h). P e" using assms(2) [OF Cons.prems(2)] by simp
  ultimately show ?case using Cons.prems(1) by (auto simp: x case_prod_unfold Let_def)
qed simp

definition action_frame :: "'k session_env \<Rightarrow> req_id \<Rightarrow> user_action \<Rightarrow> string" where
  "action_frame env rq a = to_string_json env (ToReq rq (ReqUserAction a))"

lemma answered_now:
  assumes "connected c"
  shows "\<exists>e \<in> set (snd (answer env rid (Some a) c)). \<exists>rq. e = Send (action_frame env rq a)"
  using assms by (auto simp: answer_effects send_def action_frame_def)

lemma run_core_answers:
  assumes "i \<in> set is" and "length auxs = length is" and "connected c" and "\<And>j t. j \<in> set is \<Longrightarrow> j \<noteq> Transport t"
    and "\<And>aux c. handle env aux i c = answer env rid (Some a) c"
  shows "\<exists>rq. action_frame env rq a \<in> set (fst (apply_effects (snd (run_core env (zip auxs is) c))))"
proof -
  have "i \<in> snd ` set (zip auxs is)" using assms(1,2) by (metis list.set_map map_snd_zip)
  moreover have "snd x \<noteq> Transport t" if "x \<in> set (zip auxs is)" for x t
    using assms(4) [OF set_zip_rightD] that by (metis prod.collapse)
  moreover have "\<exists>e \<in> set (snd (handle env aux i c')). \<exists>rq. e = Send (action_frame env rq a)" if "connected c'" for aux c'
    unfolding assms(5) by (rule answered_now [OF that])
  ultimately have "\<exists>e \<in> set (snd (run_core env (zip auxs is) c)). \<exists>rq. e = Send (action_frame env rq a)"
    using assms(3) by (intro run_core_says) (assumption | simp)+
  then show ?thesis using sent_frame by blast
qed

lemma backlog_user:
  assumes "hosted_run env url_parse (bench_react b) key s" and "i \<in> set (backlog (bench_react b) s)"
  shows "i \<noteq> Transport t"
proof (cases "i \<in> set (h_queue s)")
  case True
  then show ?thesis using bench_host.host_input_user [OF bench_host.queue_from_host [OF assms(1)]] by blast
next
  case False
  with assms(2) obtain e "is" where "bench_react b e = Some is" "i \<in> set is"
    by (force simp: backlog_def inputs_of_def split: option.splits)
  then show ?thesis by (rule bench_inputs)
qed

lemma online_connected:
  assumes "hosted_run env url_parse (bench_react b) key s" and "a_phase (h_actor s) = Online w"
  shows "connected (a_core (h_actor s))"
  using reachable_tracked [OF bench_host.hosted_reachable [OF assms(1)]] assms(2) by (simp add: actor_inv_def)

text \<open>C29.  While the connection holds and nothing new arrives, the approve-everything bench and the
  actor settle, whatever the order in which their turns are scheduled: the number of turns is bounded,
  there is a next turn until inbox and queue are empty, and the core then is the one that handled the
  queue and the bench's answers to its inbox in that order, with exactly the frames of that run sent.
  So every signing request in the inbox has then been answered on the wire by an acceptance or a refusal,
  and every payment request by a refusal.\<close>

theorem bench_settles:
  assumes "hosted_run env url_parse (bench_react b) key s0" and "a_phase (h_actor s0) = Online w"
    and "settling env (bench_react b) s0 n auxs fs s"
  shows "n \<le> load (bench_react b) s0
    \<and> (settled s \<or> (\<exists>auxs' fs' s'. settling env (bench_react b) s0 (Suc n) auxs' fs' s'))
    \<and> (settled s \<longrightarrow>
        (let run = run_core env (zip auxs (backlog (bench_react b) s0)) (a_core (h_actor s0)) in
          length auxs = length (backlog (bench_react b) s0)
          \<and> a_core (h_actor s) = fst run \<and> fs = fst (apply_effects (snd run)))
        \<and> (\<forall>r. SignRequested r \<in> set (h_inbox s0) \<longrightarrow> (\<exists>rq. action_frame env rq (CancelSignRequest (sr_request_id r)) \<in> set fs)
              \<or> (\<exists>rq p. action_frame env rq (AcceptSignRequest (sr_request_id r) p) \<in> set fs))
        \<and> (\<forall>r. PayRequested r \<in> set (h_inbox s0) \<longrightarrow>
              (\<exists>rq. action_frame env rq (CancelPayRequest (pr_request_id r)) \<in> set fs)))"
proof -
  let ?B = "backlog (bench_react b) s0"
  note settles = bench_attends.settles [OF assms]
  have sent: "\<exists>rq. action_frame env rq a \<in> set fs"
    if "settled s" "i \<in> set ?B" "\<And>aux c. handle env aux i c = answer env rid (Some a) c" for i rid a
    using run_core_answers [OF that(2) _ online_connected [OF assms(1,2)] backlog_user [OF assms(1)] that(3)]
      settles(3) [OF that(1)] by auto
  have inbox: "i \<in> set ?B" if "e \<in> set (h_inbox s0)" "bench_react b e = Some is" "i \<in> set is" for e "is" i
    using inputs_ofI [of e "h_inbox s0" "bench_react b", OF that] by (simp add: backlog_def)
  have "(\<exists>rq. action_frame env rq (CancelSignRequest (sr_request_id r)) \<in> set fs)
      \<or> (\<exists>rq p. action_frame env rq (AcceptSignRequest (sr_request_id r) p) \<in> set fs)"
    if "settled s" "SignRequested r \<in> set (h_inbox s0)" for r
  proof -
    obtain i where i: "bench_sign b r = Some [i]"
      "i = SignRejected (sr_request_id r) \<or> (\<exists>p. i = SignAccepted (sr_request_id r) p)"
      using bench_sign_total by blast
    then have "i \<in> set ?B" using inbox [OF that(2), of "[i]" i] by (simp add: bench_react_def)
    with i(2) sent [OF that(1)] show ?thesis by (fastforce simp: handle_arms)
  qed
  moreover have "\<exists>rq. action_frame env rq (CancelPayRequest (pr_request_id r)) \<in> set fs"
    if "settled s" "PayRequested r \<in> set (h_inbox s0)" for r
    using sent [OF that(1) inbox [OF that(2)], of "[PayRejected (pr_request_id r)]" "PayRejected (pr_request_id r)"]
    by (simp add: bench_react_def reject_pay_def handle_arms)
  ultimately show ?thesis using settles by (auto simp: Let_def)
qed

definition owed_request :: pay_request where
  "owed_request = \<lparr>pr_request_id = ''p1'', pr_domain = ''a.io'', pr_recipient = ''tex1'', pr_asset_id = ''22'',
     pr_amount = 100, pr_memo = None, pr_ttl = 1000\<rparr>"

definition owed_env :: "unit session_env" where
  "owed_env = demo_env\<lparr>from_str_json := \<lambda>t. Some (FromNotif (NPayRequestCreated owed_request))\<rparr>"

lemma owed_run:
  "\<exists>s0 s auxs fs. hosted_run owed_env (\<lambda>_. None) (bench_react demo_bench) () s0 \<and> a_phase (h_actor s0) = Online False
     \<and> h_inbox s0 = [EvConnected, PayRequested owed_request]
     \<and> settling owed_env (bench_react demo_bench) s0 3 auxs fs s \<and> settled s"
proof -
  let ?react = "bench_react demo_bench"
  let ?a0 = "new_actor [1] ''ct'' () :: unit actor"
  let ?r1 = "on_connected owed_env [] None ?a0"
  let ?r2 = "on_text owed_env [] ''x'' None False (fst ?r1)"
  let ?r3 = "on_input owed_env [] (PayRejected ''p1'') None (fst ?r2)"
  let ?s1 = "\<lparr>h_actor = fst ?r1, h_inbox = [EvConnected], h_seen = [], h_queue = []\<rparr>"
  let ?s2 = "\<lparr>h_actor = fst ?r2, h_inbox = [EvConnected, PayRequested owed_request], h_seen = [], h_queue = []\<rparr>"
  note defs = on_connected_def on_text_def on_input_def new_actor_def owed_env_def owed_request_def demo_defs run_defs
    send_frames_def is_logged_in_def case_prod_unfold Let_def
  have "actor_step owed_env (ConnectOk [] None) ?a0 = Some (fst ?r1, snd ?r1)" and "so_events (snd ?r1) = [EvConnected]"
    by (simp_all add: actor_step_def new_actor_def) (simp add: defs)
  with hosted_turn [OF hosted_start, of "ConnectOk [] None" owed_env "[1]" "''ct''" "()" "fst ?r1" "snd ?r1"
      "\<lambda>_. None" ?react]
  have s1: "hosted_run owed_env (\<lambda>_. None) ?react () ?s1" by (simp add: is_net_def)
  have "a_phase (fst ?r1) = Online False" by (simp add: defs)
  then have step2: "actor_step owed_env (TextFrame [] ''x'' None) (fst ?r1) = Some (fst ?r2, snd ?r2)"
    by (simp add: actor_step_def)
  have "so_events (snd ?r2) = [PayRequested owed_request]" by (simp add: defs)
  then have s2: "hosted_run owed_env (\<lambda>_. None) ?react () ?s2"
    using hosted_turn [OF s1, of "TextFrame [] ''x'' None" "fst ?r2" "snd ?r2"] step2 by (simp add: is_net_def)
  have phase: "a_phase (fst ?r2) = Online False" by (simp add: defs)
  have reacts: "?react EvConnected = Some []" "?react (PayRequested owed_request) = Some [PayRejected ''p1'']"
    by (simp_all add: bench_react_def reject_pay_def owed_request_def)
  have s4: "settling owed_env ?react ?s2 2 [] []
      (?s2\<lparr>h_inbox := [], h_seen := [EvConnected, PayRequested owed_request], h_queue := [PayRejected ''p1'']\<rparr>)"
    using settling.reacted [OF settling.reacted [OF settling.idle [of owed_env ?react ?s2], of EvConnected]] reacts
    by (fastforce simp: numeral_2_eq_2)
  have "actor_step owed_env (HandleInput [] (PayRejected ''p1'') None) (fst ?r2) = Some (fst ?r3, snd ?r3)"
    using phase by (simp add: actor_step_def)
  moreover have "so_events (snd ?r3) = []" by (simp add: defs)
  ultimately have "\<exists>auxs fs s. settling owed_env ?react ?s2 3 auxs fs s \<and> settled s"
    using settling.took [OF s4, of "PayRejected ''p1''" "[]" "[]" "fst ?r3" "snd ?r3"]
    by (auto simp: settled_def numeral_3_eq_3 intro!: exI)
  with s2 phase show ?thesis by fastforce
qed

theorem bench_settles_witness:
  "\<exists>s0 s n auxs fs rq. settling owed_env (bench_react demo_bench) s0 n auxs fs s \<and> settled s
     \<and> action_frame owed_env rq (CancelPayRequest ''p1'') \<in> set fs"
proof -
  obtain s0 s auxs fs where run: "hosted_run owed_env (\<lambda>_. None) (bench_react demo_bench) () s0"
    "a_phase (h_actor s0) = Online False" "settling owed_env (bench_react demo_bench) s0 3 auxs fs s"
    and "h_inbox s0 = [EvConnected, PayRequested owed_request]" "settled s"
    using owed_run by blast
  with bench_settles [OF run] obtain rq where "action_frame owed_env rq (CancelPayRequest ''p1'') \<in> set fs"
    by (auto simp: owed_request_def)
  with run(3) \<open>settled s\<close> show ?thesis by blast
qed

section \<open>One key, several protocols\<close>

text \<open>The signature in the second request of an identity operation.\<close>

lemma perform_signature:
  assumes "perform il cl post k aux call = ([q1, q2], err)" and "post q1 = Replied (Some v)"
    and "get_str (il_serde il) v ''challenge'' = Some challenge"
  shows "body_field q2 ''signature'' = Some (JStr (signature_to_string (il_crypto il)
    (sign_identity (il_crypto il) k challenge (call_action call) (call_value (short_id (il_crypto il) k) call) aux)))"
  using authed_second [of il cl post k aux "call_action call" "call_value (short_id (il_crypto il) k) call"
      "call_fields (short_id (il_crypto il) k) call" q1 q2] perform_authed [of il cl post k aux call] assms
  by auto

text \<open>C38.  A relying party's message request is signed with the identity key as it stands, so the digest
  decides what the signature is worth.  Whenever signatures of the identity key verify under its public
  key, whatever random bytes each was made with: accepting a stored request whose digest is the hash of a
  login challenge hands the relying party a signature that verifies for that challenge under the very key
  the core logs in with, as the signature of the core's own login does; accepting one whose digest is the
  message of an identity operation hands it a signature that verifies for that operation, as the one the
  operation posts does.  The approve-everything bench accepts every such request that has no description.
  The comments of \<open>key.rs\<close> say a signature cannot be used in another protocol; this holds between login
  and identity operations, and not for message requests.\<close>

theorem message_signature_valid_in_other_protocols:
  assumes "bt_get (sign_message_requests c) rid = Some r"
    and "hex_decode_to_slice (env_crypto env) (smr_digest r) 32 = Some d"
    and "\<And>m a. verify_schnorr (env_crypto env) (sign_schnorr (env_crypto env) m (wallet_key c) a) m
        (public_key (env_crypto env) (wallet_key c))"
  shows "\<exists>sg. bt_get (user_actions (fst (handle env aux (SignMessageAccepted rid) c))) (next_action_id c)
        = Some (AcceptSignMessageRequest rid (signature_to_string (env_crypto env) sg))
    \<and> (d = get_sign_message_hash (env_crypto env) challenge \<longrightarrow>
        verify_schnorr (env_crypto env) sg (get_sign_message_hash (env_crypto env) challenge)
          (public_key (env_crypto env) (wallet_key c))
        \<and> (\<exists>own. handle_response env aux1 rq (RespChallenge challenge) c = (c, [send env 0 (ReqLogin
              \<lparr>lq_public_key = public_key (env_crypto env) (wallet_key c), lq_signature = own,
               lq_install_id = Some (install_id c)\<rparr>)])
            \<and> verify_schnorr (env_crypto env) own (get_sign_message_hash (env_crypto env) challenge)
                (public_key (env_crypto env) (wallet_key c))))
    \<and> (il_crypto il = env_crypto env
        \<and> d = identity_auth_message (env_crypto env) challenge (call_action call)
            (call_value (short_id (env_crypto env) (wallet_key c)) call)
        \<and> perform il cl post (wallet_key c) aux2 call = ([q1, q2], err) \<and> post q1 = Replied (Some v)
        \<and> get_str (il_serde il) v ''challenge'' = Some challenge \<longrightarrow>
        verify_schnorr (env_crypto env) sg d (public_key (env_crypto env) (wallet_key c))
        \<and> (\<exists>own. body_field q2 ''signature'' = Some (JStr (signature_to_string (env_crypto env) own))
            \<and> verify_schnorr (env_crypto env) own d (public_key (env_crypto env) (wallet_key c))))
    \<and> (smr_description r = None \<longrightarrow>
        bench_react b (SignMessageRequested r) = Some [SignMessageAccepted (smr_request_id r)])"
proof -
  let ?sg = "sign_schnorr (env_crypto env) d (wallet_key c) aux"
  have "sign_message_digest env aux c rid = Inr (signature_to_string (env_crypto env) ?sg)"
    using assms by (simp add: sign_message_digest_def sign_digest_def result_simps)
  then have "bt_get (user_actions (fst (handle env aux (SignMessageAccepted rid) c))) (next_action_id c)
      = Some (AcceptSignMessageRequest rid (signature_to_string (env_crypto env) ?sg))"
    using answer_queue [of env rid "Some (AcceptSignMessageRequest rid (signature_to_string (env_crypto env) ?sg))" c]
    by (simp add: handle_def handle_sign_message_accepted_def bt_get_insert)
  moreover have "bench_react b (SignMessageRequested r) = Some [SignMessageAccepted (smr_request_id r)]"
    if "smr_description r = None"
    using that by (simp add: bench_react_def bench_sign_message_def accept_sign_message_def)
  ultimately show ?thesis
    using perform_signature [of il cl post "wallet_key c" aux2 call q1 q2 err v challenge] assms(3)
    by (intro exI [of _ ?sg]) (auto simp: handle_response_def sign_challenge_def sign_identity_def)
qed

text \<open>A library whose signatures carry the random bytes after the message, and differ with them.\<close>

definition crossing_env :: "unit session_env" where
  "crossing_env = demo_env\<lparr>env_crypto := demo_crypto\<lparr>verify_schnorr := \<lambda>s m k. take (length m) s = m,
     hex_decode_to_slice := \<lambda>s n.
       Some (if s = ''login'' then get_sign_message_hash demo_crypto ''n1''
             else identity_auth_message demo_crypto ''n1'' ''phone_pay'' ''o7'')\<rparr>\<rparr>"

definition crossing_identity :: "(unit, string) identity_lib" where
  "crossing_identity = demo_identity\<lparr>il_crypto := env_crypto crossing_env\<rparr>"

definition crossing_core :: "string \<Rightarrow> unit core" where
  "crossing_core digest = demo_core\<lparr>sign_message_requests := [(''m1'', demo_sign_message\<lparr>smr_digest := digest\<rparr>)]\<rparr>"

theorem message_signature_valid_in_other_protocols_witness:
  "(\<exists>sg. bt_get (user_actions (fst (handle crossing_env [7] (SignMessageAccepted ''m1'') (crossing_core ''login'')))) 1
        = Some (AcceptSignMessageRequest ''m1'' (signature_to_string (env_crypto crossing_env) sg))
      \<and> verify_schnorr (env_crypto crossing_env) sg (get_sign_message_hash (env_crypto crossing_env) ''n1'') [2])
   \<and> (\<exists>sg. bt_get (user_actions (fst (handle crossing_env [7] (SignMessageAccepted ''m1'') (crossing_core ''pay'')))) 1
        = Some (AcceptSignMessageRequest ''m1'' (signature_to_string (env_crypto crossing_env) sg))
      \<and> verify_schnorr (env_crypto crossing_env) sg
            (identity_auth_message (env_crypto crossing_env) ''n1'' ''phone_pay'' ''o7'') [2])"
  (is "?login \<and> ?pay")
proof -
  let ?r = "\<lambda>digest. demo_sign_message\<lparr>smr_digest := digest\<rparr>"
  let ?cr = "env_crypto crossing_env"
  have hashes: "hex_decode_to_slice ?cr (smr_digest (?r ''login'')) 32 = Some (get_sign_message_hash ?cr ''n1'')"
    "hex_decode_to_slice ?cr (smr_digest (?r ''pay'')) 32 = Some (identity_auth_message ?cr ''n1'' ''phone_pay'' ''o7'')"
    by (simp_all add: crossing_env_def get_sign_message_hash_def identity_auth_message_def tagged_hash_def)
  have held: "bt_get (sign_message_requests (crossing_core d)) ''m1'' = Some (?r d)" for d
    by (simp add: crossing_core_def bt_get_def)
  have same: "next_action_id (crossing_core d) = 1" "wallet_key (crossing_core d) = ()" "public_key ?cr () = [2]" for d
    by (simp_all add: crossing_core_def demo_core_def new_core_def crossing_env_def public_key_def demo_crypto_def)
  have law: "verify_schnorr ?cr (sign_schnorr ?cr m k a) m pk" for m k a pk
    by (simp add: crossing_env_def demo_crypto_def)
  obtain q1 q2 where p: "perform crossing_identity demo_client (\<lambda>_. Replied (Some ''n1'')) () [8] (CPhonePay ''o7'') = ([q1, q2], None)"
    by (simp add: operation_defs authed_def Let_def crossing_identity_def demo_identity_def demo_serde_def id_reply_def
        get_str_def ok_or_def and_then_def json_obj_def action_path_def action_table_def failure_def)
  note crosses = message_signature_valid_in_other_protocols [OF held _ law, where aux = "[7]" and challenge = "''n1''"
      and rq = 0 and il = crossing_identity and call = "CPhonePay ''o7''" and cl = demo_client and ?aux2.0 = "[8]"
      and post = "\<lambda>_. Replied (Some ''n1'')" and ?q1.0 = q1 and ?q2.0 = q2 and err = None and v = "''n1''" and b = demo_bench]
  have ?login using crosses [OF hashes(1)] same by auto
  moreover have "get_str (il_serde crossing_identity) ''n1'' ''challenge'' = Some ''n1''" "il_crypto crossing_identity = ?cr"
    by (simp_all add: crossing_identity_def demo_identity_def demo_serde_def get_str_def)
  then have ?pay using crosses [OF hashes(2)] same p by auto
  ultimately show ?thesis ..
qed

end
