(* ===== verification/Sha256.thy ===== *)
theory Sha256
  imports Lc_Prelude
begin

text \<open>
  SHA-256 as the standard (FIPS 180-4) defines it, on lists of bits so that the simplifier can run it.
  The model takes the hash as a parameter; this instance is what the digests pinned in the sources are
  checked with.  A word is the list of its 32 bits, the lowest first.
\<close>

type_synonym bits = "bool list"

section \<open>Words\<close>

fun add_carry :: "bool \<Rightarrow> bits \<Rightarrow> bits \<Rightarrow> bits" where
  "add_carry c (x # xs) (y # ys) =
     (if x then if y then c # add_carry True xs ys else (\<not> c) # add_carry c xs ys
      else if y then (\<not> c) # add_carry c xs ys else c # add_carry False xs ys)"
| "add_carry c _ _ = []"

definition add_bits :: "bits \<Rightarrow> bits \<Rightarrow> bits" where
  "add_bits x y = add_carry False x y"

fun zip3 :: "(bool \<Rightarrow> bool \<Rightarrow> bool \<Rightarrow> bool) \<Rightarrow> bits \<Rightarrow> bits \<Rightarrow> bits \<Rightarrow> bits" where
  "zip3 f (x # xs) (y # ys) (z # zs) = f x y z # zip3 f xs ys zs"
| "zip3 f _ _ _ = []"

definition xor3 :: "bool \<Rightarrow> bool \<Rightarrow> bool \<Rightarrow> bool" where "xor3 x y z = (if x then y = z else y \<noteq> z)"
definition pick :: "bool \<Rightarrow> bool \<Rightarrow> bool \<Rightarrow> bool" where "pick x y z = (if x then y else z)"
definition majority :: "bool \<Rightarrow> bool \<Rightarrow> bool \<Rightarrow> bool" where "majority x y z = (if x then y \<or> z else y \<and> z)"

definition rotr :: "nat \<Rightarrow> bits \<Rightarrow> bits" where "rotr n x = drop n x @ take n x"
definition shr :: "nat \<Rightarrow> bits \<Rightarrow> bits" where "shr n x = drop n x @ replicate n False"

definition small_sigma0 :: "bits \<Rightarrow> bits" where "small_sigma0 x = zip3 xor3 (rotr 7 x) (rotr 18 x) (shr 3 x)"
definition small_sigma1 :: "bits \<Rightarrow> bits" where "small_sigma1 x = zip3 xor3 (rotr 17 x) (rotr 19 x) (shr 10 x)"
definition big_sigma0 :: "bits \<Rightarrow> bits" where "big_sigma0 x = zip3 xor3 (rotr 2 x) (rotr 13 x) (rotr 22 x)"
definition big_sigma1 :: "bits \<Rightarrow> bits" where "big_sigma1 x = zip3 xor3 (rotr 6 x) (rotr 11 x) (rotr 25 x)"

fun int_bits :: "nat \<Rightarrow> int \<Rightarrow> bits" where
  "int_bits 0 k = []"
| "int_bits (Suc n) k = (k mod 2 = 1) # int_bits n (k div 2)"

text \<open>The bits of a numeral are its digits.\<close>

fun num_bits :: "nat \<Rightarrow> num \<Rightarrow> bits" where
  "num_bits 0 m = []"
| "num_bits (Suc n) num.One = True # replicate n False"
| "num_bits (Suc n) (num.Bit0 m) = False # num_bits n m"
| "num_bits (Suc n) (num.Bit1 m) = True # num_bits n m"

lemma int_bits_zero: "int_bits n 0 = replicate n False"
  by (induction n) simp_all

lemma int_bits_pos: "int_bits n (numeral m) = num_bits n m"
  by (induction n m rule: num_bits.induct) (simp_all add: int_bits_zero)

lemma int_bits_code [code]: "int_bits n 0 = replicate n False" "int_bits n (Int.Pos m) = num_bits n m"
  by (simp_all add: int_bits_zero int_bits_pos Int.Pos_def)

fun bits_int :: "bits \<Rightarrow> int" where
  "bits_int [] = 0"
| "bits_int (b # bs) = (if b then 1 else 0) + 2 * bits_int bs"

section \<open>Constants\<close>

text \<open>
  The constants are the first 32 bits of the fractional parts of square and cube roots of the first
  primes, and are written as the numbers these are; that they are is proved below.
\<close>

definition square_root_fractions :: "int list" where
  "square_root_fractions =
     [1779033703, 3144134277, 1013904242, 2773480762,
      1359893119, 2600822924, 528734635, 1541459225]"

definition cube_root_fractions :: "int list" where
  "cube_root_fractions =
     [1116352408, 1899447441, 3049323471, 3921009573, 961987163, 1508970993, 2453635748, 2870763221,
      3624381080, 310598401, 607225278, 1426881987, 1925078388, 2162078206, 2614888103, 3248222580,
      3835390401, 4022224774, 264347078, 604807628, 770255983, 1249150122, 1555081692, 1996064986,
      2554220882, 2821834349, 2952996808, 3210313671, 3336571891, 3584528711, 113926993, 338241895,
      666307205, 773529912, 1294757372, 1396182291, 1695183700, 1986661051, 2177026350, 2456956037,
      2730485921, 2820302411, 3259730800, 3345764771, 3516065817, 3600352804, 4094571909, 275423344,
      430227734, 506948616, 659060556, 883997877, 958139571, 1322822218, 1537002063, 1747873779,
      1955562222, 2024104815, 2227730452, 2361852424, 2428436474, 2756734187, 3204031479, 3329325298]"

definition initial_state :: "bits list" where
  "initial_state = map (int_bits 32) square_root_fractions"

definition round_constants :: "bits list" where
  "round_constants = map (int_bits 32) cube_root_fractions"

definition small_primes :: "int list" where
  "small_primes = filter (\<lambda>p. \<forall>d \<in> set [2..17]. d < p \<longrightarrow> \<not> d dvd p) [2..311]"

text \<open>\<open>f\<close> is the first 32 bits of the fraction of the \<open>n\<close>-th root of \<open>p\<close>, whose integral part is below 18.\<close>

definition root_fraction :: "nat \<Rightarrow> int \<Rightarrow> int \<Rightarrow> bool" where
  "root_fraction n p f \<longleftrightarrow> 0 \<le> f \<and> f < 2 ^ 32 \<and>
     (\<exists>i \<in> set [0..17]. (i * 2 ^ 32 + f) ^ n \<le> p * 2 ^ (32 * n) \<and> p * 2 ^ (32 * n) < (i * 2 ^ 32 + f + 1) ^ n)"

lemma initial_state_from_primes: "list_all2 (root_fraction 2) (take 8 small_primes) square_root_fractions"
  by code_simp

lemma round_constants_from_primes: "list_all2 (root_fraction 3) small_primes cube_root_fractions"
  by code_simp

section \<open>Compression\<close>

text \<open>The message schedule is a window of the last sixteen words, the oldest first.\<close>

fun next_word :: "bits list \<Rightarrow> bits" where
  "next_word [w0, w1, w2, w3, w4, w5, w6, w7, w8, w9, w10, w11, w12, w13, w14, w15] =
     add_bits (add_bits (small_sigma1 w14) w9) (add_bits (small_sigma0 w1) w0)"
| "next_word _ = []"

fun shift_in :: "bits \<Rightarrow> bits \<Rightarrow> bits list \<Rightarrow> bits list" where
  "shift_in t1 t2 [a, b, c, d, e, f, g, h] = [add_bits t1 t2, a, b, c, add_bits d t1, e, f, g]"
| "shift_in _ _ st = st"

fun one_round :: "bits \<Rightarrow> bits \<Rightarrow> bits list \<Rightarrow> bits list" where
  "one_round k w [a, b, c, d, e, f, g, h] =
     shift_in (add_bits (add_bits h (big_sigma1 e)) (add_bits (zip3 pick e f g) (add_bits k w)))
       (add_bits (big_sigma0 a) (zip3 majority a b c)) [a, b, c, d, e, f, g, h]"
| "one_round _ _ st = st"

fun rounds :: "bits list \<Rightarrow> bits list \<Rightarrow> bits list \<Rightarrow> bits list" where
  "rounds [] ws st = st"
| "rounds (k # ks) ws st = rounds ks (tl ws @ [next_word ws]) (one_round k (hd ws) st)"

definition compress :: "bits list \<Rightarrow> bits list \<Rightarrow> bits list" where
  "compress st ws = map2 add_bits st (rounds round_constants ws st)"

section \<open>Messages\<close>

fun words_of :: "bytes \<Rightarrow> bits list" where
  "words_of (a # b # c # d # rest) =
     (int_bits 8 (uint d) @ int_bits 8 (uint c) @ int_bits 8 (uint b) @ int_bits 8 (uint a)) # words_of rest"
| "words_of _ = []"

text \<open>The \<open>n\<close>-byte big-endian form of an integer.\<close>

fun be_int :: "nat \<Rightarrow> int \<Rightarrow> bytes" where
  "be_int 0 k = []"
| "be_int (Suc n) k = be_int n (k div 256) @ [word_of_int (k mod 256)]"

lemma of_int_mod_256: "(word_of_int (k mod 256) :: u8) = of_int k"
  by (rule word_of_int_eq_iff [THEN iffD2]) (simp add: take_bit_eq_mod)

lemma be_bytes_int: "be_bytes n k = be_int n (int k)"
  by (induction n arbitrary: k) (simp_all add: of_int_mod_256 zdiv_int)

definition pad :: "bytes \<Rightarrow> bytes" where
  "pad m = m @ [0x80] @ replicate ((119 - length m mod 64) mod 64) 0 @ be_int 8 (8 * int (length m))"

fun blocks :: "nat \<Rightarrow> bits list \<Rightarrow> bits list \<Rightarrow> bits list" where
  "blocks 0 ws st = st"
| "blocks (Suc n) ws st = blocks n (drop 16 ws) (compress st (take 16 ws))"

definition word_bytes :: "bits \<Rightarrow> bytes" where
  "word_bytes w = map (\<lambda>n. word_of_int (bits_int (take 8 (drop n w)))) [24, 16, 8, 0]"

definition sha_256 :: "bytes \<Rightarrow> bytes" where
  "sha_256 m = concat (map word_bytes (blocks ((length m + 72) div 64) (words_of (pad m)) initial_state))"

text \<open>The standard's own example.\<close>

lemma sha_256_abc:
  "map uint (sha_256 (as_bytes ''abc'')) =
     [0xba, 0x78, 0x16, 0xbf, 0x8f, 0x01, 0xcf, 0xea, 0x41, 0x41, 0x40, 0xde, 0x5d, 0xae, 0x22, 0x23,
      0xb0, 0x03, 0x61, 0xa3, 0x96, 0x17, 0x7a, 0x9c, 0xb4, 0x10, 0xff, 0x61, 0xf2, 0x00, 0x15, 0xad]"
  by code_simp

end
