(* ===== verification/Pinned_Vectors.thy ===== *)
theory Pinned_Vectors
  imports Sha256 Venue Covenant Short_Id
begin

text \<open>
  The digests pinned in the unit tests of \<open>key.rs\<close>, \<open>venue.rs\<close>, \<open>lending.rs\<close> and \<open>short_id.rs\<close>, which the
  server, the venue and the contracts crate pin on their side: the tests as predicates over the hash
  function, and their evaluation with SHA-256.  The parts of these tests that need the elliptic curve are
  left out.
\<close>

section \<open>The tests\<close>

definition hex_digit :: "int \<Rightarrow> char" where
  "hex_digit n = ''0123456789abcdef'' ! nat n"

definition to_hex :: "bytes \<Rightarrow> string" where
  "to_hex bs = concat (map (\<lambda>b. [hex_digit (uint b div 16), hex_digit (uint b mod 16)]) bs)"

definition order_v2_vector :: "'k crypto \<Rightarrow> bool" where
  "order_v2_vector cr \<longleftrightarrow>
     to_hex (order_digest cr (replicate 32 3) Buy 11500000000000 10000000 100 7
       (Some \<lparr>max_bps = 5, max_chain = 2200\<rparr>))
     = ''5640f0ee017addfece205ba8d1fbd264299248f3e78fa3ded5542360de167c89''"

definition order_v1_vector :: "'k crypto \<Rightarrow> bool" where
  "order_v1_vector cr \<longleftrightarrow>
     to_hex (order_digest cr (replicate 32 3) Buy 11500000000000 10000000 100 7 None)
     = ''944e4e036d891dd277fee0987c355b2609fb09d6fc149ee2e2fd2b907acf9512''"

definition login_vector :: "'k crypto \<Rightarrow> bool" where
  "login_vector cr \<longleftrightarrow>
     to_hex (login_digest cr (replicate 32 3) ''c1'')
     = ''04e78310fc229b8d973fcd61744511cbe9182c1b00bcd56eee5f6b7181efdf4d''"

definition spk_vector :: "'k crypto \<Rightarrow> bool" where
  "spk_vector cr \<longleftrightarrow>
     to_hex (p2tr_spk_hash cr (replicate 32 3))
     = ''9877030268541635f3a8ca1b8c858314276c1b2c3ebb836e641aa9782e7f58c3''"

definition withdraw_vector :: "'k crypto \<Rightarrow> bool" where
  "withdraw_vector cr \<longleftrightarrow>
     to_hex (withdraw_digest cr (replicate 32 3) 5000 (p2tr_spk_hash cr (replicate 32 3)) (replicate 32 0xAA))
     = ''14cf3b3d26843d9b2b64fb9bb4fd1e5774d626453c79b55d36c68ec1004c7b8a''"

definition delegate_vector :: "'k crypto \<Rightarrow> bool" where
  "delegate_vector cr \<longleftrightarrow>
     to_hex (delegate_digest cr (replicate 32 3) (replicate 32 4) ''paper.swaption.io'')
     = ''ec146743b8a9923b84c6f4c90699e5df328398e73cb5e543ed826d70b5aaad35''"

definition shared_digest_vectors :: "'k crypto \<Rightarrow> bool" where
  "shared_digest_vectors cr \<longleftrightarrow> order_v2_vector cr \<and> order_v1_vector cr \<and> login_vector cr
     \<and> spk_vector cr \<and> withdraw_vector cr \<and> delegate_vector cr"

definition service_login_vector :: "'k crypto \<Rightarrow> bool" where
  "service_login_vector cr \<longleftrightarrow>
     to_hex (service_login_digest cr (replicate 32 0x11) ''paper.swaption.io'' ''chal-1'')
     = ''227f138f3bcc0c36712c2f67a574a7eec3e0daa1ec34c82f6653acb33007c89e''"

definition identity_auth_vector :: "'k crypto \<Rightarrow> bool" where
  "identity_auth_vector cr \<longleftrightarrow>
     to_hex (identity_auth_message cr ''n1'' ''email_start'' ''a@b.c'')
     = ''aa28e11b46e114abcdae01742d916ef01ad4ab14e0924c2c83c3cf192adbc80d''"

text \<open>The second key of the test is the one \<open>WalletKey\<close> derives; the test pins its text as well.\<close>

definition short_id_vectors :: "'k crypto \<Rightarrow> bool" where
  "short_id_vectors cr \<longleftrightarrow>
     short_wallet_id cr (be_bytes 32 1) = ''ZFKG-NS4S''
     \<and> short_wallet_id cr (be_bytes 32 0xc430e1683ac5f48d4e058e602b9ee33890830be3a92fea9f524d5763c15369d1)
       = ''8BDR-BSWW''"

text \<open>The terms the contracts crate pins its positions with.\<close>

definition pinned_terms :: position_terms where
  "pinned_terms =
     \<lparr>pt_collateral = replicate 32 1, pt_cash = replicate 32 2, pt_collateral_amount = 50000000,
      pt_buyback_amount = 3100000000000, pt_expiry_height = 3200000, pt_borrower_nft = replicate 32 3,
      pt_lender_nft = replicate 32 4, pt_payout_script_hash = replicate 32 9\<rparr>"

definition pinned_last_look :: last_look_terms where
  "pinned_last_look =
     \<lparr>ll_borrower_payout_script_hash = replicate 32 10, ll_script_hash = replicate 32 11, ll_height = 3199500\<rparr>"

definition v2_terms_vector :: "'k taproot \<Rightarrow> bool" where
  "v2_terms_vector tr \<longleftrightarrow> to_hex (v2_terms_digest tr pinned_terms)
     = ''bda46f0bcef2adbddb585b1f42219062f169a3b120fdd12296c30832b9f2f9a7''"

definition v4_terms_vector :: "'k taproot \<Rightarrow> bool" where
  "v4_terms_vector tr \<longleftrightarrow> to_hex (v4_terms_digest tr pinned_terms pinned_last_look)
     = ''d9699f759118692dced610a96f6bf6ce2955da0c67263db3a00eaa39bc9d5d5f''"

definition v5_terms_vector :: "'k taproot \<Rightarrow> bool" where
  "v5_terms_vector tr \<longleftrightarrow> to_hex (v5_terms_digest tr pinned_terms pinned_last_look)
     = ''d9699f759118692dced610a96f6bf6ce2955da0c67263db3a00eaa39bc9d5d5f''"

definition offer_rows :: "offer_row_claim list" where
  "offer_rows = [\<lparr>row_collateral = replicate 32 1, row_expiry = 3200000, row_price_out = 300000000,
     row_buyback = 400000000, row_fee_per_unit = 2000000, row_min_size = 1000\<rparr>]"

definition offer_terms_vector :: "'k taproot \<Rightarrow> bool" where
  "offer_terms_vector tr \<longleftrightarrow>
     to_hex (offer_terms_digest tr (replicate 32 2) (replicate 32 4) (replicate 32 9) (replicate 32 12)
       SWAPTION_LENDING_V5_LEAF 50 3199000 offer_rows)
     = ''0aa14f32b317261a0ad1b6155f73bc367bbc49743b2915f4ff9aa3990abcab98''"

section \<open>Their evaluation\<close>

text \<open>The encodings of integers, over \<open>int\<close>, where the simplifier computes with numerals.\<close>

lemma vector_bytes:
  "u64_be x = be_int 8 (uint x)" "u32_be y = be_int 4 (uint y)"
  "be_bytes n 1 = be_int n 1" "be_bytes n (numeral w) = be_int n (numeral w)"
  by (simp_all add: u64_be_def u32_be_def be_bytes_int)

lemma sha_instance: "sha256 (cr\<lparr>sha256 := f\<rparr>) = f"
  by simp

lemma order_v2_vector_evaluated: "order_v2_vector (cr\<lparr>sha256 := sha_256\<rparr>)"
  unfolding order_v2_vector_def order_digest_def order_preimage_def option.case fee_caps.simps vector_bytes sha_instance by code_simp

lemma order_v1_vector_evaluated: "order_v1_vector (cr\<lparr>sha256 := sha_256\<rparr>)"
  unfolding order_v1_vector_def order_digest_def order_preimage_def option.case vector_bytes sha_instance by code_simp

lemma login_vector_evaluated: "login_vector (cr\<lparr>sha256 := sha_256\<rparr>)"
  unfolding login_vector_def login_digest_def sha_instance by code_simp

lemma spk_vector_evaluated: "spk_vector (cr\<lparr>sha256 := sha_256\<rparr>)"
  unfolding spk_vector_def p2tr_spk_hash_def sha_instance by code_simp

lemma withdraw_vector_evaluated: "withdraw_vector (cr\<lparr>sha256 := sha_256\<rparr>)"
  unfolding withdraw_vector_def withdraw_digest_def p2tr_spk_hash_def sha_instance by code_simp

lemma delegate_vector_evaluated: "delegate_vector (cr\<lparr>sha256 := sha_256\<rparr>)"
  unfolding delegate_vector_def delegate_digest_def sha_instance by code_simp

lemma service_login_vector_evaluated: "service_login_vector (cr\<lparr>sha256 := sha_256\<rparr>)"
  unfolding service_login_vector_def service_login_digest_def sha_instance by code_simp

lemma tag_hashes:
  "sha_256 (as_bytes identity_auth_tag) = be_int 32 0xe062feb642670b90093c04d0f7a4f05de3bae773ccce2e0b94b1fc06f0ff89a9"
  "sha_256 (as_bytes wallet_id_tag) = be_int 32 0xb97d58a02e4897cf7bbcb3044257626148c3751e85e6c0e1bc3ac7058ef82626"
  subgoal by code_simp
  subgoal by code_simp
  done

lemma identity_auth_vector_evaluated: "identity_auth_vector (cr\<lparr>sha256 := sha_256\<rparr>)"
  unfolding identity_auth_vector_def identity_auth_message_def tagged_hash_def sha_instance tag_hashes by code_simp

lemma short_ids_evaluated:
  "short_wallet_id (cr\<lparr>sha256 := sha_256\<rparr>) (be_bytes 32 1) = ''ZFKG-NS4S''"
  "short_wallet_id (cr\<lparr>sha256 := sha_256\<rparr>)
     (be_bytes 32 0xc430e1683ac5f48d4e058e602b9ee33890830be3a92fea9f524d5763c15369d1) = ''8BDR-BSWW''"
  subgoal unfolding short_wallet_id_def tagged_hash_def vector_bytes sha_instance tag_hashes by code_simp
  subgoal unfolding short_wallet_id_def tagged_hash_def vector_bytes sha_instance tag_hashes by code_simp
  done

lemmas pinned_defs = pinned_terms_def pinned_last_look_def position_terms.simps last_look_terms.simps

lemma v2_terms_vector_evaluated: "v2_terms_vector (cr\<lparr>sha256 := sha_256\<rparr>)"
  unfolding v2_terms_vector_def v2_terms_digest_def v2_terms_preimage_def pinned_defs vector_bytes sha_instance by code_simp

lemma v4_terms_vector_evaluated: "v4_terms_vector (cr\<lparr>sha256 := sha_256\<rparr>)"
  unfolding v4_terms_vector_def v4_terms_digest_def v4_terms_preimage_def pinned_defs vector_bytes sha_instance by code_simp

lemma v5_terms_vector_evaluated: "v5_terms_vector (cr\<lparr>sha256 := sha_256\<rparr>)"
  using v4_terms_vector_evaluated [of cr] by (simp add: v5_terms_vector_def v4_terms_vector_def v5_terms_digest_def)

lemma offer_terms_vector_evaluated: "offer_terms_vector (cr\<lparr>sha256 := sha_256\<rparr>)"
proof -
  have row: "row_at offer_rows i = (if i = 0 then Some (hd offer_rows) else None)" for i
    by (simp add: row_at_def offer_rows_def)
  show ?thesis
    unfolding offer_terms_vector_def offer_terms_digest_def offer_terms_preimage_def list.map row offer_row_bytes_def
      SWAPTION_LENDING_V5_LEAF_def leaf_def offer_rows_def list.sel offer_row_claim.simps vector_bytes sha_instance
    by code_simp
qed

text \<open>With SHA-256 for the hash, the digests that the sources pin together with the connect server, the
  venue, the directory and the contracts crate come out as pinned: both order digests, the login,
  withdrawal and delegation digests and the script hash of a venue account, the service-login digest, the
  message of an identity operation, the two short wallet ids, and the terms digests of positions and of
  an offer.\<close>

theorem pinned_vectors_hold:
  "shared_digest_vectors (cr\<lparr>sha256 := sha_256\<rparr>) \<and> service_login_vector (cr\<lparr>sha256 := sha_256\<rparr>)
   \<and> identity_auth_vector (cr\<lparr>sha256 := sha_256\<rparr>) \<and> short_id_vectors (cr\<lparr>sha256 := sha_256\<rparr>)
   \<and> v2_terms_vector (tr\<lparr>sha256 := sha_256\<rparr>) \<and> v4_terms_vector (tr\<lparr>sha256 := sha_256\<rparr>)
   \<and> v5_terms_vector (tr\<lparr>sha256 := sha_256\<rparr>) \<and> offer_terms_vector (tr\<lparr>sha256 := sha_256\<rparr>)"
  unfolding shared_digest_vectors_def short_id_vectors_def
  by (intro conjI order_v2_vector_evaluated order_v1_vector_evaluated login_vector_evaluated spk_vector_evaluated
      withdraw_vector_evaluated delegate_vector_evaluated service_login_vector_evaluated
      identity_auth_vector_evaluated short_ids_evaluated v2_terms_vector_evaluated v4_terms_vector_evaluated
      v5_terms_vector_evaluated offer_terms_vector_evaluated)

end
