(* ===== verification/Core_Tests.thy ===== *)
theory Core_Tests
  imports Wire_Claims Bench_Host
begin

text \<open>
  The unit tests of \<open>core.rs\<close>, replayed on the model with the wire format of \<open>Wire_Json\<close>: what the tests
  write as JSON text is the text \<open>serde_json\<close> gives the value, and what they look for in a frame is looked
  for in the keys and strings of the value the frame reads as.  Each test is a predicate over the libraries,
  the wallet key and the auxiliary bytes; that it passes is proved for all of them, from the laws of the
  libraries the test itself relies on.
\<close>

section \<open>The harness\<close>

definition test_core :: "'k \<Rightarrow> 'k core" where
  "test_core k = new_core (replicate 16 1) ''ct(dummy-descriptor)'' k"

definition sent_frames :: "effect list \<Rightarrow> string list" where
  "sent_frames es = concat (map (\<lambda>e. case e of Send data \<Rightarrow> [data] | _ \<Rightarrow> []) es)"

text \<open>\<open>contains\<close> on the text of a frame.\<close>

fun mentions :: "string \<Rightarrow> wjson \<Rightarrow> bool" where
  "mentions s (WStr t) = contains_str s t"
| "mentions s (WArr js) = list_ex (mentions s) js"
| "mentions s (WObj kvs) = list_ex (\<lambda>(k, v). contains_str s k \<or> mentions s v) kvs"
| "mentions s _ = False"

definition frame_contains :: "'k wire_lib \<Rightarrow> string \<Rightarrow> string \<Rightarrow> bool" where
  "frame_contains wl frame s = (case json_parse wl frame of Some j \<Rightarrow> mentions s j | None \<Rightarrow> False)"

definition recv :: "'k wire_lib \<Rightarrow> wjson \<Rightarrow> input" where
  "recv wl j = Transport (Recv (json_print wl j))"

text \<open>The states and effects after each input.\<close>

fun play :: "'k session_env \<Rightarrow> bytes \<Rightarrow> input list \<Rightarrow> 'k core \<Rightarrow> ('k core \<times> effect list) list" where
  "play env aux [] c = []"
| "play env aux (i # is) c = handle env aux i c # play env aux is (fst (handle env aux i c))"

definition resp_json :: "wjson \<Rightarrow> wjson" where
  "resp_json r = WObj [(''Resp'', WObj [(''id'', WInt 0), (''resp'', r)])]"

definition login_json :: "(string \<times> wjson) list \<Rightarrow> wjson" where
  "login_json fs = resp_json (WObj [(''Login'', WObj ([(''sessions'', WArr []), (''sign_requests'', WArr [])] @ fs))])"

definition notif_json :: "string \<Rightarrow> string \<Rightarrow> wjson \<Rightarrow> wjson" where
  "notif_json kind fld v = WObj [(''Notif'', WObj [(''notif'', WObj [(kind, WObj [(fld, v)])])])]"

section \<open>The tests\<close>

definition connect_drives_challenge_then_login :: "'k wire_lib \<Rightarrow> 'k \<Rightarrow> bytes \<Rightarrow> bool" where
  "connect_drives_challenge_then_login wl k aux = (case play (json_env wl) aux
     [Transport Connected,
      recv wl (resp_json (WObj [(''Challenge'', WObj [(''challenge'', WStr ''n1'')])]))] (test_core k) of
     [(_, e1), (_, e2)] \<Rightarrow>
       sent_frames e1 = [json_print wl (WObj [(''Req'', WObj [(''id'', WInt 0), (''req'', WObj [(''Challenge'', WObj [])])])])]
       \<and> length (sent_frames e2) = 1
       \<and> frame_contains wl (hd (sent_frames e2)) ''Login''
       \<and> frame_contains wl (hd (sent_frames e2)) ''public_key''
       \<and> frame_contains wl (hd (sent_frames e2)) ''install_id''
   | _ \<Rightarrow> False)"

definition offline_approvals_replay_after_login :: "'k wire_lib \<Rightarrow> 'k \<Rightarrow> bytes \<Rightarrow> bool" where
  "offline_approvals_replay_after_login wl k aux = (case play (json_env wl) aux
     [LoginAccepted ''r1'' None, Transport Connected, recv wl (login_json [])] (test_core k) of
     [(_, e1), _, (_, e3)] \<Rightarrow>
       sent_frames e1 = [] \<and> length (sent_frames e3) = 1
       \<and> frame_contains wl (hd (sent_frames e3)) ''AcceptLoginRequest''
       \<and> frame_contains wl (hd (sent_frames e3)) ''dummy-descriptor''
   | _ \<Rightarrow> False)"

text \<open>The link is parsed as \<open>parse_app_link\<close> does it, from what the URL library makes of the text.\<close>

definition link_input :: "(string \<Rightarrow> url option) \<Rightarrow> string \<Rightarrow> input list" where
  "link_input url_parse u = (case parse_app_link url_parse u of Inr al \<Rightarrow> [AppLinkInput al] | Inl _ \<Rightarrow> [])"

definition descriptor_travels_only_on_accept ::
  "'k wire_lib \<Rightarrow> (string \<Rightarrow> url option) \<Rightarrow> 'k \<Rightarrow> bytes \<Rightarrow> bool" where
  "descriptor_travels_only_on_accept wl url_parse k aux = (case play (json_env wl) aux
     ([Transport Connected] @ link_input url_parse ''liquidconnect://login/?request_id=r9''
      @ [LoginAccepted ''r9'' None]) (test_core k) of
     [_, (_, link), (_, accept)] \<Rightarrow>
       list_all (\<lambda>frame. \<not> frame_contains wl frame ''descriptor'') (sent_frames link)
       \<and> frame_contains wl (hd (sent_frames accept)) ''dummy-descriptor''
   | _ \<Rightarrow> False)"

definition message_json :: "string \<Rightarrow> string \<Rightarrow> wjson \<Rightarrow> wjson" where
  "message_json rid digest description = notif_json ''SignMessageRequestCreated'' ''request'' (WObj
     [(''request_id'', WStr rid), (''domain'', WStr ''swaption.io''), (''digest'', WStr digest),
      (''description'', description), (''ttl'', WInt 60000)])"

definition ones_hex :: string where "ones_hex = concat (replicate 32 ''11'')"
definition host_sig :: string where "host_sig = concat (replicate 64 ''cd'')"

text \<open>The signature in the frame verifies under the wallet's key over the digest.\<close>

definition accepted_signature_verifies :: "'k wire_lib \<Rightarrow> 'k \<Rightarrow> string \<Rightarrow> bool" where
  "accepted_signature_verifies wl k frame = (case Option.bind (json_parse wl frame) (de_to wl) of
     Some (ToReq _ (ReqUserAction (AcceptSignMessageRequest rid sig))) \<Rightarrow>
       rid = ''s1'' \<and> (case signature_from_str (wl_crypto wl) sig of
          Some signature \<Rightarrow> verify_schnorr (wl_crypto wl) signature (replicate 32 0x11) (public_key (wl_crypto wl) k)
        | None \<Rightarrow> False)
   | _ \<Rightarrow> False)"

definition sign_message_approval_signs_the_stored_digest :: "'k wire_lib \<Rightarrow> 'k \<Rightarrow> bytes \<Rightarrow> bool" where
  "sign_message_approval_signs_the_stored_digest wl k aux = (case play (json_env wl) aux
     [Transport Connected, recv wl (message_json ''s1'' ones_hex (WStr ''Sell 0.001 BTC'')),
      SignMessageAccepted ''nope'', SignMessageAccepted ''s1'',
      recv wl (message_json ''s9'' ones_hex (WStr ''typed order'')),
      SignMessageSigned ''s9'' host_sig, SignMessageSigned ''gone'' host_sig,
      recv wl (message_json ''s2'' ones_hex WNull), SignMessageRejected ''s2''] (test_core k) of
     [_, (c2, e2), (_, e3), (_, e4), _, (_, e6), (_, e7), _, (_, e9)] \<Rightarrow>
       list_ex (\<lambda>e. case e of AddSignMessageRequest r \<Rightarrow> True | _ \<Rightarrow> False) e2
       \<and> map_option smr_digest (get_sign_message_request c2 ''s1'') = Some ones_hex
       \<and> sent_frames e3 = []
       \<and> length (sent_frames e4) = 1 \<and> accepted_signature_verifies wl k (hd (sent_frames e4))
       \<and> length (sent_frames e6) = 1 \<and> frame_contains wl (hd (sent_frames e6)) host_sig
       \<and> sent_frames e7 = []
       \<and> frame_contains wl (hd (sent_frames e9)) ''CancelSignMessageRequest''
   | _ \<Rightarrow> False)"

definition login_resp_syncs_sign_message_requests :: "'k wire_lib \<Rightarrow> 'k \<Rightarrow> bytes \<Rightarrow> bool" where
  "login_resp_syncs_sign_message_requests wl k aux = (case play (json_env wl) aux
     [Transport Connected,
      recv wl (login_json [(''sign_message_requests'', WArr [WObj
        [(''request_id'', WStr ''p1''), (''domain'', WStr ''swaption.io''),
         (''digest'', WStr (concat (replicate 32 ''22''))), (''description'', WStr ''pending order''), (''ttl'', WInt 60000)]])]),
      Transport Disconnected, Transport Connected, recv wl (login_json [])] (test_core k) of
     [_, (_, e2), _, _, (_, e5)] \<Rightarrow>
       list_ex (\<lambda>e. case e of AddSignMessageRequest r \<Rightarrow> smr_request_id r = ''p1'' | _ \<Rightarrow> False) e2
       \<and> list_ex (\<lambda>e. case e of RemoveSignMessageRequest rid \<Rightarrow> rid = ''p1'' | _ \<Rightarrow> False) e5
   | _ \<Rightarrow> False)"

definition report_json :: "int \<Rightarrow> wjson list \<Rightarrow> wjson" where
  "report_json as_of hs = WObj [(''domain'', WStr ''paper.swaption.io''), (''as_of'', WInt as_of), (''holdings'', WArr hs)]"

definition holding_json :: "string \<Rightarrow> string \<Rightarrow> string \<Rightarrow> int \<Rightarrow> wjson" where
  "holding_json label kind unit amount = WObj [(''label'', WStr label), (''kind'', WStr kind), (''asset_id'', WNull),
     (''unit'', WStr unit), (''amount'', WInt amount), (''precision'', WInt 8)]"

definition margin_report :: wjson where
  "margin_report = report_json 1788619197000 [holding_json ''Margin balance'' ''balance'' ''USDt'' 999417000000]"

definition sets_holdings :: "(holdings_report \<Rightarrow> bool) \<Rightarrow> effect list \<Rightarrow> bool" where
  "sets_holdings P es = list_ex (\<lambda>e. case e of SetHoldings r \<Rightarrow> P r | _ \<Rightarrow> False) es"

definition clears_holdings :: "effect list \<Rightarrow> bool" where
  "clears_holdings es = list_ex (\<lambda>e. case e of ClearHoldings d \<Rightarrow> d = ''paper.swaption.io'' | _ \<Rightarrow> False) es"

definition holdings_follow_login_and_notifications :: "'k wire_lib \<Rightarrow> 'k \<Rightarrow> bytes \<Rightarrow> bool" where
  "holdings_follow_login_and_notifications wl k aux = (case play (json_env wl) aux
     [Transport Connected, recv wl (login_json [(''holdings'', WArr [margin_report])]),
      recv wl (notif_json ''HoldingsUpdated'' ''report''
        (report_json 1788619200000 [holding_json ''Position'' ''position'' ''BTC'' (- 5)])),
      recv wl (notif_json ''HoldingsUpdated'' ''report'' (report_json 1788619300000 [])),
      recv wl (notif_json ''HoldingsUpdated'' ''report'' margin_report),
      Transport Disconnected, Transport Connected, recv wl (login_json [])] (test_core k) of
     [_, (_, e2), (c3, e3), (c4, e4), (c5, _), _, _, (c8, e8)] \<Rightarrow>
       sets_holdings (\<lambda>r. hr_domain r = ''paper.swaption.io'' \<and> sint (h_amount (hd (hr_holdings r))) = 999417000000) e2
       \<and> list_all (\<lambda>f. \<not> frame_contains wl f ''Holdings'') (sent_frames e2)
       \<and> sets_holdings (\<lambda>r. length (hr_holdings r) = 1 \<and> sint (h_amount (hd (hr_holdings r))) = - 5) e3
       \<and> map_option (\<lambda>r. h_label (hd (hr_holdings r))) (bt_get (holdings c3) ''paper.swaption.io'') = Some ''Position''
       \<and> clears_holdings e4 \<and> holdings c4 = []
       \<and> length (holdings c5) = 1
       \<and> clears_holdings e8 \<and> holdings c8 = []
   | _ \<Rightarrow> False)"

definition pay_json :: "string \<Rightarrow> int \<Rightarrow> wjson \<Rightarrow> int \<Rightarrow> wjson" where
  "pay_json rid amount memo ttl = WObj
     [(''request_id'', WStr rid), (''domain'', WStr ''swaption.io''),
      (''recipient'', WStr ''tlq1qqw508d6qejxtdg4y5r3zarvary0c5xw7kct5v9fs''),
      (''asset_id'', WStr (concat (replicate 32 ''22''))), (''amount'', WInt amount), (''memo'', memo), (''ttl'', WInt ttl)]"

definition built_txid :: string where "built_txid = concat (replicate 32 ''cd'')"

definition pay_approval_relays_the_host_built_txid :: "'k wire_lib \<Rightarrow> 'k \<Rightarrow> bytes \<Rightarrow> bool" where
  "pay_approval_relays_the_host_built_txid wl k aux = (case play (json_env wl) aux
     [Transport Connected,
      recv wl (notif_json ''PayRequestCreated'' ''request'' (pay_json ''p1'' 100000 (WStr ''RF deposit'') 120000)),
      PayBuilt ''nope'' built_txid, PayBuilt ''p1'' built_txid,
      recv wl (notif_json ''PayRequestCreated'' ''request'' (pay_json ''p2'' 1 WNull 120000)),
      PayRejected ''p2''] (test_core k) of
     [_, (c2, e2), (_, e3), (_, e4), _, (_, e6)] \<Rightarrow>
       list_ex (\<lambda>e. case e of AddPayRequest r \<Rightarrow> pr_request_id r = ''p1'' | _ \<Rightarrow> False) e2
       \<and> (case get_pay_request c2 ''p1'' of
            Some stored \<Rightarrow> pr_amount stored = 100000 \<and> pr_memo stored = Some ''RF deposit'' | None \<Rightarrow> False)
       \<and> sent_frames e3 = []
       \<and> length (sent_frames e4) = 1
       \<and> frame_contains wl (hd (sent_frames e4)) ''AcceptPayRequest''
       \<and> frame_contains wl (hd (sent_frames e4)) built_txid
       \<and> frame_contains wl (hd (sent_frames e6)) ''CancelPayRequest''
   | _ \<Rightarrow> False)"

definition fund_json :: "string \<Rightarrow> int \<Rightarrow> wjson \<Rightarrow> wjson" where
  "fund_json rid amount memo = WObj
     [(''request_id'', WStr rid), (''domain'', WStr ''paper.swaption.io''), (''template'', WStr ''cHNldP8BAgQCAAAA''),
      (''asset_id'', WStr (concat (replicate 32 ''22''))), (''amount'', WInt amount), (''memo'', memo), (''ttl'', WInt 180000)]"

definition fund_approval_relays_the_host_funded_pset :: "'k wire_lib \<Rightarrow> 'k \<Rightarrow> bytes \<Rightarrow> bool" where
  "fund_approval_relays_the_host_funded_pset wl k aux = (case play (json_env wl) aux
     [Transport Connected,
      recv wl (notif_json ''FundRequestCreated'' ''request''
        (fund_json ''f1'' 2499000000 (WStr ''Deposit 24.99 USDT into Rolling Future''))),
      FundSigned ''nope'' ''AAAA'', FundSigned ''f1'' ''ZnVuZGVk'',
      recv wl (notif_json ''FundRequestCreated'' ''request'' (fund_json ''f2'' 1 WNull)),
      FundRejected ''f2''] (test_core k) of
     [_, (c2, e2), (_, e3), (_, e4), _, (_, e6)] \<Rightarrow>
       list_ex (\<lambda>e. case e of AddFundRequest r \<Rightarrow> fr_request_id r = ''f1'' | _ \<Rightarrow> False) e2
       \<and> (case get_fund_request c2 ''f1'' of
            Some stored \<Rightarrow> fr_amount stored = 2499000000 \<and> fr_template stored = ''cHNldP8BAgQCAAAA'' | None \<Rightarrow> False)
       \<and> sent_frames e3 = []
       \<and> length (sent_frames e4) = 1
       \<and> frame_contains wl (hd (sent_frames e4)) ''AcceptFundRequest''
       \<and> frame_contains wl (hd (sent_frames e4)) ''ZnVuZGVk''
       \<and> frame_contains wl (hd (sent_frames e6)) ''CancelFundRequest''
   | _ \<Rightarrow> False)"

definition login_resp_syncs_pay_requests :: "'k wire_lib \<Rightarrow> 'k \<Rightarrow> bytes \<Rightarrow> bool" where
  "login_resp_syncs_pay_requests wl k aux = (case play (json_env wl) aux
     [Transport Connected, recv wl (login_json [(''pay_requests'', WArr [pay_json ''p1'' 100000 WNull 60000])]),
      Transport Disconnected, Transport Connected, recv wl (login_json [])] (test_core k) of
     [_, (_, e2), _, _, (_, e5)] \<Rightarrow>
       list_ex (\<lambda>e. case e of AddPayRequest r \<Rightarrow> pr_request_id r = ''p1'' | _ \<Rightarrow> False) e2
       \<and> list_ex (\<lambda>e. case e of RemovePayRequest rid \<Rightarrow> rid = ''p1'' | _ \<Rightarrow> False) e5
   | _ \<Rightarrow> False)"

definition minimize_fires_only_for_mobile_links ::
  "'k session_env \<Rightarrow> (string \<Rightarrow> url option) \<Rightarrow> 'k \<Rightarrow> bytes \<Rightarrow> bool" where
  "minimize_fires_only_for_mobile_links env url_parse k aux = (case play env aux
     (link_input url_parse ''liquidconnect://login/?request_id=m1&mobile=true'' @ [LoginAccepted ''m1'' None]
      @ link_input url_parse ''liquidconnect://login/?request_id=q1'' @ [LoginAccepted ''q1'' None]) (test_core k) of
     [_, (_, e2), _, (_, e4)] \<Rightarrow> MinimizeMobileApp \<in> set e2 \<and> MinimizeMobileApp \<notin> set e4
   | _ \<Rightarrow> False)"

definition refusal_text :: string where
  "refusal_text = ''protocol error: unknown or expired login request '' @ [CHR 0xE2, CHR 0x80, CHR 0x94]
     @ '' ask the site for a fresh link''"

definition refused_action_surfaces_with_its_action ::
  "'k wire_lib \<Rightarrow> (string \<Rightarrow> url option) \<Rightarrow> 'k \<Rightarrow> bytes \<Rightarrow> bool" where
  "refused_action_surfaces_with_its_action wl url_parse k aux = (case play (json_env wl) aux
     ([Transport Connected] @ link_input url_parse ''liquidconnect://login/?request_id=nope''
      @ [recv wl (WObj [(''Error'', WObj [(''id'', WInt 1), (''err'',
           WObj [(''code'', WStr ''InvalidRequest''), (''message'', WStr refusal_text)])])])]) (test_core k) of
     [_, _, (_, e3)] \<Rightarrow>
       (case find (\<lambda>e. case e of ActionFailed a m \<Rightarrow> True | _ \<Rightarrow> False) e3 of
          Some (ActionFailed action message) \<Rightarrow>
            action = LinkLoginRequest ''nope'' \<and> contains_str ''unknown or expired login request'' message
        | _ \<Rightarrow> False)
   | _ \<Rightarrow> False)"

section \<open>They pass\<close>

definition json_law :: "'k wire_lib \<Rightarrow> bool" where
  "json_law wl \<longleftrightarrow> (\<forall>j. json_parse wl (json_print wl j) = Some j)"

lemma received:
  assumes "json_law wl" and "de_from j = Some m"
  shows "handle (json_env wl) aux (recv wl j) c = handle_server_message (json_env wl) aux m c"
  using assms by (simp add: json_law_def recv_def handle_def handle_transport_def json_env_def)

lemma sent_frames_simps [simp]:
  "sent_frames [] = []" "sent_frames (es @ es') = sent_frames es @ sent_frames es'"
  "sent_frames (e # es) = (case e of Send data \<Rightarrow> data # sent_frames es | _ \<Rightarrow> sent_frames es)"
  by (auto simp: sent_frames_def split: effect.split)

lemma frame_contains_print: "json_law wl \<Longrightarrow> frame_contains wl (json_print wl j) s = mentions s j"
  by (simp add: frame_contains_def json_law_def)

lemma frame_text: "to_string_json (json_env wl) m = json_print wl (en_to wl m)"
  by (simp add: json_env_def)

lemma contains_self [simp]: "contains_str s s"
  by (cases s) (simp_all add: starts_with_def)

lemma env_crypto_json: "env_crypto (json_env wl) = wl_crypto wl"
  by (simp add: json_env_def)

lemmas core_test_defs = test_core_def new_core_def handle_server_message_def handle_response_def handle_notification_def
  handle_def handle_transport_def handle_login_accepted_def answer_def add_user_action_def finish_request_def
  service_wanted_def send_def frame_text frame_contains_print wrap_i32_def bt_get_def bt_remove_def tagged_def
  en_login_req_def en_opt_def en1_def en2_def

lemma challenge_read: "de_from (resp_json (WObj [(''Challenge'', WObj [(''challenge'', WStr ''n1'')])])) = Some (FromResp 0 (RespChallenge ''n1''))"
  by code_simp

lemma empty_login_read: "de_from (login_json []) = Some (FromResp 0 (RespLogin
    \<lparr>sessions = [], resp_sign_requests = [], resp_sign_message_requests = [], resp_pay_requests = [],
     resp_receive_address_requests = [], resp_asset_balance_requests = [], resp_fund_requests = [], resp_holdings = []\<rparr>))"
  by code_simp

lemmas answer_test_defs = handle_arms if_live_def contains_key_def get_sign_message_request_def get_pay_request_def
  get_fund_request_def ok_or_def and_then_def

lemmas login_test_defs = handle_login_resp_def replay_actions_def sync_defs sync_store_def send_fcm_token_def
  contains_key_def Let_def

lemma connect_drives_challenge_then_login_passes:
  assumes "json_law wl"
  shows "connect_drives_challenge_then_login wl k aux"
  unfolding connect_drives_challenge_then_login_def play.simps received [OF assms challenge_read]
  using assms by (simp add: core_test_defs starts_with_def)

lemma offline_approvals_replay_after_login_passes:
  assumes "json_law wl"
  shows "offline_approvals_replay_after_login wl k aux"
  unfolding offline_approvals_replay_after_login_def play.simps received [OF assms empty_login_read]
  using assms by (simp add: core_test_defs login_test_defs starts_with_def)

text \<open>What the URL library makes of a login link with a custom scheme.\<close>

definition login_url :: "(string \<times> string) list \<Rightarrow> url" where
  "login_url pairs = \<lparr>u_scheme = ''liquidconnect'', u_host = Some (Domain ''login''), u_host_str = Some ''login'',
     u_port = None, u_path = ''/'', u_query_pairs = pairs\<rparr>"

lemma login_link_read:
  assumes "url_parse u = Some (login_url [(''request_id'', rid)])"
  shows "link_input url_parse u = [AppLinkInput \<lparr>link_type = LinkLogin, al_request_id = rid, is_mobile = False, al_network = None\<rparr>]"
proof -
  have "parse_app_link (\<lambda>_. Some (login_url [(''request_id'', rid)])) u
      = Inr \<lparr>link_type = LinkLogin, al_request_id = rid, is_mobile = False, al_network = None\<rparr>"
    by code_simp
  with assms show ?thesis by (simp add: link_input_def parse_app_link_def)
qed

lemma descriptor_travels_only_on_accept_passes:
  assumes "json_law wl" and "url_parse ''liquidconnect://login/?request_id=r9'' = Some (login_url [(''request_id'', ''r9'')])"
  shows "descriptor_travels_only_on_accept wl url_parse k aux"
  using assms(1)
  by (simp add: descriptor_travels_only_on_accept_def login_link_read [of url_parse, OF assms(2)] core_test_defs handle_app_link_def starts_with_def)

lemma message_read:
  "de_from (message_json rid digest (WStr d)) = Some (FromNotif (NSignMessageRequestCreated
     \<lparr>smr_request_id = rid, smr_domain = ''swaption.io'', smr_digest = digest, smr_description = Some d, smr_ttl = 60000\<rparr>))"
  "de_from (message_json rid digest WNull) = Some (FromNotif (NSignMessageRequestCreated
     \<lparr>smr_request_id = rid, smr_domain = ''swaption.io'', smr_digest = digest, smr_description = None, smr_ttl = 60000\<rparr>))"
  by code_simp+

lemma accepted_frame_verifies:
  assumes "json_law wl" and "signature_from_str (wl_crypto wl) sig = Some sg"
    and "verify_schnorr (wl_crypto wl) sg (replicate 32 0x11) (public_key (wl_crypto wl) k)"
  shows "accepted_signature_verifies wl k (json_print wl (en_to wl (ToReq 1 (ReqUserAction (AcceptSignMessageRequest ''s1'' sig)))))"
  using to_roundtrip [of 1 wl "ReqUserAction (AcceptSignMessageRequest ''s1'' sig)"] assms
  by (simp add: accepted_signature_verifies_def json_law_def in_i32_def del: en_to.simps)

lemma sign_message_approval_passes:
  assumes "json_law wl"
    and "hex_decode_to_slice (wl_crypto wl) ones_hex 32 = Some (replicate 32 0x11)"
    and "\<And>sg. signature_from_str (wl_crypto wl) (signature_to_string (wl_crypto wl) sg) = Some sg"
    and "\<And>m. verify_schnorr (wl_crypto wl) (sign_schnorr (wl_crypto wl) m k aux) m (x_only_public_key (wl_crypto wl) k)"
  shows "sign_message_approval_signs_the_stored_digest wl k aux"
  unfolding sign_message_approval_signs_the_stored_digest_def play.simps
    received [OF assms(1) message_read(1)] received [OF assms(1) message_read(2)]
  using assms
  by (simp add: core_test_defs answer_test_defs handle_sign_message_accepted_def sign_message_digest_def sign_digest_def
      accepted_frame_verifies [simplified tagged_def en_to.simps en_req.simps en_user_action.simps en2_def]
      public_key_def starts_with_def env_crypto_json)

lemma pending_message_read:
  "de_from (login_json [(''sign_message_requests'', WArr [WObj
        [(''request_id'', WStr ''p1''), (''domain'', WStr ''swaption.io''),
         (''digest'', WStr (concat (replicate 32 ''22''))), (''description'', WStr ''pending order''), (''ttl'', WInt 60000)]])])
   = Some (FromResp 0 (RespLogin
      \<lparr>sessions = [], resp_sign_requests = [], resp_sign_message_requests =
         [\<lparr>smr_request_id = ''p1'', smr_domain = ''swaption.io'', smr_digest = concat (replicate 32 ''22''),
           smr_description = Some ''pending order'', smr_ttl = 60000\<rparr>],
       resp_pay_requests = [], resp_receive_address_requests = [], resp_asset_balance_requests = [],
       resp_fund_requests = [], resp_holdings = []\<rparr>))"
  by code_simp

lemma login_resp_syncs_sign_message_requests_passes:
  assumes "json_law wl"
  shows "login_resp_syncs_sign_message_requests wl k aux"
  unfolding login_resp_syncs_sign_message_requests_def play.simps received [OF assms pending_message_read]
    received [OF assms empty_login_read]
  using assms by (simp add: core_test_defs login_test_defs)

lemma holdings_read:
  "de_from (login_json [(''holdings'', WArr [margin_report])]) = Some (FromResp 0 (RespLogin
      \<lparr>sessions = [], resp_sign_requests = [], resp_sign_message_requests = [],
       resp_pay_requests = [], resp_receive_address_requests = [], resp_asset_balance_requests = [],
       resp_fund_requests = [], resp_holdings = [\<lparr>hr_domain = ''paper.swaption.io'', hr_holdings =
         [\<lparr>h_label = ''Margin balance'', h_kind = ''balance'', h_asset_id = None, h_unit = ''USDt'',
           h_amount = 999417000000, h_precision = 8\<rparr>], hr_as_of = 1788619197000\<rparr>]\<rparr>))"
  "de_from (notif_json ''HoldingsUpdated'' ''report'' margin_report) = Some (FromNotif (NHoldingsUpdated
      \<lparr>hr_domain = ''paper.swaption.io'', hr_holdings =
         [\<lparr>h_label = ''Margin balance'', h_kind = ''balance'', h_asset_id = None, h_unit = ''USDt'',
           h_amount = 999417000000, h_precision = 8\<rparr>], hr_as_of = 1788619197000\<rparr>))"
  "de_from (notif_json ''HoldingsUpdated'' ''report''
        (report_json 1788619200000 [holding_json ''Position'' ''position'' ''BTC'' (- 5)])) = Some (FromNotif (NHoldingsUpdated
      \<lparr>hr_domain = ''paper.swaption.io'', hr_holdings =
         [\<lparr>h_label = ''Position'', h_kind = ''position'', h_asset_id = None, h_unit = ''BTC'',
           h_amount = - 5, h_precision = 8\<rparr>], hr_as_of = 1788619200000\<rparr>))"
  "de_from (notif_json ''HoldingsUpdated'' ''report'' (report_json 1788619300000 [])) = Some (FromNotif (NHoldingsUpdated
      \<lparr>hr_domain = ''paper.swaption.io'', hr_holdings = [], hr_as_of = 1788619300000\<rparr>))"
  by code_simp+

lemma holdings_follow_login_and_notifications_passes:
  assumes "json_law wl"
  shows "holdings_follow_login_and_notifications wl k aux"
  unfolding holdings_follow_login_and_notifications_def play.simps received [OF assms holdings_read(1)]
    received [OF assms holdings_read(2)] received [OF assms holdings_read(3)] received [OF assms holdings_read(4)]
    received [OF assms empty_login_read]
  using assms by (simp add: core_test_defs login_test_defs sets_holdings_def clears_holdings_def)

lemma pay_read:
  "de_from (notif_json ''PayRequestCreated'' ''request'' (pay_json ''p1'' 100000 (WStr ''RF deposit'') 120000)) = Some (FromNotif (NPayRequestCreated
      \<lparr>pr_request_id = ''p1'', pr_domain = ''swaption.io'', pr_recipient = ''tlq1qqw508d6qejxtdg4y5r3zarvary0c5xw7kct5v9fs'',
       pr_asset_id = concat (replicate 32 ''22''), pr_amount = 100000, pr_memo = Some ''RF deposit'', pr_ttl = 120000\<rparr>))"
  "de_from (notif_json ''PayRequestCreated'' ''request'' (pay_json ''p2'' 1 WNull 120000)) = Some (FromNotif (NPayRequestCreated
      \<lparr>pr_request_id = ''p2'', pr_domain = ''swaption.io'', pr_recipient = ''tlq1qqw508d6qejxtdg4y5r3zarvary0c5xw7kct5v9fs'',
       pr_asset_id = concat (replicate 32 ''22''), pr_amount = 1, pr_memo = None, pr_ttl = 120000\<rparr>))"
  "de_from (login_json [(''pay_requests'', WArr [pay_json ''p1'' 100000 WNull 60000])]) = Some (FromResp 0 (RespLogin
      \<lparr>sessions = [], resp_sign_requests = [], resp_sign_message_requests = [], resp_pay_requests =
        [\<lparr>pr_request_id = ''p1'', pr_domain = ''swaption.io'', pr_recipient = ''tlq1qqw508d6qejxtdg4y5r3zarvary0c5xw7kct5v9fs'',
          pr_asset_id = concat (replicate 32 ''22''), pr_amount = 100000, pr_memo = None, pr_ttl = 60000\<rparr>],
       resp_receive_address_requests = [], resp_asset_balance_requests = [], resp_fund_requests = [], resp_holdings = []\<rparr>))"
  by code_simp+

lemma pay_approval_relays_the_host_built_txid_passes:
  assumes "json_law wl"
  shows "pay_approval_relays_the_host_built_txid wl k aux"
  unfolding pay_approval_relays_the_host_built_txid_def play.simps received [OF assms pay_read(1)] received [OF assms pay_read(2)]
  using assms by (simp add: core_test_defs answer_test_defs starts_with_def)

lemma login_resp_syncs_pay_requests_passes:
  assumes "json_law wl"
  shows "login_resp_syncs_pay_requests wl k aux"
  unfolding login_resp_syncs_pay_requests_def play.simps received [OF assms pay_read(3)] received [OF assms empty_login_read]
  using assms by (simp add: core_test_defs login_test_defs)

lemma fund_read:
  "de_from (notif_json ''FundRequestCreated'' ''request''
      (fund_json ''f1'' 2499000000 (WStr ''Deposit 24.99 USDT into Rolling Future''))) = Some (FromNotif (NFundRequestCreated
      \<lparr>fr_request_id = ''f1'', fr_domain = ''paper.swaption.io'', fr_template = ''cHNldP8BAgQCAAAA'',
       fr_asset_id = concat (replicate 32 ''22''), fr_amount = 2499000000,
       fr_memo = Some ''Deposit 24.99 USDT into Rolling Future'', fr_ttl = 180000\<rparr>))"
  "de_from (notif_json ''FundRequestCreated'' ''request'' (fund_json ''f2'' 1 WNull)) = Some (FromNotif (NFundRequestCreated
      \<lparr>fr_request_id = ''f2'', fr_domain = ''paper.swaption.io'', fr_template = ''cHNldP8BAgQCAAAA'',
       fr_asset_id = concat (replicate 32 ''22''), fr_amount = 1, fr_memo = None, fr_ttl = 180000\<rparr>))"
  by code_simp+

lemma fund_approval_relays_the_host_funded_pset_passes:
  assumes "json_law wl"
  shows "fund_approval_relays_the_host_funded_pset wl k aux"
  unfolding fund_approval_relays_the_host_funded_pset_def play.simps received [OF assms fund_read(1)] received [OF assms fund_read(2)]
  using assms by (simp add: core_test_defs answer_test_defs starts_with_def)

lemma mobile_link_read:
  assumes "url_parse u = Some (login_url [(''request_id'', rid), (''mobile'', ''true'')])"
  shows "link_input url_parse u = [AppLinkInput \<lparr>link_type = LinkLogin, al_request_id = rid, is_mobile = True, al_network = None\<rparr>]"
proof -
  have "parse_app_link (\<lambda>_. Some (login_url [(''request_id'', rid), (''mobile'', ''true'')])) u
      = Inr \<lparr>link_type = LinkLogin, al_request_id = rid, is_mobile = True, al_network = None\<rparr>"
    by code_simp
  with assms show ?thesis by (simp add: link_input_def parse_app_link_def)
qed

lemma minimize_fires_only_for_mobile_links_passes:
  assumes "url_parse ''liquidconnect://login/?request_id=m1&mobile=true'' = Some (login_url [(''request_id'', ''m1''), (''mobile'', ''true'')])"
    and "url_parse ''liquidconnect://login/?request_id=q1'' = Some (login_url [(''request_id'', ''q1'')])"
  shows "minimize_fires_only_for_mobile_links env url_parse k aux"
  by (simp add: minimize_fires_only_for_mobile_links_def mobile_link_read [of url_parse, OF assms(1)]
      login_link_read [of url_parse, OF assms(2)] core_test_defs handle_app_link_def)

lemma refusal_read:
  "de_from (WObj [(''Error'', WObj [(''id'', WInt 1), (''err'',
      WObj [(''code'', WStr ''InvalidRequest''), (''message'', WStr m)])])])
   = Some (FromError 1 \<lparr>err_code = InvalidRequest, err_message = m\<rparr>)"
  by code_simp

lemma refusal_names_cause: "contains_str ''unknown or expired login request'' refusal_text"
  by code_simp

lemma refused_action_surfaces_with_its_action_passes:
  assumes "json_law wl"
    and "url_parse ''liquidconnect://login/?request_id=nope'' = Some (login_url [(''request_id'', ''nope'')])"
  shows "refused_action_surfaces_with_its_action wl url_parse k aux"
  unfolding refused_action_surfaces_with_its_action_def login_link_read [of url_parse, OF assms(2)] append.simps play.simps
    received [OF assms(1) refusal_read]
  by (simp add: core_test_defs handle_app_link_def refusal_names_cause)

end
