(* ===== verification/Wire_Tests.thy ===== *)
theory Wire_Tests
  imports Core_Tests
begin

text \<open>
  The unit tests of \<open>wire.rs\<close>, which pin the frames both ends of the wire agree on: a frame the wallet
  writes is compared as the JSON value its text stands for, fields in order, and a frame of the server is
  read from its value.
\<close>

section \<open>The tests\<close>

definition action_json :: "int \<Rightarrow> string \<Rightarrow> (string \<times> wjson) list \<Rightarrow> wjson" where
  "action_json i kind fs = WObj [(''Req'', WObj [(''id'', WInt i), (''req'',
     WObj [(''UserAction'', WObj [(''action'', WObj [(kind, WObj fs)])])])])]"

definition sent_shapes :: "'k wire_lib \<Rightarrow> bool" where
  "sent_shapes wl \<longleftrightarrow>
     en_to wl (ToReq 0 ReqChallenge) = WObj [(''Req'', WObj [(''id'', WInt 0), (''req'', WObj [(''Challenge'', WObj [])])])]
     \<and> en_to wl (ToReq 3 (ReqUserAction (LinkLoginRequest ''r1'')))
       = action_json 3 ''LinkLoginRequest'' [(''request_id'', WStr ''r1'')]"

definition tether :: string where
  "tether = ''b612eb46313a2cd6ebabd8b7a8eed5696e29898b87a43bff41c94f51acef9d73''"

definition receive_address_shapes :: "'k wire_lib \<Rightarrow> bool" where
  "receive_address_shapes wl \<longleftrightarrow>
     en_to wl (ToReq 7 (ReqUserAction (AcceptReceiveAddressRequest ''ra1'' ''tlq1qexample'')))
       = action_json 7 ''AcceptReceiveAddressRequest'' [(''request_id'', WStr ''ra1''), (''address'', WStr ''tlq1qexample'')]
     \<and> (case de_from (notif_json ''ReceiveAddressRequestCreated'' ''request'' (WObj
           [(''request_id'', WStr ''ra1''), (''domain'', WStr ''paper.swaption.io''),
            (''description'', WStr ''Rolling Future withdrawal''), (''ttl'', WInt 60000)])) of
          Some (FromNotif (NReceiveAddressRequestCreated r)) \<Rightarrow>
            rar_request_id r = ''ra1'' \<and> rar_domain r = ''paper.swaption.io'' \<and> rar_ttl r = 60000
        | _ \<Rightarrow> False)"

definition asset_balance_shapes :: "'k wire_lib \<Rightarrow> bool" where
  "asset_balance_shapes wl \<longleftrightarrow>
     en_to wl (ToReq 8 (ReqUserAction (AcceptAssetBalanceRequest ''ab1'' 1234567890)))
       = action_json 8 ''AcceptAssetBalanceRequest'' [(''request_id'', WStr ''ab1''), (''amount'', WInt 1234567890)]
     \<and> (case de_from (notif_json ''AssetBalanceRequestCreated'' ''request'' (WObj
           [(''request_id'', WStr ''ab1''), (''domain'', WStr ''paper.swaption.io''),
            (''description'', WStr ''USDT you could deposit''), (''asset_id'', WStr tether), (''ttl'', WInt 15000)])) of
          Some (FromNotif (NAssetBalanceRequestCreated r)) \<Rightarrow>
            abr_request_id r = ''ab1'' \<and> length (abr_asset_id r) = 64 \<and> abr_ttl r = 15000
        | _ \<Rightarrow> False)"

definition old_login_parses :: bool where
  "old_login_parses = (case de_resp (WObj [(''Login'', WObj [(''sessions'', WArr []), (''sign_requests'', WArr []),
       (''sign_message_requests'', WArr []), (''pay_requests'', WArr []), (''fund_requests'', WArr [])])]) of
     Some (RespLogin l) \<Rightarrow>
       resp_receive_address_requests l = [] \<and> resp_asset_balance_requests l = [] \<and> resp_holdings l = []
   | _ \<Rightarrow> False)"

definition holdings_shapes :: bool where
  "holdings_shapes \<longleftrightarrow>
     (case de_from (notif_json ''HoldingsUpdated'' ''report'' (report_json 1788619197000
          [WObj [(''label'', WStr ''Margin balance''), (''kind'', WStr ''balance''), (''asset_id'', WStr tether),
             (''unit'', WStr ''USDt''), (''amount'', WInt 999417000000), (''precision'', WInt 8)],
           holding_json ''Position'' ''position'' ''BTC'' (- 115997507)])) of
        Some (FromNotif (NHoldingsUpdated r)) \<Rightarrow>
          hr_domain r = ''paper.swaption.io'' \<and> length (hr_holdings r) = 2
          \<and> sint (h_amount (hr_holdings r ! 1)) = - 115997507 \<and> h_asset_id (hr_holdings r ! 1) = None
      | _ \<Rightarrow> False)
     \<and> (case de_from (notif_json ''HoldingsRemoved'' ''domain'' (WStr ''paper.swaption.io'')) of
          Some (FromNotif (NHoldingsRemoved d)) \<Rightarrow> d = ''paper.swaption.io''
        | _ \<Rightarrow> False)"

definition sign_request_shape :: bool where
  "sign_request_shape = (case de_from (notif_json ''SignRequestCreated'' ''request'' (WObj
       [(''request_id'', WStr ''s1''), (''domain'', WStr ''example.com''), (''pset'', WStr ''cHNldP8=''), (''ttl'', WInt 60000)])) of
     Some (FromNotif (NSignRequestCreated r)) \<Rightarrow> sr_request_id r = ''s1'' \<and> sr_ttl r = 60000
   | _ \<Rightarrow> False)"

definition frame_shapes_are_exactly_the_wire_format :: "'k wire_lib \<Rightarrow> bool" where
  "frame_shapes_are_exactly_the_wire_format wl \<longleftrightarrow> sent_shapes wl \<and> receive_address_shapes wl
     \<and> asset_balance_shapes wl \<and> old_login_parses \<and> holdings_shapes \<and> sign_request_shape"

definition sign_message_wire_shapes :: "'k wire_lib \<Rightarrow> bool" where
  "sign_message_wire_shapes wl \<longleftrightarrow>
     (let sig = concat (replicate 64 ''ab'') in
      en_to wl (ToReq 5 (ReqUserAction (AcceptSignMessageRequest ''r1'' sig)))
        = action_json 5 ''AcceptSignMessageRequest'' [(''request_id'', WStr ''r1''), (''signature'', WStr sig)])
     \<and> (case de_from (message_json ''s1'' ones_hex (WStr ''Sell 0.001 BTC'')) of
          Some (FromNotif (NSignMessageRequestCreated r)) \<Rightarrow>
            smr_request_id r = ''s1'' \<and> smr_description r = Some ''Sell 0.001 BTC'' \<and> smr_ttl r = 60000
        | _ \<Rightarrow> False)"

definition oldest_login :: wjson where
  "oldest_login = WObj [(''sessions'', WArr []), (''sign_requests'', WArr [])]"

definition login_resp_back_compat :: bool where
  "login_resp_back_compat = (case de_login_resp oldest_login of
     Some r \<Rightarrow> resp_sign_message_requests r = [] \<and> resp_pay_requests r = [] | None \<Rightarrow> False)"

definition pay_request_wire_shapes :: "'k wire_lib \<Rightarrow> bool" where
  "pay_request_wire_shapes wl \<longleftrightarrow>
     en_to wl (ToReq 7 (ReqUserAction (AcceptPayRequest ''p1'' built_txid)))
       = action_json 7 ''AcceptPayRequest'' [(''request_id'', WStr ''p1''), (''txid'', WStr built_txid)]
     \<and> (case de_from (notif_json ''PayRequestCreated'' ''request'' (pay_json ''p1'' 100000 (WStr ''RF deposit'') 120000)) of
          Some (FromNotif (NPayRequestCreated r)) \<Rightarrow>
            pr_request_id r = ''p1'' \<and> pr_amount r = 100000 \<and> pr_memo r = Some ''RF deposit'' \<and> pr_ttl r = 120000
        | _ \<Rightarrow> False)"

definition fund_request_wire_shapes :: "'k wire_lib \<Rightarrow> bool" where
  "fund_request_wire_shapes wl \<longleftrightarrow>
     en_to wl (ToReq 9 (ReqUserAction (AcceptFundRequest ''f1'' ''cHNldP8BAgQCAAAA'')))
       = action_json 9 ''AcceptFundRequest'' [(''request_id'', WStr ''f1''), (''pset'', WStr ''cHNldP8BAgQCAAAA'')]
     \<and> (case de_from (notif_json ''FundRequestCreated'' ''request''
            (fund_json ''f1'' 2499000000 (WStr ''Deposit 24.99 USDT into Rolling Future''))) of
          Some (FromNotif (NFundRequestCreated r)) \<Rightarrow>
            fr_request_id r = ''f1'' \<and> fr_template r = ''cHNldP8BAgQCAAAA'' \<and> fr_amount r = 2499000000 \<and> fr_ttl r = 180000
        | _ \<Rightarrow> False)
     \<and> (case de_login_resp oldest_login of Some r \<Rightarrow> resp_fund_requests r = [] | None \<Rightarrow> False)"

definition unknown_error_code_still_parses :: bool where
  "unknown_error_code_still_parses = (case de_from (WObj [(''Error'', WObj [(''id'', WInt 7), (''err'',
       WObj [(''code'', WStr ''SomethingNew''), (''message'', WStr ''m'')])])]) of
     Some (FromError i err) \<Rightarrow> i = 7 \<and> err_code err = UnknownCode
   | _ \<Rightarrow> False)"

section \<open>They pass\<close>

lemmas sent_shape_defs = tagged_def en1_def en2_def action_json_def

lemma frame_shapes_pass: "frame_shapes_are_exactly_the_wire_format wl"
proof -
  have "old_login_parses" "holdings_shapes" "sign_request_shape" by code_simp+
  moreover have "sent_shapes wl" by (simp add: sent_shapes_def sent_shape_defs)
  moreover have "receive_address_shapes wl"
    by (simp add: receive_address_shapes_def sent_shape_defs) code_simp
  moreover have "asset_balance_shapes wl"
    by (simp add: asset_balance_shapes_def sent_shape_defs en_u64_def) code_simp
  ultimately show ?thesis by (simp add: frame_shapes_are_exactly_the_wire_format_def)
qed

lemma message_shapes_pass: "sign_message_wire_shapes wl"
  by (simp add: sign_message_wire_shapes_def sent_shape_defs message_read)

lemma pay_shapes_pass: "pay_request_wire_shapes wl"
  by (simp add: pay_request_wire_shapes_def sent_shape_defs pay_read)

lemma fund_shapes_pass: "fund_request_wire_shapes wl"
proof -
  have "case de_login_resp oldest_login of Some r \<Rightarrow> resp_fund_requests r = [] | None \<Rightarrow> False" by code_simp
  then show ?thesis by (simp add: fund_request_wire_shapes_def sent_shape_defs fund_read)
qed

lemma closed_wire_tests_pass: "login_resp_back_compat" "unknown_error_code_still_parses"
  by code_simp+

end
