(* ===== verification/Approval_Tests.thy ===== *)
theory Approval_Tests
  imports Approval_Props
begin

text \<open>
  The unit tests of \<open>approval.rs\<close>, replayed on the model.  The Elements library is the instance
  \<open>test_elements tx\<close>: every text decodes to the transaction the test has built, and a commitment is stood
  in for by what it commits to, so that a proof verifies exactly for the asset and the amount it was made
  for.
\<close>

section \<open>The harness\<close>

definition TESTNET_LBTC :: string where
  "TESTNET_LBTC = ''144c654344aa716d6f3abcc1ca90e5641e4e2a7f633bc09fe3baf64585819a49''"
definition POOL_ASSET :: string where "POOL_ASSET = concat (replicate 32 ''22'')"
definition NFT_ASSET :: string where "NFT_ASSET = concat (replicate 32 ''33'')"

text \<open>The ids these texts stand for; an id is printed with its bytes reversed.\<close>

definition lbtc_id :: asset_id where
  "lbtc_id =
     [0x49, 0x9a, 0x81, 0x85, 0x45, 0xf6, 0xba, 0xe3, 0x9f, 0xc0, 0x3b, 0x63, 0x7f, 0x2a, 0x4e, 0x1e,
      0x64, 0xe5, 0x90, 0xca, 0xc1, 0xbc, 0x3a, 0x6f, 0x6d, 0x71, 0xaa, 0x44, 0x43, 0x65, 0x4c, 0x14]"
definition pool_id :: asset_id where "pool_id = replicate 32 0x22"
definition nft_id :: asset_id where "nft_id = replicate 32 0x33"

text \<open>A script as text, one character for each byte.\<close>

definition script_as_text :: "script \<Rightarrow> string" where
  "script_as_text s = map (\<lambda>b. char_of (unat b)) s"

definition test_elements :: "pset \<Rightarrow> elements" where
  "test_elements tx =
     \<lparr>base64_decode = \<lambda>s. Some [], deserialize_pset = \<lambda>_. Some tx,
      asset_from_str = \<lambda>s. if s = TESTNET_LBTC then Some lbtc_id else if s = POOL_ASSET then Some pool_id
        else if s = NFT_ASSET then Some nft_id else None,
      asset_to_string = \<lambda>a. if a = lbtc_id then TESTNET_LBTC else if a = pool_id then POOL_ASSET else NFT_ASSET,
      blind_asset_proof_verify = \<lambda>ap a gen. ap = a \<and> gen = a,
      blind_value_proof_verify = \<lambda>vp v gen comm. vp = u64_be v \<and> comm = u64_be v,
      generate_asset_entropy = \<lambda>(txid, vout) contract. 0xE0 # contract, asset_from_entropy = \<lambda>e. 0xA0 # e,
      address_from_script = \<lambda>s n. if length s = 22 then Some (script_as_text s) else None,
      address_script_pubkey = \<lambda>s. Some (as_bytes s),
      script_to_hex = script_as_text\<rparr>"

definition explicit_txout :: "asset_id \<Rightarrow> u64 \<Rightarrow> script \<Rightarrow> tx_out" where
  "explicit_txout a v spk = \<lparr>txo_asset = AssetExplicit a, txo_value = ValueExplicit v, txo_script_pubkey = spk\<rparr>"

text \<open>\<open>pset::Output::from_txout\<close> and \<open>Input::from_prevout\<close>.\<close>

definition from_txout :: "tx_out \<Rightarrow> pset_output" where
  "from_txout t =
     \<lparr>out_script_pubkey = txo_script_pubkey t,
      out_asset = (case txo_asset t of AssetExplicit a \<Rightarrow> Some a | _ \<Rightarrow> None),
      out_amount = (case txo_value t of ValueExplicit v \<Rightarrow> Some v | _ \<Rightarrow> None),
      out_asset_comm = (case txo_asset t of AssetConfidential g \<Rightarrow> Some g | _ \<Rightarrow> None),
      out_amount_comm = (case txo_value t of ValueConfidential c \<Rightarrow> Some c | _ \<Rightarrow> None),
      out_blind_asset_proof = None, out_blind_value_proof = None\<rparr>"

definition from_prevout :: "bytes \<Rightarrow> u32 \<Rightarrow> pset_input" where
  "from_prevout txid vout =
     \<lparr>witness_utxo = None, final_script_witness = None, in_asset = None, in_amount = None,
      in_blind_asset_proof = None, in_blind_value_proof = None, issuance_value_amount = None,
      blinded_issuance = None, issuance_inflation_keys = None, issuance_blinding_nonce = None,
      issuance_asset_entropy = None, previous_txid = txid, previous_output_index = vout\<rparr>"

definition explicit_out :: "asset_id \<Rightarrow> u64 \<Rightarrow> script \<Rightarrow> pset_output" where
  "explicit_out a v spk = from_txout (explicit_txout a v spk)"

definition template_input :: "asset_id \<Rightarrow> u64 \<Rightarrow> pset_input" where
  "template_input a v = (from_prevout (replicate 32 0x11) 0)\<lparr>witness_utxo := Some (explicit_txout a v [0x51])\<rparr>"

definition pool_script :: script where "pool_script = [0x51, 0x20] @ replicate 32 3"
definition change_script :: script where "change_script = [0x00, 0x14] @ replicate 20 4"

definition deposit_template :: pset where
  "deposit_template =
     \<lparr>pset_inputs = [template_input pool_id 500, template_input lbtc_id 1000],
      pset_outputs = [explicit_out pool_id 750 pool_script, explicit_out lbtc_id 100 change_script,
                      explicit_out lbtc_id 900 []]\<rparr>"

definition refused_as :: "(fund_error \<Rightarrow> bool) \<Rightarrow> fund_error + 'a \<Rightarrow> bool" where
  "refused_as P r = (case r of Inl e \<Rightarrow> P e | Inr _ \<Rightarrow> False)"

section \<open>Summaries\<close>

definition payment_script :: script where "payment_script = [0x00, 0x14] @ replicate 20 7"

definition explicit_outputs_and_fee_read_back :: bool where
  "explicit_outputs_and_fee_read_back =
     (let tx = \<lparr>pset_inputs = [], pset_outputs = [explicit_out lbtc_id 1000 payment_script, explicit_out lbtc_id 100 []]\<rparr> in
      case summarize_pset (test_elements tx) ''b64'' LiquidTestnet of
        Inr s \<Rightarrow> length (ts_outputs s) = 2 \<and> ts_fully_explicit s \<and> ts_fee s = Some 100
          \<and> (case ts_outputs s of
               [payment, fee] \<Rightarrow> \<not> os_is_fee payment \<and> os_address payment \<noteq> None \<and> os_amount payment = Some 1000
                 \<and> os_asset payment = Some TESTNET_LBTC \<and> os_is_fee fee
             | _ \<Rightarrow> False)
      | Inl _ \<Rightarrow> False)"

definition payjoin_annotation_marks_by_script_and_reports_misses :: bool where
  "payjoin_annotation_marks_by_script_and_reports_misses =
     (let tx = \<lparr>pset_inputs = [], pset_outputs = [explicit_out lbtc_id 1000 payment_script]\<rparr>; el = test_elements tx in
      case summarize_pset el ''b64'' LiquidTestnet of
        Inr s \<Rightarrow>
          (case os_address (hd (ts_outputs s)) of
             Some fee_address \<Rightarrow>
               (case annotate_payjoin el fee_address s of
                  Inr (s', marked) \<Rightarrow> marked = 1 \<and> os_is_payjoin_service_fee (hd (ts_outputs s'))
                    \<and> (case address_from_script el ([0x00, 0x14] @ replicate 20 9) LiquidTestnet of
                         Some other \<Rightarrow> (case annotate_payjoin el other s' of Inr (_, marked) \<Rightarrow> marked = 0 | Inl _ \<Rightarrow> False)
                       | None \<Rightarrow> False)
                | Inl _ \<Rightarrow> False)
           | None \<Rightarrow> False)
      | Inl _ \<Rightarrow> False)"

text \<open>The output keeps its asset and has a commitment for its amount.\<close>

definition confidential_outputs_are_marked_not_guessed :: bool where
  "confidential_outputs_are_marked_not_guessed =
     (let out = (explicit_out lbtc_id 1000 [0x51])\<lparr>out_amount := None, out_amount_comm := Some (u64_be 1000)\<rparr>;
          tx = \<lparr>pset_inputs = [], pset_outputs = [out]\<rparr> in
      case summarize_pset (test_elements tx) ''b64'' LiquidTestnet of
        Inr s \<Rightarrow> \<not> ts_fully_explicit s \<and> os_confidential (hd (ts_outputs s)) \<and> os_amount (hd (ts_outputs s)) = None
      | Inl _ \<Rightarrow> False)"

section \<open>Templates\<close>

definition verified_as :: "(fund_template_summary \<Rightarrow> bool) \<Rightarrow> pset \<Rightarrow> u64 \<Rightarrow> owned_input list \<Rightarrow> bool" where
  "verified_as P tx amount owned =
     (case verify_fund_template_owned (test_elements tx) ''b64'' POOL_ASSET amount owned of Inr s \<Rightarrow> P s | Inl _ \<Rightarrow> False)"

definition refused_template :: "(fund_error \<Rightarrow> bool) \<Rightarrow> pset \<Rightarrow> u64 \<Rightarrow> owned_input list \<Rightarrow> bool" where
  "refused_template P tx amount owned =
     refused_as P (verify_fund_template_owned (test_elements tx) ''b64'' POOL_ASSET amount owned)"

definition fund_template_deficit_is_arithmetic_not_advisory :: bool where
  "fund_template_deficit_is_arithmetic_not_advisory \<longleftrightarrow>
     verified_as (\<lambda>s. fts_deficit s = 250 \<and> fts_fee s = 900 \<and> fts_input_count s = 2 \<and> fts_output_count s = 3)
       deposit_template 250 []
     \<and> refused_template (\<lambda>e. e = AmountMismatch 100 250) deposit_template 100 []
     \<and> refused_template (\<lambda>e. True) deposit_template 0 []"

definition fund_template_refuses_confidential_and_missing_utxos :: bool where
  "fund_template_refuses_confidential_and_missing_utxos \<longleftrightarrow>
     refused_template (\<lambda>e. e = NoWitnessUtxo 0)
       (deposit_template\<lparr>pset_inputs := [(template_input pool_id 500)\<lparr>witness_utxo := None\<rparr>, template_input lbtc_id 1000]\<rparr>) 250 []
     \<and> refused_template (\<lambda>e. e = OutputConfidential 1)
       (deposit_template\<lparr>pset_outputs := [explicit_out pool_id 750 pool_script,
          (explicit_out lbtc_id 100 change_script)\<lparr>out_amount := None, out_amount_comm := Some (u64_be 100)\<rparr>,
          explicit_out lbtc_id 900 []]\<rparr>) 250 []"

definition fund_template_refuses_undeclared_asks :: bool where
  "fund_template_refuses_undeclared_asks \<longleftrightarrow>
     refused_template (\<lambda>e. e = UndeclaredFunding lbtc_id 1400 1000)
       (deposit_template\<lparr>pset_outputs := [explicit_out pool_id 750 pool_script,
          (explicit_out lbtc_id 100 change_script)\<lparr>out_amount := Some 500\<rparr>, explicit_out lbtc_id 900 []]\<rparr>) 250 []
     \<and> refused_template (\<lambda>e. e = FeeOutputCount 0)
       (deposit_template\<lparr>pset_outputs := [explicit_out pool_id 750 pool_script, explicit_out lbtc_id 100 change_script,
          (explicit_out lbtc_id 900 [])\<lparr>out_script_pubkey := [0x51]\<rparr>]\<rparr>) 250 []"

text \<open>A confidential row with its two proofs: the asset's generator and the value's commitment, and what
  binds them.\<close>

definition proven_confidential :: "asset_id \<Rightarrow> u64 \<Rightarrow> tx_out \<times> bytes \<times> bytes" where
  "proven_confidential a v =
     (\<lparr>txo_asset = AssetConfidential a, txo_value = ValueConfidential (u64_be v), txo_script_pubkey = [0x51]\<rparr>,
      u64_be v, a)"

definition proven_input :: "asset_id \<Rightarrow> u64 \<Rightarrow> u64 \<Rightarrow> pset_input" where
  "proven_input a v claimed =
     (let (utxo, value_proof, asset_proof) = proven_confidential a v in
      (from_prevout (replicate 32 0x22) 1)\<lparr>witness_utxo := Some utxo, in_amount := Some claimed, in_asset := Some a,
        in_blind_value_proof := Some value_proof, in_blind_asset_proof := Some asset_proof\<rparr>)"

definition proven_output :: "asset_id \<Rightarrow> u64 \<Rightarrow> pset_output" where
  "proven_output a v =
     (let (utxo, value_proof, asset_proof) = proven_confidential a v in
      (from_txout utxo)\<lparr>out_amount := Some v, out_asset := Some a,
        out_blind_value_proof := Some value_proof, out_blind_asset_proof := Some asset_proof\<rparr>)"

definition fund_template_accepts_confidential_rows_with_verifying_proofs :: bool where
  "fund_template_accepts_confidential_rows_with_verifying_proofs =
     verified_as (\<lambda>s. fts_deficit s = 250 \<and> fts_proven_rows s = 2 \<and> fts_fee s = 900)
       \<lparr>pset_inputs = [proven_input pool_id 500 500, template_input lbtc_id 1000],
        pset_outputs = [proven_output pool_id 750, explicit_out lbtc_id 100 change_script, explicit_out lbtc_id 900 []]\<rparr>
       250 []"

definition fund_template_refuses_wrong_or_missing_proofs :: bool where
  "fund_template_refuses_wrong_or_missing_proofs \<longleftrightarrow>
     refused_template (\<lambda>e. e = InputValueProof 0)
       \<lparr>pset_inputs = [proven_input pool_id 500 600, template_input lbtc_id 1000],
        pset_outputs = [explicit_out pool_id 750 [0x51], explicit_out lbtc_id 900 []]\<rparr> 150 []
     \<and> refused_template (\<lambda>e. e = InputConfidential 0)
       \<lparr>pset_inputs = [(proven_input pool_id 500 500)\<lparr>in_blind_value_proof := None, in_blind_asset_proof := None\<rparr>,
          template_input lbtc_id 1000],
        pset_outputs = [explicit_out pool_id 750 [0x51], explicit_out lbtc_id 900 []]\<rparr> 250 []
     \<and> refused_template (\<lambda>e. e = FeeMustBeExplicit 1)
       \<lparr>pset_inputs = [template_input pool_id 500, template_input lbtc_id 1000],
        pset_outputs = [explicit_out pool_id 750 [0x51], (proven_output lbtc_id 900)\<lparr>out_script_pubkey := []\<rparr>]\<rparr> 250 []"

definition exercise_shape :: "script \<Rightarrow> pset" where
  "exercise_shape token_script =
     \<lparr>pset_inputs = [(proven_input nft_id 1 1)\<lparr>in_blind_value_proof := None, in_blind_asset_proof := None,
          in_amount := None, in_asset := None\<rparr>, template_input lbtc_id 50000],
      pset_outputs = [explicit_out nft_id 1 token_script, explicit_out lbtc_id 25000 [0x52], explicit_out pool_id 1000 [0x53],
          explicit_out lbtc_id 24900 [0x51], explicit_out lbtc_id 100 []]\<rparr>"

definition fund_template_accepts_owned_confidential_inputs :: bool where
  "fund_template_accepts_owned_confidential_inputs =
     (let own = \<lparr>oi_index = 0, oi_asset = nft_id, oi_amount = 1\<rparr>; tx = exercise_shape [0x51] in
      refused_template (\<lambda>e. e = InputConfidential 0) tx 1000 []
      \<and> verified_as (\<lambda>s. fts_deficit s = 1000 \<and> fts_owned_inputs s = 1 \<and> fts_proven_rows s = 0) tx 1000 [own]
      \<and> refused_template (\<lambda>e. e = OwnedDisagrees 1) tx 1000 [own, \<lparr>oi_index = 1, oi_asset = nft_id, oi_amount = 50000\<rparr>]
      \<and> refused_template (\<lambda>e. e = OwnedOutside 9) tx 1000 [\<lparr>oi_index = 9, oi_asset = nft_id, oi_amount = 1\<rparr>]
      \<and> refused_template (\<lambda>e. e = OwnedTwice 0) tx 1000 [own, own]
      \<and> verified_as (\<lambda>s. True) (exercise_shape [0x6a, 0x01, 0x00]) 1000 [own])"

definition issuing_input :: "u8 \<Rightarrow> pset_input" where
  "issuing_input blinded = (template_input lbtc_id 5000)\<lparr>issuance_value_amount := Some 1, issuance_inflation_keys := None,
     issuance_blinding_nonce := Some zero_tweak, issuance_asset_entropy := Some (replicate 32 7),
     blinded_issuance := Some blinded\<rparr>"

definition minting_template :: "u8 \<Rightarrow> u64 \<Rightarrow> pset" where
  "minting_template blinded minted =
     (let nft = 0xA0 # 0xE0 # replicate 32 7 in
      \<lparr>pset_inputs = [issuing_input blinded],
       pset_outputs = [explicit_out pool_id 1000 [0x51], explicit_out nft minted [0x52], explicit_out lbtc_id 4500 [0x53],
         explicit_out lbtc_id 500 []]\<rparr>)"

definition fund_template_credits_explicit_issuances :: bool where
  "fund_template_credits_explicit_issuances \<longleftrightarrow>
     verified_as (\<lambda>s. fts_deficit s = 1000) (minting_template 0 1) 1000 []
     \<and> refused_template (\<lambda>e. e = UndeclaredFunding (0xA0 # 0xE0 # replicate 32 7) 2 1) (minting_template 0 2) 1000 []
     \<and> refused_template (\<lambda>e. e = BlindedIssuance 0) (minting_template 1 1) 1000 []"

section \<open>They pass\<close>

text \<open>The order of the ids, as the sums keep them.\<close>

definition minted_id :: asset_id where "minted_id = 0xA0 # 0xE0 # replicate 32 7"

lemma id_order [simp]: "pool_id < nft_id" "nft_id < lbtc_id" "pool_id < lbtc_id" "lbtc_id < minted_id" "pool_id < minted_id"
  by code_simp+

lemma id_distinct [simp]:
  "pool_id \<noteq> nft_id" "nft_id \<noteq> pool_id" "nft_id \<noteq> lbtc_id" "lbtc_id \<noteq> nft_id" "pool_id \<noteq> lbtc_id" "lbtc_id \<noteq> pool_id"
  "lbtc_id \<noteq> minted_id" "minted_id \<noteq> lbtc_id" "pool_id \<noteq> minted_id" "minted_id \<noteq> pool_id"
  by code_simp+

lemma id_asymmetric [simp]:
  "\<not> nft_id < pool_id" "\<not> lbtc_id < nft_id" "\<not> lbtc_id < pool_id" "\<not> minted_id < lbtc_id" "\<not> minted_id < pool_id"
  by (simp_all add: less_imp_not_less)

lemma wanted_asset: "asset_from_str (test_elements tx) POOL_ASSET = Some pool_id"
  by code_simp

lemma test_decoded: "decode_pset (test_elements tx) t = Inr tx"
  by (simp add: decode_pset_def test_elements_def and_then_def ok_or_def)

lemma test_proofs:
  "blind_asset_proof_verify (test_elements tx) ap a gen \<longleftrightarrow> ap = a \<and> gen = a"
  "blind_value_proof_verify (test_elements tx) vp v gen comm \<longleftrightarrow> vp = u64_be v \<and> comm = u64_be v"
  by (simp_all add: test_elements_def)

lemma test_minted:
  "asset_from_entropy (test_elements tx) (generate_asset_entropy (test_elements tx) op (replicate 32 7)) = minted_id"
  by (simp add: test_elements_def minted_id_def case_prod_unfold)

lemmas template_test_defs = verified_as_def refused_template_def refused_as_def wanted_asset test_decoded test_proofs
  verify_fund_template_owned_def template_verdict_def input_row_def input_issuance_def output_row_def
  add_in_def add_out_def sums_entry_def bt_get_def bt_remove_def checked_add_def checked_sub_def
  template_input_def explicit_out_def from_txout_def explicit_txout_def from_prevout_def

lemma deficit_test_passes: "fund_template_deficit_is_arithmetic_not_advisory"
  by (simp add: fund_template_deficit_is_arithmetic_not_advisory_def deposit_template_def pool_script_def change_script_def
      template_test_defs)

lemma confidential_test_passes: "fund_template_refuses_confidential_and_missing_utxos"
  by (simp add: fund_template_refuses_confidential_and_missing_utxos_def deposit_template_def template_test_defs)

lemma undeclared_test_passes: "fund_template_refuses_undeclared_asks"
  by (simp add: fund_template_refuses_undeclared_asks_def deposit_template_def pool_script_def change_script_def
      template_test_defs)

lemmas proven_test_defs = proven_input_def proven_output_def proven_confidential_def

lemma proven_test_passes: "fund_template_accepts_confidential_rows_with_verifying_proofs"
  by (simp add: fund_template_accepts_confidential_rows_with_verifying_proofs_def change_script_def proven_test_defs
      template_test_defs)

lemma wrong_proof: "u64_be 500 \<noteq> u64_be 600"
  by (simp add: u64_be_inject)

lemma wrong_proofs_test_passes: "fund_template_refuses_wrong_or_missing_proofs"
  by (simp add: fund_template_refuses_wrong_or_missing_proofs_def proven_test_defs wrong_proof template_test_defs)

lemma owned_test_passes: "fund_template_accepts_owned_confidential_inputs"
  by (simp add: fund_template_accepts_owned_confidential_inputs_def exercise_shape_def proven_test_defs template_test_defs)

lemma two_over_one: "\<not> (2 :: u64) \<le> 1"
  by code_simp

lemma issuance_test_passes: "fund_template_credits_explicit_issuances"
  by (simp add: fund_template_credits_explicit_issuances_def minting_template_def issuing_input_def
      minted_id_def [symmetric] test_minted two_over_one template_test_defs)

lemma byte_of_char: "of_char (char_of (unat (b :: u8))) = b"
proof -
  have "(of_char (char_of (unat b)) :: u8) = of_nat (of_char (char_of (unat b)))" by (rule of_nat_of_char [symmetric])
  also have "\<dots> = of_nat (unat b mod 256)" by (simp only: of_char_of)
  also have "\<dots> = b" using unsigned_less [where 'a = nat, of b] by simp
  finally show ?thesis .
qed

lemma script_text: "as_bytes (script_as_text s) = s"
  by (induction s) (simp_all add: as_bytes_def script_as_text_def byte_of_char)

lemma script_text_inject: "script_as_text s = script_as_text t \<longleftrightarrow> s = t"
  by (metis script_text)

lemma test_scripts:
  "address_from_script (test_elements tx) s n = (if length s = 22 then Some (script_as_text s) else None)"
  "address_script_pubkey (test_elements tx) a = Some (as_bytes a)"
  "script_to_hex (test_elements tx) s = script_as_text s"
  "asset_to_string (test_elements tx) lbtc_id = TESTNET_LBTC"
  by (simp_all add: test_elements_def)

lemmas summary_test_defs = summarize_pset_def summarize_output_def test_decoded test_scripts payment_script_def
  explicit_out_def from_txout_def explicit_txout_def

lemma read_back_test_passes: "explicit_outputs_and_fee_read_back"
  by (simp add: explicit_outputs_and_fee_read_back_def summary_test_defs)

lemma unreadable_test_passes: "confidential_outputs_are_marked_not_guessed"
  by (simp add: confidential_outputs_are_marked_not_guessed_def summary_test_defs)

lemma payjoin_test_passes: "payjoin_annotation_marks_by_script_and_reports_misses"
  by (simp add: payjoin_annotation_marks_by_script_and_reports_misses_def annotate_payjoin_def script_text
      script_text_inject summary_test_defs)

end
