(* ===== verification/Spec2Isabelle.thy ===== *)
theory Spec2Isabelle
  imports
    Session_Claims Approval_Claims Lending_Claims Venue_Claims Link_Claims Short_Id Transport_Claims
    Identity_Claims Payjoin Ffi_Claims Wire_Claims Host_Claims Driver_Claims Venue_Driver_Claims Probes
    Composition_Claims Pinned_Vectors Wire_Tests Approval_Tests
begin

text \<open>
  \<^bold>\<open>A verification library for the Liquid Connect wallet SDK.\<close>

  The SDK lets a wallet be approved from web pages: a relying party pushes requests through a connect
  server, the wallet shows them, and the user's answers go back.  The crate \<open>lc-wallet-core\<close> holds all
  of its logic and \<open>lc-wallet-ffi\<close> exports it to other languages; this library models both crates and
  states what a host that embeds either can rely on.

  \<^bold>\<open>Parts and theories.\<close>  \<open>Lc_Prelude\<close> holds what the components share: the \<open>Result\<close> combinators
  \<open>and_then\<close>, \<open>ensure\<close> and \<open>ok_or\<close> over sums, checked and wrapping arithmetic on words, big- and
  little-endian bytes, decimal text, string splitting, and \<open>BTreeMap\<close> as a sorted association list with
  the interface locale \<open>ordered_map\<close>, interpreted on it.

  \<^item> \<open>Wire\<close> (\<open>src/lc-wallet-core/src/wire.rs\<close>): the requests, responses, notifications and user actions
    as records and datatypes.  \<open>Wire_Json\<close> is their JSON form, an encoder and a decoder for each type as
    its derive attributes ask for it; the locale \<open>codec\<close> states that a decoder inverts its encoder and is
    interpreted for every one of them.  The text of a JSON value stays serde's, a parameter.
  \<^item> \<open>Wallet_Key\<close> (\<open>key.rs\<close>): the identity key, its tagged hashes and its three signing operations over
    an abstract record \<open>crypto\<close> of SHA-256, BIP340 and hex.
  \<^item> \<open>App_Link\<close> (\<open>link.rs\<close>): the two link parsers, over the \<open>url\<close> crate's parser as a function.
  \<^item> \<open>Session_Core\<close> (\<open>core.rs\<close>): the sans-io state machine.  \<open>core\<close> is \<open>WalletConnectCore\<close>, \<open>input\<close>,
    \<open>effect\<close> and \<open>handle\<close> keep their names, and each arm of \<open>handle\<close> with a guard of its own is a
    definition.  The auxiliary randomness of a signature is an argument of the step.  \<open>Session_Store\<close>
    states once, in the locale \<open>mirrored_store\<close>, that a request store and the host's copy of it move
    together, and interprets it for the eight stores; \<open>Session_Props\<close> has the invariant, the queue of
    user actions as a step relation, and what every input does to it.
  \<^item> \<open>Approval\<close> (\<open>approval.rs\<close>): the PSET summary, the payjoin annotation and the fund-template check,
    with the \<open>elements\<close> library as a record; \<open>Approval_Props\<close> the ledger the loops compute.
  \<^item> \<open>Typed_Json\<close>, \<open>Covenant\<close>, \<open>Lending\<close> (\<open>lending.rs\<close>): the field readers; the terms digests, storage
    trees and scripts of the lending programs; the eleven claim kinds with their parsers, the check
    of each against the template, and the approval text.  \<open>Lending_Props\<close> characterises each arm.
  \<^item> \<open>Venue\<close> (\<open>venue.rs\<close>): the money key, key-spend signing of PSETs, the order, withdrawal, login,
    delegation and service-login digests, typed requests, and the HTTPS login with the exchange of
    requests and replies made explicit.
  \<^item> \<open>Short_Id\<close> (\<open>short_id.rs\<close>): the eight-character id, with the two loops of the encoder as they are.
  \<^item> \<open>Transport\<close> (\<open>transport.rs\<close>): the handle's methods, the translation of effects to host events, and
    the reconnecting actor as a function of what its await points yield; \<open>reachable\<close> is its closure.
  \<^item> \<open>Identity_Client\<close> (\<open>identity.rs\<close>): the authenticated exchange, the route table and the fifteen
    operations, each returning the requests it made with its outcome.
  \<^item> \<open>Payjoin\<close> (\<open>payjoin.rs\<close>): the three calls with the checks on their replies, and the fee estimate over
    a model of binary64 multiplication and conversion.
  \<^item> \<open>Ffi_Surface\<close> (\<open>src/lc-wallet-ffi/src/lib.rs\<close>): the records and events of the foreign-function
    surface with every conversion, the wallet object over the transport, the approval functions and
    the identity service over the client.
  \<^item> \<open>Bench_Host\<close> and \<open>Host_Loop\<close> (\<open>approve-all-wallet.rs\<close>, \<open>taker-bench-wallet.rs\<close>, \<open>headless-wallet.rs\<close> of
    \<open>src/lc-wallet-core/examples\<close>, and the wallet halves of the drivers): the hosts that ship with the SDK
    as functions from an event or a line to the inputs they queue, and a host together with the actor,
    its two channels and the links thread as the transition system \<open>hosted_run\<close>.  The locale \<open>host\<close> states
    the one thing a host must do, answer through the handle, and carries what follows for any host; it is
    interpreted on the four hosts.
  \<^item> \<open>Relying_Party\<close> (\<open>sign-message-e2e.rs\<close>, \<open>pay-request-e2e.rs\<close>): the client of the relying party's socket,
    whose loops recurse on what the socket yields, and the two drills.
  \<^item> \<open>Venue_Drill\<close> (\<open>rf-venue-e2e.rs\<close>, \<open>venue-sdk-login.rs\<close>, \<open>sign-withdraw-claim.rs\<close>, \<open>rf-vectors.rs\<close>): the
    programs that use the money key, against a venue that is any function of the requests so far.
  \<^item> \<open>Probes\<close> (\<open>email-e2e.rs\<close>, \<open>identity-probe.rs\<close>, \<open>payjoin-probe.rs\<close>): the sequences of client operations
    that probe a live service.

  \<^item> \<open>Host_Settle\<close>: how a host and the actor work off a backlog over a connection that holds; the locale
    \<open>attentive_host\<close> extends \<open>host\<close> by the two things this needs of a host and is interpreted on three.
  \<^item> \<open>Sha256\<close> and \<open>Pinned_Vectors\<close>: SHA-256 on bits, which the simplifier can run, and the digests pinned in
    the unit tests of \<open>venue.rs\<close>, \<open>key.rs\<close>, \<open>short_id.rs\<close> and \<open>lending.rs\<close>.
  \<^item> \<open>Core_Tests\<close>, \<open>Wire_Tests\<close>, \<open>Approval_Tests\<close>: the unit tests of \<open>core.rs\<close>, \<open>wire.rs\<close> and \<open>approval.rs\<close> as
    predicates on the model, each proved to pass.

  \<^bold>\<open>What is shown.\<close>  \<open>Session_Claims\<close>: the state invariant over every run; that a host applying the
  effects in order holds what the core holds; that the server alone can never make the wallet act, that
  the identity key signs only stored digests on approval, which answers to requests no longer held are
  dropped and which still go out, that logins that need a service key are never accepted unbound; that an approval survives disconnections
  and is sent again at the next login; what a login response leaves in every store, record by record.
  \<open>Wire_Claims\<close>: every frame the core sends is read by the server as the request it is, and frames of
  older and newer servers are read as they are meant, with ids of 32 bits or not at all.
  \<open>Approval_Claims\<close>: the template check is equivalent to an arithmetic specification on unbounded
  totals, from which the wallet's exposure is bounded by the amount and its own coins in the template; its one \<open>expect\<close> cannot panic; summaries are
  exact.  \<open>Lending_Claims\<close>: what each kind of verified claim guarantees of the transaction, which
  terms of a covenant fill cannot be restated (all but sale price and fee), what a claim that states only a
  network fee costs together with the template check, what a collection pays and where its check falls
  short of its text, and that shown amounts are exact.  \<open>Venue_Claims\<close>: that
  typed digests determine what was shown, that the money key signs nothing else, which inputs of a PSET
  it touches, and the round trips of the service login and the login form.  \<open>Link_Claims\<close>, \<open>Short_Id\<close> and
  \<open>Transport_Claims\<close>: the exact link forms, the short id as forty bits of the hash, and the connection
  state the host can follow from its events.  \<open>Identity_Claims\<close>: the shape of every identity exchange and
  that its signature is good for that operation only.  \<open>Payjoin\<close>: what comes back is checked, and how
  far the estimate is from the documented minimum.  \<open>Ffi_Claims\<close>, across core, transport and surface:
  a foreign host that applies its events holds the core's requests, a refusal names the answer it
  belongs to, one identity is used throughout, and which logins the surface cannot accept.
  \<open>Host_Claims\<close>, across bench, actor, core and money key: whatever the server does, the approve-everything
  bench answers a message request only with a signature over a digest it rebuilt or, when no claim is
  stated, with the identity key over an announced digest; and which lines of the links file are opened.
  \<open>Driver_Claims\<close>: what the relying party loses when a notification overtakes a response, and what a drill
  that ends well has verified.  \<open>Venue_Driver_Claims\<close>: the withdrawal drill ends within three rounds and
  posts only agreed signatures, the login program makes the library's requests, the price stays near the
  session's opening.  \<open>Probes\<close>: the payjoin probe cannot panic, the hex reader inverts the hex text, and
  what the email round and the identity probe do and do not establish.

  \<open>Composition_Claims\<close>, across hosts, actor, core, key and identity client: a bench and the actor settle
  every backlog in bounded time under every schedule, in one state, with every signing and payment
  request answered on the wire; and a signature the identity key makes for a message request verifies in
  the login or identity protocol when its digest is a message of that protocol, whatever random bytes the
  signatures are made with.  \<open>Pinned_Vectors\<close>: with SHA-256, the digests the sources share with their peers
  come out as pinned.

  \<^bold>\<open>Hypotheses about libraries.\<close>  Code outside the repository is a field of a record (\<open>crypto\<close>,
  \<open>taproot\<close>, \<open>elements\<close>, \<open>serde\<close>, \<open>venue_lib\<close>, \<open>identity_lib\<close>, \<open>payjoin_lib\<close>, \<open>wire_lib\<close>, \<open>session_env\<close>) or an argument.  Where a theorem needs a law
  of it, the law is a premise: output length of SHA-256, absence of collisions on the finitely many
  texts that were hashed, that a signature verifies under its own key, that JSON text reads back as the value it was printed from.  Each such theorem has a witness
  at a concrete instance.

  \<^bold>\<open>Bounds.\<close>  No definition uses fuel: the loops of the source are structural recursions or have a
  measure.  The session invariant is for fewer than \<open>2^31 - 1\<close> inputs, the number after which the 32-bit
  action counter would wrap; the counter itself is modelled with the wrap.

  \<^bold>\<open>Not modelled.\<close>  The sources of randomness (the random bytes are arguments), sockets and HTTP (their
  replies are arguments), the elliptic curve behind the keys, signatures and taproot outputs (so the tests
  that pin curve points are not replayed), the tokio runtime, log and console output, environment variables beyond the
  values they hold, the ping timer, the \<open>lwk\<close> wallet behind the paying bench (a record of its calls), and
  the generated bindings.
\<close>

end
